(* ===== verification/Prelude.thy ===== *)
theory Prelude
  imports Main "HOL-Library.Word" "HOL-Library.AList" "HOL-Library.Monad_Syntax"
    "HOL-Library.Char_ord" "HOL-Library.List_Lexorder" "HOL-Library.Multiset"
begin

text \<open>
  Shared vocabulary of the development: the machine integers of the Go source, the
  representation of Go maps, the collections of rewrite rules the component theories add to,
  and generic lemmas on lists and words.

  A Go map with string keys is an association list.  Reads and writes go through
  \<^const>\<open>map_of\<close>, \<^const>\<open>AList.update\<close> and \<^const>\<open>AList.delete\<close>; a Go \<open>range\<close> loop walks the
  list.  Go leaves the iteration order open: the theorems quantify over every list, hence over
  every order of the entries.

  A Go function that can panic (a nil dereference, an index out of range, a write to a nil map,
  \<open>log.Fatal\<close>) has a result of type \<open>option\<close>, where \<open>None\<close> is the panic; a Go \<open>error\<close> result is
  an ordinary value of type \<open>err option\<close>, \<open>None\<close> being Go's \<open>nil\<close>.
\<close>

unbundle bit_operations_syntax

section \<open>Types\<close>

type_synonym u8 = "8 word"
type_synonym u32 = "32 word"
type_synonym u64 = "64 word"

type_synonym 'v gomap = "(string \<times> 'v) list"

type_synonym err = string

section \<open>Collections\<close>

named_theorems frame_simps \<open>fields an operation leaves alone\<close>
named_theorems bitmap_simps \<open>abstraction of the bitmap operations\<close>
named_theorems alloc_simps \<open>abstraction of the id allocators\<close>

section \<open>Go maps\<close>

abbreviation gput :: "string \<Rightarrow> 'v \<Rightarrow> 'v gomap \<Rightarrow> 'v gomap" where
  "gput \<equiv> AList.update"

abbreviation gdel :: "string \<Rightarrow> 'v gomap \<Rightarrow> 'v gomap" where
  "gdel \<equiv> AList.delete"

abbreviation gkeys :: "'v gomap \<Rightarrow> string list" where
  "gkeys m \<equiv> map fst m"

lemma map_of_gput [simp]: "map_of (AList.update k v m) = (map_of m)(k \<mapsto> v)"
  by (simp add: update_conv')

lemma map_of_gdel [simp]: "map_of (AList.delete k m) = (map_of m)(k := None)"
  by (simp add: delete_conv')

lemma map_of_eq_Some_fst: "map_of m k = Some v \<Longrightarrow> k \<in> fst ` set m"
  by (force dest: map_of_SomeD)

text \<open>The value of the last write wins when a list of entries is written one after another.\<close>

definition gput_all :: "'v gomap \<Rightarrow> 'v gomap \<Rightarrow> 'v gomap" where
  "gput_all kvs m = fold (\<lambda>(k, v). AList.update k v) kvs m"

lemma gput_all_simps [simp]:
  "gput_all [] m = m"
  "gput_all ((k, v) # kvs) m = gput_all kvs (AList.update k v m)"
  by (simp_all add: gput_all_def)

lemma map_of_gput_all:
  "distinct (map fst kvs) \<Longrightarrow> map_of (gput_all kvs m) = map_of m ++ map_of kvs"
proof (induction kvs arbitrary: m)
  case (Cons e kvs)
  obtain k v where e: "e = (k, v)" by (cases e)
  with Cons.prems have nk: "map_of kvs k = None"
    by (auto simp: map_of_eq_None_iff)
  have "map_of (gput_all (e # kvs) m) = (map_of m)(k \<mapsto> v) ++ map_of kvs"
    using Cons by (simp add: e)
  also have "\<dots> = map_of m ++ map_of (e # kvs)"
    using nk by (auto simp: e map_add_def fun_eq_iff split: option.splits)
  finally show ?case .
qed simp

lemma distinct_gput_all:
  "distinct (map fst m) \<Longrightarrow> distinct (map fst (gput_all kvs m))"
  by (induction kvs arbitrary: m) (auto simp: distinct_update)

section \<open>Loops\<close>

text \<open>A Go loop whose body can panic.\<close>

fun foldM :: "('a \<Rightarrow> 's \<Rightarrow> 's option) \<Rightarrow> 'a list \<Rightarrow> 's \<Rightarrow> 's option" where
  "foldM f [] s = Some s"
| "foldM f (x # xs) s = f x s \<bind> foldM f xs"

lemma foldM_append: "foldM f (xs @ ys) s = foldM f xs s \<bind> foldM f ys"
proof (induction xs arbitrary: s)
  case (Cons x xs)
  then show ?case by (cases "f x s") auto
qed simp

text \<open>What every iteration keeps, the loop keeps.\<close>

lemma foldM_invariant:
  assumes "foldM f xs s = Some s'" "P s"
    and "\<And>x s s'. x \<in> set xs \<Longrightarrow> P s \<Longrightarrow> f x s = Some s' \<Longrightarrow> P s'"
  shows "P s'"
  using assms
proof (induction xs arbitrary: s)
  case (Cons x xs)
  then obtain s1 where "f x s = Some s1" "foldM f xs s1 = Some s'" by (auto split: Option.bind_splits)
  with Cons show ?case by (metis list.set_intros)
qed simp

text \<open>A loop all of whose iterations return under an invariant returns.\<close>

lemma foldM_returns:
  assumes "P s" "\<And>x s. x \<in> set xs \<Longrightarrow> P s \<Longrightarrow> \<exists>s'. f x s = Some s' \<and> P s'"
  shows "\<exists>s'. foldM f xs s = Some s' \<and> P s'"
  using assms
proof (induction xs arbitrary: s)
  case (Cons x xs)
  then obtain s1 where "f x s = Some s1" "P s1" by (meson list.set_intros(1))
  with Cons show ?case by auto
qed auto

section \<open>Lists\<close>

lemma takeWhile_append_sep:
  "c \<notin> set xs \<Longrightarrow> takeWhile (\<lambda>x. x \<noteq> c) (xs @ c # ys) = xs"
  by (induction xs) auto

lemma dropWhile_append_sep:
  "c \<notin> set xs \<Longrightarrow> dropWhile (\<lambda>x. x \<noteq> c) (xs @ c # ys) = c # ys"
  by (induction xs) auto

lemma append_sep_inject:
  assumes "c \<notin> set xs" "c \<notin> set xs'" "xs @ c # ys = xs' @ c # ys'"
  shows "xs = xs' \<and> ys = ys'"
proof -
  have "xs = xs'"
    using takeWhile_append_sep [OF assms(1), of ys] takeWhile_append_sep [OF assms(2), of ys'] assms(3)
    by simp
  then show ?thesis using assms(3) by simp
qed

section \<open>Words\<close>

lemma unat_sub_one: "(x :: 'a::len word) \<noteq> 0 \<Longrightarrow> unat (x - 1) = unat x - 1"
  by (simp add: unat_minus_one)

lemma unat_add_one: "(x :: 'a::len word) < y \<Longrightarrow> unat (x + 1) = unat x + 1"
  by unat_arith

lemma word_neq_0_gt: "((x :: 'a::len word) \<noteq> 0) = (0 < x)"
  by (simp add: word_gt_0)

end
