(* ===== verification/GoStd.thy ===== *)
theory GoStd
  imports Prelude
begin

text \<open>
  The slice of Go's standard library the controller relies on: decimal and hexadecimal
  formatting (\<open>fmt\<close>), \<open>strings.Index\<close> and \<open>strings.Split\<close> on a one-byte separator,
  \<open>strconv.Atoi\<close>, and the address parser and printer of package \<open>net\<close> (\<open>ParseIP\<close>, \<open>ParseCIDR\<close>,
  \<open>IP.To4\<close>, \<open>IP.Mask\<close>, \<open>IPNet.Contains\<close>, \<open>IP.String\<close>) of the Go 1.10 generation the
  repository is built with.  An address is the byte slice Go uses: 4 bytes, or 16 bytes with
  IPv4 addresses in their v4-in-v6 form.
\<close>

unbundle bit_operations_syntax

section \<open>Formatting\<close>

definition digit_char :: "nat \<Rightarrow> char" where
  "digit_char n = ''0123456789ABCDEF'' ! n"

definition digit_val :: "char \<Rightarrow> int" where
  "digit_val c = of_char c - 48"

definition is_digit :: "char \<Rightarrow> bool" where
  "is_digit c \<longleftrightarrow> (48 :: int) \<le> of_char c \<and> of_char c \<le> (57 :: int)"

fun dec :: "nat \<Rightarrow> string" where
  "dec n = (if n < 10 then [digit_char n] else dec (n div 10) @ [digit_char (n mod 10)])"

declare dec.simps [simp del]

definition decI :: "int \<Rightarrow> string" where
  "decI i = (if i < 0 then CHR ''-'' # dec (nat (- i)) else dec (nat i))"

definition decU :: "u32 \<Rightarrow> string" where
  "decU w = dec (unat w)"

text \<open>\<open>%02X\<close> of a value below 256.\<close>

definition hex02 :: "nat \<Rightarrow> string" where
  "hex02 n = [digit_char (n div 16), digit_char (n mod 16)]"

fun hexlow :: "nat \<Rightarrow> string" where
  "hexlow n = (if n < 16 then [''0123456789abcdef'' ! n]
     else hexlow (n div 16) @ [''0123456789abcdef'' ! (n mod 16)])"

declare hexlow.simps [simp del]

lemma less_10_cases:
  "(n :: nat) < 10 \<Longrightarrow>
    n = 0 \<or> n = 1 \<or> n = 2 \<or> n = 3 \<or> n = 4 \<or> n = 5 \<or> n = 6 \<or> n = 7 \<or> n = 8 \<or> n = 9"
  by presburger

lemma less_16_cases: "(n :: nat) < 16 \<Longrightarrow> n < 10 \<or> n = 10 \<or> n = 11 \<or> n = 12 \<or> n = 13 \<or> n = 14 \<or> n = 15"
  by presburger

lemma digit_val_char: "n < 10 \<Longrightarrow> digit_val (digit_char n) = int n"
  by (auto dest!: less_10_cases simp: digit_val_def digit_char_def)

lemma is_digit_digit_char: "n < 10 \<Longrightarrow> is_digit (digit_char n)"
  by (auto dest!: less_10_cases simp: is_digit_def digit_char_def)

lemma digit_char_inj:
  assumes "m < 16" "n < 16" "digit_char m = digit_char n"
  shows "m = n"
proof -
  have "distinct ''0123456789ABCDEF''" by simp
  then show ?thesis
    using assms by (simp add: digit_char_def nth_eq_iff_index_eq)
qed

definition undec :: "string \<Rightarrow> int" where
  "undec s = foldl (\<lambda>a c. 10 * a + digit_val c) 0 s"

lemma undec_dec: "undec (dec n) = int n"
proof (induction n rule: dec.induct)
  case (1 n)
  have "10 * int (n div 10) + int (n mod 10) = int n"
    by (metis mult_div_mod_eq of_nat_add of_nat_mult of_nat_numeral)
  with 1 show ?case
    by (cases "n < 10") (simp_all add: dec.simps [of n] undec_def digit_val_char)
qed

lemma dec_inject [simp]: "dec m = dec n \<longleftrightarrow> m = n"
  by (metis undec_dec nat_int)

lemma dec_is_digit: "c \<in> set (dec n) \<Longrightarrow> is_digit c"
proof (induction n rule: dec.induct)
  case (1 n)
  then show ?case
    by (cases "n < 10") (auto simp: dec.simps [of n] is_digit_digit_char)
qed

lemma dec_ne_Nil [simp]: "dec n \<noteq> []"
  by (simp add: dec.simps [of n])

lemma decU_inject [simp]: "decU a = decU b \<longleftrightarrow> a = b"
  by (simp add: decU_def word_unat_eq_iff)

lemma hex02_inject:
  assumes "m < 256" "n < 256" "hex02 m = hex02 n"
  shows "m = n"
proof -
  from assms have "m div 16 = n div 16" "m mod 16 = n mod 16"
    by (auto simp: hex02_def intro!: digit_char_inj)
  then show ?thesis by (metis div_mult_mod_eq)
qed

section \<open>Strings\<close>

text \<open>\<open>strings.Index\<close> of a one-byte separator.\<close>

definition strIndex :: "char \<Rightarrow> string \<Rightarrow> int" where
  "strIndex c s = (if c \<in> set s then int (length (takeWhile (\<lambda>x. x \<noteq> c) s)) else -1)"

fun strSplit :: "char \<Rightarrow> string \<Rightarrow> string list" where
  "strSplit c [] = [[]]"
| "strSplit c (x # xs) =
    (if x = c then [] # strSplit c xs
     else (case strSplit c xs of [] \<Rightarrow> [[x]] | w # ws \<Rightarrow> (x # w) # ws))"

lemma strSplit_ne_Nil [simp]: "strSplit c s \<noteq> []"
  by (induction s) (auto split: list.splits)

lemma strSplit_no_sep: "c \<notin> set s \<Longrightarrow> strSplit c s = [s]"
  by (induction s) auto

lemma strSplit_sep: "c \<notin> set s \<Longrightarrow> strSplit c (s @ c # t) = s # strSplit c t"
  by (induction s) auto

lemma hd_strSplit: "hd (strSplit c s) = takeWhile (\<lambda>x. x \<noteq> c) s"
  by (induction s) (auto split: list.splits)

section \<open>strconv.Atoi\<close>

definition Atoi :: "string \<Rightarrow> int option" where
  "Atoi s =
    (let neg = (s \<noteq> [] \<and> hd s = CHR ''-'');
         t = (if s \<noteq> [] \<and> (hd s = CHR ''-'' \<or> hd s = CHR ''+'') then tl s else s);
         v = (if neg then - undec t else undec t)
     in if t = [] \<or> \<not> list_all is_digit t then None
        else if v < - (2 ^ 63) \<or> 2 ^ 63 \<le> v then None
        else Some v)"

section \<open>Package net\<close>

type_synonym ip = "u8 list"

record ipnet =
  net_IP :: ip
  net_Mask :: "u8 list"

fun dtoi_loop :: "string \<Rightarrow> int \<Rightarrow> nat \<Rightarrow> int \<times> nat \<times> bool" where
  "dtoi_loop [] n i = (if i = 0 then (0, 0, False) else (n, i, True))"
| "dtoi_loop (c # s) n i =
    (if is_digit c then
       let n' = n * 10 + digit_val c in
       if n' \<ge> 16777215 then (16777215, i, False) else dtoi_loop s n' (Suc i)
     else if i = 0 then (0, 0, False) else (n, i, True))"

definition dtoi :: "string \<Rightarrow> int \<times> nat \<times> bool" where
  "dtoi s = dtoi_loop s 0 0"

definition hex_val :: "char \<Rightarrow> int option" where
  "hex_val c =
    (let k = of_char c :: int in
     if 48 \<le> k \<and> k \<le> 57 then Some (k - 48)
     else if 97 \<le> k \<and> k \<le> 102 then Some (k - 87)
     else if 65 \<le> k \<and> k \<le> 70 then Some (k - 55)
     else None)"

fun xtoi_loop :: "string \<Rightarrow> int \<Rightarrow> nat \<Rightarrow> int \<times> nat \<times> bool" where
  "xtoi_loop [] n i = (if i = 0 then (0, 0, False) else (n, i, True))"
| "xtoi_loop (c # s) n i =
    (case hex_val c of
       Some d \<Rightarrow>
         let n' = n * 16 + d in
         if n' \<ge> 16777215 then (0, i, False) else xtoi_loop s n' (Suc i)
     | None \<Rightarrow> if i = 0 then (0, 0, False) else (n, i, True))"

definition xtoi :: "string \<Rightarrow> int \<times> nat \<times> bool" where
  "xtoi s = xtoi_loop s 0 0"

definition v4InV6Prefix :: "u8 list" where
  "v4InV6Prefix = replicate 10 0 @ [255, 255]"

text \<open>The loop over the four octets; the first argument counts the octets still to read.\<close>

fun parseIPv4_loop :: "nat \<Rightarrow> string \<Rightarrow> u8 list \<Rightarrow> u8 list option" where
  "parseIPv4_loop 0 s p = (if s = [] then Some p else None)"
| "parseIPv4_loop (Suc r) s p =
    (if s = [] then None
     else if p \<noteq> [] \<and> hd s \<noteq> CHR ''.'' then None
     else
       let s1 = (if p \<noteq> [] then tl s else s);
           (n, c, ok) = dtoi s1
       in if \<not> ok \<or> n > 255 then None
          else parseIPv4_loop r (drop c s1) (p @ [word_of_int n]))"

definition parseIPv4 :: "string \<Rightarrow> ip option" where
  "parseIPv4 s = map_option (\<lambda>p. v4InV6Prefix @ p) (parseIPv4_loop 4 s [])"

fun parseIPv6_loop ::
  "nat \<Rightarrow> string \<Rightarrow> u8 list \<Rightarrow> nat option \<Rightarrow> (string \<times> u8 list \<times> nat option) option" where
  "parseIPv6_loop 0 s acc ell = Some (s, acc, ell)"
| "parseIPv6_loop (Suc r) s acc ell =
    (let (n, c, ok) = xtoi s in
     if \<not> ok \<or> n > 65535 then None
     else if c < length s \<and> s ! c = CHR ''.'' then
       (if ell = None \<and> length acc \<noteq> 12 then None
        else if length acc + 4 > 16 then None
        else map_option (\<lambda>ip4. ([], acc @ drop 12 ip4, ell)) (parseIPv4 s))
     else
       let acc' = acc @ [word_of_int (n div 256), word_of_int (n mod 256)];
           s1 = drop c s
       in if s1 = [] then Some ([], acc', ell)
          else if hd s1 \<noteq> CHR '':'' \<or> length s1 = 1 then None
          else if hd (tl s1) = CHR '':'' then
            (if ell \<noteq> None then None
             else if tl (tl s1) = [] then Some ([], acc', Some (length acc'))
             else parseIPv6_loop r (tl (tl s1)) acc' (Some (length acc')))
          else parseIPv6_loop r (tl s1) acc' ell)"

definition parseIPv6 :: "string \<Rightarrow> ip option" where
  "parseIPv6 s =
    (let lead = (2 \<le> length s \<and> take 2 s = ''::'');
         s0 = (if lead then drop 2 s else s);
         ell0 = (if lead then Some 0 else None)
     in if lead \<and> s0 = [] then Some (replicate 16 0)
        else case parseIPv6_loop 8 s0 [] ell0 of
          None \<Rightarrow> None
        | Some (s', acc, ell) \<Rightarrow>
            if s' \<noteq> [] then None
            else if length acc < 16 then
              (case ell of
                 None \<Rightarrow> None
               | Some e \<Rightarrow> Some (take e acc @ replicate (16 - length acc) 0 @ drop e acc))
            else if ell \<noteq> None then None
            else Some acc)"

fun ParseIP_scan :: "string \<Rightarrow> string \<Rightarrow> ip option" where
  "ParseIP_scan s [] = None"
| "ParseIP_scan s (c # cs) =
    (if c = CHR ''.'' then parseIPv4 s
     else if c = CHR '':'' then parseIPv6 s
     else ParseIP_scan s cs)"

definition ParseIP :: "string \<Rightarrow> ip option" where
  "ParseIP s = ParseIP_scan s s"

definition To4 :: "ip \<Rightarrow> ip option" where
  "To4 p =
    (if length p = 4 then Some p
     else if length p = 16 \<and> take 12 p = v4InV6Prefix then Some (drop 12 p)
     else None)"

fun CIDRMask_loop :: "nat \<Rightarrow> nat \<Rightarrow> u8 list" where
  "CIDRMask_loop 0 n = []"
| "CIDRMask_loop (Suc l) n =
    (if n \<ge> 8 then 255 # CIDRMask_loop l (n - 8)
     else NOT (drop_bit n 255) # CIDRMask_loop l 0)"

definition CIDRMask :: "nat \<Rightarrow> nat \<Rightarrow> u8 list" where
  "CIDRMask ones bits = CIDRMask_loop (bits div 8) ones"

text \<open>\<open>IP.Mask\<close>, for the two cases \<open>ParseCIDR\<close> uses: a v4-in-v6 address under a 4-byte mask,
  and a 16-byte address under a 16-byte mask.\<close>

definition maskIP :: "ip \<Rightarrow> u8 list \<Rightarrow> ip" where
  "maskIP p m =
    (let q = (if length m = 4 \<and> length p = 16 \<and> take 12 p = v4InV6Prefix then drop 12 p else p)
     in map2 (AND) q m)"

definition ParseCIDR :: "string \<Rightarrow> (ip \<times> ipnet) option" where
  "ParseCIDR s =
    (if strIndex CHR ''/'' s < 0 then None
     else
       let i = nat (strIndex CHR ''/'' s);
           addr = take i s;
           mask = drop (Suc i) s;
           v4 = parseIPv4 addr;
           iplen = (if v4 = None then 16 else 4 :: nat);
           ipo = (if v4 = None then parseIPv6 addr else v4);
           (n, c, ok) = dtoi mask
       in case ipo of
            None \<Rightarrow> None
          | Some p \<Rightarrow>
              if \<not> ok \<or> c \<noteq> length mask \<or> n > 8 * int iplen then None
              else let m = CIDRMask (nat n) (8 * iplen)
                   in Some (p, \<lparr>net_IP = maskIP p m, net_Mask = m\<rparr>))"

text \<open>\<open>IPMask.Size\<close>: the number of leading ones.  The masks here all come from \<open>CIDRMask\<close>, so
  they are canonical.\<close>

fun leading_ones :: "nat \<Rightarrow> u8 \<Rightarrow> nat" where
  "leading_ones 0 v = 0"
| "leading_ones (Suc k) v = (if bit v 7 then Suc (leading_ones k (push_bit 1 v)) else 0)"

fun maskSize :: "u8 list \<Rightarrow> nat" where
  "maskSize [] = 0"
| "maskSize (v # vs) = (if v = 255 then 8 + maskSize vs else leading_ones 8 v)"

definition networkNumberAndMask :: "ipnet \<Rightarrow> ip \<times> u8 list" where
  "networkNumberAndMask n =
    (case To4 (net_IP n) of
       Some p \<Rightarrow>
         if length (net_Mask n) = 4 then (p, net_Mask n)
         else if length (net_Mask n) = 16 then (p, drop 12 (net_Mask n))
         else ([], [])
     | None \<Rightarrow>
         if length (net_IP n) \<noteq> 16 then ([], [])
         else if length (net_Mask n) = 16 then (net_IP n, net_Mask n)
         else ([], []))"

definition netContains :: "ipnet \<Rightarrow> ip \<Rightarrow> bool" where
  "netContains n p =
    (let (nn, m) = networkNumberAndMask n;
         q = (case To4 p of Some x \<Rightarrow> x | None \<Rightarrow> p)
     in length q = length nn \<and> map2 (AND) nn m = map2 (AND) q m)"

section \<open>Address text\<close>

definition dotted :: "u8 list \<Rightarrow> string" where
  "dotted p = concat [dec (unat (p ! 0)), ''.'', dec (unat (p ! 1)), ''.'',
     dec (unat (p ! 2)), ''.'', dec (unat (p ! 3))]"

fun joinColon :: "string list \<Rightarrow> string" where
  "joinColon [] = []"
| "joinColon [s] = s"
| "joinColon (s # t # ss) = s @ '':'' @ joinColon (t # ss)"

fun zeroRun :: "nat list \<Rightarrow> nat" where
  "zeroRun (0 # gs) = Suc (zeroRun gs)"
| "zeroRun _ = 0"

fun longestZeroRun :: "nat list \<Rightarrow> nat \<Rightarrow> nat \<times> nat \<Rightarrow> nat \<times> nat" where
  "longestZeroRun [] i best = best"
| "longestZeroRun (g # gs) i best =
    (let l = zeroRun (g # gs) in
     longestZeroRun gs (Suc i) (if l > snd best then (i, l) else best))"

definition ipGroups :: "ip \<Rightarrow> nat list" where
  "ipGroups p = map (\<lambda>i. 256 * unat (p ! (2 * i)) + unat (p ! (2 * i + 1))) [0..<8]"

definition IPString :: "ip \<Rightarrow> string" where
  "IPString p =
    (case To4 p of
       Some q \<Rightarrow> dotted q
     | None \<Rightarrow>
         if length p \<noteq> 16 then ''?''
         else
           let gs = ipGroups p; (e, l) = longestZeroRun gs 0 (0, 0)
           in if l \<le> 1 then joinColon (map hexlow gs)
              else joinColon (map hexlow (take e gs)) @ ''::''
                     @ joinColon (map hexlow (drop (e + l) gs)))"

section \<open>Parsing what was printed\<close>

lemma digit_val_nonneg: "is_digit c \<Longrightarrow> 0 \<le> digit_val c"
  by (simp add: is_digit_def digit_val_def)

lemma foldl_digits_mono:
  "list_all is_digit ds \<Longrightarrow> 0 \<le> n \<Longrightarrow> n \<le> foldl (\<lambda>a c. 10 * a + digit_val c) n ds"
proof (induction ds arbitrary: n)
  case (Cons d ds)
  then have "n \<le> 10 * n + digit_val d" using digit_val_nonneg [of d] by simp
  also have "\<dots> \<le> foldl (\<lambda>a c. 10 * a + digit_val c) (10 * n + digit_val d) ds"
    using Cons digit_val_nonneg [of d] by simp
  finally show ?case by simp
qed simp

lemma dtoi_loop_digits:
  assumes "list_all is_digit ds" "0 \<le> n" "0 < i + length ds" "s = [] \<or> \<not> is_digit (hd s)"
    "foldl (\<lambda>a c. 10 * a + digit_val c) n ds < 16777215"
  shows "dtoi_loop (ds @ s) n i = (foldl (\<lambda>a c. 10 * a + digit_val c) n ds, i + length ds, True)"
  using assms
proof (induction ds arbitrary: n i)
  case Nil
  then show ?case by (cases s) auto
next
  case (Cons d ds)
  then have nn: "0 \<le> n * 10 + digit_val d" using digit_val_nonneg [of d] by simp
  have "n * 10 + digit_val d < 16777215"
    using foldl_digits_mono [OF _ nn, of ds] Cons.prems by (simp add: mult.commute)
  with Cons nn show ?case by (simp add: mult.commute)
qed

text \<open>\<open>dtoi\<close> reads back what \<open>%d\<close> printed.\<close>

lemma dtoi_dec:
  assumes "n < 16777215" "s = [] \<or> \<not> is_digit (hd s)"
  shows "dtoi (dec n @ s) = (int n, length (dec n), True)"
proof -
  have "list_all is_digit (dec n)" by (auto simp: list_all_iff dec_is_digit)
  then show ?thesis
    using dtoi_loop_digits [of "dec n" 0 0 s] assms undec_dec [of n]
    by (simp add: dtoi_def undec_def)
qed

lemma digit_sep: "\<not> is_digit CHR ''.''" "\<not> is_digit CHR ''/''"
  by (simp_all add: is_digit_def)

lemma parseIPv4_dotted:
  assumes "length q = 4"
  shows "parseIPv4 (dotted q) = Some (v4InV6Prefix @ q)"
proof -
  obtain a b c d where q: "q = [a, b, c, d]"
    using assms by (auto simp: numeral_eq_Suc length_Suc_conv)
  have o: "unat x < 256" for x :: u8 using unsigned_less [of x, where ?'a = nat] by simp
  then have big: "unat x < 16777215" "int (unat x) \<le> 255" for x :: u8
    using o [of x] by linarith+
  have dt: "dtoi (dec (unat x) @ CHR ''.'' # s) = (int (unat x), length (dec (unat x)), True)"
    "dtoi (dec (unat x)) = (int (unat x), length (dec (unat x)), True)" for x :: u8 and s
    using dtoi_dec [OF big(1), of "CHR ''.'' # s" x] dtoi_dec [OF big(1), of "[]" x] digit_sep by simp_all
  show ?thesis
    using big(2) by (simp add: parseIPv4_def q dotted_def numeral_eq_Suc dt not_less Let_def)
qed

section \<open>sort.Search and strings.Replace\<close>

text \<open>The binary search of package \<open>sort\<close>, on the half-open interval from \<open>i\<close> to \<open>j\<close>.\<close>

function sortSearch :: "nat \<Rightarrow> nat \<Rightarrow> (nat \<Rightarrow> bool) \<Rightarrow> nat" where
  "sortSearch i j f =
    (if i < j then
       let h = (i + j) div 2 in
       if \<not> f h then sortSearch (h + 1) j f else sortSearch i h f
     else i)"
  by pat_completeness auto
termination
  by (relation "measure (\<lambda>(i, j, f). j - i)") (auto simp: Let_def)

declare sortSearch.simps [simp del]

text \<open>\<open>sort.Search\<close> finds the least index at which a monotone predicate holds.\<close>

lemma sortSearch_least:
  assumes "i \<le> j" "\<And>a b. a \<le> b \<Longrightarrow> b < j \<Longrightarrow> f a \<Longrightarrow> f b"
  shows "i \<le> sortSearch i j f \<and> sortSearch i j f \<le> j
    \<and> (\<forall>k. i \<le> k \<and> k < sortSearch i j f \<longrightarrow> \<not> f k)
    \<and> (sortSearch i j f < j \<longrightarrow> f (sortSearch i j f))"
  using assms
proof (induction i j f rule: sortSearch.induct)
  case (1 i j f)
  show ?case
  proof (cases "i < j")
    case False
    then have "sortSearch i j f = i" by (subst sortSearch.simps) simp
    then show ?thesis using 1(3) False by auto
  next
    case True
    let ?h = "(i + j) div 2"
    have h: "i \<le> ?h" "?h < j" using True by auto
    show ?thesis
    proof (cases "f ?h")
      case False
      let ?r = "sortSearch (?h + 1) j f"
      have eq: "sortSearch i j f = ?r"
        using True False by (simp add: sortSearch.simps [of i j f])
      have low: "\<not> f k" if "k \<le> ?h" for k using 1(4) [OF that h(2)] False by blast
      have ih: "?h + 1 \<le> ?r \<and> ?r \<le> j \<and> (\<forall>k. ?h + 1 \<le> k \<and> k < ?r \<longrightarrow> \<not> f k) \<and> (?r < j \<longrightarrow> f ?r)"
        by (rule 1(1) [OF True refl False _ 1(4)]) (use h in auto)
      then have "\<not> f k" if "k < ?r" for k
        using low [of k] that by (cases "k \<le> ?h") auto
      then show ?thesis using ih h(1) unfolding eq by auto
    next
      case fh: True
      let ?r = "sortSearch i ?h f"
      have eq: "sortSearch i j f = ?r"
        using True fh by (simp add: sortSearch.simps [of i j f])
      have ih: "i \<le> ?r \<and> ?r \<le> ?h \<and> (\<forall>k. i \<le> k \<and> k < ?r \<longrightarrow> \<not> f k) \<and> (?r < ?h \<longrightarrow> f ?r)"
        by (rule 1(2) [OF True refl _ h(1)]) (use fh h 1(4) in auto)
      then have "f ?r" using fh by (cases "?r < ?h") auto
      then show ?thesis using ih h(2) unfolding eq by auto
    qed
  qed
qed

text \<open>\<open>strings.Replace (s, old, new, 1)\<close> for a non-empty \<open>old\<close>.\<close>

fun strReplace1 :: "string \<Rightarrow> string \<Rightarrow> string \<Rightarrow> string" where
  "strReplace1 [] old new = []"
| "strReplace1 (c # s) old new =
    (if take (length old) (c # s) = old then new @ drop (length old) (c # s)
     else c # strReplace1 s old new)"

text \<open>\<open>IPNet.String\<close>, for the canonical masks of \<open>CIDRMask\<close>.\<close>

definition IPNetString :: "ipnet \<Rightarrow> string" where
  "IPNetString n =
    (let (nn, m) = networkNumberAndMask n in
     if nn = [] then ''<nil>'' else IPString nn @ ''/'' @ dec (maskSize m))"

end
