(* ===== verification/Bitmap.thy ===== *)
theory Bitmap
  imports GoStd
begin

text \<open>
  The bitmap of \<open>plugins/controller/idapi/bitmap/bitmap.go\<close>: bits numbered from 1 to
  \<open>numBits\<close>, packed most significant bit first into 64-bit words.  Every operation is shown to
  implement an operation on the set of allocated bit numbers, and \<open>FindFirstClear\<close> to return the
  least clear bit.
\<close>

unbundle bit_operations_syntax

section \<open>Model\<close>

definition allBitsSet :: u64 where
  "allBitsSet = 0xFFFFFFFFFFFFFFFF"

record bitmap =
  u64Array :: "u64 list"
  numBits :: u32

definition IsSet :: "bitmap \<Rightarrow> u32 \<Rightarrow> bool option" where
  "IsSet bm i0 =
    (if i0 < 1 \<or> i0 > numBits bm then Some False
     else
       let i = i0 - 1; k = unat (i div 64)
       in if k < length (u64Array bm)
          then Some (u64Array bm ! k AND push_bit (unat (63 - i mod 64)) 1 \<noteq> 0)
          else None)"

definition Set :: "bitmap \<Rightarrow> u32 \<Rightarrow> (bitmap \<times> err option) option" where
  "Set bm i0 =
    (if i0 < 1 \<or> i0 > numBits bm then
       Some (bm, Some (''Bitmap: bit out of range: '' @ [CHR 0x27] @ decU i0 @ [CHR 0x27]))
     else
       let i = i0 - 1; k = unat (i div 64)
       in if k < length (u64Array bm)
          then Some (bm\<lparr>u64Array := (u64Array bm)
                 [k := u64Array bm ! k OR push_bit (unat (63 - i mod 64)) 1]\<rparr>, None)
          else None)"

definition Clear :: "bitmap \<Rightarrow> u32 \<Rightarrow> bitmap option" where
  "Clear bm i0 =
    (if i0 < 1 \<or> i0 > numBits bm then Some bm
     else
       let i = i0 - 1; k = unat (i div 64)
       in if k < length (u64Array bm)
          then Some (bm\<lparr>u64Array := (u64Array bm)
                 [k := u64Array bm ! k AND NOT (push_bit (unat (63 - i mod 64)) 1)]\<rparr>)
          else None)"

text \<open>The inner loop over the bits of word \<open>i\<close>: \<open>Some (Some r)\<close> is the \<open>return r\<close>.\<close>

fun FindFirstClear_word :: "bitmap \<Rightarrow> nat \<Rightarrow> nat list \<Rightarrow> u32 option option" where
  "FindFirstClear_word bm i [] = Some None"
| "FindFirstClear_word bm i (j # js) =
    (let b = (word_of_nat (i * 64 + j + 1) :: u32) in
     do {
       isset \<leftarrow> IsSet bm b;
       if \<not> isset then Some (Some (if b > numBits bm then 0 else b))
       else FindFirstClear_word bm i js
     })"

fun FindFirstClear_from :: "bitmap \<Rightarrow> nat \<Rightarrow> u64 list \<Rightarrow> u32 option" where
  "FindFirstClear_from bm i [] = Some 0"
| "FindFirstClear_from bm i (v # vs) =
    (if v \<noteq> allBitsSet then
       do {
         r \<leftarrow> FindFirstClear_word bm i [0..<64];
         (case r of Some b \<Rightarrow> Some b | None \<Rightarrow> FindFirstClear_from bm (Suc i) vs)
       }
     else FindFirstClear_from bm (Suc i) vs)"

definition FindFirstClear :: "bitmap \<Rightarrow> u32 option" where
  "FindFirstClear bm = FindFirstClear_from bm 0 (u64Array bm)"

definition NewBitmap :: "u32 \<Rightarrow> bitmap" where
  "NewBitmap n = \<lparr>u64Array = replicate (unat ((n - 1) div 64 + 1)) 0, numBits = n\<rparr>"

text \<open>One iteration of the loop of \<open>String\<close>, over the text, the first bit of the current run, whether there
  is a run, and whether a comma is due.  The loop ends unless \<open>numBits\<close> is the greatest number of its
  type, which the loop variable never exceeds.\<close>

definition String_step :: "bitmap \<Rightarrow> u32 \<Rightarrow> string \<times> u32 \<times> bool \<times> bool \<Rightarrow> (string \<times> u32 \<times> bool \<times> bool) option" where
  "String_step bm i st =
    (case st of (str, onARunBit, onARun, needComma) \<Rightarrow> do {
       isset \<leftarrow> IsSet bm i;
       Some (if isset then
           (if \<not> onARun then (str @ (if needComma then '','' else '''') @ decU i, i, True, False)
            else (str, onARunBit, True, needComma))
         else
           (if onARun then
              (str @ (if onARunBit \<noteq> i - 1 then ''-'' @ decU (i - 1) else ''''), numBits bm + 1, False, True)
            else (str, numBits bm + 1, False, needComma)))
     })"

definition Bitmap_String :: "bitmap \<Rightarrow> string option" where
  "Bitmap_String bm =
    (if numBits bm = 0xFFFFFFFF then None
     else do {
       (str, onARunBit, onARun, _) \<leftarrow> foldM (String_step bm) (map word_of_nat [1..<Suc (unat (numBits bm))])
         (concat [''numBits: '', decU (numBits bm), '', bits:['' ], numBits bm + 1, False, False);
       Some (str @ (if onARun \<and> onARunBit \<noteq> numBits bm then ''-'' @ decU (numBits bm) else '''') @ ''] '')
     })"

section \<open>Abstraction to a set of bit numbers\<close>

definition bitmap_inv :: "bitmap \<Rightarrow> bool" where
  "bitmap_inv bm \<longleftrightarrow> length (u64Array bm) = unat ((numBits bm - 1) div 64 + 1)"

definition raw_bit :: "bitmap \<Rightarrow> nat \<Rightarrow> bool" where
  "raw_bit bm k \<longleftrightarrow> bit (u64Array bm ! ((k - 1) div 64)) (63 - (k - 1) mod 64)"

definition bits :: "bitmap \<Rightarrow> nat set" where
  "bits bm = {k. 1 \<le> k \<and> k \<le> unat (numBits bm) \<and> raw_bit bm k}"

lemma bitmap_length:
  "bitmap_inv bm \<Longrightarrow> length (u64Array bm) = unat (numBits bm - 1) div 64 + 1"
proof -
  have "unat (numBits bm - 1) div 64 < 2 ^ 32 - 1"
    using unsigned_less [of "numBits bm - 1", where ?'a = nat] by simp
  then have "unat ((numBits bm - 1) div 64 + 1) = unat (numBits bm - 1) div 64 + 1"
    by (simp add: unat_word_ariths unat_div)
  then show "bitmap_inv bm \<Longrightarrow> ?thesis" by (simp add: bitmap_inv_def)
qed

lemma word_index:
  fixes i0 :: u32
  assumes "1 \<le> i0"
  shows "unat ((i0 - 1) div 64) = (unat i0 - 1) div 64"
    and "unat (63 - (i0 - 1) mod 64) = 63 - (unat i0 - 1) mod 64"
proof -
  have nz: "i0 \<noteq> 0" using assms by auto
  show "unat ((i0 - 1) div 64) = (unat i0 - 1) div 64"
    by (simp add: unat_div unat_sub_one [OF nz])
  have m: "unat ((i0 - 1) mod 64) = (unat i0 - 1) mod 64"
    by (simp add: unat_mod unat_sub_one [OF nz])
  have "(i0 - 1) mod 64 \<le> 63"
    by (simp add: word_le_nat_alt m)
  then show "unat (63 - (i0 - 1) mod 64) = 63 - (unat i0 - 1) mod 64"
    by (simp add: unat_sub m)
qed

lemma in_range_word:
  assumes "bitmap_inv bm" "1 \<le> k" "k \<le> unat (numBits bm)"
  shows "(k - 1) div 64 < length (u64Array bm)"
proof -
  from assms have "numBits bm \<noteq> 0" by auto
  then have "unat (numBits bm - 1) = unat (numBits bm) - 1" by (rule unat_sub_one)
  with assms show ?thesis
    by (simp add: bitmap_length less_Suc_eq_le div_le_mono)
qed

lemma IsSet_bits [bitmap_simps]:
  assumes "bitmap_inv bm"
  shows "IsSet bm i = Some (unat i \<in> bits bm)"
proof (cases "1 \<le> i \<and> i \<le> numBits bm")
  case True
  then have r: "1 \<le> unat i" "unat i \<le> unat (numBits bm)"
    by (auto simp: word_le_nat_alt)
  have "63 - (unat i - 1) mod 64 < 64" by simp
  with True r in_range_word [OF assms r] show ?thesis
    by (auto simp: IsSet_def bits_def raw_bit_def word_index Let_def and_exp_eq_0_iff_not_bit)
next
  case False
  then have "i < 1 \<or> i > numBits bm" by (auto simp: not_le)
  moreover from False have "unat i \<notin> bits bm"
    by (auto simp: bits_def word_le_nat_alt)
  ultimately show ?thesis by (simp add: IsSet_def)
qed


text \<open>Two bit numbers share word and position only when they are equal.\<close>

lemma bit_position_inject:
  assumes "1 \<le> k" "1 \<le> l" "(k - 1) div 64 = (l - 1) div 64"
    "63 - (k - 1) mod 64 = 63 - (l - 1) mod (64 :: nat)"
  shows "k = l"
proof -
  have "(k - 1) mod 64 < 64" "(l - 1) mod 64 < 64" by simp_all
  with assms(4) have "(k - 1) mod 64 = (l - 1) mod 64" by linarith
  with assms(3) have "k - 1 = l - 1" by (metis div_mult_mod_eq)
  with assms(1,2) show ?thesis by simp
qed

lemma Set_out_of_range:
  "i < 1 \<or> i > numBits bm \<Longrightarrow> \<exists>e. Set bm i = Some (bm, Some e)"
  by (simp add: Set_def)

lemma Set_in_range:
  assumes "bitmap_inv bm" "1 \<le> i" "i \<le> numBits bm"
  shows "\<exists>bm'. Set bm i = Some (bm', None) \<and> bitmap_inv bm' \<and> numBits bm' = numBits bm
    \<and> bits bm' = insert (unat i) (bits bm)"
proof -
  let ?k = "(unat i - 1) div 64" and ?p = "63 - (unat i - 1) mod 64"
  let ?bm = "bm\<lparr>u64Array := (u64Array bm)[?k := u64Array bm ! ?k OR push_bit ?p 1]\<rparr>"
  from assms have r: "1 \<le> unat i" "unat i \<le> unat (numBits bm)"
    by (auto simp: word_le_nat_alt)
  have len: "?k < length (u64Array bm)" by (rule in_range_word [OF assms(1) r])
  have nr: "\<not> (i < 1 \<or> i > numBits bm)" using assms by auto
  have eq: "Set bm i = Some (?bm, None)"
    using len by (simp only: Set_def nr word_index [OF assms(2)] Let_def if_True if_False)
  have raw: "raw_bit ?bm k \<longleftrightarrow> k = unat i \<or> raw_bit bm k" if "1 \<le> k" for k
    using that r len bit_position_inject [of k "unat i"]
    by (auto simp: raw_bit_def nth_list_update bit_simps)
  then have "bits ?bm = insert (unat i) (bits bm)"
    using r by (auto simp: bits_def)
  moreover have "bitmap_inv ?bm" using assms(1) by (simp add: bitmap_inv_def)
  ultimately show ?thesis using eq by auto
qed

lemma Clear_bits:
  assumes "bitmap_inv bm"
  shows "\<exists>bm'. Clear bm i = Some bm' \<and> bitmap_inv bm' \<and> numBits bm' = numBits bm
    \<and> bits bm' = bits bm - {unat i}"
proof (cases "1 \<le> i \<and> i \<le> numBits bm")
  case False
  then have "Clear bm i = Some bm" by (auto simp: Clear_def not_le)
  moreover from False have "unat i \<notin> bits bm" by (auto simp: bits_def word_le_nat_alt)
  ultimately show ?thesis using assms by auto
next
  case True
  let ?k = "(unat i - 1) div 64" and ?p = "63 - (unat i - 1) mod 64"
  let ?bm = "bm\<lparr>u64Array := (u64Array bm)[?k := u64Array bm ! ?k AND NOT (push_bit ?p 1)]\<rparr>"
  from True have r: "1 \<le> unat i" "unat i \<le> unat (numBits bm)"
    by (auto simp: word_le_nat_alt)
  have len: "?k < length (u64Array bm)" by (rule in_range_word [OF assms r])
  have nr: "\<not> (i < 1 \<or> i > numBits bm)" using True by auto
  have eq: "Clear bm i = Some ?bm"
    using len True by (simp only: Clear_def nr word_index Let_def if_True if_False)
  have raw: "raw_bit ?bm k \<longleftrightarrow> k \<noteq> unat i \<and> raw_bit bm k" if "1 \<le> k" for k
    using that r len bit_position_inject [of k "unat i"]
    by (auto simp: raw_bit_def nth_list_update bit_simps)
  then have "bits ?bm = bits bm - {unat i}"
    using r by (auto simp: bits_def)
  moreover have "bitmap_inv ?bm" using assms by (simp add: bitmap_inv_def)
  ultimately show ?thesis using eq by auto
qed

lemma NewBitmap_inv: "bitmap_inv (NewBitmap n)"
  by (simp add: bitmap_inv_def NewBitmap_def)

lemma NewBitmap_bits: "bits (NewBitmap n) = {}"
proof -
  have "\<not> raw_bit (NewBitmap n) k" if "1 \<le> k" "k \<le> unat n" for k
    using in_range_word [OF NewBitmap_inv, of k n] that
    by (simp add: raw_bit_def NewBitmap_def)
  then show ?thesis by (auto simp: bits_def) (auto simp: NewBitmap_def)
qed

section \<open>The least clear bit\<close>

lemma unat_word_of_nat_le:
  "n \<le> 2 ^ 32 \<Longrightarrow> unat (word_of_nat n :: u32) = (if n = 2 ^ 32 then 0 else n)"
  by (simp add: unat_of_nat take_bit_eq_mod)

lemma scanned_bit_le:
  assumes "bitmap_inv bm" "i < length (u64Array bm)" "j < 64"
  shows "i * 64 + j + 1 \<le> 2 ^ 32"
proof -
  have "length (u64Array bm) \<le> 2 ^ 26"
    using bitmap_length [OF assms(1)] unsigned_less [of "numBits bm - 1", where ?'a = nat] by simp
  with assms(2,3) show ?thesis by simp
qed

lemma scan_step:
  assumes "bitmap_inv bm" "n \<le> 2 ^ 32"
  shows "IsSet bm (word_of_nat n) = Some (n \<in> bits bm)"
    and "(if word_of_nat n > numBits bm then 0 else word_of_nat n)
      = (if n > unat (numBits bm) then 0 else word_of_nat n :: u32)"
proof -
  have lt: "unat (numBits bm) < 2 ^ 32"
    using unsigned_less [of "numBits bm", where ?'a = nat] by simp
  note u = unat_word_of_nat_le [OF assms(2)]
  show "IsSet bm (word_of_nat n) = Some (n \<in> bits bm)"
    using u lt by (auto simp: IsSet_bits [OF assms(1)] bits_def)
  show "(if word_of_nat n > numBits bm then 0 else word_of_nat n)
      = (if n > unat (numBits bm) then 0 else word_of_nat n :: u32)"
    using u lt by (auto simp: word_less_nat_alt simp flip: unat_eq_zero split: if_splits)
qed

lemma FindFirstClear_word_spec:
  assumes "bitmap_inv bm" "i < length (u64Array bm)" "set js \<subseteq> {..<64}"
  shows "FindFirstClear_word bm i js =
    Some (map_option (\<lambda>j. if i * 64 + j + 1 > unat (numBits bm) then 0 else word_of_nat (i * 64 + j + 1))
      (find (\<lambda>j. i * 64 + j + 1 \<notin> bits bm) js))"
  using assms(3)
proof (induction js)
  case (Cons j js)
  have n: "i * 64 + j + 1 \<le> 2 ^ 32"
    using scanned_bit_le [OF assms(1,2)] Cons.prems by simp
  have "FindFirstClear_word bm i (j # js) =
      (if i * 64 + j + 1 \<notin> bits bm
       then Some (Some (if i * 64 + j + 1 > unat (numBits bm) then 0 else word_of_nat (i * 64 + j + 1)))
       else FindFirstClear_word bm i js)"
    by (simp only: FindFirstClear_word.simps Let_def scan_step [OF assms(1) n] bind.simps)
  then show ?case using Cons by simp
qed simp

lemma word_not_full: "(v :: u64) \<noteq> allBitsSet \<longleftrightarrow> (\<exists>j<64. \<not> bit v (63 - j))"
proof -
  have full: "allBitsSet = - 1" by (simp add: allBitsSet_def)
  have "v \<noteq> allBitsSet \<longleftrightarrow> (\<exists>p<64. \<not> bit v p)"
    unfolding full by (auto simp: bit_eq_iff [of v "- 1"])
  also have "\<dots> \<longleftrightarrow> (\<exists>j<64. \<not> bit v (63 - j))"
  proof
    assume "\<exists>p<64. \<not> bit v p"
    then obtain p where "p < 64" "\<not> bit v (63 - (63 - p))" by auto
    then show "\<exists>j<64. \<not> bit v (63 - j)" by (intro exI [of _ "63 - p"]) simp
  next
    assume "\<exists>j<64. \<not> bit v (63 - j)"
    then obtain j where "63 - j < (64 :: nat)" "\<not> bit v (63 - j)" by auto
    then show "\<exists>p<64. \<not> bit v p" by blast
  qed
  finally show ?thesis .
qed

lemma clear_in_word:
  assumes "bitmap_inv bm" "i < length (u64Array bm)" "j < 64"
  shows "i * 64 + j + 1 \<in> bits bm \<longleftrightarrow>
    bit (u64Array bm ! i) (63 - j) \<and> i * 64 + j + 1 \<le> unat (numBits bm)"
  using assms by (auto simp: bits_def raw_bit_def)


definition least_clear :: "bitmap \<Rightarrow> u32 \<Rightarrow> bool" where
  "least_clear bm r \<longleftrightarrow>
    (if r = 0 then bits bm = {1..unat (numBits bm)}
     else r \<le> numBits bm \<and> unat r \<notin> bits bm \<and> {1..<unat r} \<subseteq> bits bm)"

lemma bits_bounded: "bits bm \<subseteq> {1..unat (numBits bm)}"
  by (auto simp: bits_def)

lemma in_word_cases:
  assumes "k \<in> {1..<i * 64 + j + 1}" "(j :: nat) \<le> 64"
  obtains "k \<le> i * 64" | j' where "j' < j" "k = i * 64 + j' + 1"
proof (cases "k \<le> i * 64")
  case False
  with assms have "k - i * 64 - 1 < j" "k = i * 64 + (k - i * 64 - 1) + 1" by auto
  then show thesis by (rule that(2))
qed (rule that(1))

lemma find_first:
  assumes "find P [0..<n] = Some j"
  shows "P j" "j < n" "\<forall>j'<j. \<not> P j'"
  using assms by (auto simp: find_Some_iff)

lemma scan_partial_word:
  assumes "bitmap_inv bm" "i < length (u64Array bm)" "u64Array bm ! i \<noteq> allBitsSet"
    "\<forall>k. 1 \<le> k \<and> k \<le> i * 64 \<and> k \<le> unat (numBits bm) \<longrightarrow> k \<in> bits bm"
    "js = [0..<64]"
  shows "\<exists>r. FindFirstClear_word bm i js = Some (Some r) \<and> least_clear bm r"
proof -
  note word = clear_in_word [OF assms(1,2)]
  have sub: "set js \<subseteq> {..<64}" unfolding assms(5) by (simp only: set_upt) auto
  obtain j0 where j0: "j0 < 64" "i * 64 + j0 + 1 \<notin> bits bm"
    using word_not_full assms(3) word by blast
  then have "j0 \<in> set js" unfolding assms(5) by (simp only: set_upt) auto
  with j0 obtain j where j: "find (\<lambda>j. i * 64 + j + 1 \<notin> bits bm) js = Some j"
    by (cases "find (\<lambda>j. i * 64 + j + 1 \<notin> bits bm) js") (auto simp: find_None_iff)
  note jf = find_first [OF j [unfolded assms(5)]]
  let ?n = "i * 64 + j + 1"
  let ?r = "if ?n > unat (numBits bm) then 0 else word_of_nat ?n :: u32"
  have eq: "FindFirstClear_word bm i js = Some (Some ?r)"
    by (simp only: FindFirstClear_word_spec [OF assms(1,2) sub] j option.map)
  have below: "k \<in> bits bm" if "k \<in> {1..<?n}" "k \<le> unat (numBits bm)" for k
    using that(1) by (rule in_word_cases) (use that jf assms(4) in auto)
  have "least_clear bm ?r"
  proof (cases "?n > unat (numBits bm)")
    case True
    then have "{1..unat (numBits bm)} \<subseteq> bits bm" using below by auto
    then show ?thesis using True bits_bounded [of bm] by (auto simp: least_clear_def)
  next
    case False
    have u: "unat (word_of_nat ?n :: u32) = ?n"
      using False unsigned_less [of "numBits bm", where ?'a = nat]
        unat_word_of_nat_le [OF scanned_bit_le [OF assms(1,2) jf(2)]] by simp
    then have "(word_of_nat ?n :: u32) \<noteq> 0" by (metis add_is_0 unat_0 zero_neq_one)
    with False u jf(1) below show ?thesis
      by (auto simp: least_clear_def word_le_nat_alt simp del: of_nat_add of_nat_Suc of_nat_mult)
  qed
  with eq show ?thesis by blast
qed

lemma full_word_extends:
  assumes "bitmap_inv bm" "i < length (u64Array bm)" "u64Array bm ! i = allBitsSet"
    "\<forall>k. 1 \<le> k \<and> k \<le> i * 64 \<and> k \<le> unat (numBits bm) \<longrightarrow> k \<in> bits bm"
    "1 \<le> k" "k \<le> Suc i * 64" "k \<le> unat (numBits bm)"
  shows "k \<in> bits bm"
proof -
  have full: "\<forall>j<64. bit (u64Array bm ! i) (63 - j)" using word_not_full assms(3) by blast
  have "k \<in> {1..<i * 64 + 64 + 1}" using assms(5,6) by simp
  then show ?thesis
    by (rule in_word_cases) (use assms full clear_in_word [OF assms(1,2)] in auto)
qed

lemma FindFirstClear_from_spec:
  assumes "bitmap_inv bm" "vs = drop i (u64Array bm)"
    "\<forall>k. 1 \<le> k \<and> k \<le> i * 64 \<and> k \<le> unat (numBits bm) \<longrightarrow> k \<in> bits bm"
  shows "\<exists>r. FindFirstClear_from bm i vs = Some r \<and> least_clear bm r"
  using assms(2,3)
proof (induction vs arbitrary: i)
  case Nil
  have "unat (numBits bm) \<le> length (u64Array bm) * 64"
    using in_range_word [OF assms(1), of "unat (numBits bm)"]
    by (cases "unat (numBits bm)") (auto simp: div_less_iff_less_mult)
  with Nil have "{1..unat (numBits bm)} \<subseteq> bits bm" by auto
  then have "least_clear bm 0" using bits_bounded [of bm] by (auto simp: least_clear_def)
  then show ?case by simp
next
  case (Cons v vs)
  then have i: "i < length (u64Array bm)" by (metis drop_all list.distinct(1) not_le)
  have "v # vs = u64Array bm ! i # drop (Suc i) (u64Array bm)"
    using Cons.prems(1) Cons_nth_drop_Suc [OF i] by metis
  then have v: "v = u64Array bm ! i" and vs: "vs = drop (Suc i) (u64Array bm)" by simp_all
  show ?case
  proof (cases "v = allBitsSet")
    case True
    with Cons.IH [OF vs] full_word_extends [OF assms(1) i] Cons.prems(2) v show ?thesis by auto
  next
    case False
    with v scan_partial_word [OF assms(1) i _ Cons.prems(2) refl] show ?thesis
      by (auto simp del: upt.simps upt_rec_numeral)
  qed
qed

lemma FindFirstClear_spec:
  assumes "bitmap_inv bm"
  shows "\<exists>r. FindFirstClear bm = Some r \<and> least_clear bm r"
  unfolding FindFirstClear_def
  by (rule FindFirstClear_from_spec [OF assms]) auto


section \<open>Properties\<close>

text \<open>Printing a well-formed bitmap does not panic; the bits are printed as runs.\<close>

lemma Bitmap_String_returns:
  assumes "bitmap_inv bm" "numBits bm \<noteq> 0xFFFFFFFF"
  shows "\<exists>str. Bitmap_String bm = Some str"
proof -
  have "\<exists>st'. String_step bm i st = Some st'" for i st
    unfolding String_step_def IsSet_bits [OF assms(1)] by (cases st) (simp only: prod.case bind.bind_lunit; blast)
  then have "\<exists>st'. foldM (String_step bm) is st = Some st' \<and> True" for "is" st
    by (intro foldM_returns) simp_all
  then obtain str b onARun c where "foldM (String_step bm) (map word_of_nat [1..<Suc (unat (numBits bm))])
      (concat [''numBits: '', decU (numBits bm), '', bits:['' ], numBits bm + 1, False, False) = Some (str, b, onARun, c)"
    by (metis prod_cases4)
  then show ?thesis unfolding Bitmap_String_def if_not_P [OF assms(2)] by (simp only: bind.bind_lunit prod.case; blast)
qed

lemma Bitmap_String_runs:
  "Bitmap_String \<lparr>u64Array = [0xB800000000000000], numBits = 8\<rparr> = Some ''numBits: 8, bits:[1,3-5] ''"
  by code_simp

text \<open>C25. The packed bitmap implements a finite set of bit numbers: on a well-formed bitmap no
  operation panics, \<open>IsSet\<close> is membership, \<open>Set\<close> of a bit in range is insertion and of a bit out
  of range an error that changes nothing, \<open>Clear\<close> is removal, and all of them keep the bitmap
  well-formed.\<close>

theorem bitmap_implements_set:
  assumes "bitmap_inv bm"
  shows "IsSet bm i = Some (unat i \<in> bits bm)
    \<and> (\<exists>bm' e. Set bm i = Some (bm', e) \<and> bitmap_inv bm' \<and> numBits bm' = numBits bm
        \<and> (if 1 \<le> i \<and> i \<le> numBits bm then e = None \<and> bits bm' = insert (unat i) (bits bm)
           else e \<noteq> None \<and> bm' = bm))
    \<and> (\<exists>bm'. Clear bm i = Some bm' \<and> bitmap_inv bm' \<and> numBits bm' = numBits bm
        \<and> bits bm' = bits bm - {unat i})"
proof (cases "1 \<le> i \<and> i \<le> numBits bm")
  case True
  then show ?thesis
    using IsSet_bits [OF assms, of i] Clear_bits [OF assms, of i] Set_in_range [OF assms, of i]
    by auto
next
  case False
  then have "i < 1 \<or> i > numBits bm" by (auto simp: not_le)
  then show ?thesis
    using IsSet_bits [OF assms, of i] Clear_bits [OF assms, of i] Set_out_of_range [of i bm]
      assms False by auto
qed

theorem bitmap_implements_set_witness:
  "IsSet (NewBitmap 70) 65 = Some (unat (65 :: u32) \<in> bits (NewBitmap 70))
    \<and> IsSet (NewBitmap 70) 65 = Some False"
  using bitmap_implements_set [OF NewBitmap_inv, of 70 65] NewBitmap_bits by simp

text \<open>C26. \<open>FindFirstClear\<close> returns the least clear bit of a well-formed bitmap, and 0 exactly when
  every bit is set, also when the last word has unused positions.\<close>

theorem FindFirstClear_least:
  assumes "bitmap_inv bm"
  shows "\<exists>r. FindFirstClear bm = Some r
    \<and> (r = 0 \<longleftrightarrow> bits bm = {1..unat (numBits bm)})
    \<and> (r \<noteq> 0 \<longrightarrow> r \<le> numBits bm \<and> unat r \<notin> bits bm \<and> (\<forall>k. 1 \<le> k \<and> k < unat r \<longrightarrow> k \<in> bits bm))"
proof -
  obtain r where r: "FindFirstClear bm = Some r" "least_clear bm r"
    using FindFirstClear_spec [OF assms] by blast
  have "bits bm \<noteq> {1..unat (numBits bm)}" if "r \<noteq> 0"
    using r(2) that by (auto simp: least_clear_def word_le_nat_alt Suc_le_eq unat_gt_0)
  then show ?thesis using r by (auto simp: least_clear_def subset_iff)
qed

theorem FindFirstClear_least_witness: "\<exists>r. FindFirstClear (NewBitmap 100) = Some r \<and> r \<noteq> 0"
  using FindFirstClear_least [OF NewBitmap_inv, of 100] NewBitmap_bits [of 100]
  by (auto simp: NewBitmap_def)

end
