(* ===== verification/IdApi.thy ===== *)
theory IdApi
  imports Bitmap
begin

text \<open>
  The id allocators of \<open>plugins/controller/idapi\<close>: the memif, VRF and MAC counters
  (\<open>memif.go\<close>, \<open>vrf.go\<close>, \<open>mac_addr.go\<close>) and the VNI range allocator on top of the bitmap
  (\<open>vxlan.go\<close>).  Two locales state what the renderers rely on: \<open>counter\<close> for the incrementing
  allocators, and \<open>id_allocator\<close> for an allocator over a finite range, whose client lemmas say
  that a run of allocations never repeats an id and fails only when the range is exhausted.
\<close>

unbundle bit_operations_syntax

section \<open>Model\<close>

subsection \<open>memif.go\<close>

record MemifAllocatorType =
  MemifID :: u32

definition memif_Allocate :: "MemifAllocatorType \<Rightarrow> u32 \<times> MemifAllocatorType" where
  "memif_Allocate m = (let m' = m\<lparr>MemifID := MemifID m + 1\<rparr> in (MemifID m', m'))"

definition NewMemifAllocator :: MemifAllocatorType where
  "NewMemifAllocator = \<lparr>MemifID = 0\<rparr>"

subsection \<open>vrf.go\<close>

record VrfAllocatorType =
  VrfID :: u32

definition vrf_Allocate :: "VrfAllocatorType \<Rightarrow> u32 \<times> VrfAllocatorType" where
  "vrf_Allocate v = (let id = VrfID v in (id, v\<lparr>VrfID := VrfID v + 1\<rparr>))"

definition SetVrfAllocatorInitialValue :: "u32 \<Rightarrow> VrfAllocatorType \<Rightarrow> VrfAllocatorType" where
  "SetVrfAllocatorInitialValue initialValue v = v\<lparr>VrfID := initialValue\<rparr>"

definition NewVrfAllocator :: VrfAllocatorType where
  "NewVrfAllocator = \<lparr>VrfID = 10\<rparr>"

subsection \<open>mac\_addr.go\<close>

record MacAddrAllocatorType =
  MacAddrID :: u32

definition macOctets :: "u32 \<Rightarrow> u64 list" where
  "macOctets id32 =
    (let macInstanceID = (ucast id32 :: u64) in
     [0x02,
      0xFF AND drop_bit (8 * 4) macInstanceID,
      0xFF AND drop_bit (8 * 3) macInstanceID,
      0xFF AND drop_bit (8 * 2) macInstanceID,
      0xFF AND drop_bit (8 * 1) macInstanceID,
      0xFF AND drop_bit (8 * 0) macInstanceID])"

definition formatMacAddress :: "u32 \<Rightarrow> string" where
  "formatMacAddress id32 =
    (let octets = macOctets id32 in
     foldl (\<lambda>str i. str @ hex02 (unat (octets ! i)) @ '':'') '''' [0, 1, 2, 3, 4]
       @ hex02 (unat (octets ! 5)))"

definition mac_Allocate :: "MacAddrAllocatorType \<Rightarrow> (string \<times> u32) \<times> MacAddrAllocatorType" where
  "mac_Allocate m =
    (let m' = m\<lparr>MacAddrID := MacAddrID m + 1\<rparr>
     in ((formatMacAddress (MacAddrID m'), MacAddrID m'), m'))"

definition NewMacAddrAllocator :: MacAddrAllocatorType where
  "NewMacAddrAllocator = \<lparr>MacAddrID = 0\<rparr>"

subsection \<open>vxlan.go\<close>

record VxlanVniAllocatorType =
  StartVni :: u32
  EndVni :: u32
  vni_numBits :: u32
  BM :: bitmap

definition SetVni :: "VxlanVniAllocatorType \<Rightarrow> u32 \<Rightarrow> (err option \<times> VxlanVniAllocatorType) option" where
  "SetVni v vni =
    (if vni < StartVni v \<or> vni > EndVni v then
       Some (Some (concat [''SetVni: vni '', [CHR 0x27], decU vni, [CHR 0x27], '' out of range '',
         [CHR 0x27], decU (StartVni v), ''-'', decU (EndVni v)]), v)
     else do {
       (bm, err) \<leftarrow> Set (BM v) (vni - StartVni v + 1);
       Some (err, v\<lparr>BM := bm\<rparr>)
     })"

definition AllocateVni ::
  "VxlanVniAllocatorType \<Rightarrow> (u32 \<times> err option \<times> VxlanVniAllocatorType) option" where
  "AllocateVni v =
    do {
      freeBit \<leftarrow> FindFirstClear (BM v);
      if freeBit = 0 then Some (0, Some ''AllocateVni: all vni's allocated'', v)
      else do {
        (bm, _) \<leftarrow> Set (BM v) freeBit;
        Some (freeBit + StartVni v - 1, None, v\<lparr>BM := bm\<rparr>)
      }
    }"

definition NewVxlanVniAllocator :: "u32 \<Rightarrow> u32 \<Rightarrow> VxlanVniAllocatorType" where
  "NewVxlanVniAllocator startVni endVni =
    (let n = endVni - startVni + 1; bm = NewBitmap n
     in \<lparr>StartVni = startVni, EndVni = endVni, vni_numBits = n, BM = bm\<rparr>)"

text \<open>The texts of the allocators.\<close>

definition memif_String :: "MemifAllocatorType \<Rightarrow> string" where
  "memif_String m = ''memif: '' @ decU (MemifID m)"

definition vrf_String :: "VrfAllocatorType \<Rightarrow> string" where
  "vrf_String v = ''vrf: '' @ decU (VrfID v)"

definition mac_String :: "MacAddrAllocatorType \<Rightarrow> string" where
  "mac_String m = ''MacAddr: '' @ decU (MacAddrID m)"

definition vni_String :: "VxlanVniAllocatorType \<Rightarrow> string option" where
  "vni_String v =
    do {
      bm \<leftarrow> Bitmap_String (BM v);
      Some (concat [''vxlan vni'', [CHR 0x27], ''s: ['', decU (StartVni v), ''-'', decU (EndVni v), ''], '', bm])
    }"

section \<open>Runs of allocations\<close>

text \<open>\<open>alloc_run f n s\<close> allocates up to \<open>n\<close> ids one after another, stopping at the first failure.\<close>

fun alloc_run :: "('s \<Rightarrow> ('i \<times> 's) option) \<Rightarrow> nat \<Rightarrow> 's \<Rightarrow> 'i list" where
  "alloc_run f 0 s = []"
| "alloc_run f (Suc n) s = (case f s of None \<Rightarrow> [] | Some (i, s') \<Rightarrow> i # alloc_run f n s')"

locale counter =
  fixes alloc :: "'s \<Rightarrow> u32 \<times> 's" and upcoming :: "'s \<Rightarrow> u32"
  assumes returns_upcoming: "fst (alloc s) = upcoming s"
    and advances: "upcoming (snd (alloc s)) = upcoming s + 1"
begin

lemma run_nth:
  "k < n \<Longrightarrow> alloc_run (Some \<circ> alloc) n s ! k = upcoming s + of_nat k"
proof (induction n arbitrary: s k)
  case (Suc n)
  then show ?case
    by (cases k; cases "alloc s")
      (use returns_upcoming [of s] advances [of s] in \<open>auto simp: algebra_simps\<close>)
qed simp

lemma run_length: "length (alloc_run (Some \<circ> alloc) n s) = n"
  by (induction n arbitrary: s) (auto split: prod.splits)

text \<open>No id repeats before the 32-bit counter has wrapped all the way around.\<close>

lemma run_distinct:
  assumes "n \<le> 2 ^ 32"
  shows "distinct (alloc_run (Some \<circ> alloc) n s)"
proof (unfold distinct_conv_nth run_length, intro allI impI)
  fix i j assume ij: "i < n" "j < n" "i \<noteq> j"
  then have "(of_nat i :: u32) \<noteq> of_nat j"
    using assms by (simp add: word_of_nat_eq_iff take_bit_nat_eq_self)
  then show "alloc_run (Some \<circ> alloc) n s ! i \<noteq> alloc_run (Some \<circ> alloc) n s ! j"
    using ij by (simp add: run_nth)
qed

end

interpretation memif: counter memif_Allocate "\<lambda>m. MemifID m + 1"
  by unfold_locales (simp_all add: memif_Allocate_def)

interpretation vrf: counter vrf_Allocate VrfID
  by unfold_locales (simp_all add: vrf_Allocate_def)

interpretation mac: counter "\<lambda>m. case mac_Allocate m of ((_, i), m') \<Rightarrow> (i, m')" "\<lambda>m. MacAddrID m + 1"
  by unfold_locales (simp_all add: mac_Allocate_def Let_def)

locale id_allocator =
  fixes alloc :: "'s \<Rightarrow> ('i \<times> 's) option"
    and used :: "'s \<Rightarrow> 'i set" and space :: "'s \<Rightarrow> 'i set" and inv :: "'s \<Rightarrow> bool"
  assumes space_finite: "inv s \<Longrightarrow> finite (space s)"
    and alloc_SomeD: "inv s \<Longrightarrow> alloc s = Some (i, s') \<Longrightarrow>
      i \<in> space s - used s \<and> used s' = insert i (used s) \<and> space s' = space s \<and> inv s'"
    and alloc_NoneD: "inv s \<Longrightarrow> alloc s = None \<Longrightarrow> space s \<subseteq> used s"
begin

lemma alloc_succeeds: "inv s \<Longrightarrow> \<not> space s \<subseteq> used s \<Longrightarrow> \<exists>i s'. alloc s = Some (i, s')"
  by (cases "alloc s") (auto dest: alloc_NoneD)

lemma run_fresh:
  "inv s \<Longrightarrow> distinct (alloc_run alloc n s) \<and> set (alloc_run alloc n s) \<subseteq> space s - used s"
proof (induction n arbitrary: s)
  case (Suc n)
  show ?case
  proof (cases "alloc s")
    case (Some p)
    obtain i s' where p: "p = (i, s')" by (cases p)
    note d = alloc_SomeD [OF Suc.prems Some [unfolded p]]
    then show ?thesis using Suc.IH [of s'] Some p by auto
  qed simp
qed simp

text \<open>A run of \<open>n\<close> allocations fails only once the range is used up.\<close>

lemma run_complete:
  "inv s \<Longrightarrow> length (alloc_run alloc n s) = min n (card (space s - used s))"
proof (induction n arbitrary: s)
  case (Suc n)
  show ?case
  proof (cases "alloc s")
    case None
    with Suc.prems have "card (space s - used s) = 0"
      by (auto dest: alloc_NoneD simp only: card.empty Diff_eq_empty_iff [THEN iffD2])
    then show ?thesis by (simp only: None alloc_run.simps) simp
  next
    case (Some p)
    obtain i s' where p: "p = (i, s')" by (cases p)
    note d = alloc_SomeD [OF Suc.prems Some [unfolded p]]
    have "finite (space s - used s)" using space_finite [OF Suc.prems] by simp
    moreover have "i \<in> space s - used s" using d by simp
    moreover have "space s' - used s' = (space s - used s) - {i}" using d by auto
    ultimately have "card (space s - used s) = Suc (card (space s' - used s'))"
      by (simp only: card_Suc_Diff1)
    then show ?thesis using Suc.IH [of s'] d Some p by simp
  qed
qed simp

end


section \<open>The VNI range\<close>

definition vni_inv :: "VxlanVniAllocatorType \<Rightarrow> bool" where
  "vni_inv v \<longleftrightarrow> bitmap_inv (BM v) \<and> StartVni v \<le> EndVni v
    \<and> numBits (BM v) = EndVni v - StartVni v + 1 \<and> numBits (BM v) \<noteq> 0"

definition vni_space :: "VxlanVniAllocatorType \<Rightarrow> u32 set" where
  "vni_space v = {StartVni v..EndVni v}"

definition vni_used :: "VxlanVniAllocatorType \<Rightarrow> u32 set" where
  "vni_used v = {x \<in> vni_space v. unat (x - StartVni v) + 1 \<in> bits (BM v)}"

text \<open>The allocator as its callers see it: an id and the new state, or a failure.\<close>

definition vni_alloc :: "VxlanVniAllocatorType \<Rightarrow> (u32 \<times> VxlanVniAllocatorType) option" where
  "vni_alloc v =
    (case AllocateVni v of Some (vni, None, v') \<Rightarrow> Some (vni, v') | _ \<Rightarrow> None)"

lemma word_interval:
  "(s :: u32) \<le> e \<Longrightarrow> s \<le> x \<and> x \<le> e \<longleftrightarrow> x - s \<le> e - s"
  by uint_arith

lemma vni_space_iff: "vni_inv v \<Longrightarrow> x \<in> vni_space v \<longleftrightarrow> x - StartVni v \<le> EndVni v - StartVni v"
  by (simp add: vni_inv_def vni_space_def word_interval)

lemma vni_numBits: "vni_inv v \<Longrightarrow> unat (numBits (BM v)) = unat (EndVni v - StartVni v) + 1"
  using unat_sub_one [of "numBits (BM v)"] by (auto simp: vni_inv_def unat_eq_0 simp flip: unat_gt_0)

lemma NewVxlanVniAllocator_inv:
  assumes "startVni \<le> endVni" "startVni \<noteq> 0"
  shows "vni_inv (NewVxlanVniAllocator startVni endVni)"
    and "vni_used (NewVxlanVniAllocator startVni endVni) = {}"
    and "vni_space (NewVxlanVniAllocator startVni endVni) = {startVni..endVni}"
proof -
  have "endVni - startVni + 1 \<noteq> 0" using assms by uint_arith
  then show "vni_inv (NewVxlanVniAllocator startVni endVni)"
    using assms NewBitmap_inv [of "endVni - startVni + 1"]
    by (simp add: vni_inv_def NewVxlanVniAllocator_def Let_def) (simp add: NewBitmap_def)
qed (simp_all add: vni_used_def vni_space_def NewVxlanVniAllocator_def Let_def NewBitmap_bits)


lemma vni_used_of_bit:
  assumes "vni_inv v" "1 \<le> b" "b \<le> numBits (BM v)"
  shows "b + StartVni v - 1 \<in> vni_space v"
    and "unat (b + StartVni v - 1 - StartVni v) + 1 = unat b"
proof -
  from assms(2) have nz: "b \<noteq> 0" by auto
  have b: "b - 1 \<le> EndVni v - StartVni v"
    using assms(3) vni_numBits [OF assms(1)] nz by (simp add: word_le_nat_alt unat_sub_one)
  then show "b + StartVni v - 1 \<in> vni_space v"
    by (simp add: vni_space_iff [OF assms(1)] algebra_simps)
  have "b + StartVni v - 1 - StartVni v = b - 1" by simp
  then show "unat (b + StartVni v - 1 - StartVni v) + 1 = unat b"
    using nz by (simp add: unat_sub_one unat_gt_0)
qed

lemma vni_bit_of_used:
  assumes "vni_inv v" "x \<in> vni_space v"
  shows "unat (x - StartVni v) + 1 \<in> {1..unat (numBits (BM v))}"
  using assms by (simp add: vni_space_iff vni_numBits word_le_nat_alt)

lemma vni_full_iff:
  assumes "vni_inv v"
  shows "bits (BM v) = {1..unat (numBits (BM v))} \<longleftrightarrow> vni_space v \<subseteq> vni_used v"
proof
  assume "bits (BM v) = {1..unat (numBits (BM v))}"
  then show "vni_space v \<subseteq> vni_used v"
    using vni_bit_of_used [OF assms] by (auto simp: vni_used_def)
next
  assume full: "vni_space v \<subseteq> vni_used v"
  have "k \<in> bits (BM v)" if "1 \<le> k" "k \<le> unat (numBits (BM v))" for k
  proof -
    have u: "unat (word_of_nat k :: u32) = k"
      using that(2) unsigned_less [of "numBits (BM v)", where ?'a = nat]
      by (simp add: unat_of_nat take_bit_eq_mod)
    with that have "1 \<le> (word_of_nat k :: u32)" "word_of_nat k \<le> numBits (BM v)"
      by (simp_all add: word_le_nat_alt)
    from vni_used_of_bit [OF assms this] full u show ?thesis
      by (auto simp: vni_used_def)
  qed
  with bits_bounded [of "BM v"] show "bits (BM v) = {1..unat (numBits (BM v))}" by auto
qed

text \<open>Setting a bit of the map is adding one VNI to the set of those handed out.\<close>

lemma vni_set_bit:
  assumes v: "vni_inv v" and b: "1 \<le> b" "b \<le> numBits (BM v)"
    and bm: "bitmap_inv bm" "numBits bm = numBits (BM v)" "bits bm = insert (unat b) (bits (BM v))"
  shows "vni_inv (v\<lparr>BM := bm\<rparr>)" "vni_space (v\<lparr>BM := bm\<rparr>) = vni_space v"
    "vni_used (v\<lparr>BM := bm\<rparr>) = insert (b + StartVni v - 1) (vni_used v)"
proof -
  note new = vni_used_of_bit [OF v b]
  have eq: "x = b + StartVni v - 1" if "unat (x - StartVni v) + 1 = unat b" for x
  proof -
    from that new(2) have "x - StartVni v = b + StartVni v - 1 - StartVni v"
      by (simp only: word_unat_eq_iff)
    then show ?thesis by (simp only: diff_left_imp_eq diff_eq_eq) (simp add: algebra_simps)
  qed
  show "vni_inv (v\<lparr>BM := bm\<rparr>)" using v bm by (auto simp: vni_inv_def)
  show "vni_space (v\<lparr>BM := bm\<rparr>) = vni_space v" by (simp add: vni_space_def)
  show "vni_used (v\<lparr>BM := bm\<rparr>) = insert (b + StartVni v - 1) (vni_used v)"
    using new bm(3) eq by (auto simp: vni_used_def vni_space_def)
qed

lemma AllocateVni_cases:
  assumes v: "vni_inv v"
  shows "(vni_space v \<subseteq> vni_used v
      \<and> AllocateVni v = Some (0, Some ''AllocateVni: all vni's allocated'', v))
    \<or> (\<exists>x v'. AllocateVni v = Some (x, None, v') \<and> x \<in> vni_space v - vni_used v
        \<and> {StartVni v..<x} \<subseteq> vni_used v
        \<and> vni_used v' = insert x (vni_used v) \<and> vni_space v' = vni_space v \<and> vni_inv v')"
proof -
  have inv: "bitmap_inv (BM v)" using v by (simp add: vni_inv_def)
  obtain r where r: "FindFirstClear (BM v) = Some r" "least_clear (BM v) r"
    using FindFirstClear_spec [OF inv] by blast
  show ?thesis
  proof (cases "r = 0")
    case True
    then show ?thesis using r vni_full_iff [OF v] by (simp add: AllocateVni_def least_clear_def)
  next
    case False
    then have b: "1 \<le> r" "r \<le> numBits (BM v)" "unat r \<notin> bits (BM v)" "{1..<unat r} \<subseteq> bits (BM v)"
      using r(2) by (simp_all add: least_clear_def word_le_nat_alt unat_gt_0 Suc_le_eq)
    let ?x = "r + StartVni v - 1"
    obtain bm where bm: "Set (BM v) r = Some (bm, None)" "bitmap_inv bm"
      "numBits bm = numBits (BM v)" "bits bm = insert (unat r) (bits (BM v))"
      using Set_in_range [OF inv b(1,2)] by blast
    note new = vni_used_of_bit [OF v b(1,2)]
    have "y \<in> vni_used v" if y: "StartVni v \<le> y" "y < ?x" for y
    proof -
      have ys: "y \<in> vni_space v" using y new(1) by (auto simp: vni_space_def)
      have "y - StartVni v < ?x - StartVni v"
        using y new(1) v by (simp only: vni_space_def atLeastAtMost_iff) uint_arith
      then have "unat (y - StartVni v) + 1 \<in> {1..<unat r}"
        using new(2) by (simp only: word_less_nat_alt) auto
      with b(4) ys show ?thesis by (auto simp: vni_used_def)
    qed
    moreover have "AllocateVni v = Some (?x, None, v\<lparr>BM := bm\<rparr>)"
      using r(1) False bm(1) by (simp add: AllocateVni_def)
    moreover have "?x \<notin> vni_used v" using new(2) b(3) by (auto simp: vni_used_def)
    ultimately show ?thesis
      using new(1) vni_set_bit [OF v b(1,2) bm(2-4)] by auto
  qed
qed

interpretation vni: id_allocator vni_alloc vni_used vni_space vni_inv
proof
  fix v assume v: "vni_inv v"
  show "finite (vni_space v)" by simp
  show "vni_space v \<subseteq> vni_used v" if "vni_alloc v = None"
    using that AllocateVni_cases [OF v] by (auto simp: vni_alloc_def)
  show "x \<in> vni_space v - vni_used v \<and> vni_used v' = insert x (vni_used v)
      \<and> vni_space v' = vni_space v \<and> vni_inv v'" if "vni_alloc v = Some (x, v')" for x v'
    using that AllocateVni_cases [OF v] by (auto simp: vni_alloc_def)
qed

lemma SetVni_cases:
  assumes v: "vni_inv v"
  shows "if x \<in> vni_space v
    then \<exists>v'. SetVni v x = Some (None, v') \<and> vni_inv v' \<and> vni_space v' = vni_space v
      \<and> vni_used v' = insert x (vni_used v)
    else \<exists>e. SetVni v x = Some (Some e, v)"
proof (cases "x \<in> vni_space v")
  case False
  then show ?thesis by (auto simp: SetVni_def vni_space_def not_le)
next
  case True
  let ?b = "x - StartVni v + 1"
  have le: "x - StartVni v \<le> EndVni v - StartVni v" using True vni_space_iff [OF v] by simp
  have "unat (x - StartVni v) < unat (numBits (BM v))"
    using le vni_numBits [OF v] by (simp add: word_le_nat_alt)
  then have u: "unat ?b = unat (x - StartVni v) + 1"
    by (intro unat_add_one [of _ "numBits (BM v)"]) (simp add: word_less_nat_alt)
  have b: "1 \<le> ?b" "?b \<le> numBits (BM v)"
    using u le vni_numBits [OF v] by (simp_all add: word_le_nat_alt)
  have inv: "bitmap_inv (BM v)" using v by (simp add: vni_inv_def)
  obtain bm where bm: "Set (BM v) ?b = Some (bm, None)" "bitmap_inv bm"
    "numBits bm = numBits (BM v)" "bits bm = insert (unat ?b) (bits (BM v))"
    using Set_in_range [OF inv b] by blast
  have "SetVni v x = Some (None, v\<lparr>BM := bm\<rparr>)"
    using True bm(1) by (auto simp: SetVni_def vni_space_def)
  then show ?thesis using True vni_set_bit [OF v b bm(2-4)] by simp
qed

section \<open>MAC addresses\<close>

lemma drop_bit_octets_inj:
  fixes a b :: u32
  assumes "\<And>k. k \<in> {0, 1, 2, 3} \<Longrightarrow>
    (0xFF AND drop_bit (8 * k) (ucast a :: u64)) = 0xFF AND drop_bit (8 * k) (ucast b)"
  shows "a = b"
proof (rule bit_word_eqI)
  fix n assume "n < LENGTH(32)"
  then have n: "n < 32" by simp
  then have "n div 8 < 4" by simp
  then have k: "n div 8 \<in> {0, 1, 2, 3}" by auto
  have "bit (0xFF :: u64) (n mod 8)"
  proof -
    have "(0xFF :: u64) = mask 8" by (simp add: mask_eq_exp_minus_1)
    then show ?thesis by (simp only: bit_mask_iff) simp
  qed
  moreover have "8 * (n div 8) + n mod 8 = n" by simp
  moreover have "n mod 8 < 64" using mod_less_divisor [of 8 n] by linarith
  ultimately show "bit a n \<longleftrightarrow> bit b n"
    using arg_cong [OF assms [OF k], of "\<lambda>w. bit w (n mod 8)"] n
    by (simp add: bit_simps del: mult_div_mod_eq)
qed


lemma octet_bound: "unat (0xFF AND w :: u64) < 256"
proof -
  have "(0xFF :: u64) AND w = take_bit 8 w"
    by (simp add: take_bit_eq_mask and.commute mask_eq_exp_minus_1)
  then have "unat (0xFF AND w) = take_bit 8 (unat w)"
    by (simp only: unsigned_take_bit_eq)
  then show ?thesis by (simp add: take_bit_eq_mod)
qed

lemma formatMacAddress_conv:
  "formatMacAddress a =
    ''02:'' @ concat (map (\<lambda>k. hex02 (unat (0xFF AND drop_bit (8 * k) (ucast a :: u64))) @ '':'') [4, 3, 2, 1])
      @ hex02 (unat (0xFF AND drop_bit (8 * 0) (ucast a :: u64)))"
proof -
  have "hex02 2 = ''02''" by (simp add: hex02_def digit_char_def)
  then show ?thesis by (simp add: formatMacAddress_def macOctets_def Let_def)
qed

lemma formatMacAddress_octets:
  assumes "formatMacAddress a = formatMacAddress b" "k \<in> {0, 1, 2, 3}"
  shows "(0xFF AND drop_bit (8 * k) (ucast a :: u64)) = 0xFF AND drop_bit (8 * k) (ucast b)"
proof -
  define h where "h c k = hex02 (unat (0xFF AND drop_bit (8 * k) (ucast (c :: u32) :: u64)))" for c k
  have l: "length (h c k) = 2" for c k by (simp add: h_def hex02_def)
  have eq: "h a 4 @ '':'' @ h a 3 @ '':'' @ h a 2 @ '':'' @ h a 1 @ '':'' @ h a 0
      = h b 4 @ '':'' @ h b 3 @ '':'' @ h b 2 @ '':'' @ h b 1 @ '':'' @ h b 0"
    using assms(1) unfolding formatMacAddress_conv h_def by (simp only: list.map concat.simps append_Nil2 append.simps append_assoc list.inject simp_thms)
  have "h a 3 = h b 3 \<and> h a 2 = h b 2 \<and> h a 1 = h b 1 \<and> h a 0 = h b 0"
    using eq by (simp only: append_eq_append_conv l list.inject simp_thms append.simps)
  then have "h a k = h b k" using assms(2) by blast
  then show ?thesis
    unfolding h_def word_unat_eq_iff by (rule hex02_inject [OF octet_bound octet_bound])
qed

lemma formatMacAddress_inject: "formatMacAddress a = formatMacAddress b \<longleftrightarrow> a = b"
  using drop_bit_octets_inj [OF formatMacAddress_octets] by auto


section \<open>Properties\<close>

text \<open>C22. On a well-formed VNI allocator, \<open>AllocateVni\<close> never panics: it either hands out the
  least VNI of the range that is not in use, marks exactly that one as used and stays
  well-formed, or, when every VNI of the range is in use and only then, returns the error and
  leaves the allocator alone.\<close>

theorem AllocateVni_least_free:
  assumes "vni_inv v"
  shows "if vni_space v \<subseteq> vni_used v
    then AllocateVni v = Some (0, Some ''AllocateVni: all vni's allocated'', v)
    else \<exists>x v'. AllocateVni v = Some (x, None, v') \<and> x \<in> vni_space v - vni_used v
      \<and> {StartVni v..<x} \<subseteq> vni_used v
      \<and> vni_used v' = insert x (vni_used v) \<and> vni_space v' = vni_space v \<and> vni_inv v'"
  using AllocateVni_cases [OF assms] by auto

theorem AllocateVni_least_free_witness:
  "AllocateVni (NewVxlanVniAllocator 5000 5010) \<noteq> None"
  using AllocateVni_least_free [OF NewVxlanVniAllocator_inv(1), of 5000 5010]
  by (auto split: if_splits)

text \<open>C24. From a fresh allocator over \<open>startVni..endVni\<close>, any \<open>n\<close> consecutive allocations yield
  pairwise distinct VNIs of the range, and exactly as many of them as the range has room for.\<close>

theorem vni_run_distinct_complete:
  assumes "0 < startVni" "startVni \<le> endVni"
  shows "distinct (alloc_run vni_alloc n (NewVxlanVniAllocator startVni endVni))
    \<and> set (alloc_run vni_alloc n (NewVxlanVniAllocator startVni endVni)) \<subseteq> {startVni..endVni}
    \<and> length (alloc_run vni_alloc n (NewVxlanVniAllocator startVni endVni))
      = min n (card {startVni..endVni})"
proof -
  from assms have "startVni \<noteq> 0" by auto
  note new = NewVxlanVniAllocator_inv [OF assms(2) this]
  show ?thesis
    using vni.run_fresh [OF new(1), of n] vni.run_complete [OF new(1), of n] by (auto simp: new)
qed

theorem vni_run_distinct_complete_witness:
  "distinct (alloc_run vni_alloc 3 (NewVxlanVniAllocator 5000 5010))"
  using vni_run_distinct_complete [of 5000 5010 3] by simp

text \<open>A VNI reserved with \<open>SetVni\<close> is never handed out by any later run of allocations, and a
  VNI outside the range is refused with an error that changes nothing.\<close>

theorem SetVni_reserves:
  assumes "vni_inv v"
  shows "(x \<in> vni_space v \<longrightarrow>
      (\<exists>v'. SetVni v x = Some (None, v') \<and> vni_inv v' \<and> (\<forall>n. x \<notin> set (alloc_run vni_alloc n v'))))
    \<and> (x \<notin> vni_space v \<longrightarrow> (\<exists>e. SetVni v x = Some (Some e, v)))"
proof (intro conjI impI)
  assume "x \<in> vni_space v"
  then obtain v' where v': "SetVni v x = Some (None, v')" "vni_inv v'" "x \<in> vni_used v'"
    using SetVni_cases [OF assms, of x] by auto
  then show "\<exists>v'. SetVni v x = Some (None, v') \<and> vni_inv v' \<and> (\<forall>n. x \<notin> set (alloc_run vni_alloc n v'))"
    using vni.run_fresh [OF v'(2)] by fastforce
qed (use SetVni_cases [OF assms, of x] in auto)

theorem SetVni_reserves_witness:
  "\<exists>v'. SetVni (NewVxlanVniAllocator 5000 5010) 5003 = Some (None, v')
    \<and> 5003 \<notin> set (alloc_run vni_alloc 4 v')"
  using SetVni_reserves [OF NewVxlanVniAllocator_inv(1), of 5000 5010 5003]
  by (auto simp: NewVxlanVniAllocator_inv)

text \<open>The MAC addresses handed out by a run of allocations are pairwise distinct strings until
  the 32-bit instance counter wraps.\<close>

theorem mac_run_distinct:
  assumes "n \<le> 2 ^ 32"
  shows "distinct (alloc_run (\<lambda>m. case mac_Allocate m of ((str, _), m') \<Rightarrow> Some (str, m')) n m)"
proof -
  have "alloc_run (\<lambda>m. case mac_Allocate m of ((str, _), m') \<Rightarrow> Some (str, m')) n m
      = map formatMacAddress
          (alloc_run (Some \<circ> (\<lambda>m. case mac_Allocate m of ((_, i), m') \<Rightarrow> (i, m'))) n m)"
    by (induction n arbitrary: m) (simp_all add: mac_Allocate_def Let_def)
  then show ?thesis
    using mac.run_distinct [OF assms] by (simp add: distinct_map inj_on_def formatMacAddress_inject)
qed

theorem mac_run_distinct_witness:
  "distinct (alloc_run (\<lambda>m. case mac_Allocate m of ((str, _), m') \<Rightarrow> Some (str, m')) 100 NewMacAddrAllocator)"
  by (rule mac_run_distinct) simp

text \<open>The memif ids are pairwise distinct and start at 1, and the VRF ids are pairwise
  distinct and start at the configured initial value, until the 32-bit counters wrap.\<close>

theorem memif_vrf_run_distinct:
  assumes "n \<le> 2 ^ 32"
  shows "distinct (alloc_run (Some \<circ> memif_Allocate) n m)
    \<and> distinct (alloc_run (Some \<circ> vrf_Allocate) n v)
    \<and> (\<forall>k < n. alloc_run (Some \<circ> memif_Allocate) n NewMemifAllocator ! k = 1 + of_nat k)
    \<and> (\<forall>k < n. alloc_run (Some \<circ> vrf_Allocate) n (SetVrfAllocatorInitialValue i NewVrfAllocator) ! k
        = i + of_nat k)"
  using memif.run_distinct [OF assms] vrf.run_distinct [OF assms]
  by (auto simp: memif.run_nth vrf.run_nth NewMemifAllocator_def SetVrfAllocatorInitialValue_def)

theorem memif_vrf_run_distinct_witness:
  "alloc_run (Some \<circ> vrf_Allocate) 3 (SetVrfAllocatorInitialValue 5 NewVrfAllocator) ! 2 = 7"
  using memif_vrf_run_distinct [of 3 NewMemifAllocator NewVrfAllocator 5] by simp

end
