(* ===== verification/Ipam.thy ===== *)
theory Ipam
  imports IdApi
begin

text \<open>
  The address pool allocator of \<open>plugins/controller/idapi/ipam/ipam.go\<close>.  The Go set
  \<open>map[uint32]struct{}\<close> of allocated ids is a list without repetitions.  The two scanning loops
  of \<open>AllocateIPAddress\<close> run on a 32-bit counter; they are given one more step than there are
  allocated ids, and \<open>scan_returns\<close> shows that this is enough for them to end.  The pool is shown
  to hand out addresses round-robin, to be an \<open>id_allocator\<close>, and to print distinct addresses.
\<close>

unbundle bit_operations_syntax

section \<open>Model\<close>

record PoolAllocatorType =
  pa_Name :: string
  StartRange :: u32
  EndRange :: u32
  NextInRange :: u32
  TotalInRange :: u32
  pa_Network :: string
  ipNetwork :: ipnet
  ipNetworku32 :: u32
  ipMasku32 :: u32
  numBitsInMask :: int
  Allocated :: "u32 list"

abbreviation quote :: string where
  "quote \<equiv> [CHR 0x27]"

definition lenAllocated :: "PoolAllocatorType \<Rightarrow> u32" where
  "lenAllocated p = word_of_nat (length (Allocated p))"

definition PoolAllocator_String :: "PoolAllocatorType \<Rightarrow> string" where
  "PoolAllocator_String p =
    concat [''IPAM Pool: '', pa_Name p, '', network: '', pa_Network p, '', addr'', quote, ''s ['',
      decU (StartRange p), ''-'', decU (EndRange p), ''], numAllocated: '',
      dec (length (Allocated p))]"

definition GetAllocatedAddressesStatus :: "PoolAllocatorType \<Rightarrow> string" where
  "GetAllocatedAddressesStatus p =
    concat [dec (length (Allocated p)), '' of '', decU (TotalInRange p), '' addresses are set, '',
      decU (TotalInRange p - lenAllocated p), '' are free'']"

definition ipOctet :: "u32 \<Rightarrow> nat \<Rightarrow> u32" where
  "ipOctet a s = drop_bit s a AND 0xFF"

definition formatIPAddress :: "PoolAllocatorType \<Rightarrow> u32 \<Rightarrow> string" where
  "formatIPAddress p ipID =
    (let ipAddru32 = ipNetworku32 p OR ipID in
     concat [decU (ipOctet ipAddru32 24), ''.'', decU (ipOctet ipAddru32 16), ''.'',
       decU (ipOctet ipAddru32 8), ''.'', decU (ipAddru32 AND 0xFF), ''/'', decI (numBitsInMask p)])"

definition IsAddressSet :: "PoolAllocatorType \<Rightarrow> u32 \<Rightarrow> string \<times> err option" where
  "IsAddressSet p addrID =
    (if addrID < StartRange p \<or> addrID > EndRange p then
       ('''', Some (concat [''IsSetAddress: addr_id '', quote, decU addrID, quote, '' out of range '',
         quote, decU (StartRange p), ''-'', decU (EndRange p)]))
     else if addrID \<in> set (Allocated p) then (formatIPAddress p addrID, None)
     else
       ('''', Some (concat [''IsSetAddress: addr_id '', quote, decU addrID, quote,
         '' not found in range '', quote, decU (StartRange p), ''-'', decU (EndRange p)])))"

definition SetAddress ::
  "PoolAllocatorType \<Rightarrow> u32 \<Rightarrow> (string \<times> err option) \<times> PoolAllocatorType" where
  "SetAddress p addrID =
    (if addrID < StartRange p \<or> addrID > EndRange p then
       (('''', Some (concat [''SetAddress: addr_id '', quote, decU addrID, quote, '' out of range '',
         quote, decU (StartRange p), ''-'', decU (EndRange p)])), p)
     else
       let p' = p\<lparr>Allocated := List.insert addrID (Allocated p)\<rparr>
       in ((formatIPAddress p' addrID, None), p'))"

text \<open>A scan over consecutive ids: \<open>Some (Some a)\<close> is the first id \<open>a\<close> that is not allocated,
  \<open>Some None\<close> the end of the loop, \<open>None\<close> a loop that has not ended within the given steps.\<close>

fun scan :: "nat \<Rightarrow> (u32 \<Rightarrow> bool) \<Rightarrow> u32 list \<Rightarrow> u32 \<Rightarrow> u32 option option" where
  "scan 0 cond alloc addrID = None"
| "scan (Suc fuel) cond alloc addrID =
    (if \<not> cond addrID then Some None
     else if addrID \<notin> set alloc then Some (Some addrID)
     else scan fuel cond alloc (addrID + 1))"

definition takeAddress :: "PoolAllocatorType \<Rightarrow> u32 \<Rightarrow> (string \<times> u32 \<times> err option) \<times> PoolAllocatorType" where
  "takeAddress p addrID =
    (let p1 = p\<lparr>Allocated := List.insert addrID (Allocated p), NextInRange := addrID + 1\<rparr>;
         p2 = (if NextInRange p1 > EndRange p1 then p1\<lparr>NextInRange := StartRange p1\<rparr> else p1)
     in ((formatIPAddress p2 addrID, addrID, None), p2))"

definition AllocateIPAddress ::
  "PoolAllocatorType \<Rightarrow> ((string \<times> u32 \<times> err option) \<times> PoolAllocatorType) option" where
  "AllocateIPAddress p =
    (if lenAllocated p = TotalInRange p then
       Some (('''', 0, Some (concat [''AllocateIPAddress: '', pa_Name p, '' has no more addresses''])), p)
     else
       let fuel = Suc (length (Allocated p)) in
       do {
         r1 \<leftarrow> scan fuel (\<lambda>a. a \<le> EndRange p) (Allocated p) (NextInRange p);
         (case r1 of
            Some addrID \<Rightarrow> Some (takeAddress p addrID)
          | None \<Rightarrow> do {
              r2 \<leftarrow> scan fuel (\<lambda>a. a < NextInRange p) (Allocated p) (StartRange p);
              (case r2 of
                 Some addrID \<Rightarrow> Some (takeAddress p addrID)
               | None \<Rightarrow>
                   Some (('''', 0, Some (concat [''AllocateIPAddress: '', pa_Name p, '' internal error''])), p))
            })
       })"

definition be32 :: "u8 list \<Rightarrow> u32" where
  "be32 b = push_bit 24 (ucast (b ! 0)) OR push_bit 16 (ucast (b ! 1))
     OR push_bit 8 (ucast (b ! 2)) OR ucast (b ! 3)"

definition SetIPAddrIfInsidePool :: "PoolAllocatorType \<Rightarrow> string \<Rightarrow> PoolAllocatorType option" where
  "SetIPAddrIfInsidePool p ipAddressStr =
    (case ParseIP ipAddressStr of
       None \<Rightarrow> Some p
     | Some ipAddress \<Rightarrow>
         if netContains (ipNetwork p) ipAddress then
           (case To4 ipAddress of
              None \<Rightarrow> None
            | Some ip4 \<Rightarrow>
                let ipID = be32 ip4 AND NOT (ipMasku32 p)
                in Some (p\<lparr>Allocated := List.insert ipID (Allocated p)\<rparr>))
         else Some p)"

text \<open>\<open>1 << k\<close> on a \<open>uint32\<close>; \<open>k\<close> is itself an \<open>uint32\<close>.\<close>

definition shl1 :: "u32 \<Rightarrow> u32" where
  "shl1 k = (if k < 32 then push_bit (unat k) 1 else 0)"

definition NewIPAMPoolAllocator ::
  "string \<Rightarrow> u32 \<Rightarrow> u32 \<Rightarrow> string \<Rightarrow> PoolAllocatorType option" where
  "NewIPAMPoolAllocator name startRange0 endRange0 networkStr =
    (case ParseCIDR networkStr of
       None \<Rightarrow> None
     | Some (ip, n) \<Rightarrow>
         let nbits = int (maskSize (net_Mask n));
             startRange = (if startRange0 = 0 then 1 else startRange0);
             nextInRange = (if startRange0 = 0 then 1 else startRange0);
             endRange = (if endRange0 = 0 then shl1 (word_of_int (32 - nbits)) - 2 else endRange0);
             totalInRange = endRange - startRange + 1
         in if To4 ip \<noteq> None
            then Some \<lparr>pa_Name = name, StartRange = startRange, EndRange = endRange,
              NextInRange = nextInRange, TotalInRange = totalInRange, pa_Network = networkStr,
              ipNetwork = n, ipNetworku32 = be32 (net_IP n), ipMasku32 = be32 (net_Mask n),
              numBitsInMask = nbits, Allocated = []\<rparr>
            else None)"

section \<open>The scanning loops\<close>

text \<open>The ids from \<open>a\<close> up to but not including \<open>b\<close>, in ascending order.\<close>

definition ids :: "u32 \<Rightarrow> u32 \<Rightarrow> u32 list" where
  "ids a b = map word_of_nat [unat a..<unat b]"

lemma ids_Nil: "b \<le> a \<Longrightarrow> ids a b = []"
  by (simp add: ids_def word_le_nat_alt)

lemma ids_Cons: "a < b \<Longrightarrow> ids a b = a # ids (a + 1) b"
  by (simp add: ids_def word_less_nat_alt upt_conv_Cons unat_add_one [of a b])

lemma set_ids: "set (ids a b) = {a..<b}"
proof -
  have "x \<in> word_of_nat ` {unat a..<unat b}" if "a \<le> x" "x < b" for x :: u32
    using that by (intro image_eqI [of _ _ "unat x"]) (auto simp: word_le_nat_alt word_less_nat_alt)
  moreover have "a \<le> word_of_nat n \<and> word_of_nat n < b" if "unat a \<le> n" "n < unat b" for n
  proof -
    have "n < 2 ^ 32" using that(2) unsigned_less [of b, where ?'a = nat] by simp
    then show ?thesis using that by (simp add: word_le_nat_alt word_less_nat_alt unat_of_nat take_bit_eq_mod)
  qed
  ultimately show ?thesis by (auto simp: ids_def)
qed

lemma scan_ids:
  assumes "\<And>x. P x \<longleftrightarrow> x < b" "a \<le> b" "card (set alloc \<inter> {a..<b}) < fuel"
  shows "scan fuel P alloc a = Some (find (\<lambda>x. x \<notin> set alloc) (ids a b))"
  using assms(2,3)
proof (induction fuel arbitrary: a)
  case (Suc fuel)
  show ?case
  proof (cases "a < b \<and> a \<in> set alloc")
    case False
    then show ?thesis using Suc.prems assms(1) by (auto simp: ids_Nil ids_Cons)
  next
    case True
    have a1: "{a..<b} = insert a {a + 1..<b}" "a \<notin> {a + 1..<b}" "a + 1 \<le> b"
      using True by (auto; uint_arith)+
    then have "card (set alloc \<inter> {a..<b}) = Suc (card (set alloc \<inter> {a + 1..<b}))"
      using True by simp
    then show ?thesis
      using Suc.IH [OF a1(3)] Suc.prems True assms(1) by (simp add: ids_Cons)
  qed
qed simp

lemma scan_ids_alloc:
  assumes "\<And>x. P x \<longleftrightarrow> x < b" "a \<le> b"
  shows "scan (Suc (length alloc)) P alloc a = Some (find (\<lambda>x. x \<notin> set alloc) (ids a b))"
proof (rule scan_ids [OF assms])
  have "card (set alloc \<inter> {a..<b}) \<le> card (set alloc)" by (intro card_mono) auto
  also have "\<dots> \<le> length alloc" by (rule card_length)
  finally show "card (set alloc \<inter> {a..<b}) < Suc (length alloc)" by simp
qed

lemma card_word_interval: "a \<le> b \<Longrightarrow> card {a..b :: u32} = unat (b - a) + 1"
proof -
  assume ab: "a \<le> b"
  have "bij_betw unat {a..b} {unat a..unat b}"
  proof (rule bij_betw_imageI)
    show "inj_on unat {a..b}" by (simp add: inj_on_def word_unat_eq_iff)
    have "x \<in> unat ` {a..b}" if "unat a \<le> x" "x \<le> unat b" for x
    proof -
      have "x < 2 ^ 32" using that(2) unsigned_less [of b, where ?'a = nat] by simp
      then have "unat (word_of_nat x :: u32) = x" by (simp add: unat_of_nat take_bit_eq_mod)
      then show ?thesis using that by (intro image_eqI [of _ _ "word_of_nat x"]) (simp_all add: word_le_nat_alt)
    qed
    then show "unat ` {a..b} = {unat a..unat b}" by (auto simp: word_le_nat_alt)
  qed
  then show ?thesis using ab bij_betw_same_card by (fastforce simp: unat_sub word_le_nat_alt)
qed

lemma find_append: "find P (xs @ ys) = (case find P xs of Some x \<Rightarrow> Some x | None \<Rightarrow> find P ys)"
  by (induction xs) auto

section \<open>Round-robin allocation\<close>

text \<open>The range is well-formed, and the cursor is inside it.\<close>

definition ipam_ranged :: "PoolAllocatorType \<Rightarrow> bool" where
  "ipam_ranged p \<longleftrightarrow> StartRange p \<le> NextInRange p \<and> NextInRange p \<le> EndRange p
    \<and> EndRange p < 0xFFFFFFFF"

text \<open>The ids in the order in which the allocator tries them.\<close>

definition candidates :: "PoolAllocatorType \<Rightarrow> u32 list" where
  "candidates p = ids (NextInRange p) (EndRange p + 1) @ ids (StartRange p) (NextInRange p)"

lemma less_succ_End: "(e :: u32) < 0xFFFFFFFF \<Longrightarrow> x \<le> e \<longleftrightarrow> x < e + 1"
  by (simp add: word_le_nat_alt word_less_nat_alt less_Suc_eq_le unat_add_one [of e "0xFFFFFFFF"])

lemma set_candidates:
  assumes "ipam_ranged p"
  shows "set (candidates p) = {StartRange p..EndRange p}"
proof -
  have "{NextInRange p..<EndRange p + 1} = {NextInRange p..EndRange p}"
  proof (rule set_eqI)
    fix x show "x \<in> {NextInRange p..<EndRange p + 1} \<longleftrightarrow> x \<in> {NextInRange p..EndRange p}"
      using assms less_succ_End [of "EndRange p" x] by (simp add: ipam_ranged_def)
  qed
  then have "set (candidates p) = {NextInRange p..EndRange p} \<union> {StartRange p..<NextInRange p}"
    by (simp only: candidates_def set_append set_ids)
  also have "\<dots> = {StartRange p..EndRange p}"
    using assms ivl_disj_un_two(7) [of "StartRange p" "NextInRange p" "EndRange p"]
    by (simp add: ipam_ranged_def Un_commute)
  finally show ?thesis .
qed

lemma AllocateIPAddress_candidates:
  assumes r: "ipam_ranged p"
  shows "AllocateIPAddress p = Some
    (if lenAllocated p = TotalInRange p then
       (('''', 0, Some (concat [''AllocateIPAddress: '', pa_Name p, '' has no more addresses''])), p)
     else case find (\<lambda>a. a \<notin> set (Allocated p)) (candidates p) of
       Some a \<Rightarrow> takeAddress p a
     | None \<Rightarrow>
         (('''', 0, Some (concat [''AllocateIPAddress: '', pa_Name p, '' internal error''])), p))"
proof -
  have e: "EndRange p < 0xFFFFFFFF" "NextInRange p \<le> EndRange p + 1" "StartRange p \<le> NextInRange p"
    using r by (auto simp: ipam_ranged_def; uint_arith)+
  have "scan (Suc (length (Allocated p))) (\<lambda>a. a \<le> EndRange p) (Allocated p) (NextInRange p)
      = Some (find (\<lambda>a. a \<notin> set (Allocated p)) (ids (NextInRange p) (EndRange p + 1)))"
    by (rule scan_ids_alloc [OF less_succ_End [OF e(1)] e(2)])
  moreover have "scan (Suc (length (Allocated p))) (\<lambda>a. a < NextInRange p) (Allocated p) (StartRange p)
      = Some (find (\<lambda>a. a \<notin> set (Allocated p)) (ids (StartRange p) (NextInRange p)))"
    by (rule scan_ids_alloc [OF refl e(3)])
  ultimately show ?thesis
    unfolding AllocateIPAddress_def Let_def
    by (simp add: candidates_def find_append del: scan.simps split: option.splits)
qed

section \<open>Invariant\<close>

definition ipam_space :: "PoolAllocatorType \<Rightarrow> u32 set" where
  "ipam_space p = {StartRange p..EndRange p}"

definition ipam_used :: "PoolAllocatorType \<Rightarrow> u32 set" where
  "ipam_used p = set (Allocated p)"

definition ipam_inv :: "PoolAllocatorType \<Rightarrow> bool" where
  "ipam_inv p \<longleftrightarrow> ipam_ranged p \<and> StartRange p \<noteq> 0 \<and> TotalInRange p = EndRange p - StartRange p + 1
    \<and> distinct (Allocated p) \<and> ipam_used p \<subseteq> ipam_space p"

lemma ipam_total:
  assumes "ipam_inv p"
  shows "unat (TotalInRange p) = card (ipam_space p)"
proof -
  have le: "StartRange p \<le> EndRange p" "StartRange p \<noteq> 0" "EndRange p < 0xFFFFFFFF"
    using assms by (auto simp: ipam_inv_def ipam_ranged_def)
  then have "EndRange p - StartRange p < 0xFFFFFFFF" by uint_arith
  then have "unat (EndRange p - StartRange p + 1) = unat (EndRange p - StartRange p) + 1"
    by (rule unat_add_one)
  then show ?thesis
    using assms card_word_interval [OF le(1)] by (simp add: ipam_inv_def ipam_space_def)
qed

lemma ipam_full_iff:
  assumes "ipam_inv p"
  shows "lenAllocated p = TotalInRange p \<longleftrightarrow> ipam_space p \<subseteq> ipam_used p"
proof -
  have len: "length (Allocated p) = card (ipam_used p)"
    using assms by (simp add: ipam_inv_def ipam_used_def distinct_card)
  have sub: "ipam_used p \<subseteq> ipam_space p" using assms by (simp add: ipam_inv_def)
  have le: "card (ipam_used p) \<le> card (ipam_space p)"
    using sub by (intro card_mono) (auto simp: ipam_space_def)
  have "card (ipam_space p) < 2 ^ 32"
    using ipam_total [OF assms] unsigned_less [of "TotalInRange p", where ?'a = nat] by simp
  with le have "unat (lenAllocated p) = card (ipam_used p)"
    by (simp add: lenAllocated_def len unat_of_nat take_bit_eq_mod)
  then have "lenAllocated p = TotalInRange p \<longleftrightarrow> card (ipam_used p) = card (ipam_space p)"
    by (simp add: word_unat_eq_iff ipam_total [OF assms])
  also have "\<dots> \<longleftrightarrow> ipam_space p \<subseteq> ipam_used p"
    using sub card_subset_eq [of "ipam_space p" "ipam_used p"] by (auto simp: ipam_space_def)
  finally show ?thesis .
qed

lemma takeAddress_inv:
  assumes p: "ipam_inv p" and a: "a \<in> ipam_space p - ipam_used p"
    and t: "takeAddress p a = ((str, b, e), p')"
  shows "ipam_inv p' \<and> ipam_space p' = ipam_space p \<and> ipam_used p' = insert a (ipam_used p)
    \<and> b = a \<and> e = None \<and> str = formatIPAddress p a"
proof -
  have r: "StartRange p \<le> a" "a \<le> EndRange p" "EndRange p < 0xFFFFFFFF" "StartRange p \<noteq> 0"
    using p a by (auto simp: ipam_inv_def ipam_ranged_def ipam_space_def)
  then have "StartRange p \<le> a + 1" "a < EndRange p \<longleftrightarrow> a + 1 \<le> EndRange p"
    by (simp_all add: word_le_nat_alt word_less_nat_alt Suc_le_eq unat_add_one [of a "0xFFFFFFFF"])
  then show ?thesis
    using p a t r by (auto simp: takeAddress_def Let_def ipam_inv_def ipam_ranged_def ipam_space_def
      ipam_used_def formatIPAddress_def distinct_insert List.insert_def split: if_splits)
qed

lemma AllocateIPAddress_cases:
  assumes p: "ipam_inv p"
  shows "(ipam_space p \<subseteq> ipam_used p
      \<and> AllocateIPAddress p = Some (('''', 0,
          Some (concat [''AllocateIPAddress: '', pa_Name p, '' has no more addresses''])), p))
    \<or> (\<exists>a p'. find (\<lambda>a. a \<notin> ipam_used p) (candidates p) = Some a
        \<and> AllocateIPAddress p = Some ((formatIPAddress p a, a, None), p')
        \<and> a \<in> ipam_space p - ipam_used p
        \<and> ipam_used p' = insert a (ipam_used p) \<and> ipam_space p' = ipam_space p \<and> ipam_inv p')"
proof (cases "ipam_space p \<subseteq> ipam_used p")
  case True
  then show ?thesis
    using AllocateIPAddress_candidates [of p] p ipam_full_iff [OF p] by (simp add: ipam_inv_def)
next
  case False
  have r: "ipam_ranged p" using p by (simp add: ipam_inv_def)
  note c = set_candidates [OF r]
  have "find (\<lambda>a. a \<notin> ipam_used p) (candidates p) \<noteq> None"
    using False c by (auto simp: find_None_iff ipam_space_def)
  then obtain a where a: "find (\<lambda>a. a \<notin> ipam_used p) (candidates p) = Some a" by auto
  then have "a \<in> set (candidates p)" "a \<notin> ipam_used p"
    by (auto simp: find_Some_iff)
  then have sp: "a \<in> ipam_space p - ipam_used p" using c by (simp add: ipam_space_def)
  obtain str b e p' where t: "takeAddress p a = ((str, b, e), p')" by (metis surj_pair)
  note d = takeAddress_inv [OF p sp t]
  have "AllocateIPAddress p = Some ((formatIPAddress p a, a, None), p')"
    using AllocateIPAddress_candidates [OF r] False ipam_full_iff [OF p] a t d
    by (simp add: ipam_used_def)
  then show ?thesis using a sp d by blast
qed

text \<open>The pool as the controller uses it: an id and the new state, or a failure.\<close>

definition ipam_alloc :: "PoolAllocatorType \<Rightarrow> (u32 \<times> PoolAllocatorType) option" where
  "ipam_alloc p = (case AllocateIPAddress p of Some ((_, a, None), p') \<Rightarrow> Some (a, p') | _ \<Rightarrow> None)"

interpretation ipam: id_allocator ipam_alloc ipam_used ipam_space ipam_inv
proof
  fix p assume p: "ipam_inv p"
  show "finite (ipam_space p)" by (simp add: ipam_space_def)
  show "ipam_space p \<subseteq> ipam_used p" if "ipam_alloc p = None"
    using that AllocateIPAddress_cases [OF p] by (auto simp: ipam_alloc_def)
  show "a \<in> ipam_space p - ipam_used p \<and> ipam_used p' = insert a (ipam_used p)
      \<and> ipam_space p' = ipam_space p \<and> ipam_inv p'" if "ipam_alloc p = Some (a, p')" for a p'
    using that AllocateIPAddress_cases [OF p] by (auto simp: ipam_alloc_def)
qed

section \<open>Networks\<close>

lemma parseIPv4_loop_length: "parseIPv4_loop r s p = Some q \<Longrightarrow> length q = length p + r"
  by (induction r s p rule: parseIPv4_loop.induct) (auto simp: Let_def split: if_splits prod.splits)

lemma parseIPv4_length:
  assumes "parseIPv4 s = Some ip"
  obtains q where "ip = v4InV6Prefix @ q" "length q = 4"
  using assms parseIPv4_loop_length [of 4 s "[]"] by (auto simp: parseIPv4_def)

lemma CIDRMask_be32: "n \<le> 32 \<Longrightarrow> be32 (CIDRMask n 32) = NOT (mask (32 - n))"
proof -
  have "list_all (\<lambda>n. be32 (CIDRMask n 32) = NOT (mask (32 - n))) [0..<33]" by code_simp
  then show "n \<le> 32 \<Longrightarrow> ?thesis" by (simp only: list_all_iff set_upt) simp
qed

lemma CIDRMask_size: "n \<le> 32 \<Longrightarrow> maskSize (CIDRMask n 32) = n"
proof -
  have "list_all (\<lambda>n. maskSize (CIDRMask n 32) = n) [0..<33]" by code_simp
  then show "n \<le> 32 \<Longrightarrow> ?thesis" by (simp only: list_all_iff set_upt) simp
qed

lemma CIDRMask_length: "length (CIDRMask n b) = b div 8"
proof -
  have "length (CIDRMask_loop l n) = l" for l n by (induction l n rule: CIDRMask_loop.induct) auto
  then show ?thesis by (simp add: CIDRMask_def)
qed

lemma v4InV6Prefix_length: "length v4InV6Prefix = 12"
  by (simp add: v4InV6Prefix_def)

lemma be32_and:
  assumes "length a = 4" "length b = 4"
  shows "be32 (map2 (AND) a b) = be32 a AND be32 b"
proof -
  have "map2 (AND) a b ! i = a ! i AND b ! i" if "i < 4" for i using that assms by simp
  then have "be32 (map2 (AND) a b) = push_bit 24 (ucast (a ! 0 AND b ! 0)) OR push_bit 16 (ucast (a ! 1 AND b ! 1))
     OR push_bit 8 (ucast (a ! 2 AND b ! 2)) OR ucast (a ! 3 AND b ! 3)"
    by (simp add: be32_def)
  also have "\<dots> = be32 a AND be32 b"
    unfolding be32_def
    by (rule bit_word_eqI) (auto simp: bit_simps dest: bit_imp_le_length)
  finally show ?thesis .
qed

text \<open>An IPv4 network in CIDR form: a 4-byte mask of \<open>k\<close> ones, and a base address under it.\<close>

lemma ParseCIDR_v4:
  assumes "ParseCIDR s = Some (ip, n)" "length (net_Mask n) = 4"
  obtains k where "k \<le> 32" "net_Mask n = CIDRMask k 32" "To4 ip \<noteq> None"
    "length (net_IP n) = 4" "be32 (net_IP n) AND NOT (be32 (net_Mask n)) = 0"
proof -
  let ?i = "nat (strIndex CHR ''/'' s)"
  obtain m c ok where d: "dtoi (drop (Suc ?i) s) = (m, c, ok)" by (metis surj_pair)
  show thesis
  proof (cases "parseIPv4 (take ?i s)")
    case None
    then have "length (net_Mask n) = 16"
      using assms(1) d by (auto simp: ParseCIDR_def Let_def CIDRMask_length split: if_splits option.splits)
    then show thesis using assms(2) by simp
  next
    case (Some p)
    obtain q where q: "p = v4InV6Prefix @ q" "length q = 4" using Some by (rule parseIPv4_length)
    have r: "ip = p" "m \<le> 32" "n = \<lparr>net_IP = maskIP p (CIDRMask (nat m) 32), net_Mask = CIDRMask (nat m) 32\<rparr>"
      using assms(1) d Some by (auto simp: ParseCIDR_def Let_def split: if_splits)
    have l: "length (CIDRMask (nat m) 32) = 4" by (simp add: CIDRMask_length)
    have mi: "maskIP p (CIDRMask (nat m) 32) = map2 (AND) q (CIDRMask (nat m) 32)"
      using q l by (simp add: maskIP_def v4InV6Prefix_length)
    have t4: "To4 ip \<noteq> None" using q r(1) by (simp add: To4_def v4InV6Prefix_length)
    show thesis
      by (rule that [of "nat m"]) (use r mi t4 q(2) l be32_and [OF q(2) l] in \<open>auto simp: bit.conj_disj_distrib and.assoc\<close>)
  qed
qed

definition octets :: "u32 \<Rightarrow> u8 list" where
  "octets a = [ucast (drop_bit 24 a), ucast (drop_bit 16 a), ucast (drop_bit 8 a), ucast a]"

lemma octets_length: "length (octets a) = 4"
  by (simp add: octets_def)

lemma be32_octets: "be32 (octets a) = a"
proof -
  have "be32 (octets a) = push_bit 24 (ucast (ucast (drop_bit 24 a) :: u8))
      OR push_bit 16 (ucast (ucast (drop_bit 16 a) :: u8))
      OR push_bit 8 (ucast (ucast (drop_bit 8 a) :: u8)) OR ucast (ucast a :: u8)"
    by (simp add: be32_def octets_def)
  also have "\<dots> = a"
  proof (rule bit_word_eqI)
    fix n assume "n < LENGTH(32)"
    then show "bit (push_bit 24 (ucast (ucast (drop_bit 24 a) :: u8))
      OR push_bit 16 (ucast (ucast (drop_bit 16 a) :: u8))
      OR push_bit 8 (ucast (ucast (drop_bit 8 a) :: u8)) OR ucast (ucast a :: u8) :: u32) n \<longleftrightarrow> bit a n"
      by (cases "n < 8"; cases "n < 16"; cases "n < 24") (simp_all only: bit_simps, auto)
  qed
  finally show ?thesis .
qed

lemma unat_low_octet: "unat (x AND 0xFF :: u32) = unat (ucast x :: u8)"
proof -
  have "x AND 0xFF = take_bit 8 x" by (simp add: take_bit_eq_mask mask_eq_exp_minus_1)
  then show ?thesis by (simp add: unsigned_take_bit_eq unsigned_ucast_eq)
qed

lemma formatIPAddress_dotted:
  "formatIPAddress p a = dotted (octets (ipNetworku32 p OR a)) @ ''/'' @ decI (numBitsInMask p)"
  by (simp add: formatIPAddress_def dotted_def octets_def Let_def decU_def ipOctet_def unat_low_octet)

text \<open>The network and mask words of a pool agree, and the range fits into the host part.\<close>

definition ipam_aligned :: "PoolAllocatorType \<Rightarrow> bool" where
  "ipam_aligned p \<longleftrightarrow>
    (let k = nat (numBitsInMask p) in
     0 \<le> numBitsInMask p \<and> k \<le> 32 \<and> ipMasku32 p = NOT (mask (32 - k))
     \<and> ipNetworku32 p AND mask (32 - k) = 0 \<and> EndRange p \<le> mask (32 - k))"

lemma le_mask_and:
  assumes "(a :: u32) \<le> mask k"
  shows "a AND mask k = a"
proof (cases "k < 32")
  case True
  have "uint a \<le> mask k" using assms True by (simp add: word_le_def uint_mask_eq min_def)
  then have "take_bit k (uint a) = uint a"
    by (intro take_bit_int_eq_self) (simp_all add: mask_eq_exp_minus_1)
  then show ?thesis by (simp add: word_uint_eq_iff unsigned_take_bit_eq flip: take_bit_eq_mask)
next
  case False
  then show ?thesis by (simp flip: take_bit_eq_mask add: take_bit_length_eq take_bit_word_eq_self)
qed

lemma and_not_of_and_0: "(x :: u32) AND m = 0 \<Longrightarrow> x AND NOT m = x"
proof -
  have "x = x AND (m OR NOT m)" by simp
  also have "\<dots> = (x AND m) OR (x AND NOT m)" by (rule bit.conj_disj_distrib)
  finally show "x AND m = 0 \<Longrightarrow> x AND NOT m = x" by simp
qed

lemma dotted_no_slash: "CHR ''/'' \<notin> set (dotted q)"
  using dec_is_digit [of "CHR ''/''"] digit_sep by (auto simp: dotted_def)

lemma ParseCIDR_dotted:
  assumes "length q = 4" "k \<le> 32"
  shows "ParseCIDR (dotted q @ ''/'' @ dec k) = Some (v4InV6Prefix @ q,
    \<lparr>net_IP = map2 (AND) q (CIDRMask k 32), net_Mask = CIDRMask k 32\<rparr>)"
proof -
  have "strIndex CHR ''/'' (dotted q @ ''/'' @ dec k) = int (length (dotted q))"
    using takeWhile_append_sep [OF dotted_no_slash, of q "dec k"] by (simp add: strIndex_def)
  moreover have "dtoi (dec k) = (int k, length (dec k), True)"
    using dtoi_dec [of k "[]"] assms(2) by simp
  moreover have "maskIP (v4InV6Prefix @ q) (CIDRMask k 32) = map2 (AND) q (CIDRMask k 32)"
    using assms by (simp add: maskIP_def v4InV6Prefix_length CIDRMask_length)
  ultimately show ?thesis
    using parseIPv4_dotted [OF assms(1)] assms(2) by (simp add: ParseCIDR_def Let_def)
qed

lemma formatIPAddress_parses:
  assumes p: "ipam_aligned p" and a: "a \<le> EndRange p"
  shows "\<exists>q n. ParseCIDR (formatIPAddress p a) = Some (v4InV6Prefix @ q, n) \<and> length q = 4
    \<and> be32 q = ipNetworku32 p OR a \<and> be32 q AND NOT (ipMasku32 p) = a
    \<and> be32 (net_IP n) = ipNetworku32 p \<and> be32 (net_Mask n) = ipMasku32 p"
proof -
  let ?k = "nat (numBitsInMask p)" and ?q = "octets (ipNetworku32 p OR a)"
  have k: "?k \<le> 32" "0 \<le> numBitsInMask p" "ipMasku32 p = NOT (mask (32 - ?k))"
    "ipNetworku32 p AND mask (32 - ?k) = 0" "EndRange p \<le> mask (32 - ?k)"
    using p by (auto simp: ipam_aligned_def Let_def)
  have am: "a AND mask (32 - ?k) = a" using a k(5) by (intro le_mask_and) auto
  have "decI (numBitsInMask p) = dec ?k" using k(2) by (simp add: decI_def)
  then have parse: "ParseCIDR (formatIPAddress p a) = Some (v4InV6Prefix @ ?q,
      \<lparr>net_IP = map2 (AND) ?q (CIDRMask ?k 32), net_Mask = CIDRMask ?k 32\<rparr>)"
    using ParseCIDR_dotted [OF octets_length k(1)] by (simp add: formatIPAddress_dotted)
  have "be32 (map2 (AND) ?q (CIDRMask ?k 32)) = (ipNetworku32 p OR a) AND NOT (mask (32 - ?k))"
    using k(1) by (simp add: be32_and octets_length CIDRMask_length be32_octets CIDRMask_be32)
  also have "\<dots> = ipNetworku32 p"
  proof -
    have "a AND NOT (mask (32 - ?k)) = 0"
      by (subst am [symmetric]) (simp add: and.assoc)
    moreover have "ipNetworku32 p AND NOT (mask (32 - ?k)) = ipNetworku32 p"
      by (rule and_not_of_and_0 [OF k(4)])
    ultimately show ?thesis by (simp add: bit.conj_disj_distrib2)
  qed
  finally have net: "be32 (map2 (AND) ?q (CIDRMask ?k 32)) = ipNetworku32 p" .
  have "(ipNetworku32 p OR a) AND mask (32 - ?k) = a"
    using k(4) am by (simp add: bit.conj_disj_distrib2)
  then show ?thesis
    using parse net k(1,3) by (auto simp: octets_length be32_octets CIDRMask_be32)
qed

lemma NewIPAMPoolAllocator_wf:
  assumes new: "NewIPAMPoolAllocator name s e net = Some p"
    and cidr: "ParseCIDR net = Some (ip, n)" "length (net_Mask n) = 4"
    and range: "StartRange p \<le> EndRange p" "EndRange p \<le> NOT (ipMasku32 p)" "EndRange p < 0xFFFFFFFF"
  shows "ipam_inv p" "ipam_aligned p" "ipam_used p = {}"
proof -
  obtain k where k: "k \<le> 32" "net_Mask n = CIDRMask k 32"
    "be32 (net_IP n) AND NOT (be32 (net_Mask n)) = 0"
    using ParseCIDR_v4 [OF cidr] by metis
  have p: "ipNetwork p = n" "ipNetworku32 p = be32 (net_IP n)" "ipMasku32 p = be32 (net_Mask n)"
    "numBitsInMask p = int k" "Allocated p = []" "NextInRange p = StartRange p" "StartRange p \<noteq> 0"
    "TotalInRange p = EndRange p - StartRange p + 1"
    using new cidr(1) k(1,2)
    by (auto simp: NewIPAMPoolAllocator_def Let_def CIDRMask_size split: if_splits)
  have m: "ipMasku32 p = NOT (mask (32 - k))" using p(3) k(1,2) by (simp add: CIDRMask_be32)
  show "ipam_used p = {}" using p(5) by (simp add: ipam_used_def)
  show "ipam_inv p"
    using p(5-8) range by (simp add: ipam_inv_def ipam_ranged_def ipam_used_def)
  show "ipam_aligned p"
    using p(1-4) k range(2) m by (simp add: ipam_aligned_def Let_def CIDRMask_be32)
qed

text \<open>The addresses a run hands out, as text.\<close>

definition ipam_alloc_str :: "PoolAllocatorType \<Rightarrow> (string \<times> PoolAllocatorType) option" where
  "ipam_alloc_str p = (case AllocateIPAddress p of Some ((str, _, None), p') \<Rightarrow> Some (str, p') | _ \<Rightarrow> None)"

lemma AllocateIPAddress_frame:
  assumes "ipam_inv p" "AllocateIPAddress p = Some (r, p')"
  shows "formatIPAddress p' = formatIPAddress p \<and> ipam_aligned p' = ipam_aligned p"
proof -
  have "ipam_ranged p" using assms(1) by (simp add: ipam_inv_def)
  from AllocateIPAddress_candidates [OF this] assms(2) show ?thesis
    by (auto simp: takeAddress_def Let_def formatIPAddress_def ipam_aligned_def fun_eq_iff
      split: if_splits option.splits)
qed

lemma ipam_run_str:
  "ipam_inv p \<Longrightarrow> alloc_run ipam_alloc_str n p = map (formatIPAddress p) (alloc_run ipam_alloc n p)"
proof (induction n arbitrary: p)
  case (Suc n)
  from AllocateIPAddress_cases [OF Suc.prems] show ?case
  proof
    assume "\<exists>a p'. find (\<lambda>a. a \<notin> ipam_used p) (candidates p) = Some a
        \<and> AllocateIPAddress p = Some ((formatIPAddress p a, a, None), p')
        \<and> a \<in> ipam_space p - ipam_used p
        \<and> ipam_used p' = insert a (ipam_used p) \<and> ipam_space p' = ipam_space p \<and> ipam_inv p'"
    then obtain a p' where a: "AllocateIPAddress p = Some ((formatIPAddress p a, a, None), p')" "ipam_inv p'"
      by blast
    then show ?thesis
      using Suc.IH [OF a(2)] AllocateIPAddress_frame [OF Suc.prems a(1)]
      by (simp add: ipam_alloc_str_def ipam_alloc_def)
  qed (simp add: ipam_alloc_str_def ipam_alloc_def)
qed simp

lemma formatIPAddress_inj_on: "ipam_aligned p \<Longrightarrow> inj_on (formatIPAddress p) {..EndRange p}"
proof (rule inj_onI)
  fix a b assume p: "ipam_aligned p" and ab: "a \<in> {..EndRange p}" "b \<in> {..EndRange p}"
    and eq: "formatIPAddress p a = formatIPAddress p b"
  obtain q n where q: "ParseCIDR (formatIPAddress p a) = Some (v4InV6Prefix @ q, n)"
    "be32 q AND NOT (ipMasku32 p) = a"
    using formatIPAddress_parses [OF p, of a] ab(1) by blast
  obtain r m where r: "ParseCIDR (formatIPAddress p b) = Some (v4InV6Prefix @ r, m)"
    "be32 r AND NOT (ipMasku32 p) = b"
    using formatIPAddress_parses [OF p, of b] ab(2) by blast
  from q(1) r(1) eq have "q = r" by simp
  then show "a = b" using q(2) r(2) by simp
qed

section \<open>Properties\<close>


definition pool24 :: PoolAllocatorType where
  "pool24 = the (NewIPAMPoolAllocator ''p'' 0 0 ''10.5.3.0/24'')"

lemma pool24_facts:
  "ipam_inv pool24" "ipam_aligned pool24" "ipam_used pool24 = {}" "StartRange pool24 = 1" "EndRange pool24 = 254"
proof -
  have new: "NewIPAMPoolAllocator ''p'' 0 0 ''10.5.3.0/24'' = Some pool24" unfolding pool24_def by code_simp
  have cidr: "ParseCIDR ''10.5.3.0/24'' = Some (v4InV6Prefix @ [10, 5, 3, 0],
      \<lparr>net_IP = [10, 5, 3, 0], net_Mask = [255, 255, 255, 0]\<rparr>)" by code_simp
  show st: "StartRange pool24 = 1" and en: "EndRange pool24 = 254" by code_simp+
  have mask: "ipMasku32 pool24 = 0xFFFFFF00" by code_simp
  note wf = NewIPAMPoolAllocator_wf [OF new cidr]
  show "ipam_inv pool24" "ipam_aligned pool24" "ipam_used pool24 = {}"
    by (rule wf; simp add: st en mask)+
qed


text \<open>C23. The addresses a run of \<open>n\<close> allocations prints are pairwise distinct, and a run yields
  exactly as many of them as the pool has free ids.\<close>

theorem ipam_run_distinct_complete:
  assumes "ipam_inv p" "ipam_aligned p"
  shows "distinct (alloc_run ipam_alloc_str n p)
    \<and> length (alloc_run ipam_alloc_str n p) = min n (card (ipam_space p - ipam_used p))"
proof -
  have "set (alloc_run ipam_alloc n p) \<subseteq> {..EndRange p}"
    using ipam.run_fresh [OF assms(1), of n] by (auto simp: ipam_space_def)
  then have "inj_on (formatIPAddress p) (set (alloc_run ipam_alloc n p))"
    using formatIPAddress_inj_on [OF assms(2)] by (rule inj_on_subset [rotated])
  then show ?thesis
    using ipam.run_fresh [OF assms(1), of n] ipam.run_complete [OF assms(1), of n]
    by (simp add: ipam_run_str [OF assms(1)] distinct_map)
qed

theorem ipam_run_distinct_complete_witness: "length (alloc_run ipam_alloc_str 3 pool24) = 3"
  using ipam_run_distinct_complete [OF pool24_facts(1,2), of 3]
  by (simp add: pool24_facts ipam_space_def card_word_interval)

text \<open>C27. An address printed for an id of the pool's range parses back, as a CIDR, to the pool's own
  network and mask, and the id is its host part.\<close>

theorem formatIPAddress_roundtrip:
  assumes "ipam_aligned p" "a \<le> EndRange p"
  shows "\<exists>q n. ParseCIDR (formatIPAddress p a) = Some (v4InV6Prefix @ q, n) \<and> length q = 4
    \<and> be32 q = ipNetworku32 p OR a \<and> be32 q AND NOT (ipMasku32 p) = a
    \<and> be32 (net_IP n) = ipNetworku32 p \<and> be32 (net_Mask n) = ipMasku32 p"
  by (rule formatIPAddress_parses [OF assms])

theorem formatIPAddress_roundtrip_witness: "ParseCIDR (formatIPAddress pool24 7) \<noteq> None"
  using formatIPAddress_roundtrip [OF pool24_facts(2), of 7] by (auto simp: pool24_facts)

text \<open>A pool built by \<open>NewIPAMPoolAllocator\<close> for an IPv4 network is well-formed, nothing is
  allocated in it, and its words agree with the parsed network, as soon as its range is not
  empty and fits into the host part.\<close>

theorem NewIPAMPoolAllocator_well_formed:
  assumes "NewIPAMPoolAllocator name s e net = Some p"
    and "ParseCIDR net = Some (ip, n)" "length (net_Mask n) = 4"
    and "StartRange p \<le> EndRange p" "EndRange p \<le> NOT (ipMasku32 p)" "EndRange p < 0xFFFFFFFF"
  shows "ipam_inv p \<and> ipam_aligned p \<and> ipam_used p = {}"
  using NewIPAMPoolAllocator_wf [OF assms] by simp

theorem NewIPAMPoolAllocator_well_formed_witness:
  "ipam_inv (the (NewIPAMPoolAllocator ''q'' 10 20 ''192.168.0.0/16''))"
proof -
  let ?p = "the (NewIPAMPoolAllocator ''q'' 10 20 ''192.168.0.0/16'')"
  have "NewIPAMPoolAllocator ''q'' 10 20 ''192.168.0.0/16'' = Some ?p" by code_simp
  moreover have "ParseCIDR ''192.168.0.0/16'' = Some (v4InV6Prefix @ [192, 168, 0, 0],
      \<lparr>net_IP = [192, 168, 0, 0], net_Mask = [255, 255, 0, 0]\<rparr>)" by code_simp
  moreover have "StartRange ?p \<le> EndRange ?p" "EndRange ?p \<le> NOT (ipMasku32 ?p)" "EndRange ?p < 0xFFFFFFFF"
    by code_simp+
  ultimately show ?thesis using NewIPAMPoolAllocator_well_formed by fastforce
qed

end
