(* ===== verification/Model.thy ===== *)
theory Model
  imports GoStd
begin

text \<open>
  The controller's own data model, \<open>plugins/controller/model\<close>: the constants of \<open>controller.go\<close>,
  the key prefixes of \<open>keys.go\<close>, and one record per message of \<open>controller.proto\<close>.  A pointer
  to a message is an \<open>option\<close>; a repeated field is a list; a map is an association list (a nil
  map reads like an empty one).  Where the code distinguishes a nil map (it panics on a write),
  the map is an \<open>option\<close>.
\<close>

section \<open>Constants\<close>

abbreviation IfTypeLoopBack :: string where "IfTypeLoopBack \<equiv> ''loopback''"
abbreviation IfTypeEthernet :: string where "IfTypeEthernet \<equiv> ''ethernet''"
abbreviation IfTypeVxlanTunnel :: string where "IfTypeVxlanTunnel \<equiv> ''vxlan_tunnel''"
abbreviation IfTypeMemif :: string where "IfTypeMemif \<equiv> ''memif''"
abbreviation IfTypeVeth :: string where "IfTypeVeth \<equiv> ''veth''"
abbreviation IfTypeTap :: string where "IfTypeTap \<equiv> ''tap''"
abbreviation IfAdminStatusEnabled :: string where "IfAdminStatusEnabled \<equiv> ''enabled''"
abbreviation IfAdminStatusDisabled :: string where "IfAdminStatusDisabled \<equiv> ''disabled''"
abbreviation IfMemifModeEhernet :: string where "IfMemifModeEhernet \<equiv> ''ethernet''"
abbreviation IfMemifModeIP :: string where "IfMemifModeIP \<equiv> ''ip''"
abbreviation IfMemifModePuntInject :: string where "IfMemifModePuntInject \<equiv> ''puntinject''"
abbreviation ConnMethodDirect :: string where "ConnMethodDirect \<equiv> ''direct''"
abbreviation ConnMethodVswitch :: string where "ConnMethodVswitch \<equiv> ''vswitch''"
abbreviation NetworkPodTypeVPPVswitch :: string where "NetworkPodTypeVPPVswitch \<equiv> ''vppvswitch''"
abbreviation NetworkPodTypeExternal :: string where "NetworkPodTypeExternal \<equiv> ''external''"
abbreviation NetworkPodTypeVPPContainer :: string where "NetworkPodTypeVPPContainer \<equiv> ''vppcontainer''"
abbreviation NetworkPodTypeNonVPPContainer :: string where "NetworkPodTypeNonVPPContainer \<equiv> ''nonvppcontainer''"
abbreviation MemifDirectoryName :: string where "MemifDirectoryName \<equiv> ''/tmp''"
abbreviation RxModeInterrupt :: string where "RxModeInterrupt \<equiv> ''interrupt''"
abbreviation RxModePolling :: string where "RxModePolling \<equiv> ''polling''"
abbreviation RxModeAdaptive :: string where "RxModeAdaptive \<equiv> ''adaptive''"
abbreviation ConnTypeL2PP :: string where "ConnTypeL2PP \<equiv> ''l2pp''"
abbreviation ConnTypeL2MP :: string where "ConnTypeL2MP \<equiv> ''l2mp''"
abbreviation ConnTypeL3PP :: string where "ConnTypeL3PP \<equiv> ''l3pp''"
abbreviation ConnTypeL3MP :: string where "ConnTypeL3MP \<equiv> ''l3mp''"
abbreviation OperStatusUp :: string where "OperStatusUp \<equiv> ''OperUp''"
abbreviation OperStatusDown :: string where "OperStatusDown \<equiv> ''OperDown''"
abbreviation NetworkNodeOverlayTypeMesh :: string where "NetworkNodeOverlayTypeMesh \<equiv> ''mesh''"
abbreviation NetworkNodeOverlayTypeHubAndSpoke :: string where
  "NetworkNodeOverlayTypeHubAndSpoke \<equiv> ''hub_and_spoke''"
abbreviation NetworkNodeOverlayConnectionTypeVxlan :: string where
  "NetworkNodeOverlayConnectionTypeVxlan \<equiv> ''vxlan''"
abbreviation IPAMPoolScopeAny :: string where "IPAMPoolScopeAny \<equiv> ''any''"
abbreviation IPAMPoolScopeSystem :: string where "IPAMPoolScopeSystem \<equiv> ''system''"
abbreviation IPAMPoolScopeNode :: string where "IPAMPoolScopeNode \<equiv> ''node''"
abbreviation IPAMPoolScopeNetworkService :: string where "IPAMPoolScopeNetworkService \<equiv> ''network_service''"
abbreviation LinuxNamespacePID :: string where "LinuxNamespacePID \<equiv> ''pid''"
abbreviation LinuxNamespaceMICROSERVICE :: string where "LinuxNamespaceMICROSERVICE \<equiv> ''microservice''"
abbreviation LinuxNamespaceNAMED :: string where "LinuxNamespaceNAMED \<equiv> ''named''"
abbreviation LinuxNamespaceFILE :: string where "LinuxNamespaceFILE \<equiv> ''file''"

section \<open>Messages\<close>

record MetaDataType =
  md_Name :: string
  md_Labels :: "string gomap"

record L3VRFRoute =
  vr_VrfId :: u32
  vr_Description :: string
  vr_DstIpAddr :: string
  vr_NextHopAddr :: string
  vr_OutgoingInterface :: string
  vr_Weight :: u32
  vr_Preference :: u32

record L3ArpEntry =
  arp_IpAddress :: string
  arp_PhysAddress :: string
  arp_OutgoingInterface :: string

record L2FIBEntry =
  fib_DestMacAddress :: string
  fib_BdName :: string
  fib_OutgoingIf :: string
  fib_Action :: string
  fib_Bvi :: bool

record BDParms =
  bdp_Name :: string
  bdp_Flood :: bool
  bdp_UnknownUnicastFlood :: bool
  bdp_Forward :: bool
  bdp_Learn :: bool
  bdp_ArpTermination :: bool
  bdp_MacAgeMinutes :: u32

record L2BD =
  l2bd_Name :: string
  l2bd_BdParms :: "BDParms option"
  l2bd_L2BdTemplate :: string

record IPAMPoolStatus =
  ipst_Addresses :: "string gomap option"

record IPAMPoolSpec =
  ips_Scope :: string
  ips_Network :: string
  ips_StartRange :: u32
  ips_EndRange :: u32

record IPAMPool =
  ipp_Metadata :: "MetaDataType option"
  ipp_Spec :: "IPAMPoolSpec option"
  ipp_Status :: "IPAMPoolStatus option"

record SystemParameters =
  sp_Mtu :: u32
  sp_MemifDirectory :: string
  sp_DefaultStaticRouteWeight :: u32
  sp_DefaultStaticRoutePreference :: u32
  sp_L2BdTemplates :: "BDParms list"
  sp_RxMode :: string
  sp_MinVrfId :: u32

record NetworkPodToNodeMap =
  pnm_Pod :: string
  pnm_Node :: string

record RenderedVppAgentEntry =
  rve_VppAgentKey :: string
  rve_VppAgentType :: string

record InterfaceStatus =
  ist_Name :: string
  ist_Status :: string
  ist_Msg :: "string list"
  ist_MacAddress :: string
  ist_MacAddrID :: u32
  ist_IpamPoolNums :: "u32 gomap option"
  ist_IpAddresses :: "string list"
  ist_MemifID :: u32
  ist_Node :: string
  ist_HostPortLabel :: string
  ist_Vni :: u32
  ist_NnoName :: string

record Interface_MemIFParms =
  mp_Mode :: string
  mp_MemifDirectory :: string
  mp_Secret :: string
  mp_RingSize :: string
  mp_BufferSize :: string
  mp_RxQueues :: string
  mp_TxQueues :: string

record Interface_TapParms =
  tp_Namespace :: string
  tp_RxRingSize :: string
  tp_TxRingSize :: string

record Interface_Forwarding =
  fwd_L3VrfRoute :: "L3VRFRoute list"
  fwd_L3Arp :: "L3ArpEntry list"
  fwd_L2Fib :: "L2FIBEntry list"

record Interface_LinuxNamespace =
  lns_Type :: string
  lns_Pid :: u32
  lns_Microservice :: string
  lns_Name :: string
  lns_Filepath :: string

record Interface_RxPlacementSettings =
  rxp_Queue :: u32
  rxp_Worker :: u32
  rxp_IsMain :: bool

record Interface =
  if_Name :: string
  if_BypassRenderer :: bool
  if_IfType :: string
  if_MacAddress :: string
  if_Mtu :: u32
  if_RxMode :: string
  if_IpAddresses :: "string list"
  if_IpamPoolNames :: "string list"
  if_AdminStatus :: string
  if_MemifParms :: "Interface_MemIFParms option"
  if_TapParms :: "Interface_TapParms option"
  if_Labels :: "string list"
  if_Parent :: string
  if_HostPortLabel :: string
  if_Fwd :: "Interface_Forwarding option"
  if_LinuxNamespace :: "Interface_LinuxNamespace option"
  if_RxPlacementSettings :: "Interface_RxPlacementSettings option"

record NetworkPodSpec =
  pod_PodType :: string
  pod_Interfaces :: "Interface list"
  pod_L2Bds :: "L2BD list"

record NetworkPod =
  pod_Metadata :: "MetaDataType option"
  pod_Spec :: "NetworkPodSpec option"

record Connection =
  conn_Name :: string
  conn_ConnType :: string
  conn_NetworkNodeOverlayName :: string
  conn_PodInterfaces :: "string list"
  conn_NodeInterfaces :: "string list"
  conn_NodeInterfaceLabels :: "string list"
  conn_UseNodeL2Bd :: string
  conn_L2Bd :: "L2BD option"
  conn_VrfId :: u32
  conn_ConnMethod :: string

record NetworkServiceStatus =
  nss_OperStatus :: string
  nss_Msg :: "string list"
  nss_RenderedVppAgentEntries :: "RenderedVppAgentEntry gomap option"
  nss_Interfaces :: "InterfaceStatus gomap option"

record NetworkServiceSpec =
  nsp_NetworkPods :: "NetworkPod list"
  nsp_Connections :: "Connection list"

record NetworkService =
  ns_Metadata :: "MetaDataType option"
  ns_Spec :: "NetworkServiceSpec option"
  ns_Status :: "NetworkServiceStatus option"

record NetworkNodeOverlayStatus =
  nos_Status :: string
  nos_Msg :: "string list"
  nos_RenderedVppAgentEntries :: "RenderedVppAgentEntry gomap option"

record VxlanHubAndSpokeParms =
  hs_HubNodeName :: string
  hs_Vni :: u32
  hs_LoopbackIpamPoolName :: string
  hs_CreateLoopbackInterface :: bool
  hs_CreateLoopbackStaticRoutes :: bool
  hs_NetworkNodeInterfaceLabel :: string

record VxlanMeshParms =
  vm_VniRangeStart :: u32
  vm_VniRangeEnd :: u32
  vm_LoopbackIpamPoolName :: string
  vm_CreateLoopbackInterface :: bool
  vm_CreateLoopbackStaticRoutes :: bool
  vm_NetworkNodeInterfaceLabel :: string

record NetworkNodeOverlaySpec =
  nno_ServiceMeshType :: string
  nno_ConnectionType :: string
  nno_VxlanHubAndSpokeParms :: "VxlanHubAndSpokeParms option"
  nno_VxlanMeshParms :: "VxlanMeshParms option"

record NetworkNodeOverlay =
  nno_Metadata :: "MetaDataType option"
  nno_Spec :: "NetworkNodeOverlaySpec option"
  nno_Status :: "NetworkNodeOverlayStatus option"

record NetworkNodeSpec =
  nn_K8SNodeName :: string
  nn_NodeType :: string
  nn_Interfaces :: "Interface list"
  nn_L2Bds :: "L2BD list"

record NetworkNodeStatus =
  nst_Status :: string
  nst_Msg :: "string list"
  nst_RenderedVppAgentEntries :: "RenderedVppAgentEntry gomap option"
  nst_Interfaces :: "InterfaceStatus gomap option"

record NetworkNode =
  nn_Metadata :: "MetaDataType option"
  nn_Spec :: "NetworkNodeSpec option"
  nn_Status :: "NetworkNodeStatus option"

section \<open>Key prefixes\<close>

definition SfcControllerPrefix :: string where
  "SfcControllerPrefix = ''/sfc-controller''"

definition SfcControllerConfigPrefix :: string where
  "SfcControllerConfigPrefix = SfcControllerPrefix @ ''/v2/config/''"

definition SfcControllerStatusPrefix :: string where
  "SfcControllerStatusPrefix = SfcControllerPrefix @ ''/v2/status/''"

definition SfcControllerContivKSRPrefix :: string where
  "SfcControllerContivKSRPrefix = ''/vnf-agent/contiv-ksr''"

section \<open>Comparison\<close>

text \<open>Two metadata sections print the same text, in which the labels are sorted by key.\<close>

definition metadataEqual :: "MetaDataType option \<Rightarrow> MetaDataType option \<Rightarrow> bool" where
  "metadataEqual md md2 \<longleftrightarrow>
    (case (md, md2) of
       (Some m, Some m2) \<Rightarrow> md_Name m = md_Name m2
         \<and> (\<forall>k \<in> set (gkeys (md_Labels m) @ gkeys (md_Labels m2)).
              map_of (md_Labels m) k = map_of (md_Labels m2) k)
     | (None, None) \<Rightarrow> True
     | _ \<Rightarrow> False)"

end
