(* ===== verification/VppAgent.thy ===== *)
theory VppAgent
  imports Model
begin

text \<open>
  Package \<open>plugins/controller/vppagent\<close>: the etcd keys of \<open>keys.go\<close>, the key/value entries of
  \<open>database.go\<close> (\<open>KVType\<close> and \<open>Equal\<close>), and the constructors of \<open>vpp_agent.go\<close>.  The messages of
  the vendored vpp-agent models are records with the fields the controller sets.  Comparing the
  text of two protobuf messages is comparing their fields.  A bridge domain is held by value;
  where \<open>AppendInterfacesToL2BD\<close> changes the caller's bridge domain, the changed value is part of
  the result.
\<close>

section \<open>Messages of the vpp-agent models\<close>

datatype InterfaceType = SOFTWARE_LOOPBACK | ETHERNET_CSMACD | MEMORY_INTERFACE | TAP_INTERFACE
  | AF_PACKET_INTERFACE | VXLAN_TUNNEL

datatype RxModeType = UNKNOWN | POLLING | INTERRUPT | ADAPTIVE | DEFAULT

datatype MemifMode = MEMIF_ETHERNET | MEMIF_IP | MEMIF_PUNT_INJECT

record Memif =
  mf_Master :: bool
  mf_Mode :: MemifMode
  mf_Id :: u32
  mf_SocketFilename :: string
  mf_Secret :: string
  mf_RingSize :: u32
  mf_BufferSize :: u32
  mf_RxQueues :: u32
  mf_TxQueues :: u32

record Vxlan =
  vx_SrcAddress :: string
  vx_DstAddress :: string
  vx_Vni :: u32

record Tap =
  tap_HostIfName :: string
  tap_Version :: u32
  tap_Namespace :: string
  tap_RxRingSize :: u32
  tap_TxRingSize :: u32

record Interfaces_Interface =
  vif_Name :: string
  vif_Type :: InterfaceType
  vif_Enabled :: bool
  vif_PhysAddress :: string
  vif_Mtu :: u32
  vif_IpAddresses :: "string list"
  vif_RxModeSettings :: "RxModeType option"
  vif_Memif :: "Memif option"
  vif_Vxlan :: "Vxlan option"
  vif_Afpacket :: "string option"
  vif_Tap :: "Tap option"
  vif_Vrf :: u32

record BDInterface =
  bdi_Name :: string
  bdi_BridgedVirtualInterface :: bool
  bdi_SplitHorizonGroup :: u32

record BridgeDomain =
  bd_Name :: string
  bd_Flood :: bool
  bd_UnknownUnicastFlood :: bool
  bd_Forward :: bool
  bd_Learn :: bool
  bd_ArpTermination :: bool
  bd_MacAge :: u32
  bd_Interfaces :: "BDInterface list"

record StaticRoute =
  sr_VrfId :: u32
  sr_Description :: string
  sr_DstIpAddr :: string
  sr_NextHopAddr :: string
  sr_OutgoingInterface :: string
  sr_Weight :: u32
  sr_Preference :: u32

record XConnectPair =
  xc_ReceiveInterface :: string
  xc_TransmitInterface :: string

record ArpEntry =
  arpe_Interface :: string
  arpe_IpAddress :: string
  arpe_PhysAddress :: string
  arpe_Static :: bool

datatype LinuxInterfaceType = VETH | AUTO_TAP

datatype NamespaceType = PID_REF_NS | MICROSERVICE_REF_NS | NAMED_NS | FILE_REF_NS

record Namespace =
  nsp_Type :: NamespaceType
  nsp_Pid :: u32
  nsp_Microservice :: string
  nsp_Name :: string
  nsp_Filepath :: string

record LinuxInterface =
  lif_Name :: string
  lif_Type :: LinuxInterfaceType
  lif_Enabled :: bool
  lif_PhysAddress :: string
  lif_Mtu :: u32
  lif_IpAddresses :: "string list"
  lif_HostIfName :: string
  lif_Namespace :: "Namespace option"
  lif_Veth :: "string option"

section \<open>keys.go\<close>

definition agentPrefix :: string where
  "agentPrefix = ''/vnf-agent/''"

definition GetVppEtcdlabel :: "string \<Rightarrow> string" where
  "GetVppEtcdlabel key =
    (let strs = strSplit CHR ''/'' key in if length strs < 3 then '''' else strs ! 2)"

definition InterfaceStateKey :: "string \<Rightarrow> string \<Rightarrow> string" where
  "InterfaceStateKey vppLabel ifaceLabel =
    agentPrefix @ vppLabel @ ''/'' @ ''vpp/status/v1/interface/'' @ ifaceLabel"

definition InterfaceStatePrefixKey :: "string \<Rightarrow> string" where
  "InterfaceStatePrefixKey vppLabel = agentPrefix @ vppLabel @ ''/'' @ ''vpp/config/v1/interface/''"

definition InterfaceKey :: "string \<Rightarrow> string \<Rightarrow> string" where
  "InterfaceKey vppLabel ifaceLabel =
    agentPrefix @ vppLabel @ ''/'' @ ''vpp/config/v1/interface/'' @ ifaceLabel"

definition InterfacePrefixKey :: "string \<Rightarrow> string" where
  "InterfacePrefixKey vppLabel = agentPrefix @ vppLabel @ ''/'' @ ''vpp/config/v1/interface/''"

definition LinuxInterfaceKey :: "string \<Rightarrow> string \<Rightarrow> string" where
  "LinuxInterfaceKey vppLabel ifaceLabel =
    agentPrefix @ vppLabel @ ''/'' @ ''linux/config/v1/interface/'' @ ifaceLabel"

definition LinuxInterfacePrefixKey :: "string \<Rightarrow> string" where
  "LinuxInterfacePrefixKey vppLabel = agentPrefix @ vppLabel @ ''/'' @ ''linux/config/v1/interface/''"

definition L2BridgeDomainKey :: "string \<Rightarrow> string \<Rightarrow> string" where
  "L2BridgeDomainKey vppLabel bdName = agentPrefix @ vppLabel @ ''/'' @ ''vpp/config/v1/bd/'' @ bdName"

definition L2BridgeDomainKeyPrefix :: "string \<Rightarrow> string" where
  "L2BridgeDomainKeyPrefix vppLabel = agentPrefix @ vppLabel @ ''/'' @ ''vpp/config/v1/bd/''"

definition L2XConnectKey :: "string \<Rightarrow> string \<Rightarrow> string" where
  "L2XConnectKey vppLabel rxIf = agentPrefix @ vppLabel @ ''/'' @ ''vpp/config/v1/xconnect/'' @ rxIf"

definition L3RouteKeyPrefix :: "string \<Rightarrow> string" where
  "L3RouteKeyPrefix vppLabel = agentPrefix @ vppLabel @ ''/'' @ ''vpp/config/v1/vrf/''"

text \<open>\<open>l3.RouteKey\<close> parses the printed destination again; it panics when that fails.\<close>

definition RouteKey :: "u32 \<Rightarrow> string \<Rightarrow> string \<Rightarrow> string option" where
  "RouteKey vrf dstAddr nextHopAddr =
    (case ParseCIDR dstAddr of
       None \<Rightarrow> None
     | Some (_, dstNet) \<Rightarrow>
         Some (strReplace1 (strReplace1 (strReplace1 (strReplace1
           ''vpp/config/v1/vrf/{vrf}/fib/{net}/{mask}/{next-hop}''
           ''{vrf}'' (decU vrf)) ''{net}'' (IPString (net_IP dstNet)))
           ''{mask}'' (dec (maskSize (net_Mask dstNet)))) ''{next-hop}'' nextHopAddr))"

text \<open>A nil destination network is \<open>None\<close>; printing it panics.\<close>

definition L3RouteKey :: "string \<Rightarrow> u32 \<Rightarrow> ipnet option \<Rightarrow> string \<Rightarrow> string option" where
  "L3RouteKey vppLabel vrf destNet nextHop =
    do {
      n \<leftarrow> destNet;
      k \<leftarrow> RouteKey vrf (IPNetString n) nextHop;
      Some (agentPrefix @ vppLabel @ ''/'' @ k)
    }"

definition ArpEntryKey :: "string \<Rightarrow> string \<Rightarrow> string \<Rightarrow> string" where
  "ArpEntryKey vppLabel iface ipAddress =
    agentPrefix @ vppLabel @ ''/''
      @ strReplace1 (strReplace1 ''vpp/config/v1/arp/{if}/{ip}'' ''{if}'' iface) ''{ip}'' ipAddress"

section \<open>database.go\<close>

abbreviation VppEntryTypeInterface :: string where "VppEntryTypeInterface \<equiv> ''interface''"
abbreviation VppEntryTypeLinuxInterface :: string where "VppEntryTypeLinuxInterface \<equiv> ''linuxif''"
abbreviation VppEntryTypeL2BD :: string where "VppEntryTypeL2BD \<equiv> ''l2bd''"
abbreviation VppEntryTypeL3Route :: string where "VppEntryTypeL3Route \<equiv> ''l3vrf''"
abbreviation VppEntryTypeL2XC :: string where "VppEntryTypeL2XC \<equiv> ''l2xc''"
abbreviation VppEntryTypeArp :: string where "VppEntryTypeArp \<equiv> ''arp''"

record KVType =
  modelType :: string
  VppKey :: string
  VppEntryType :: string
  kv_IFace :: "Interfaces_Interface option"
  kv_L2BD :: "BridgeDomain option"
  kv_L3Route :: "StaticRoute option"
  kv_XConn :: "XConnectPair option"
  kv_LinuxIFace :: "LinuxInterface option"
  kv_ArpEntry :: "ArpEntry option"

definition NewKVEntry :: "string \<Rightarrow> string \<Rightarrow> KVType" where
  "NewKVEntry vppKey vppEntryType =
    \<lparr>modelType = '''', VppKey = vppKey, VppEntryType = vppEntryType, kv_IFace = None, kv_L2BD = None,
     kv_L3Route = None, kv_XConn = None, kv_LinuxIFace = None, kv_ArpEntry = None\<rparr>"

text \<open>\<open>None\<close> is the nil dereference of a route entry without a route.\<close>

definition Equal :: "KVType \<Rightarrow> KVType \<Rightarrow> bool option" where
  "Equal kv kv2 =
    (if VppEntryType kv \<noteq> VppEntryType kv2 then Some False
     else if VppKey kv \<noteq> VppKey kv2 then Some False
     else if VppEntryType kv = VppEntryTypeInterface then Some (kv_IFace kv = kv_IFace kv2)
     else if VppEntryType kv = VppEntryTypeL2BD then Some (kv_L2BD kv = kv_L2BD kv2)
     else if VppEntryType kv = VppEntryTypeL2XC then Some (kv_XConn kv = kv_XConn kv2)
     else if VppEntryType kv = VppEntryTypeLinuxInterface then Some (kv_LinuxIFace kv = kv_LinuxIFace kv2)
     else if VppEntryType kv = VppEntryTypeL3Route then
       do {
         r1 \<leftarrow> kv_L3Route kv;
         r2 \<leftarrow> kv_L3Route kv2;
         Some (r1\<lparr>sr_Description := ''''\<rparr> = r2\<lparr>sr_Description := ''''\<rparr>)
       }
     else if VppEntryType kv = VppEntryTypeArp then Some (kv_ArpEntry kv = kv_ArpEntry kv2)
     else Some False)"

section \<open>vpp\_agent.go\<close>

definition rxModeControllerToInterface :: "string \<Rightarrow> RxModeType option" where
  "rxModeControllerToInterface m =
    (if m = RxModePolling then Some POLLING
     else if m = RxModeInterrupt then Some INTERRUPT
     else if m = RxModeAdaptive then Some ADAPTIVE
     else None)"

definition adminStatusStringToBool :: "string \<Rightarrow> bool" where
  "adminStatusStringToBool adminStatusString =
    (if adminStatusString = IfAdminStatusDisabled then False else True)"

definition memifMode :: "string \<Rightarrow> MemifMode" where
  "memifMode modeString =
    (if modeString = IfMemifModeEhernet then MEMIF_ETHERNET
     else if modeString = IfMemifModeIP then MEMIF_IP
     else if modeString = IfMemifModePuntInject then MEMIF_PUNT_INJECT
     else MEMIF_ETHERNET)"

definition strToUInt32 :: "string \<Rightarrow> u32" where
  "strToUInt32 v = (case Atoi v of None \<Rightarrow> 0 | Some i \<Rightarrow> word_of_int i)"

text \<open>The common tail of the two insertion routines: \<open>append\<close> grows the slice by one element,
  \<open>copy\<close> shifts its tail up, the new element goes into the gap.\<close>

definition sliceInsert :: "'a list \<Rightarrow> nat \<Rightarrow> 'a \<Rightarrow> 'a \<Rightarrow> 'a list" where
  "sliceInsert data0 index x el =
    (let data1 = data0 @ [x];
         data2 = take (index + 1) data1 @ take (length data1 - (index + 1)) (drop index data1)
     in data2[index := el])"

definition insertSortBridgedInterface :: "BDInterface list \<Rightarrow> BDInterface \<Rightarrow> BDInterface list" where
  "insertSortBridgedInterface data0 el =
    (let index = sortSearch 0 (length data0) (\<lambda>i. bdi_Name (data0 ! i) > bdi_Name el)
     in sliceInsert data0 index
       \<lparr>bdi_Name = '''', bdi_BridgedVirtualInterface = False, bdi_SplitHorizonGroup = 0\<rparr> el)"

definition insertSortIPAddress :: "string list \<Rightarrow> string \<Rightarrow> string list" where
  "insertSortIPAddress data0 el =
    (let index = sortSearch 0 (length data0) (\<lambda>i. data0 ! i > el)
     in sliceInsert data0 index '''' el)"

definition sortedIPAddresses :: "string list \<Rightarrow> string list" where
  "sortedIPAddresses ipAddresses = foldl insertSortIPAddress [] ipAddresses"

definition ConstructL2BD :: "string \<Rightarrow> string \<Rightarrow> BDInterface list \<Rightarrow> BDParms \<Rightarrow> KVType" where
  "ConstructL2BD vppAgent bdName ifaces bdParms =
    (let sortedInterfaces = foldl insertSortBridgedInterface [] ifaces;
         l2bd = \<lparr>bd_Name = bdName, bd_Flood = bdp_Flood bdParms,
           bd_UnknownUnicastFlood = bdp_UnknownUnicastFlood bdParms,
           bd_Forward = bdp_Forward bdParms, bd_Learn = bdp_Learn bdParms,
           bd_ArpTermination = bdp_ArpTermination bdParms, bd_MacAge = bdp_MacAgeMinutes bdParms,
           bd_Interfaces = sortedInterfaces\<rparr>
     in (NewKVEntry (L2BridgeDomainKey vppAgent bdName) VppEntryTypeL2BD)\<lparr>kv_L2BD := Some l2bd\<rparr>)"

text \<open>The second component is the caller's bridge domain after the call.\<close>

definition AppendInterfacesToL2BD ::
  "string \<Rightarrow> BridgeDomain \<Rightarrow> BDInterface list \<Rightarrow> KVType \<times> BridgeDomain" where
  "AppendInterfacesToL2BD vppAgent l2bd ifaces =
    (let sortedInterfaces = foldl insertSortBridgedInterface (bd_Interfaces l2bd) ifaces;
         l2bd' = l2bd\<lparr>bd_Interfaces := sortedInterfaces\<rparr>
     in ((NewKVEntry (L2BridgeDomainKey vppAgent (bd_Name l2bd')) VppEntryTypeL2BD)\<lparr>kv_L2BD := Some l2bd'\<rparr>,
         l2bd'))"

definition newInterface :: "string \<Rightarrow> InterfaceType \<Rightarrow> Interfaces_Interface" where
  "newInterface ifname t =
    \<lparr>vif_Name = ifname, vif_Type = t, vif_Enabled = False, vif_PhysAddress = '''', vif_Mtu = 0,
     vif_IpAddresses = [], vif_RxModeSettings = None, vif_Memif = None, vif_Vxlan = None,
     vif_Afpacket = None, vif_Tap = None, vif_Vrf = 0\<rparr>"

definition interfaceKV :: "string \<Rightarrow> Interfaces_Interface \<Rightarrow> KVType" where
  "interfaceKV vppAgent iface =
    (NewKVEntry (InterfaceKey vppAgent (vif_Name iface)) VppEntryTypeInterface)\<lparr>kv_IFace := Some iface\<rparr>"

definition ConstructEthernetInterface ::
  "string \<Rightarrow> string \<Rightarrow> string list \<Rightarrow> string \<Rightarrow> u32 \<Rightarrow> string \<Rightarrow> string \<Rightarrow> KVType" where
  "ConstructEthernetInterface vppAgent ifname ipAddresses macAddr mtu adminStatus rxMode =
    interfaceKV vppAgent ((newInterface ifname ETHERNET_CSMACD)
      \<lparr>vif_Enabled := adminStatusStringToBool adminStatus, vif_PhysAddress := macAddr,
       vif_IpAddresses := sortedIPAddresses ipAddresses, vif_Mtu := mtu,
       vif_RxModeSettings := rxModeControllerToInterface rxMode\<rparr>)"

definition ConstructLoopbackInterface ::
  "string \<Rightarrow> string \<Rightarrow> string list \<Rightarrow> string \<Rightarrow> u32 \<Rightarrow> string \<Rightarrow> string \<Rightarrow> KVType" where
  "ConstructLoopbackInterface vppAgent ifname ipAddresses macAddr mtu adminStatus rxMode =
    interfaceKV vppAgent ((newInterface ifname SOFTWARE_LOOPBACK)
      \<lparr>vif_Enabled := adminStatusStringToBool adminStatus, vif_PhysAddress := macAddr,
       vif_IpAddresses := sortedIPAddresses ipAddresses, vif_Mtu := mtu,
       vif_RxModeSettings := rxModeControllerToInterface rxMode\<rparr>)"

text \<open>The parameters of the memif section that override the defaults of the memif.\<close>

definition applyMemifParms :: "Interface_MemIFParms \<Rightarrow> Memif \<Rightarrow> Memif" where
  "applyMemifParms parms m =
    (let m1 = (if mp_Mode parms \<noteq> '''' then m\<lparr>mf_Mode := memifMode (mp_Mode parms)\<rparr> else m);
         m2 = (if mp_RingSize parms \<noteq> '''' then m1\<lparr>mf_RingSize := strToUInt32 (mp_RingSize parms)\<rparr> else m1);
         m3 = (if mp_BufferSize parms \<noteq> '''' then m2\<lparr>mf_BufferSize := strToUInt32 (mp_BufferSize parms)\<rparr> else m2);
         m4 = (if mp_RxQueues parms \<noteq> '''' then m3\<lparr>mf_RxQueues := strToUInt32 (mp_RxQueues parms)\<rparr> else m3);
         m5 = (if mp_TxQueues parms \<noteq> '''' then m4\<lparr>mf_TxQueues := strToUInt32 (mp_TxQueues parms)\<rparr> else m4)
     in m5\<lparr>mf_Secret := mp_Secret parms\<rparr>)"

definition ConstructMemInterface ::
  "string \<Rightarrow> string \<Rightarrow> string list \<Rightarrow> string \<Rightarrow> u32 \<Rightarrow> string \<Rightarrow> string \<Rightarrow> u32 \<Rightarrow> bool
    \<Rightarrow> Interface_MemIFParms option \<Rightarrow> string \<Rightarrow> string \<Rightarrow> KVType" where
  "ConstructMemInterface vppAgent ifname ipAddresses macAddr mtu adminStatus rxMode memifID isMaster
      memifParms defaultMemifDirectory masterVppAgent =
    (let memif0 = \<lparr>mf_Master = isMaster, mf_Mode = MEMIF_ETHERNET, mf_Id = memifID,
           mf_SocketFilename = '''', mf_Secret = '''', mf_RingSize = 0, mf_BufferSize = 0,
           mf_RxQueues = 0, mf_TxQueues = 0\<rparr>;
         memif1 = (case memifParms of None \<Rightarrow> memif0 | Some parms \<Rightarrow> applyMemifParms parms memif0);
         dir1 = (case memifParms of
             Some parms \<Rightarrow> if mp_MemifDirectory parms \<noteq> '''' then mp_MemifDirectory parms
               else defaultMemifDirectory
           | None \<Rightarrow> defaultMemifDirectory);
         dir2 = (if dir1 = '''' then MemifDirectoryName else dir1);
         memif2 = memif1\<lparr>mf_SocketFilename := dir2 @ ''/memif_'' @ masterVppAgent @ ''.sock''\<rparr>
     in interfaceKV vppAgent ((newInterface ifname MEMORY_INTERFACE)
          \<lparr>vif_Enabled := adminStatusStringToBool adminStatus, vif_PhysAddress := macAddr,
           vif_IpAddresses := sortedIPAddresses ipAddresses, vif_Mtu := mtu,
           vif_Memif := Some memif2, vif_RxModeSettings := rxModeControllerToInterface rxMode\<rparr>))"

definition StripSlashAndSubnetIPAddress :: "string \<Rightarrow> string" where
  "StripSlashAndSubnetIPAddress ipAndSubnetStr = hd (strSplit CHR ''/'' ipAndSubnetStr)"

definition ConstructVxlanInterface :: "string \<Rightarrow> string \<Rightarrow> u32 \<Rightarrow> string \<Rightarrow> string \<Rightarrow> KVType" where
  "ConstructVxlanInterface vppAgent ifname vni ep1IPAddress ep2IPAddress =
    interfaceKV vppAgent ((newInterface ifname VXLAN_TUNNEL)
      \<lparr>vif_Enabled := True,
       vif_Vxlan := Some \<lparr>vx_SrcAddress = StripSlashAndSubnetIPAddress ep1IPAddress,
         vx_DstAddress = StripSlashAndSubnetIPAddress ep2IPAddress, vx_Vni = vni\<rparr>\<rparr>)"

definition constructUniDirXConnect :: "string \<Rightarrow> string \<Rightarrow> string \<Rightarrow> KVType" where
  "constructUniDirXConnect vppAgent if1 if2 =
    (NewKVEntry (L2XConnectKey vppAgent if1) VppEntryTypeL2XC)
      \<lparr>kv_XConn := Some \<lparr>xc_ReceiveInterface = if1, xc_TransmitInterface = if2\<rparr>\<rparr>"

definition ConstructXConnect :: "string \<Rightarrow> string \<Rightarrow> string \<Rightarrow> KVType list" where
  "ConstructXConnect vppAgent if1 if2 =
    [constructUniDirXConnect vppAgent if1 if2, constructUniDirXConnect vppAgent if2 if1]"

definition ConstructTapInterface ::
  "string \<Rightarrow> string \<Rightarrow> string list \<Rightarrow> string \<Rightarrow> u32 \<Rightarrow> string \<Rightarrow> string
    \<Rightarrow> Interface_TapParms option \<Rightarrow> string \<Rightarrow> KVType" where
  "ConstructTapInterface vppAgent ifname ipAddresses macAddr mtu adminStatus rxMode tapParms hostIfName =
    (let tap0 = \<lparr>tap_HostIfName = hostIfName, tap_Version = 2, tap_Namespace = '''',
           tap_RxRingSize = 0, tap_TxRingSize = 0\<rparr>;
         tap1 = (case tapParms of
             None \<Rightarrow> tap0
           | Some parms \<Rightarrow>
               let t1 = tap0\<lparr>tap_Namespace := tp_Namespace parms\<rparr>;
                   t2 = (if tp_RxRingSize parms \<noteq> '''' then t1\<lparr>tap_RxRingSize := strToUInt32 (tp_RxRingSize parms)\<rparr> else t1)
               in if tp_TxRingSize parms \<noteq> '''' then t2\<lparr>tap_TxRingSize := strToUInt32 (tp_TxRingSize parms)\<rparr> else t2)
     in interfaceKV vppAgent ((newInterface ifname TAP_INTERFACE)
          \<lparr>vif_Enabled := adminStatusStringToBool adminStatus, vif_PhysAddress := macAddr,
           vif_IpAddresses := sortedIPAddresses ipAddresses, vif_Mtu := mtu,
           vif_Tap := Some tap1, vif_RxModeSettings := rxModeControllerToInterface rxMode\<rparr>))"

definition emptyNamespace :: Namespace where
  "emptyNamespace = \<lparr>nsp_Type = PID_REF_NS, nsp_Pid = 0, nsp_Microservice = '''', nsp_Name = '''',
    nsp_Filepath = ''''\<rparr>"

definition linuxInterfaceKV :: "string \<Rightarrow> LinuxInterface \<Rightarrow> KVType" where
  "linuxInterfaceKV vppAgent iface =
    (NewKVEntry (LinuxInterfaceKey vppAgent (lif_Name iface)) VppEntryTypeLinuxInterface)
      \<lparr>kv_LinuxIFace := Some iface\<rparr>"

definition ConstructLinuxTapInterface ::
  "string \<Rightarrow> string \<Rightarrow> string list \<Rightarrow> string \<Rightarrow> u32 \<Rightarrow> string \<Rightarrow> string \<Rightarrow> string \<Rightarrow> string \<Rightarrow> KVType" where
  "ConstructLinuxTapInterface vppAgent ifname ipAddresses macAddr mtu adminStatus hostIfName
      hostNameSpace microsServiceLabel =
    (let ns = (if hostNameSpace = ''''
           then emptyNamespace\<lparr>nsp_Type := MICROSERVICE_REF_NS, nsp_Microservice := microsServiceLabel\<rparr>
           else emptyNamespace\<lparr>nsp_Type := NAMED_NS, nsp_Microservice := hostNameSpace\<rparr>)
     in linuxInterfaceKV vppAgent
          \<lparr>lif_Name = ifname, lif_Type = AUTO_TAP, lif_Enabled = adminStatusStringToBool adminStatus,
           lif_PhysAddress = macAddr, lif_Mtu = mtu, lif_IpAddresses = sortedIPAddresses ipAddresses,
           lif_HostIfName = hostIfName, lif_Namespace = Some ns, lif_Veth = None\<rparr>)"

definition ConstructAFPacketInterface ::
  "string \<Rightarrow> string \<Rightarrow> string list \<Rightarrow> string \<Rightarrow> u32 \<Rightarrow> string \<Rightarrow> string \<Rightarrow> string \<Rightarrow> KVType" where
  "ConstructAFPacketInterface vppAgent ifname ipAddresses macAddr mtu adminStatus rxMode hostIfName =
    interfaceKV vppAgent ((newInterface ifname AF_PACKET_INTERFACE)
      \<lparr>vif_Enabled := adminStatusStringToBool adminStatus, vif_PhysAddress := macAddr,
       vif_IpAddresses := sortedIPAddresses ipAddresses, vif_Mtu := mtu,
       vif_Afpacket := Some hostIfName, vif_RxModeSettings := rxModeControllerToInterface rxMode\<rparr>)"

definition ConstructVEthInterface ::
  "string \<Rightarrow> string \<Rightarrow> string list \<Rightarrow> string \<Rightarrow> u32 \<Rightarrow> string \<Rightarrow> string \<Rightarrow> string
    \<Rightarrow> Interface_LinuxNamespace option \<Rightarrow> string \<Rightarrow> KVType" where
  "ConstructVEthInterface vppAgent ifname ipAddresses macAddr mtu adminStatus hostIfName peerIfName
      linuxNamespace vnfName =
    (let ns = (case linuxNamespace of
           None \<Rightarrow> emptyNamespace\<lparr>nsp_Type := MICROSERVICE_REF_NS, nsp_Microservice := vnfName\<rparr>
         | Some l \<Rightarrow>
             if lns_Type l = LinuxNamespaceMICROSERVICE
             then emptyNamespace\<lparr>nsp_Type := MICROSERVICE_REF_NS, nsp_Microservice := lns_Microservice l\<rparr>
             else if lns_Type l = LinuxNamespaceNAMED
             then emptyNamespace\<lparr>nsp_Type := NAMED_NS, nsp_Name := lns_Name l\<rparr>
             else if lns_Type l = LinuxNamespacePID
             then emptyNamespace\<lparr>nsp_Type := PID_REF_NS, nsp_Pid := lns_Pid l\<rparr>
             else if lns_Type l = LinuxNamespaceFILE
             then emptyNamespace\<lparr>nsp_Type := FILE_REF_NS, nsp_Filepath := lns_Filepath l\<rparr>
             else emptyNamespace)
     in linuxInterfaceKV vppAgent
          \<lparr>lif_Name = ifname, lif_Type = VETH, lif_Enabled = adminStatusStringToBool adminStatus,
           lif_PhysAddress = macAddr, lif_Mtu = mtu, lif_IpAddresses = sortedIPAddresses ipAddresses,
           lif_HostIfName = hostIfName, lif_Namespace = Some ns, lif_Veth = Some peerIfName\<rparr>)"

text \<open>\<open>addrs.ParseIPWithPrefix\<close>, without its second and third result, which the caller drops.\<close>

definition ParseIPWithPrefix :: "string \<Rightarrow> ipnet option" where
  "ParseIPWithPrefix input =
    (if CHR ''/'' \<in> set input then
       (case ParseCIDR input of
          None \<Rightarrow> None
        | Some (ip, network) \<Rightarrow> Some (network\<lparr>net_IP := ip\<rparr>))
     else
       (case ParseIP input of
          None \<Rightarrow> None
        | Some ip \<Rightarrow>
            Some \<lparr>net_IP = ip, net_Mask = (if To4 ip = None then CIDRMask 128 128 else CIDRMask 32 32)\<rparr>))"

definition ConstructStaticRoute :: "string \<Rightarrow> L3VRFRoute \<Rightarrow> KVType option" where
  "ConstructStaticRoute vppAgent l3sr =
    (let sr = \<lparr>sr_VrfId = vr_VrfId l3sr, sr_Description = vr_Description l3sr,
           sr_DstIpAddr = vr_DstIpAddr l3sr,
           sr_NextHopAddr = StripSlashAndSubnetIPAddress (vr_NextHopAddr l3sr),
           sr_OutgoingInterface = vr_OutgoingInterface l3sr, sr_Weight = vr_Weight l3sr,
           sr_Preference = vr_Preference l3sr\<rparr>
     in do {
          key \<leftarrow> L3RouteKey vppAgent (sr_VrfId sr) (ParseIPWithPrefix (sr_DstIpAddr sr)) (sr_NextHopAddr sr);
          Some ((NewKVEntry key VppEntryTypeL3Route)\<lparr>kv_L3Route := Some sr\<rparr>)
        })"

definition ConstructStaticArpEntry :: "string \<Rightarrow> L3ArpEntry \<Rightarrow> KVType" where
  "ConstructStaticArpEntry vppAgent l3ae =
    (let ae = \<lparr>arpe_Interface = arp_OutgoingInterface l3ae, arpe_IpAddress = arp_IpAddress l3ae,
           arpe_PhysAddress = arp_PhysAddress l3ae, arpe_Static = True\<rparr>
     in (NewKVEntry (ArpEntryKey vppAgent (arpe_Interface ae) (arpe_PhysAddress ae)) VppEntryTypeArp)
          \<lparr>kv_ArpEntry := Some ae\<rparr>)"

section \<open>Sorted insertion\<close>

text \<open>The contract the two insertion routines share: on data sorted by a key, the new element goes
  after all elements whose key is not greater.\<close>

locale sorted_insert =
  fixes ins :: "'a list \<Rightarrow> 'a \<Rightarrow> 'a list" and key :: "'a \<Rightarrow> 'k :: linorder"
  assumes ins_sorted: "sorted (map key d) \<Longrightarrow>
    ins d el = takeWhile (\<lambda>x. key x \<le> key el) d @ el # dropWhile (\<lambda>x. key x \<le> key el) d"
begin

lemma dropWhile_greater:
  "sorted (map key d) \<Longrightarrow> x \<in> set (dropWhile (\<lambda>x. key x \<le> k) d) \<Longrightarrow> k < key x"
  by (induction d) (auto split: if_splits)

lemma ins_sort_key: "ins (sort_key key ys) x = sort_key key (ys @ [x])"
proof (rule sym, rule properties_for_sort_key)
  let ?d = "sort_key key ys"
  note eq = ins_sorted [OF sorted_sort_key, of ys x]
  show "mset (ins ?d x) = mset (ys @ [x])"
  proof -
    have "mset ?d = mset (takeWhile (\<lambda>y. key y \<le> key x) ?d) + mset (dropWhile (\<lambda>y. key y \<le> key x) ?d)"
      by (simp only: takeWhile_dropWhile_id flip: mset_append)
    then show ?thesis unfolding eq by simp
  qed
  show "filter (\<lambda>y. key k = key y) (ins ?d x) = filter (\<lambda>y. key k = key y) (ys @ [x])" for k
  proof -
    have "filter (\<lambda>y. key k = key y) ?d = filter (\<lambda>y. key k = key y) ys"
      using sort_key_stable [of key "key k" ys] by (simp add: eq_commute [of "key k"])
    moreover have "filter (\<lambda>y. key k = key y) (dropWhile (\<lambda>y. key y \<le> key x) ?d) = []" if "key k = key x"
      using dropWhile_greater [OF sorted_sort_key, of _ "key x" ys] that by (fastforce simp: filter_empty_conv)
    moreover have "filter (\<lambda>y. key k = key y) ?d = filter (\<lambda>y. key k = key y) (takeWhile (\<lambda>y. key y \<le> key x) ?d)
        @ filter (\<lambda>y. key k = key y) (dropWhile (\<lambda>y. key y \<le> key x) ?d)"
      by (simp flip: filter_append)
    ultimately show ?thesis unfolding eq by (cases "key k = key x") auto
  qed
  show "sorted (map key (ins ?d x))"
  proof -
    have tw: "sorted (map key (takeWhile (\<lambda>y. key y \<le> key x) ?d))"
      using sorted_sort_key [of key ys] by (metis map_append sorted_append takeWhile_dropWhile_id)
    have dw: "sorted (map key (dropWhile (\<lambda>y. key y \<le> key x) ?d))"
      using sorted_sort_key [of key ys] by (metis map_append sorted_append takeWhile_dropWhile_id)
    show ?thesis
      unfolding eq using tw dw dropWhile_greater [OF sorted_sort_key, of _ "key x" ys]
      by (fastforce simp: sorted_append dest: set_takeWhileD)
  qed
qed

lemma foldl_ins: "foldl ins (sort_key key ys) xs = sort_key key (ys @ xs)"
proof (induction xs arbitrary: ys)
  case (Cons x xs)
  then show ?case using ins_sort_key [of ys x] Cons.IH [of "ys @ [x]"] by simp
qed simp

lemma foldl_ins_Nil: "foldl ins [] xs = sort_key key xs"
  using foldl_ins [of "[]" xs] by simp

lemma foldl_ins_sorted: "sorted (map key ys) \<Longrightarrow> foldl ins ys xs = sort_key key (ys @ xs)"
  using foldl_ins [of ys xs] by (simp add: sorted_sort_id sort_key_id_if_sorted)

end

lemma sliceInsert_conv:
  "index \<le> length d \<Longrightarrow> sliceInsert d index x el = take index d @ el # drop index d"
proof -
  assume le: "index \<le> length d"
  have "take (index + 1) (d @ [x]) = take index d @ [(d @ [x]) ! index]"
    using le take_Suc_conv_app_nth [of index "d @ [x]"] by simp
  moreover have "take (length d - index) (drop index (d @ [x])) = drop index d"
    using le by simp
  ultimately show ?thesis
    using le by (simp add: sliceInsert_def Let_def list_update_append)
qed

text \<open>On sorted data the binary search finds the end of the elements that are not greater.\<close>

lemma sortSearch_sorted:
  fixes key :: "'a \<Rightarrow> 'k :: linorder"
  assumes "sorted (map key d)"
  shows "sortSearch 0 (length d) (\<lambda>i. key (d ! i) > k) = length (takeWhile (\<lambda>x. key x \<le> k) d)"
    (is "?i = ?n")
proof -
  let ?f = "\<lambda>i. key (d ! i) > k"
  have mono: "?f b" if "a \<le> b" "b < length d" "?f a" for a b
  proof -
    have "map key d ! a \<le> map key d ! b"
      using sorted_nth_mono [OF assms that(1)] that(2) by simp
    then show ?thesis using that by simp
  qed
  have s: "?i \<le> length d \<and> (\<forall>j < ?i. \<not> ?f j) \<and> (?i < length d \<longrightarrow> ?f ?i)"
    using sortSearch_least [of 0 "length d" ?f, OF le0] mono by blast
  have n: "?n \<le> length d" by (rule length_takeWhile_le)
  have tw: "\<not> ?f j" if "j < ?n" for j
    using set_takeWhileD [OF nth_mem [OF that]] takeWhile_nth [OF that] by (simp add: not_less)
  have nn: "?f ?n" if "?n < length d" using nth_length_takeWhile [OF that] by (simp add: not_le)
  have "\<not> ?n < ?i"
  proof
    assume lt: "?n < ?i"
    then have "?f ?n" using nn s by linarith
    then show False using s lt by blast
  qed
  moreover have "\<not> ?i < ?n"
  proof
    assume lt: "?i < ?n"
    then have "?f ?i" using s n by linarith
    then show False using tw [OF lt] by blast
  qed
  ultimately show ?thesis by simp
qed

lemma sliceInsert_sorted:
  assumes "sorted (map key d)"
  shows "sliceInsert d (sortSearch 0 (length d) (\<lambda>i. key (d ! i) > (key el :: 'k :: linorder))) x el
    = takeWhile (\<lambda>y. key y \<le> key el) d @ el # dropWhile (\<lambda>y. key y \<le> key el) d"
  unfolding sortSearch_sorted [OF assms]
  by (subst sliceInsert_conv) (simp_all add: length_takeWhile_le flip: takeWhile_eq_take dropWhile_eq_drop)

interpretation ip_sort: sorted_insert insertSortIPAddress "\<lambda>s. s"
  by unfold_locales (use sliceInsert_sorted [of "\<lambda>s. s"] in \<open>simp add: insertSortIPAddress_def Let_def\<close>)

interpretation bd_sort: sorted_insert insertSortBridgedInterface bdi_Name
  by unfold_locales (use sliceInsert_sorted [of bdi_Name] in \<open>simp add: insertSortBridgedInterface_def Let_def\<close>)

section \<open>Keys\<close>

lemma agent_key_inject:
  assumes "CHR ''/'' \<notin> set l" "CHR ''/'' \<notin> set l'"
  shows "agentPrefix @ l @ ''/'' @ r = agentPrefix @ l' @ ''/'' @ r' \<longleftrightarrow> l = l' \<and> r = r'"
  using append_sep_inject [OF assms, of r r'] by auto

lemma GetVppEtcdlabel_agent_key:
  assumes "CHR ''/'' \<notin> set l"
  shows "GetVppEtcdlabel (agentPrefix @ l @ ''/'' @ r) = l"
proof -
  have "strSplit CHR ''/'' (agentPrefix @ l @ ''/'' @ r) = '''' # ''vnf-agent'' # l # strSplit CHR ''/'' r"
    using strSplit_sep [OF assms, of r] strSplit_sep [of "CHR ''/''" "''vnf-agent''" "l @ ''/'' @ r"]
    by (simp add: agentPrefix_def)
  then show ?thesis by (cases "strSplit CHR ''/'' r") (simp_all add: GetVppEtcdlabel_def)
qed

text \<open>The objects the controller stores under a two-part key.\<close>

datatype vpp_object =
    ObjInterface string string
  | ObjInterfaceState string string
  | ObjLinuxInterface string string
  | ObjL2BridgeDomain string string
  | ObjL2XConnect string string

fun objectKey :: "vpp_object \<Rightarrow> string" where
  "objectKey (ObjInterface l n) = InterfaceKey l n"
| "objectKey (ObjInterfaceState l n) = InterfaceStateKey l n"
| "objectKey (ObjLinuxInterface l n) = LinuxInterfaceKey l n"
| "objectKey (ObjL2BridgeDomain l n) = L2BridgeDomainKey l n"
| "objectKey (ObjL2XConnect l n) = L2XConnectKey l n"

fun objectLabel :: "vpp_object \<Rightarrow> string" where
  "objectLabel (ObjInterface l n) = l"
| "objectLabel (ObjInterfaceState l n) = l"
| "objectLabel (ObjLinuxInterface l n) = l"
| "objectLabel (ObjL2BridgeDomain l n) = l"
| "objectLabel (ObjL2XConnect l n) = l"

lemmas vpp_key_defs = InterfaceKey_def InterfaceStateKey_def LinuxInterfaceKey_def
  L2BridgeDomainKey_def L2XConnectKey_def

section \<open>Comparing entries\<close>

datatype payload =
    PIFace "Interfaces_Interface option"
  | PL2BD "BridgeDomain option"
  | PXConn "XConnectPair option"
  | PLinuxIFace "LinuxInterface option"
  | PL3Route "StaticRoute option"
  | PArp "ArpEntry option"

text \<open>The message an entry carries to etcd, by its type; \<open>None\<close> for an unknown type.\<close>

definition payload :: "KVType \<Rightarrow> payload option" where
  "payload kv =
    (if VppEntryType kv = VppEntryTypeInterface then Some (PIFace (kv_IFace kv))
     else if VppEntryType kv = VppEntryTypeL2BD then Some (PL2BD (kv_L2BD kv))
     else if VppEntryType kv = VppEntryTypeL2XC then Some (PXConn (kv_XConn kv))
     else if VppEntryType kv = VppEntryTypeLinuxInterface then Some (PLinuxIFace (kv_LinuxIFace kv))
     else if VppEntryType kv = VppEntryTypeL3Route then Some (PL3Route (kv_L3Route kv))
     else if VppEntryType kv = VppEntryTypeArp then Some (PArp (kv_ArpEntry kv))
     else None)"

fun strip_description :: "payload \<Rightarrow> payload" where
  "strip_description (PL3Route (Some r)) = PL3Route (Some (r\<lparr>sr_Description := ''''\<rparr>))"
| "strip_description p = p"

text \<open>Entries of a known type, with a route where the type says so, and stored under a key of a vpp
  agent.\<close>

definition kv_typed :: "KVType \<Rightarrow> bool" where
  "kv_typed kv \<longleftrightarrow> payload kv \<noteq> None \<and> payload kv \<noteq> Some (PL3Route None)"

definition agent_key :: "string \<Rightarrow> bool" where
  "agent_key k \<longleftrightarrow> take (length agentPrefix) k = agentPrefix"

definition kv_wf :: "KVType \<Rightarrow> bool" where
  "kv_wf kv \<longleftrightarrow> kv_typed kv \<and> agent_key (VppKey kv)"

lemma agent_key_prefix [simp]: "agent_key (agentPrefix @ k)"
  by (simp add: agent_key_def)

lemma Equal_typed:
  assumes "kv_typed a" "kv_typed b"
  shows "Equal a b = Some (VppKey a = VppKey b
    \<and> map_option strip_description (payload a) = map_option strip_description (payload b))"
proof (cases "VppEntryType a = VppEntryType b")
  case True
  then show ?thesis
    using assms by (auto simp: Equal_def kv_typed_def payload_def split: if_splits)
next
  case False
  then have "map_option strip_description (payload a) \<noteq> map_option strip_description (payload b)"
    using assms by (auto simp: kv_typed_def payload_def split: if_splits)
  then show ?thesis using False by (simp add: Equal_def)
qed

lemma Equal_payload:
  assumes "kv_wf a" "kv_wf b"
  shows "Equal a b = Some (VppKey a = VppKey b
    \<and> map_option strip_description (payload a) = map_option strip_description (payload b))"
  using assms Equal_typed by (simp add: kv_wf_def)

lemma object_keys_agent [simp]:
  "agent_key (InterfaceKey a n)" "agent_key (LinuxInterfaceKey a n)" "agent_key (L2BridgeDomainKey a n)"
  "agent_key (L2XConnectKey a n)" "agent_key (ArpEntryKey a i ip)" "L3RouteKey a vrf net nh = Some k \<Longrightarrow> agent_key k"
  by (auto simp: InterfaceKey_def LinuxInterfaceKey_def L2BridgeDomainKey_def L2XConnectKey_def ArpEntryKey_def
    L3RouteKey_def split: Option.bind_splits)

lemma construct_wf [simp]:
  "kv_wf (interfaceKV vppAgent iface)"
  "kv_wf (linuxInterfaceKV vppAgent liface)"
  "kv_wf (ConstructL2BD vppAgent bdName ifaces bdParms)"
  "kv_wf (fst (AppendInterfacesToL2BD vppAgent l2bd ifaces))"
  "kv_wf (constructUniDirXConnect vppAgent if1 if2)"
  "kv_wf (ConstructStaticArpEntry vppAgent ae)"
  "ConstructStaticRoute vppAgent sr = Some kv \<Longrightarrow> kv_wf kv"
  by (auto simp: kv_wf_def kv_typed_def payload_def interfaceKV_def linuxInterfaceKV_def ConstructL2BD_def
    AppendInterfacesToL2BD_def constructUniDirXConnect_def ConstructStaticArpEntry_def
    ConstructStaticRoute_def NewKVEntry_def Let_def split: Option.bind_splits)

lemma construct_interface_wf [simp]:
  "kv_wf (ConstructEthernetInterface a n ips mac mtu adm rx)"
  "kv_wf (ConstructLoopbackInterface a n ips mac mtu adm rx)"
  "kv_wf (ConstructMemInterface a n ips mac mtu adm rx i m mp d ma)"
  "kv_wf (ConstructVxlanInterface a n vni e1 e2)"
  "kv_wf (ConstructTapInterface a n ips mac mtu adm rx tp h)"
  "kv_wf (ConstructLinuxTapInterface a n ips mac mtu adm h hns ms)"
  "kv_wf (ConstructAFPacketInterface a n ips mac mtu adm rx h)"
  "kv_wf (ConstructVEthInterface a n ips mac mtu adm h p lns vnf)"
  by (simp_all add: ConstructEthernetInterface_def ConstructLoopbackInterface_def
    ConstructMemInterface_def ConstructVxlanInterface_def ConstructTapInterface_def
    ConstructLinuxTapInterface_def ConstructAFPacketInterface_def ConstructVEthInterface_def Let_def)

section \<open>Properties\<close>

text \<open>The address lists of rendered interfaces are canonical: \<open>sortedIPAddresses\<close>, built from
  binary-search insertions, is sorting, so two lists are rendered alike exactly when they hold the
  same addresses with the same multiplicities.\<close>

theorem sortedIPAddresses_canonical:
  "sortedIPAddresses xs = sort xs \<and> (sortedIPAddresses xs = sortedIPAddresses ys \<longleftrightarrow> mset xs = mset ys)"
proof -
  have "sortedIPAddresses zs = sort zs" for zs
    by (simp add: sortedIPAddresses_def ip_sort.foldl_ins_Nil)
  then show ?thesis by (metis mset_sort properties_for_sort sorted_sort)
qed

text \<open>C35. Bridge domain interface lists are the stable sort by name of what was added, both when a
  domain is built and when interfaces are appended to a domain whose list is sorted.\<close>

theorem bridge_domain_interfaces_sorted:
  "map_option bd_Interfaces (kv_L2BD (ConstructL2BD vppAgent bdName ifaces bdParms))
      = Some (sort_key bdi_Name ifaces)
    \<and> (sorted (map bdi_Name (bd_Interfaces l2bd)) \<longrightarrow>
        bd_Interfaces (snd (AppendInterfacesToL2BD vppAgent l2bd ifaces))
          = sort_key bdi_Name (bd_Interfaces l2bd @ ifaces)
        \<and> kv_L2BD (fst (AppendInterfacesToL2BD vppAgent l2bd ifaces))
          = Some (snd (AppendInterfacesToL2BD vppAgent l2bd ifaces)))"
  by (auto simp: ConstructL2BD_def AppendInterfacesToL2BD_def Let_def bd_sort.foldl_ins_Nil
    bd_sort.foldl_ins_sorted)

theorem bridge_domain_interfaces_sorted_witness:
  "bd_Interfaces (snd (AppendInterfacesToL2BD ''vpp1''
      \<lparr>bd_Name = ''bd'', bd_Flood = True, bd_UnknownUnicastFlood = True, bd_Forward = True,
       bd_Learn = True, bd_ArpTermination = False, bd_MacAge = 0,
       bd_Interfaces = [\<lparr>bdi_Name = ''b'', bdi_BridgedVirtualInterface = False, bdi_SplitHorizonGroup = 0\<rparr>]\<rparr>
      [\<lparr>bdi_Name = ''a'', bdi_BridgedVirtualInterface = False, bdi_SplitHorizonGroup = 1\<rparr>]))
    = [\<lparr>bdi_Name = ''a'', bdi_BridgedVirtualInterface = False, bdi_SplitHorizonGroup = 1\<rparr>,
       \<lparr>bdi_Name = ''b'', bdi_BridgedVirtualInterface = False, bdi_SplitHorizonGroup = 0\<rparr>]"
  using bridge_domain_interfaces_sorted [of "''vpp1''" "''bd''"
      "[\<lparr>bdi_Name = ''a'', bdi_BridgedVirtualInterface = False, bdi_SplitHorizonGroup = 1\<rparr>]" undefined
      "\<lparr>bd_Name = ''bd'', bd_Flood = True, bd_UnknownUnicastFlood = True, bd_Forward = True,
       bd_Learn = True, bd_ArpTermination = False, bd_MacAge = 0,
       bd_Interfaces = [\<lparr>bdi_Name = ''b'', bdi_BridgedVirtualInterface = False, bdi_SplitHorizonGroup = 0\<rparr>]\<rparr>"]
  by (simp add: less_le)

text \<open>C33. Keys identify objects: for agent labels without a slash, the etcd key of an interface,
  interface state, Linux interface, bridge domain or cross connect determines its kind, its agent
  and its name, and the label extracted from the key is the agent.\<close>

theorem object_keys_injective:
  assumes "CHR ''/'' \<notin> set (objectLabel a)" "CHR ''/'' \<notin> set (objectLabel b)"
  shows "(objectKey a = objectKey b \<longleftrightarrow> a = b) \<and> GetVppEtcdlabel (objectKey a) = objectLabel a"
proof
  show "objectKey a = objectKey b \<longleftrightarrow> a = b"
    using assms by (cases a; cases b) (simp_all only: objectKey.simps objectLabel.simps vpp_key_defs
      agent_key_inject, simp_all)
  show "GetVppEtcdlabel (objectKey a) = objectLabel a"
    using assms(1) by (cases a)
      (simp_all only: objectKey.simps objectLabel.simps vpp_key_defs, (erule GetVppEtcdlabel_agent_key)+)
qed

theorem object_keys_injective_witness:
  "objectKey (ObjInterface ''vpp1'' ''if1'') \<noteq> objectKey (ObjL2XConnect ''vpp1'' ''if1'')"
  using object_keys_injective [of "ObjInterface ''vpp1'' ''if1''" "ObjL2XConnect ''vpp1'' ''if1''"] by simp

text \<open>C34. On entries of a known type \<open>Equal\<close> never panics and is an equivalence relation: it holds
  exactly when key and message agree, a route's description left aside.\<close>

theorem Equal_equivalence:
  assumes "kv_typed a" "kv_typed b" "kv_typed c"
  shows "Equal a b = Some (VppKey a = VppKey b
      \<and> map_option strip_description (payload a) = map_option strip_description (payload b))
    \<and> Equal a a = Some True \<and> Equal a b = Equal b a
    \<and> (Equal a b = Some True \<and> Equal b c = Some True \<longrightarrow> Equal a c = Some True)"
  using Equal_typed assms by auto

theorem Equal_equivalence_witness:
  "Equal (constructUniDirXConnect ''v'' ''a'' ''b'') (constructUniDirXConnect ''v'' ''a'' ''b'') = Some True"
  using Equal_equivalence construct_wf(5) [unfolded kv_wf_def] by blast

end
