(* ===== verification/State.thy ===== *)
theory State
  imports Ipam VppAgent
begin

text \<open>
  The controller's state and its access to etcd.  \<open>Plugin\<close> collects the fields of
  \<open>plugin_impl_controller.go\<close> (the ram cache, prefixed \<open>rc_\<close>, and the caches of the six
  managers), the package variables of \<open>rendertxn.go\<close>, and the datastore.  The operations of
  \<open>database/database.go\<close> follow.

  Nothing is assumed about etcd.  Every operation the controller issues is appended to \<open>db_log\<close>,
  and what etcd answers is a function of that log, a field of the state: the theorems hold for all
  such functions, hence for every behaviour of the store.  \<open>store_of\<close> gives the content a
  key-value store would have after the operations of a log, for the statements that speak about
  the stored data.
\<close>

section \<open>Datastore\<close>

datatype dbval =
    DVpp payload
  | DSysParms SystemParameters
  | DIPAMPool IPAMPool
  | DPodMap NetworkPodToNodeMap
  | DOverlay NetworkNodeOverlay
  | DNode NetworkNode
  | DService NetworkService
  | DIfStatus InterfaceStatus

datatype db_op =
    DbPut string dbval
  | DbDelete string
  | DbDeletePrefix string
  | DbGet string
  | DbList string

text \<open>The answers of the store to the last operation of a log: the error of a put, what a get
  found, the values of a list, \<open>None\<close> for an error.\<close>

record db_env =
  env_put :: "db_op list \<Rightarrow> err option"
  env_get :: "db_op list \<Rightarrow> dbval option \<times> err option"
  env_list :: "db_op list \<Rightarrow> dbval list option"

section \<open>Plugin\<close>

type_synonym level_maps = "(int \<times> KVType gomap) list"

record Plugin =
  rc_InterfaceStates :: "InterfaceStatus gomap"
  rc_VppEntries :: "KVType gomap"
  rc_MacAddrAllocator :: MacAddrAllocatorType
  rc_MemifIDAllocator :: MemifAllocatorType
  rc_VrfIDAllocator :: VrfAllocatorType
  rc_IPAMPoolAllocators :: "PoolAllocatorType option gomap"
  rc_NetworkPodToNodeMap :: "NetworkPodToNodeMap gomap"
  sysParmCache :: SystemParameters
  ipamPoolCache :: "IPAMPool gomap"
  networkPodNodeCache :: "NetworkPodToNodeMap gomap"
  networkNodeOverlayCache :: "NetworkNodeOverlay gomap"
  vniAllocators :: "VxlanVniAllocatorType gomap"
  vxLanAddresses :: "string gomap"
  networkNodeCache :: "NetworkNode gomap"
  networkServiceCache :: "NetworkService gomap"
  beforeMap :: level_maps
  afterMap :: level_maps
  txnLevel :: int
  configLocked :: bool
  db_log :: "db_op list"
  db_env :: db_env

text \<open>The state at start, before anything is loaded from etcd.\<close>

definition fresh_plugin :: "db_env \<Rightarrow> Plugin" where
  "fresh_plugin env =
    \<lparr>rc_InterfaceStates = [], rc_VppEntries = [], rc_MacAddrAllocator = NewMacAddrAllocator,
     rc_MemifIDAllocator = NewMemifAllocator, rc_VrfIDAllocator = NewVrfAllocator,
     rc_IPAMPoolAllocators = [], rc_NetworkPodToNodeMap = [],
     sysParmCache = \<lparr>sp_Mtu = 0, sp_MemifDirectory = [], sp_DefaultStaticRouteWeight = 0,
       sp_DefaultStaticRoutePreference = 0, sp_L2BdTemplates = [], sp_RxMode = [], sp_MinVrfId = 0\<rparr>,
     ipamPoolCache = [], networkPodNodeCache = [], networkNodeOverlayCache = [], vniAllocators = [],
     vxLanAddresses = [], networkNodeCache = [], networkServiceCache = [], beforeMap = [], afterMap = [],
     txnLevel = 0, configLocked = False, db_log = [], db_env = env\<rparr>"

text \<open>A store that is empty and never fails.\<close>

definition good_env :: db_env where
  "good_env = \<lparr>env_put = (\<lambda>_. None), env_get = (\<lambda>_. (None, None)), env_list = (\<lambda>_. Some [])\<rparr>"

section \<open>database.go\<close>

definition WriteToDatastore :: "string \<Rightarrow> dbval \<Rightarrow> Plugin \<Rightarrow> err option \<times> Plugin" where
  "WriteToDatastore key v s =
    (let s' = s\<lparr>db_log := db_log s @ [DbPut key v]\<rparr> in (env_put (db_env s') (db_log s'), s'))"

definition DeleteFromDatastore :: "string \<Rightarrow> Plugin \<Rightarrow> Plugin" where
  "DeleteFromDatastore key s = s\<lparr>db_log := db_log s @ [DbDelete key]\<rparr>"

definition CleanDatastore :: "string \<Rightarrow> Plugin \<Rightarrow> Plugin" where
  "CleanDatastore treePrefix s = s\<lparr>db_log := db_log s @ [DbDeletePrefix treePrefix]\<rparr>"

definition db_GetValue :: "string \<Rightarrow> Plugin \<Rightarrow> (dbval option \<times> err option) \<times> Plugin" where
  "db_GetValue key s =
    (let s' = s\<lparr>db_log := db_log s @ [DbGet key]\<rparr> in (env_get (db_env s') (db_log s'), s'))"

text \<open>\<open>ReadIterate\<close>: \<open>log.Fatal\<close> when the list fails, otherwise the action on every value.\<close>

definition ReadIterate :: "string \<Rightarrow> (dbval \<Rightarrow> Plugin \<Rightarrow> Plugin option) \<Rightarrow> Plugin \<Rightarrow> Plugin option" where
  "ReadIterate keyPrefix actionFunc s =
    (let s' = s\<lparr>db_log := db_log s @ [DbList keyPrefix]\<rparr> in
     do {
       vs \<leftarrow> env_list (db_env s') (db_log s');
       foldM actionFunc vs s'
     })"

text \<open>\<open>ReadIterate\<close> with an action that fills a map of the caller instead of the plugin's state.\<close>

definition ReadIterateInto ::
  "string \<Rightarrow> (dbval \<Rightarrow> 'm \<Rightarrow> 'm option) \<Rightarrow> 'm \<Rightarrow> Plugin \<Rightarrow> ('m \<times> Plugin) option" where
  "ReadIterateInto keyPrefix actionFunc m s =
    (let s' = s\<lparr>db_log := db_log s @ [DbList keyPrefix]\<rparr> in
     do {
       vs \<leftarrow> env_list (db_env s') (db_log s');
       m' \<leftarrow> foldM actionFunc vs m;
       Some (m', s')
     })"

definition ReadFromDatastore :: "string \<Rightarrow> Plugin \<Rightarrow> (dbval option \<times> err option) \<times> Plugin" where
  "ReadFromDatastore key s = db_GetValue key s"

section \<open>Entries in etcd\<close>

definition WriteToEtcd :: "KVType \<Rightarrow> Plugin \<Rightarrow> err option \<times> Plugin" where
  "WriteToEtcd kv s =
    (if VppEntryType kv = VppEntryTypeInterface then WriteToDatastore (VppKey kv) (DVpp (PIFace (kv_IFace kv))) s
     else if VppEntryType kv = VppEntryTypeL2BD then WriteToDatastore (VppKey kv) (DVpp (PL2BD (kv_L2BD kv))) s
     else if VppEntryType kv = VppEntryTypeL2XC then WriteToDatastore (VppKey kv) (DVpp (PXConn (kv_XConn kv))) s
     else if VppEntryType kv = VppEntryTypeLinuxInterface then
       WriteToDatastore (VppKey kv) (DVpp (PLinuxIFace (kv_LinuxIFace kv))) s
     else if VppEntryType kv = VppEntryTypeL3Route then
       WriteToDatastore (VppKey kv) (DVpp (PL3Route (kv_L3Route kv))) s
     else if VppEntryType kv = VppEntryTypeArp then WriteToDatastore (VppKey kv) (DVpp (PArp (kv_ArpEntry kv))) s
     else (Some ''WriteToEtcd: unknown vpp entry type'', s))"

text \<open>Storing a value that was read into the entry; a value of another type is a decoding error.\<close>

fun setPayload :: "KVType \<Rightarrow> dbval \<Rightarrow> KVType option" where
  "setPayload kv (DVpp (PIFace (Some x))) =
    (if VppEntryType kv = VppEntryTypeInterface then Some (kv\<lparr>kv_IFace := Some x\<rparr>) else None)"
| "setPayload kv (DVpp (PLinuxIFace (Some x))) =
    (if VppEntryType kv = VppEntryTypeLinuxInterface then Some (kv\<lparr>kv_LinuxIFace := Some x\<rparr>) else None)"
| "setPayload kv (DVpp (PL2BD (Some x))) =
    (if VppEntryType kv = VppEntryTypeL2BD then Some (kv\<lparr>kv_L2BD := Some x\<rparr>) else None)"
| "setPayload kv (DVpp (PXConn (Some x))) =
    (if VppEntryType kv = VppEntryTypeL2XC then Some (kv\<lparr>kv_XConn := Some x\<rparr>) else None)"
| "setPayload kv (DVpp (PL3Route (Some x))) =
    (if VppEntryType kv = VppEntryTypeL3Route then Some (kv\<lparr>kv_L3Route := Some x\<rparr>) else None)"
| "setPayload kv (DVpp (PArp (Some x))) =
    (if VppEntryType kv = VppEntryTypeArp then Some (kv\<lparr>kv_ArpEntry := Some x\<rparr>) else None)"
| "setPayload kv _ = None"

definition ReadFromEtcd :: "KVType \<Rightarrow> Plugin \<Rightarrow> (bool \<times> err option \<times> KVType) \<times> Plugin" where
  "ReadFromEtcd kv s =
    (if payload kv = None then
       ((False, Some ''ReadFromEtcd: unsupported vpp entry type'', kv), s)
     else
       let ((v, err), s') = db_GetValue (VppKey kv) s in
       case (v, err) of
         (None, e) \<Rightarrow> ((False, e, kv), s')
       | (Some x, Some e) \<Rightarrow> ((True, Some e, kv), s')
       | (Some x, None) \<Rightarrow>
           (case setPayload kv x of
              None \<Rightarrow> ((True, Some ''proto: wrong message type'', kv), s')
            | Some kv' \<Rightarrow> ((True, None, kv'), s')))"

section \<open>The content of a store\<close>

fun apply_op :: "db_op \<Rightarrow> (string \<rightharpoonup> dbval) \<Rightarrow> (string \<rightharpoonup> dbval)" where
  "apply_op (DbPut k v) m = m(k \<mapsto> v)"
| "apply_op (DbDelete k) m = m(k := None)"
| "apply_op (DbDeletePrefix p) m = (\<lambda>k. if take (length p) k = p then None else m k)"
| "apply_op (DbGet k) m = m"
| "apply_op (DbList k) m = m"

definition store_of :: "db_op list \<Rightarrow> (string \<rightharpoonup> dbval)" where
  "store_of ops = fold apply_op ops Map.empty"

lemma store_of_simps [simp]:
  "store_of [] = Map.empty"
  "store_of (ops @ [op]) = apply_op op (store_of ops)"
  "fold apply_op ops (store_of ops0) = store_of (ops0 @ ops)"
  by (simp_all add: store_of_def)

lemma WriteToEtcd_wf:
  "kv_wf kv \<Longrightarrow> WriteToEtcd kv s = WriteToDatastore (VppKey kv) (DVpp (the (payload kv))) s"
  by (auto simp: kv_wf_def kv_typed_def payload_def WriteToEtcd_def split: if_splits)

end
