(* ===== verification/RenderTxn.thy ===== *)
theory RenderTxn
  imports State
begin

text \<open>
  The render transaction of \<open>plugins/controller/rendertxn.go\<close>.  \<open>beforeMap\<close> and \<open>afterMap\<close> map a
  nesting level to a map of entries; a level that is absent is a nil map, which reads as empty and
  panics on a write.  The lock \<open>configMutex\<close> is a flag; locking it twice never returns, which is
  the \<open>None\<close> of \<open>RenderTxnConfigStart\<close>.

  The main result is the reconciliation theorem of \<open>RenderTxnConfigEnd\<close>: it issues one delete for
  every entry that is no longer rendered and one put for every entry that is new or has changed,
  nothing else, and leaves the entry cache equal to the rendered set.
\<close>

section \<open>Model\<close>

definition levelGet :: "level_maps \<Rightarrow> int \<Rightarrow> KVType gomap" where
  "levelGet m l = (case map_of m l of None \<Rightarrow> [] | Some kvs \<Rightarrow> kvs)"

definition levelPut :: "level_maps \<Rightarrow> int \<Rightarrow> string \<Rightarrow> KVType \<Rightarrow> level_maps option" where
  "levelPut m l key kv =
    (case map_of m l of
       None \<Rightarrow> None
     | Some kvs \<Rightarrow> Some (AList.update l (gput key kv kvs) m))"

definition levelDel :: "level_maps \<Rightarrow> int \<Rightarrow> string \<Rightarrow> level_maps" where
  "levelDel m l key =
    (case map_of m l of None \<Rightarrow> m | Some kvs \<Rightarrow> AList.update l (gdel key kvs) m)"

definition RenderTxnGetAfterMap :: "string \<Rightarrow> Plugin \<Rightarrow> KVType option" where
  "RenderTxnGetAfterMap key s = map_of (levelGet (afterMap s) 0) key"

definition initLevelMap :: "int \<Rightarrow> Plugin \<Rightarrow> Plugin" where
  "initLevelMap level s =
    s\<lparr>beforeMap := AList.update level [] (beforeMap s), afterMap := AList.update level [] (afterMap s)\<rparr>"

definition removeLevelMap :: "int \<Rightarrow> Plugin \<Rightarrow> Plugin" where
  "removeLevelMap level s =
    s\<lparr>beforeMap := AList.delete level (beforeMap s), afterMap := AList.delete level (afterMap s)\<rparr>"

text \<open>The loop that copies the cached entries into the before map.\<close>

fun copyVppEntries :: "KVType gomap \<Rightarrow> Plugin \<Rightarrow> Plugin option" where
  "copyVppEntries [] s = Some s"
| "copyVppEntries ((key, vppKV) # es) s =
    (if key \<noteq> VppKey vppKV then None
     else do {
       m \<leftarrow> levelPut (beforeMap s) 0 (VppKey vppKV) vppKV;
       copyVppEntries es (s\<lparr>beforeMap := m\<rparr>)
     })"

definition RenderTxnConfigStart :: "Plugin \<Rightarrow> Plugin option" where
  "RenderTxnConfigStart s =
    (if configLocked s then None
     else
       let s1 = s\<lparr>configLocked := True\<rparr>;
           s2 = s1\<lparr>beforeMap := [], afterMap := [], txnLevel := 0\<rparr>;
           s3 = initLevelMap 0 s2
       in copyVppEntries (rc_VppEntries s3) s3)"

definition RenderTxnConfigEntityStart :: "Plugin \<Rightarrow> Plugin" where
  "RenderTxnConfigEntityStart s =
    (let s1 = s\<lparr>txnLevel := txnLevel s + 1\<rparr> in initLevelMap (txnLevel s1) s1)"

fun mergeLevel :: "KVType gomap \<Rightarrow> int \<Rightarrow> Plugin \<Rightarrow> Plugin option" where
  "mergeLevel [] l s = Some s"
| "mergeLevel ((key, entry) # es) l s =
    do {
      m \<leftarrow> levelPut (afterMap s) l key entry;
      mergeLevel es l (s\<lparr>afterMap := m\<rparr>)
    }"

definition RenderTxnConfigEntityEnd :: "Plugin \<Rightarrow> Plugin option" where
  "RenderTxnConfigEntityEnd s =
    do {
      s1 \<leftarrow> mergeLevel (levelGet (afterMap s) (txnLevel s)) (txnLevel s - 1) s;
      let s2 = removeLevelMap (txnLevel s1) s1;
      Some (s2\<lparr>txnLevel := txnLevel s2 - 1\<rparr>)
    }"

definition RenderTxnConfigEntityRemoveEntries :: "Plugin \<Rightarrow> Plugin" where
  "RenderTxnConfigEntityRemoveEntries s = s\<lparr>afterMap := AList.update (txnLevel s) [] (afterMap s)\<rparr>"

text \<open>The body of the loop over the before map; a key the loop itself has not removed is there.\<close>

definition endBeforeStep :: "string \<Rightarrow> Plugin \<Rightarrow> Plugin option" where
  "endBeforeStep key s =
    do {
      old \<leftarrow> map_of (levelGet (beforeMap s) 0) key;
      (case map_of (levelGet (afterMap s) 0) key of
         None \<Rightarrow>
           let s1 = s\<lparr>db_log := db_log s @ [DbDelete key]\<rparr>;
               s2 = s1\<lparr>rc_VppEntries := gdel key (rc_VppEntries s1)\<rparr>
           in Some (s2\<lparr>beforeMap := levelDel (beforeMap s2) 0 key\<rparr>)
       | Some after \<Rightarrow> do {
           eq \<leftarrow> Equal old after;
           Some (if eq then s\<lparr>afterMap := levelDel (afterMap s) 0 key\<rparr> else s)
         })
    }"

fun endBefore :: "string list \<Rightarrow> Plugin \<Rightarrow> Plugin option" where
  "endBefore [] s = Some s"
| "endBefore (key # keys) s = endBeforeStep key s \<bind> endBefore keys"

fun endAfter :: "KVType gomap \<Rightarrow> Plugin \<Rightarrow> err option \<times> Plugin" where
  "endAfter [] s = (None, s)"
| "endAfter ((key, after) # es) s =
    (case WriteToEtcd after s of
       (Some e, s') \<Rightarrow> (Some e, s')
     | (None, s') \<Rightarrow> endAfter es s')"

definition cacheEntries :: "KVType gomap \<Rightarrow> KVType gomap \<Rightarrow> KVType gomap" where
  "cacheEntries es m = fold (\<lambda>(_, vppKV). gput (VppKey vppKV) vppKV) es m"

definition RenderTxnConfigEnd :: "Plugin \<Rightarrow> (err option \<times> Plugin) option" where
  "RenderTxnConfigEnd s =
    do {
      s1 \<leftarrow> endBefore (gkeys (levelGet (beforeMap s) 0)) s;
      (case endAfter (levelGet (afterMap s1) 0) s1 of
         (Some e, s2) \<Rightarrow> Some (Some e, s2\<lparr>configLocked := False\<rparr>)
       | (None, s2) \<Rightarrow>
           Some (None, s2\<lparr>rc_VppEntries := cacheEntries (levelGet (afterMap s2) 0) (rc_VppEntries s2),
             configLocked := False\<rparr>))
    }"

text \<open>The map of rendered entries the caller passes is changed in place: it is returned.\<close>

definition RenderTxnAddVppEntryToTxn ::
  "RenderedVppAgentEntry gomap option \<Rightarrow> string \<Rightarrow> KVType \<Rightarrow> Plugin
    \<Rightarrow> (RenderedVppAgentEntry gomap option \<times> Plugin) option" where
  "RenderTxnAddVppEntryToTxn rendered renderingEntity vppKV s =
    do {
      rendered' \<leftarrow>
        (if map_of (levelGet (afterMap s) (txnLevel s)) (VppKey vppKV) = None then
           do {
             r \<leftarrow> rendered;
             Some (Some (gput (VppKey vppKV)
               \<lparr>rve_VppAgentKey = VppKey vppKV, rve_VppAgentType = VppEntryType vppKV\<rparr> r))
           }
         else Some rendered);
      m \<leftarrow> levelPut (afterMap s) (txnLevel s) (VppKey vppKV) vppKV;
      Some (rendered', s\<lparr>afterMap := m\<rparr>)
    }"

fun RenderTxnAddVppEntriesToTxn ::
  "RenderedVppAgentEntry gomap option \<Rightarrow> string \<Rightarrow> KVType list \<Rightarrow> Plugin
    \<Rightarrow> (RenderedVppAgentEntry gomap option \<times> Plugin) option" where
  "RenderTxnAddVppEntriesToTxn rendered renderingEntity [] s = Some (rendered, s)"
| "RenderTxnAddVppEntriesToTxn rendered renderingEntity (vppKV # vppKVs) s =
    do {
      (rendered', s') \<leftarrow> RenderTxnAddVppEntryToTxn rendered renderingEntity vppKV s;
      RenderTxnAddVppEntriesToTxn rendered' renderingEntity vppKVs s'
    }"

fun DeleteRenderedVppAgentEntries :: "RenderedVppAgentEntry gomap \<Rightarrow> Plugin \<Rightarrow> Plugin" where
  "DeleteRenderedVppAgentEntries [] s = s"
| "DeleteRenderedVppAgentEntries ((_, e) # es) s =
    DeleteRenderedVppAgentEntries es
      (DeleteFromDatastore (rve_VppAgentKey e) (s\<lparr>rc_VppEntries := gdel (rve_VppAgentKey e) (rc_VppEntries s)\<rparr>))"

section \<open>Level maps\<close>

lemma levelGet_simps [simp]:
  "levelGet [] l = []"
  "levelGet (AList.update l v m) l' = (if l = l' then v else levelGet m l')"
  "levelGet (AList.delete l m) l' = (if l = l' then [] else levelGet m l')"
  "levelGet (levelDel m l k) l' = (if l = l' then gdel k (levelGet m l) else levelGet m l')"
  by (auto simp: levelGet_def levelDel_def update_conv' delete_conv' split: option.splits)

lemma levelPut_SomeD:
  "levelPut m l k kv = Some m' \<Longrightarrow> m' = AList.update l (gput k kv (levelGet m l)) m \<and> l \<in> dom (map_of m)"
  by (auto simp: levelPut_def levelGet_def split: option.splits)

lemma levelPut_ok:
  "map_of m l \<noteq> None \<Longrightarrow> levelPut m l k kv = Some (AList.update l (gput k kv (levelGet m l)) m)"
  by (auto simp: levelPut_def levelGet_def split: option.splits)

lemma AList_update_update: "AList.update k v (AList.update k w m) = AList.update k v m"
  by (induction m) auto

section \<open>Starting a transaction\<close>

text \<open>A cache or a rendered set: distinct keys, every entry under its own key and of a known type.\<close>

definition entries_ok :: "KVType gomap \<Rightarrow> bool" where
  "entries_ok es \<longleftrightarrow> distinct (gkeys es) \<and> (\<forall>(k, kv) \<in> set es. k = VppKey kv \<and> kv_wf kv)"

lemma entries_okD:
  assumes "entries_ok es" "map_of es k = Some kv"
  shows "VppKey kv = k" "kv_wf kv"
  using assms map_of_SomeD [OF assms(2)] by (auto simp: entries_ok_def)

lemma entries_ok_filter: "entries_ok es \<Longrightarrow> entries_ok (filter P es)"
  by (auto simp: entries_ok_def distinct_map_filter)

lemma copyVppEntries_ok:
  assumes "\<forall>(k, kv) \<in> set es. k = VppKey kv" "map_of (beforeMap s) 0 \<noteq> None"
  shows "\<exists>bm. copyVppEntries es s = Some (s\<lparr>beforeMap := bm\<rparr>)
    \<and> levelGet bm 0 = gput_all es (levelGet (beforeMap s) 0)"
  using assms
proof (induction es s rule: copyVppEntries.induct)
  case (1 s)
  have "s = s\<lparr>beforeMap := beforeMap s\<rparr>" by simp
  then show ?case by (metis copyVppEntries.simps(1) gput_all_simps(1))
next
  case (2 key vppKV es s)
  let ?bm = "AList.update 0 (gput key vppKV (levelGet (beforeMap s) 0)) (beforeMap s)"
  have p: "levelPut (beforeMap s) 0 (VppKey vppKV) vppKV = Some ?bm" "key = VppKey vppKV"
    using 2 by (simp_all add: levelPut_ok)
  then show ?case
    using 2(1) [OF _ p(1)] 2(2,3) by (auto simp: update_conv')
qed

lemma RenderTxnConfigStart_ok:
  assumes "entries_ok (rc_VppEntries s)" "\<not> configLocked s"
  shows "\<exists>bm. RenderTxnConfigStart s
      = Some (s\<lparr>configLocked := True, beforeMap := bm, afterMap := [(0, [])], txnLevel := 0\<rparr>)
    \<and> entries_ok (levelGet bm 0) \<and> map_of (levelGet bm 0) = map_of (rc_VppEntries s)"
proof -
  let ?s3 = "s\<lparr>configLocked := True, beforeMap := [(0, [])], afterMap := [(0, [])], txnLevel := 0\<rparr>"
  have es: "\<forall>(k, kv) \<in> set (rc_VppEntries s). k = VppKey kv" using assms(1) by (auto simp: entries_ok_def)
  obtain bm where bm: "copyVppEntries (rc_VppEntries s) ?s3 = Some (?s3\<lparr>beforeMap := bm\<rparr>)"
    "levelGet bm 0 = gput_all (rc_VppEntries s) (levelGet (beforeMap ?s3) 0)"
    using copyVppEntries_ok [OF es, of ?s3] by auto
  have l0: "levelGet bm 0 = gput_all (rc_VppEntries s) []" using bm(2) by (simp add: levelGet_def)
  have m: "map_of (levelGet bm 0) = map_of (rc_VppEntries s)"
    using assms(1) by (simp add: l0 map_of_gput_all entries_ok_def)
  moreover have "entries_ok (levelGet bm 0)"
  proof -
    have d: "distinct (gkeys (levelGet bm 0))" by (simp add: l0 distinct_gput_all)
    have "VppKey kv = k \<and> kv_wf kv" if "(k, kv) \<in> set (levelGet bm 0)" for k kv
      using map_of_is_SomeI [OF d that] m entries_okD [OF assms(1)] by simp
    with d show ?thesis by (auto simp: entries_ok_def)
  qed
  moreover have "RenderTxnConfigStart s
      = Some (s\<lparr>configLocked := True, beforeMap := bm, afterMap := [(0, [])], txnLevel := 0\<rparr>)"
    using bm(1) assms(2) by (cases s) (simp add: RenderTxnConfigStart_def initLevelMap_def Let_def)
  ultimately show ?thesis by blast
qed

section \<open>Reconciliation\<close>

text \<open>An entry is unchanged when it was there before and compares equal to what was rendered.\<close>

definition unchanged :: "KVType gomap \<Rightarrow> KVType gomap \<Rightarrow> string \<Rightarrow> bool" where
  "unchanged bs as k \<longleftrightarrow>
    (case (map_of bs k, map_of as k) of (Some b, Some a) \<Rightarrow> Equal b a = Some True | _ \<Rightarrow> False)"

definition stale_keys :: "KVType gomap \<Rightarrow> KVType gomap \<Rightarrow> string list" where
  "stale_keys bs as = filter (\<lambda>k. map_of as k = None) (gkeys bs)"

definition to_write :: "KVType gomap \<Rightarrow> KVType gomap \<Rightarrow> KVType gomap" where
  "to_write bs as = filter (\<lambda>(k, _). \<not> unchanged bs as k) as"

abbreviation put_op :: "string \<times> KVType \<Rightarrow> db_op" where
  "put_op e \<equiv> DbPut (VppKey (snd e)) (DVpp (the (payload (snd e))))"

text \<open>The state after the entries \<open>ks\<close> have been deleted from etcd and from the cache.\<close>

definition after_drop :: "string list \<Rightarrow> level_maps \<Rightarrow> level_maps \<Rightarrow> Plugin \<Rightarrow> Plugin" where
  "after_drop ks bm am s = s\<lparr>db_log := db_log s @ map DbDelete ks, rc_VppEntries := fold gdel ks (rc_VppEntries s),
    beforeMap := bm, afterMap := am\<rparr>"

lemma after_drop_trans: "after_drop ks' bm' am' (after_drop ks bm am s) = after_drop (ks @ ks') bm' am' s"
  by (simp add: after_drop_def)

lemma after_drop_maps [simp]: "beforeMap (after_drop ks bm am s) = bm" "afterMap (after_drop ks bm am s) = am"
  by (simp_all add: after_drop_def)

lemma endBeforeStep_ok:
  assumes "map_of (levelGet (beforeMap s) 0) k = Some b"
    and "entries_ok (levelGet (beforeMap s) 0)" "entries_ok (levelGet (afterMap s) 0)"
  defines "as \<equiv> levelGet (afterMap s) 0"
  shows "\<exists>bm am. endBeforeStep k s = Some (after_drop (if map_of as k = None then [k] else []) bm am s)
    \<and> levelGet bm 0 = (if map_of as k = None then gdel k (levelGet (beforeMap s) 0) else levelGet (beforeMap s) 0)
    \<and> levelGet am 0 = (if unchanged (levelGet (beforeMap s) 0) as k then gdel k as else as)"
proof (cases "map_of as k")
  case None
  let ?bm = "levelDel (beforeMap s) 0 k"
  have "endBeforeStep k s = Some (after_drop [k] ?bm (afterMap s) s)"
    using assms(1) None by (simp add: endBeforeStep_def as_def after_drop_def)
  moreover have "\<not> unchanged (levelGet (beforeMap s) 0) as k" using None by (simp add: unchanged_def split: option.splits)
  ultimately show ?thesis
    using None by (intro exI [of _ ?bm] exI [of _ "afterMap s"]) (simp add: as_def)
next
  case (Some a)
  let ?u = "unchanged (levelGet (beforeMap s) 0) as k"
  let ?am = "if ?u then levelDel (afterMap s) 0 k else afterMap s"
  have "Equal b a \<noteq> None"
    using Equal_payload [OF entries_okD(2) [OF assms(2,1)] entries_okD(2) [OF assms(3)]] Some
    by (simp add: as_def)
  then have "endBeforeStep k s = Some (after_drop [] (beforeMap s) ?am s)"
    using assms(1) Some by (auto simp: endBeforeStep_def as_def unchanged_def after_drop_def)
  then show ?thesis
    using Some by (intro exI [of _ "beforeMap s"] exI [of _ ?am]) (simp add: as_def)
qed

lemma gdel_filter: "gdel k m = filter (\<lambda>(k', _). k' \<noteq> k) m"
  by (simp add: AList.delete_eq case_prod_beta' neq_commute)

lemma unchanged_gdel: "k \<noteq> k' \<Longrightarrow> unchanged (gdel k' bs) as k = unchanged bs as k
    \<and> unchanged bs (gdel k' as) k = unchanged bs as k"
  by (simp add: unchanged_def)

text \<open>The rendered entries without those of the keys \<open>ks\<close> that have not changed.\<close>

definition keep :: "string list \<Rightarrow> KVType gomap \<Rightarrow> KVType gomap \<Rightarrow> KVType gomap" where
  "keep ks bs as = filter (\<lambda>(k, _). \<not> (k \<in> set ks \<and> unchanged bs as k)) as"

lemma keep_Cons:
  assumes "k \<notin> set ks" "bs1 = (if map_of as k = None then gdel k bs else bs)" "as1 = (if unchanged bs as k then gdel k as else as)"
  shows "keep ks bs1 as1 = keep (k # ks) bs as"
proof -
  have u: "unchanged bs1 as1 k' = unchanged bs as k'" if "k' \<in> set ks" for k'
  proof -
    have "k' \<noteq> k" using that assms(1) by auto
    then show ?thesis by (simp add: assms(2,3) unchanged_gdel)
  qed
  have "keep ks bs1 as1 = filter (\<lambda>(k', _). \<not> (k' \<in> set ks \<and> unchanged bs as k')) as1"
    unfolding keep_def using u by (intro filter_cong) auto
  also have "\<dots> = filter (\<lambda>(k', _). \<not> (k' \<in> set ks \<and> unchanged bs as k')) (filter (\<lambda>(k', _). \<not> (k' = k \<and> unchanged bs as k')) as)"
    unfolding assms(3) gdel_filter by (rule arg_cong) (auto intro!: filter_cong)
  finally show ?thesis unfolding keep_def filter_filter by (auto intro!: filter_cong)
qed

lemma endBefore_ok:
  assumes "distinct ks" "\<forall>k \<in> set ks. map_of (levelGet (beforeMap s) 0) k \<noteq> None"
    and "entries_ok (levelGet (beforeMap s) 0)" "entries_ok (levelGet (afterMap s) 0)"
  shows "\<exists>bm am. endBefore ks s
      = Some (after_drop (filter (\<lambda>k. map_of (levelGet (afterMap s) 0) k = None) ks) bm am s)
    \<and> levelGet am 0 = keep ks (levelGet (beforeMap s) 0) (levelGet (afterMap s) 0)"
  using assms
proof (induction ks arbitrary: s)
  case Nil
  show ?case by (intro exI [of _ "beforeMap s"] exI [of _ "afterMap s"]) (simp add: after_drop_def keep_def)
next
  case (Cons k ks)
  define bs as where "bs = levelGet (beforeMap s) 0" and "as = levelGet (afterMap s) 0"
  let ?d = "if map_of as k = None then [k] else []"
  obtain b where b: "map_of (levelGet (beforeMap s) 0) k = Some b" using Cons.prems(2) by auto
  obtain bm am where step: "endBeforeStep k s = Some (after_drop ?d bm am s)"
    "levelGet bm 0 = (if map_of as k = None then gdel k bs else bs)"
    "levelGet am 0 = (if unchanged bs as k then gdel k as else as)"
    using endBeforeStep_ok [OF b Cons.prems(3,4)] unfolding bs_def as_def by blast
  have nk: "k \<notin> set ks" "distinct ks" using Cons.prems(1) by auto
  have ok: "entries_ok (levelGet bm 0)" "entries_ok (levelGet am 0)"
    using Cons.prems(3,4) step(2,3) by (auto simp: bs_def as_def gdel_filter entries_ok_filter)
  have there: "\<forall>k' \<in> set ks. map_of (levelGet bm 0) k' \<noteq> None"
    using Cons.prems(2) step(2) nk by (auto simp: bs_def)
  have f: "filter (\<lambda>k. map_of (levelGet am 0) k = None) ks = filter (\<lambda>k. map_of as k = None) ks"
    using nk(1) by (intro filter_cong) (auto simp: step(3))
  obtain bm' am' where ih: "endBefore ks (after_drop ?d bm am s)
      = Some (after_drop (filter (\<lambda>k. map_of as k = None) ks) bm' am' (after_drop ?d bm am s))"
    "levelGet am' 0 = keep ks (levelGet bm 0) (levelGet am 0)"
    using Cons.IH [of "after_drop ?d bm am s", unfolded after_drop_maps, OF nk(2) there ok] unfolding f by blast
  have "endBefore (k # ks) s = Some (after_drop (filter (\<lambda>k. map_of as k = None) (k # ks)) bm' am' s)"
    using ih(1) step(1) by (simp add: after_drop_trans)
  then show ?case
    using ih(2) keep_Cons [OF nk(1) step(2,3)] unfolding bs_def as_def by metis
qed

lemma endAfter_puts:
  assumes "entries_ok es"
  shows "\<exists>n \<le> length es. snd (endAfter es s) = s\<lparr>db_log := db_log s @ map put_op (take n es)\<rparr>
    \<and> (fst (endAfter es s) = None \<longrightarrow> n = length es)
    \<and> (fst (endAfter es s) \<noteq> None \<longrightarrow> 0 < n
        \<and> fst (endAfter es s) = env_put (db_env s) (db_log s @ map put_op (take n es)))"
  using assms
proof (induction es s rule: endAfter.induct)
  case (2 key after es s)
  then have wf: "kv_wf after" "entries_ok es" by (auto simp: entries_ok_def)
  let ?s1 = "s\<lparr>db_log := db_log s @ [put_op (key, after)]\<rparr>"
  obtain e where w: "WriteToEtcd after s = (e, ?s1)" "e = env_put (db_env s) (db_log ?s1)"
    using wf(1) by (simp add: WriteToEtcd_wf WriteToDatastore_def Let_def)
  show ?case
  proof (cases e)
    case None
    obtain n where n: "n \<le> length es" "snd (endAfter es ?s1) = ?s1\<lparr>db_log := db_log ?s1 @ map put_op (take n es)\<rparr>"
      "fst (endAfter es ?s1) = None \<longrightarrow> n = length es"
      "fst (endAfter es ?s1) \<noteq> None \<longrightarrow> 0 < n
        \<and> fst (endAfter es ?s1) = env_put (db_env ?s1) (db_log ?s1 @ map put_op (take n es))"
      using 2(1) [OF w(1) [symmetric] None wf(2)] by (elim exE conjE) (rule that)
    then show ?thesis using w None by (intro exI [of _ "Suc n"]) simp
  next
    case (Some a)
    then show ?thesis using w by (intro exI [of _ 1]) simp
  qed
qed simp

lemma cacheEntries_gput_all:
  "entries_ok es \<Longrightarrow> cacheEntries es m = gput_all es m"
proof -
  assume "entries_ok es"
  then have "fold (\<lambda>(_, vppKV). gput (VppKey vppKV) vppKV) es m = fold (\<lambda>(k, v). AList.update k v) es m"
    by (intro fold_cong) (auto simp: entries_ok_def)
  then show ?thesis by (simp add: cacheEntries_def gput_all_def)
qed

lemma map_of_fold_gdel: "map_of (fold gdel ks m) = (\<lambda>k. if k \<in> set ks then None else map_of m k)"
  by (induction ks arbitrary: m) auto

lemma distinct_fold_gdel: "distinct (gkeys m) \<Longrightarrow> distinct (gkeys (fold gdel ks m))"
  by (induction ks arbitrary: m) (auto simp: distinct_delete)

lemma entries_okI:
  assumes "distinct (gkeys m)" "\<And>k kv. map_of m k = Some kv \<Longrightarrow> VppKey kv = k \<and> kv_wf kv"
  shows "entries_ok m"
  using assms map_of_is_SomeI [OF assms(1)] by (fastforce simp: entries_ok_def)

lemma map_of_filter_key: "map_of (filter (\<lambda>(k, _). P k) m) k = (if P k then map_of m k else None)"
  by (induction m) auto

text \<open>The state of a transaction whose entities have all been rendered.\<close>

definition txn_ready :: "Plugin \<Rightarrow> bool" where
  "txn_ready s \<longleftrightarrow> entries_ok (levelGet (beforeMap s) 0) \<and> entries_ok (levelGet (afterMap s) 0)
    \<and> map_of (levelGet (beforeMap s) 0) = map_of (rc_VppEntries s)
    \<and> distinct (gkeys (rc_VppEntries s))"

text \<open>The cache a transaction leaves: without the stale keys, and then with what is written.\<close>

lemma stale_dropped:
  assumes "map_of bs = map_of V"
  shows "map_of (fold gdel (stale_keys bs as) V) = (\<lambda>k. if map_of as k = None then None else map_of bs k)"
proof
  fix k show "map_of (fold gdel (stale_keys bs as) V) k = (if map_of as k = None then None else map_of bs k)"
    using map_of_eq_None_iff [of bs k] by (auto simp: map_of_fold_gdel stale_keys_def assms [symmetric])
qed

lemma reconciled_cache:
  assumes "map_of bs = map_of V" "entries_ok (to_write bs as)"
  shows "map_of (cacheEntries (to_write bs as) (fold gdel (stale_keys bs as) V)) = (\<lambda>k. case map_of as k of
      None \<Rightarrow> None | Some a \<Rightarrow> Some (if unchanged bs as k then the (map_of bs k) else a))"
proof
  let ?V = "fold gdel (stale_keys bs as) V"
  fix k
  have "map_of (cacheEntries (to_write bs as) ?V) k = (map_of ?V ++ map_of (to_write bs as)) k"
    using assms(2) by (simp add: cacheEntries_gput_all map_of_gput_all entries_ok_def)
  also have "map_of (to_write bs as) k = (if unchanged bs as k then None else map_of as k)"
    unfolding to_write_def by (simp add: map_of_filter_key)
  then have "(map_of ?V ++ map_of (to_write bs as)) k = (case map_of as k of
      None \<Rightarrow> None | Some a \<Rightarrow> Some (if unchanged bs as k then the (map_of bs k) else a))"
    using stale_dropped [OF assms(1), of as] by (auto simp: map_add_def unchanged_def split: option.splits)
  finally show "map_of (cacheEntries (to_write bs as) ?V) k = (case map_of as k of
      None \<Rightarrow> None | Some a \<Rightarrow> Some (if unchanged bs as k then the (map_of bs k) else a))" .
qed

lemma keep_all: "keep (gkeys bs) bs as = to_write bs as"
proof -
  have "unchanged bs as k \<Longrightarrow> k \<in> set (gkeys bs)" for k
    by (auto simp: unchanged_def dest!: map_of_SomeD split: option.splits intro: rev_image_eqI)
  then show ?thesis unfolding keep_def to_write_def by (auto intro!: filter_cong)
qed

lemma RenderTxnConfigEnd_cases:
  assumes s: "txn_ready s"
  defines "bs \<equiv> levelGet (beforeMap s) 0" and "as \<equiv> levelGet (afterMap s) 0"
  defines "dels \<equiv> map DbDelete (stale_keys bs as)" and "ws \<equiv> to_write bs as"
  shows "\<exists>s' err n. RenderTxnConfigEnd s = Some (err, s') \<and> n \<le> length ws
    \<and> db_log s' = db_log s @ dels @ map put_op (take n ws)
    \<and> \<not> configLocked s' \<and> db_env s' = db_env s \<and> distinct (gkeys (rc_VppEntries s'))
    \<and> (err = None \<longrightarrow> n = length ws \<and> map_of (rc_VppEntries s') = (\<lambda>k. case map_of as k of
          None \<Rightarrow> None | Some a \<Rightarrow> Some (if unchanged bs as k then the (map_of bs k) else a)))
    \<and> (err \<noteq> None \<longrightarrow> 0 < n \<and> err = env_put (db_env s) (db_log s')
        \<and> map_of (rc_VppEntries s') = (\<lambda>k. if map_of as k = None then None else map_of bs k))"
proof -
  let ?ks = "gkeys bs" and ?V = "fold gdel (stale_keys bs as) (rc_VppEntries s)"
  have ok: "entries_ok bs" "entries_ok as" "map_of bs = map_of (rc_VppEntries s)"
    using s by (simp_all add: txn_ready_def bs_def as_def)
  have "distinct ?ks" "\<forall>k \<in> set ?ks. map_of bs k \<noteq> None"
    using ok(1) by (auto simp: entries_ok_def map_of_eq_None_iff)
  then obtain bm am where e1: "endBefore ?ks s = Some (after_drop (stale_keys bs as) bm am s)" and am: "levelGet am 0 = keep ?ks bs as"
    using endBefore_ok [of ?ks s] ok(1,2) unfolding bs_def as_def stale_keys_def by blast
  define s1 where "s1 = after_drop (stale_keys bs as) bm am s"
  have ws: "levelGet am 0 = ws" unfolding am ws_def by (rule keep_all)
  have okw: "entries_ok ws" using ok(2) by (simp add: ws_def to_write_def entries_ok_filter)
  obtain n where n: "n \<le> length ws" "snd (endAfter ws s1) = s1\<lparr>db_log := db_log s1 @ map put_op (take n ws)\<rparr>"
    "fst (endAfter ws s1) = None \<longrightarrow> n = length ws"
    "fst (endAfter ws s1) \<noteq> None \<longrightarrow> 0 < n
      \<and> fst (endAfter ws s1) = env_put (db_env s1) (db_log s1 @ map put_op (take n ws))"
    using endAfter_puts [OF okw] by blast
  obtain err where ea: "endAfter ws s1 = (err, s1\<lparr>db_log := db_log s1 @ map put_op (take n ws)\<rparr>)"
    using n(2) by (cases "endAfter ws s1") auto
  note V = stale_dropped [OF ok(3), of as] and cache = reconciled_cache [OF ok(3) okw [unfolded ws_def], folded ws_def]
  have "distinct (gkeys ?V)"
    using s by (simp add: txn_ready_def distinct_fold_gdel)
  moreover from this have "distinct (gkeys (cacheEntries ws ?V))"
    using okw by (simp add: cacheEntries_gput_all distinct_gput_all)
  moreover note fin_facts = calculation
  have fin: "RenderTxnConfigEnd s = (case endAfter ws s1 of
         (Some e, s2) \<Rightarrow> Some (Some e, s2\<lparr>configLocked := False\<rparr>)
       | (None, s2) \<Rightarrow>
           Some (None, s2\<lparr>rc_VppEntries := cacheEntries (levelGet (afterMap s2) 0) (rc_VppEntries s2),
             configLocked := False\<rparr>))"
    using e1 ws by (simp add: RenderTxnConfigEnd_def bs_def [symmetric] s1_def)
  have logs: "db_log s1 = db_log s @ dels" "rc_VppEntries s1 = ?V" "db_env s1 = db_env s" "afterMap s1 = am"
    by (simp_all add: s1_def after_drop_def dels_def)
  show ?thesis
  proof (cases err)
    case None
    then show ?thesis using fin ea n(1,3) logs ws cache fin_facts by simp
  next
    case (Some e)
    then show ?thesis using fin ea n(1,4) logs V fin_facts by auto
  qed
qed

lemma RenderTxnConfigEnd_success:
  assumes "txn_ready s" "RenderTxnConfigEnd s = Some (None, s')"
    "bs = levelGet (beforeMap s) 0" "as = levelGet (afterMap s) 0"
  shows "db_log s' = db_log s @ map DbDelete (stale_keys bs as) @ map put_op (to_write bs as)"
    and "map_of (rc_VppEntries s') = (\<lambda>k. case map_of as k of
      None \<Rightarrow> None | Some a \<Rightarrow> Some (if unchanged bs as k then the (map_of bs k) else a))"
    and "distinct (gkeys (rc_VppEntries s'))" "\<not> configLocked s'"
  using RenderTxnConfigEnd_cases [OF assms(1)] unfolding assms(2-4) by auto

section \<open>The stored data\<close>

lemma store_deletes:
  "store_of (l @ map DbDelete ks) k = (if k \<in> set ks then None else store_of l k)"
proof (induction ks rule: rev_induct)
  case (snoc x xs)
  then show ?case by (simp flip: append_assoc)
qed simp

lemma store_puts:
  assumes "entries_ok es"
  shows "store_of (l @ map put_op es) k =
    (case map_of es k of Some kv \<Rightarrow> Some (DVpp (the (payload kv))) | None \<Rightarrow> store_of l k)"
  using assms
proof (induction es arbitrary: l)
  case (Cons e es)
  obtain k' kv where e: "e = (k', kv)" by (cases e)
  have ok: "entries_ok es" "k' = VppKey kv" "k' \<notin> fst ` set es"
    using Cons.prems e by (auto simp: entries_ok_def)
  have "store_of (l @ map put_op (e # es)) k = store_of ((l @ [put_op e]) @ map put_op es) k" by simp
  then show ?case
    using Cons.IH [OF ok(1), of "l @ [put_op e]"] ok(2,3) e
    by (auto simp: map_of_eq_None_iff [symmetric] split: option.splits)
qed simp

text \<open>The cache mirrors the store: what is cached is what was last written under its key.\<close>

definition mirrors :: "Plugin \<Rightarrow> bool" where
  "mirrors s \<longleftrightarrow> (\<forall>k kv. map_of (rc_VppEntries s) k = Some kv
    \<longrightarrow> store_of (db_log s) k = Some (DVpp (the (payload kv))))"

lemma unchanged_payload:
  assumes "entries_ok bs" "entries_ok as" "unchanged bs as k" "map_of as k = Some a"
  shows "\<exists>b. map_of bs k = Some b \<and> strip_description (the (payload b)) = strip_description (the (payload a))"
proof -
  obtain b where b: "map_of bs k = Some b" "Equal b a = Some True"
    using assms(3,4) by (auto simp: unchanged_def split: option.splits)
  have "kv_wf a" "kv_wf b" using assms b by (auto dest: entries_okD)
  then have "map_option strip_description (payload b) = map_option strip_description (payload a)"
    using b(2) Equal_payload [of b a] by simp
  then show ?thesis using b(1) \<open>kv_wf a\<close> \<open>kv_wf b\<close> by (auto simp: kv_wf_def kv_typed_def)
qed

text \<open>What the store holds under a key after a transaction without error.\<close>

lemma RenderTxnConfigEnd_store_at:
  assumes "txn_ready s" "RenderTxnConfigEnd s = Some (None, s')"
    "bs = levelGet (beforeMap s) 0" "as = levelGet (afterMap s) 0"
  shows "store_of (db_log s') k = (case map_of as k of
      Some a \<Rightarrow> if unchanged bs as k then store_of (db_log s) k else Some (DVpp (the (payload a)))
    | None \<Rightarrow> if map_of bs k = None then store_of (db_log s) k else None)"
proof -
  have "entries_ok as" using assms(1,4) by (simp add: txn_ready_def)
  then have okw: "entries_ok (to_write bs as)" by (simp add: to_write_def entries_ok_filter)
  have log: "db_log s' = db_log s @ map DbDelete (stale_keys bs as) @ map put_op (to_write bs as)"
    using RenderTxnConfigEnd_success(1) [OF assms] .
  have w: "map_of (to_write bs as) k = (if unchanged bs as k then None else map_of as k)" for k
    by (simp add: to_write_def map_of_filter_key)
  show ?thesis
    using store_puts [OF okw, of "db_log s @ map DbDelete (stale_keys bs as)" k] map_of_eq_None_iff [of bs k]
    by (auto simp: log w store_deletes stale_keys_def split: option.splits)
qed

lemma unchanged_cached: "unchanged bs as k \<Longrightarrow> \<exists>b. map_of bs k = Some b"
  by (auto simp: unchanged_def split: option.splits)

section \<open>A concrete transaction\<close>

text \<open>A transaction that has rendered one cross connect.\<close>

definition demo_txn :: Plugin where
  "demo_txn = (fresh_plugin good_env)
    \<lparr>beforeMap := [(0, [])],
     afterMap := [(0, [(L2XConnectKey ''v'' ''a'', constructUniDirXConnect ''v'' ''a'' ''b'')])],
     configLocked := True\<rparr>"

lemma demo_txn_ready: "txn_ready demo_txn" "mirrors demo_txn"
  by (simp_all add: txn_ready_def demo_txn_def fresh_plugin_def levelGet_def entries_ok_def mirrors_def)
    (simp add: constructUniDirXConnect_def NewKVEntry_def)

lemma demo_txn_success: "\<exists>s'. RenderTxnConfigEnd demo_txn = Some (None, s')"
proof -
  obtain err s' where e: "RenderTxnConfigEnd demo_txn = Some (err, s')"
    "err \<noteq> None \<longrightarrow> err = env_put (db_env demo_txn) (db_log s')"
    using RenderTxnConfigEnd_cases [OF demo_txn_ready(1)] by blast
  moreover have "env_put (db_env demo_txn) l = None" for l
    by (simp add: demo_txn_def fresh_plugin_def good_env_def)
  ultimately show ?thesis by auto
qed

section \<open>Properties\<close>

text \<open>C1. \<open>RenderTxnConfigEnd\<close> reconciles: whatever etcd answers, it returns, it unlocks, and the
  operations it issues are one delete for each cached entry that was not rendered again, followed
  by puts of rendered entries that are new or differ from the cached one, in order.  Without an
  error all of those are written and the cache becomes the rendered set, keeping the cached value
  where the two compare equal.  With an error the unwritten entries stay out of the cache.\<close>

theorem RenderTxnConfigEnd_reconciles:
  assumes "txn_ready s"
  shows "\<exists>s' err n. RenderTxnConfigEnd s = Some (err, s')
    \<and> n \<le> length (to_write (levelGet (beforeMap s) 0) (levelGet (afterMap s) 0))
    \<and> db_log s' = db_log s
        @ map DbDelete (stale_keys (levelGet (beforeMap s) 0) (levelGet (afterMap s) 0))
        @ map put_op (take n (to_write (levelGet (beforeMap s) 0) (levelGet (afterMap s) 0)))
    \<and> \<not> configLocked s'
    \<and> (err = None \<longrightarrow>
        n = length (to_write (levelGet (beforeMap s) 0) (levelGet (afterMap s) 0))
        \<and> map_of (rc_VppEntries s') = (\<lambda>k. case map_of (levelGet (afterMap s) 0) k of
            None \<Rightarrow> None
          | Some a \<Rightarrow> Some (if unchanged (levelGet (beforeMap s) 0) (levelGet (afterMap s) 0) k
              then the (map_of (levelGet (beforeMap s) 0) k) else a)))
    \<and> (err \<noteq> None \<longrightarrow> 0 < n \<and> err = env_put (db_env s) (db_log s') \<and> map_of (rc_VppEntries s') =
        (\<lambda>k. if map_of (levelGet (afterMap s) 0) k = None then None else map_of (levelGet (beforeMap s) 0) k))"
  using RenderTxnConfigEnd_cases [OF assms] by blast

theorem RenderTxnConfigEnd_reconciles_witness:
  "\<exists>err s'. RenderTxnConfigEnd demo_txn = Some (err, s')"
  using RenderTxnConfigEnd_reconciles [OF demo_txn_ready(1)] by blast



text \<open>The cached entry compares equal to the rendered one it stands for.\<close>

lemma reconciled_Equal:
  assumes "entries_ok as" "map_of as k = Some a"
  shows "Equal (if unchanged bs as k then the (map_of bs k) else a) a = Some True"
proof (cases "unchanged bs as k")
  case True
  then show ?thesis using assms(2) by (auto simp: unchanged_def split: option.splits)
next
  case False
  then show ?thesis using Equal_payload entries_okD(2) [OF assms] by simp
qed

text \<open>A transaction in which every rendered entry compares equal to the cached one, and every cached key
  is rendered, does nothing.\<close>

lemma RenderTxnConfigEnd_unchanged:
  assumes "txn_ready s" "bs = levelGet (beforeMap s) 0" "as = levelGet (afterMap s) 0"
    and un: "\<forall>k. map_of as k \<noteq> None \<longrightarrow> unchanged bs as k" and dom: "dom (map_of bs) \<subseteq> dom (map_of as)"
  shows "\<exists>s'. RenderTxnConfigEnd s = Some (None, s') \<and> db_log s' = db_log s \<and> map_of (rc_VppEntries s') = map_of bs"
proof -
  have ok: "entries_ok as" using assms(1,3) by (simp add: txn_ready_def)
  have "to_write bs as = []"
    using un map_of_is_SomeI [of as] ok by (fastforce simp: to_write_def filter_empty_conv entries_ok_def)
  moreover have "map_of as k \<noteq> None" if "k \<in> fst ` set bs" for k
    using that dom by (metis domD domI dom_map_of_conv_image_fst option.distinct(1) subsetD)
  then have "stale_keys bs as = []" by (auto simp: stale_keys_def filter_empty_conv)
  ultimately obtain s' where e: "RenderTxnConfigEnd s = Some (None, s')" "db_log s' = db_log s"
    "map_of (rc_VppEntries s') = (\<lambda>k. case map_of as k of
          None \<Rightarrow> None | Some a \<Rightarrow> Some (if unchanged bs as k then the (map_of bs k) else a))"
    using RenderTxnConfigEnd_cases [OF assms(1)] unfolding assms(2,3) [symmetric] by fastforce
  moreover have "map_of (rc_VppEntries s') k = map_of bs k" for k
  proof (cases "map_of as k")
    case None
    then have "map_of bs k = None" using dom by (metis domIff subsetD)
    with None e(3) show ?thesis by simp
  next
    case (Some a)
    then have "unchanged bs as k" using un by simp
    with Some e(3) show ?thesis by (auto simp: unchanged_def split: option.splits)
  qed
  ultimately show ?thesis by blast
qed



section \<open>Entities\<close>

abbreviation keyed :: "KVType list \<Rightarrow> KVType gomap" where
  "keyed kvs \<equiv> map (\<lambda>kv. (VppKey kv, kv)) kvs"

lemma AddVppEntryToTxn_after:
  assumes "map_of (afterMap s) (txnLevel s) \<noteq> None" "r \<noteq> None"
  shows "\<exists>r'. r' \<noteq> None \<and> RenderTxnAddVppEntryToTxn r e kv s = Some (r', s\<lparr>afterMap :=
    AList.update (txnLevel s) (gput (VppKey kv) kv (levelGet (afterMap s) (txnLevel s))) (afterMap s)\<rparr>)"
  using assms by (auto simp: RenderTxnAddVppEntryToTxn_def levelPut_ok)

lemma AddVppEntriesToTxn_after:
  assumes "map_of (afterMap s) (txnLevel s) \<noteq> None" "r \<noteq> None"
  shows "\<exists>r'. r' \<noteq> None \<and> RenderTxnAddVppEntriesToTxn r e kvs s = Some (r', s\<lparr>afterMap :=
    (if kvs = [] then afterMap s
     else AList.update (txnLevel s) (gput_all (keyed kvs) (levelGet (afterMap s) (txnLevel s))) (afterMap s))\<rparr>)"
  using assms
proof (induction kvs arbitrary: r s)
  case (Cons kv kvs)
  let ?m = "AList.update (txnLevel s) (gput (VppKey kv) kv (levelGet (afterMap s) (txnLevel s))) (afterMap s)"
  obtain r1 where r1: "r1 \<noteq> None" "RenderTxnAddVppEntryToTxn r e kv s = Some (r1, s\<lparr>afterMap := ?m\<rparr>)"
    using AddVppEntryToTxn_after [OF Cons.prems] by blast
  have "map_of (afterMap (s\<lparr>afterMap := ?m\<rparr>)) (txnLevel (s\<lparr>afterMap := ?m\<rparr>)) \<noteq> None"
    by (simp add: update_conv')
  from Cons.IH [OF this r1(1)] show ?case
    using r1(2) by (auto simp: AList_update_update)
qed auto

lemma mergeLevel_ok:
  assumes "map_of (afterMap s) l \<noteq> None"
  shows "mergeLevel es l s = Some (s\<lparr>afterMap :=
    (if es = [] then afterMap s else AList.update l (gput_all es (levelGet (afterMap s) l)) (afterMap s))\<rparr>)"
  using assms
proof (induction es l s rule: mergeLevel.induct)
  case (2 key entry es l s)
  let ?m = "AList.update l (gput key entry (levelGet (afterMap s) l)) (afterMap s)"
  have p: "levelPut (afterMap s) l key entry = Some ?m" using 2(2) by (rule levelPut_ok)
  have "map_of (afterMap (s\<lparr>afterMap := ?m\<rparr>)) l \<noteq> None" by (simp add: update_conv')
  from 2(1) [OF p this] show ?case using p by (simp add: AList_update_update)
qed simp

text \<open>Rendering one entity: open a level, add its entries, and close the level; on failure the
  entries are dropped before the level is closed.\<close>

definition render_entity ::
  "bool \<Rightarrow> RenderedVppAgentEntry gomap option \<Rightarrow> string \<Rightarrow> KVType list \<Rightarrow> Plugin
    \<Rightarrow> (RenderedVppAgentEntry gomap option \<times> Plugin) option" where
  "render_entity ok r e kvs s =
    do {
      (r', s1) \<leftarrow> RenderTxnAddVppEntriesToTxn r e kvs (RenderTxnConfigEntityStart s);
      s2 \<leftarrow> RenderTxnConfigEntityEnd (if ok then s1 else RenderTxnConfigEntityRemoveEntries s1);
      Some (r', s2)
    }"

lemma RenderTxnConfigEntityEnd_ok:
  assumes "map_of (afterMap s) (txnLevel s - 1) \<noteq> None"
  shows "\<exists>s'. RenderTxnConfigEntityEnd s = Some s' \<and> txnLevel s' = txnLevel s - 1
    \<and> levelGet (afterMap s') (txnLevel s - 1)
        = gput_all (levelGet (afterMap s) (txnLevel s)) (levelGet (afterMap s) (txnLevel s - 1))
    \<and> (\<forall>l. l \<noteq> txnLevel s \<and> l \<noteq> txnLevel s - 1 \<longrightarrow> levelGet (afterMap s') l = levelGet (afterMap s) l)
    \<and> rc_VppEntries s' = rc_VppEntries s \<and> db_log s' = db_log s"
  using mergeLevel_ok [OF assms, of "levelGet (afterMap s) (txnLevel s)"]
  by (auto simp: RenderTxnConfigEntityEnd_def removeLevelMap_def Let_def)

text \<open>C4. An entity is rendered into the transaction as a whole or not at all: closing its level
  merges all entries it added into the enclosing level, a later entry replacing an earlier one with
  the same key; after \<open>RenderTxnConfigEntityRemoveEntries\<close> the enclosing level is as it was.  The
  nesting level is restored and the cache and etcd are not touched.\<close>

theorem render_entity_all_or_nothing:
  assumes "map_of (afterMap s) (txnLevel s) \<noteq> None" "r \<noteq> None"
  shows "\<exists>r' s'. render_entity ok r e kvs s = Some (r', s') \<and> txnLevel s' = txnLevel s
    \<and> map_of (levelGet (afterMap s') (txnLevel s)) =
        (if ok then map_of (levelGet (afterMap s) (txnLevel s)) ++ map_of (gput_all (keyed kvs) [])
         else map_of (levelGet (afterMap s) (txnLevel s)))
    \<and> (\<forall>l < txnLevel s. levelGet (afterMap s') l = levelGet (afterMap s) l)
    \<and> rc_VppEntries s' = rc_VppEntries s \<and> db_log s' = db_log s"
proof -
  define s0 where "s0 = RenderTxnConfigEntityStart s"
  have s0: "txnLevel s0 = txnLevel s + 1" "afterMap s0 = AList.update (txnLevel s + 1) [] (afterMap s)"
    "rc_VppEntries s0 = rc_VppEntries s" "db_log s0 = db_log s"
    by (simp_all add: s0_def RenderTxnConfigEntityStart_def initLevelMap_def Let_def)
  define am where "am = (if kvs = [] then afterMap s0
     else AList.update (txnLevel s0) (gput_all (keyed kvs) (levelGet (afterMap s0) (txnLevel s0))) (afterMap s0))"
  have "map_of (afterMap s0) (txnLevel s0) \<noteq> None" by (simp add: s0 update_conv')
  from AddVppEntriesToTxn_after [OF this assms(2), of e kvs] obtain r'
    where add1: "RenderTxnAddVppEntriesToTxn r e kvs s0 = Some (r', s0\<lparr>afterMap := am\<rparr>)"
    unfolding am_def by blast
  have "levelGet am (txnLevel s + 1) = gput_all (keyed kvs) []"
    "\<And>l. l \<noteq> txnLevel s + 1 \<Longrightarrow> map_of am l = map_of (afterMap s) l"
    by (simp_all add: am_def s0 update_conv')
  note add = add1 this
  let ?s1 = "s0\<lparr>afterMap := am\<rparr>"
  let ?s2 = "if ok then ?s1 else RenderTxnConfigEntityRemoveEntries ?s1"
  have s2: "txnLevel ?s2 = txnLevel s + 1" "map_of (afterMap ?s2) (txnLevel ?s2 - 1) \<noteq> None"
    "levelGet (afterMap ?s2) (txnLevel s + 1) = (if ok then gput_all (keyed kvs) [] else [])"
    "rc_VppEntries ?s2 = rc_VppEntries s" "db_log ?s2 = db_log s"
    using s0 add(2) add(3) [of "txnLevel s"] assms(1)
    by (simp_all add: RenderTxnConfigEntityRemoveEntries_def update_conv')
  have low: "levelGet (afterMap ?s2) l = levelGet (afterMap s) l" if "l \<le> txnLevel s" for l
    using add(3) [of l] that s0(1) by (simp add: RenderTxnConfigEntityRemoveEntries_def) (simp add: levelGet_def)
  obtain s' where s': "RenderTxnConfigEntityEnd ?s2 = Some s'" "txnLevel s' = txnLevel s"
    "levelGet (afterMap s') (txnLevel s) = gput_all (if ok then gput_all (keyed kvs) [] else []) (levelGet (afterMap s) (txnLevel s))"
    "\<forall>l. l \<noteq> txnLevel s + 1 \<and> l \<noteq> txnLevel s \<longrightarrow> levelGet (afterMap s') l = levelGet (afterMap ?s2) l"
    "rc_VppEntries s' = rc_VppEntries s" "db_log s' = db_log s"
    using RenderTxnConfigEntityEnd_ok [OF s2(2)] s2 low [of "txnLevel s"] by auto
  have "distinct (gkeys (gput_all (keyed kvs) []))" by (simp add: distinct_gput_all)
  then have "map_of (levelGet (afterMap s') (txnLevel s)) =
        (if ok then map_of (levelGet (afterMap s) (txnLevel s)) ++ map_of (gput_all (keyed kvs) [])
         else map_of (levelGet (afterMap s) (txnLevel s)))"
    using s'(3) by (simp add: map_of_gput_all)
  moreover have "render_entity ok r e kvs s = Some (r', s')"
    using add(1) s'(1) by (simp add: render_entity_def s0_def [symmetric])
  ultimately show ?thesis using s'(2,4-6) low by auto
qed

theorem render_entity_all_or_nothing_witness:
  "\<exists>r' s'. render_entity False (Some []) ''svc'' (ConstructXConnect ''v'' ''c'' ''d'') demo_txn = Some (r', s')"
  using render_entity_all_or_nothing [of demo_txn "Some []" False "''svc''" "ConstructXConnect ''v'' ''c'' ''d''"]
  by (auto simp: demo_txn_def fresh_plugin_def)

end
