(* ===== verification/IpamPool.thy ===== *)
theory IpamPool
  imports State
begin

text \<open>
  The IPAM pool manager, \<open>plugins/controller/ipampool.go\<close>: pools with a scope (the system, every
  node, every network service), and one address allocator per pool and entity in scope, kept in the
  ram cache under the name \<open>/scope/pool/entity\<close>.  An allocator is a pointer that may be nil; it is
  read from the cache and the changed allocator is written back.  The status of a pool records a
  line of text per allocator.
\<close>

section \<open>Model\<close>

definition IPAMPool_ConfigEqual :: "IPAMPool \<Rightarrow> IPAMPool \<Rightarrow> bool" where
  "IPAMPool_ConfigEqual p p2 \<longleftrightarrow> metadataEqual (ipp_Metadata p) (ipp_Metadata p2) \<and> ipp_Spec p = ipp_Spec p2"

definition contructAllocatorName :: "IPAMPool \<Rightarrow> string \<Rightarrow> string option" where
  "contructAllocatorName ipamPool entityName =
    do {
      spec \<leftarrow> ipp_Spec ipamPool;
      if ips_Scope spec = IPAMPoolScopeSystem then do {
        md \<leftarrow> ipp_Metadata ipamPool;
        Some (concat [''/'', ips_Scope spec, ''/'', md_Name md])
      }
      else if ips_Scope spec = IPAMPoolScopeNode \<or> ips_Scope spec = IPAMPoolScopeNetworkService then do {
        md \<leftarrow> ipp_Metadata ipamPool;
        Some (concat [''/'', ips_Scope spec, ''/'', md_Name md, ''/'', entityName])
      }
      else Some ''''
    }"

text \<open>The name of the allocator found and the allocator, or the error.\<close>

definition FindAllocator ::
  "string \<Rightarrow> string \<Rightarrow> Plugin \<Rightarrow> (err + string \<times> PoolAllocatorType option) option" where
  "FindAllocator poolName entityName s =
    (case map_of (ipamPoolCache s) poolName of
       None \<Rightarrow> Some (Inl (''Cannot find ipam pool '' @ poolName))
     | Some ipamPool \<Rightarrow> do {
         allocatorName \<leftarrow> contructAllocatorName ipamPool entityName;
         (case map_of (rc_IPAMPoolAllocators s) allocatorName of
            None \<Rightarrow> Some (Inl (concat [''Cannot find allocator pool '', poolName, '': allocator: '', allocatorName]))
          | Some ipamAllocator \<Rightarrow> Some (Inr (allocatorName, ipamAllocator)))
       })"

definition scopeEntity :: "IPAMPoolSpec \<Rightarrow> string \<Rightarrow> string \<Rightarrow> string" where
  "scopeEntity spec nodeName vsName =
    (if ips_Scope spec = IPAMPoolScopeNode then nodeName
     else if ips_Scope spec = IPAMPoolScopeNetworkService then vsName
     else '''')"

text \<open>\<open>ipamPool.Status.Addresses[allocatorPool.Name] = ...\<close>, a panic when the status or the map
  is nil.\<close>

definition recordAddresses :: "string \<Rightarrow> PoolAllocatorType \<Rightarrow> Plugin \<Rightarrow> Plugin option" where
  "recordAddresses poolName p s =
    do {
      ipamPool \<leftarrow> map_of (ipamPoolCache s) poolName;
      st \<leftarrow> ipp_Status ipamPool;
      addrs \<leftarrow> ipst_Addresses st;
      let st' = st\<lparr>ipst_Addresses := Some (gput (pa_Name p) (GetAllocatedAddressesStatus p) addrs)\<rparr>;
      Some (s\<lparr>ipamPoolCache := gput poolName (ipamPool\<lparr>ipp_Status := Some st'\<rparr>) (ipamPoolCache s)\<rparr>)
    }"

definition AllocateAddress ::
  "string \<Rightarrow> string \<Rightarrow> string \<Rightarrow> Plugin \<Rightarrow> ((string \<times> u32 \<times> err option) \<times> Plugin) option" where
  "AllocateAddress poolName nodeName vsName s =
    (case map_of (ipamPoolCache s) poolName of
       None \<Rightarrow> Some (('''', 0, Some (''Cannot find ipam pool '' @ poolName)), s)
     | Some ipamPool \<Rightarrow> do {
         spec \<leftarrow> ipp_Spec ipamPool;
         r \<leftarrow> FindAllocator poolName (scopeEntity spec nodeName vsName) s;
         (case r of
            Inl err \<Rightarrow>
              Some (('''', 0, Some (concat [''Cannot find ipam pool allocator for '', poolName, '': '', err])), s)
          | Inr (allocatorName, pool) \<Rightarrow> do {
              p \<leftarrow> pool;
              ((ipAddress, ipNum, err), p') \<leftarrow> AllocateIPAddress p;
              let s1 = s\<lparr>rc_IPAMPoolAllocators := gput allocatorName (Some p') (rc_IPAMPoolAllocators s)\<rparr>;
              if err \<noteq> None
              then Some (('''', 0, Some (''Cannot allocate address from ipam pool '' @ poolName)), s1)
              else do {
                s2 \<leftarrow> recordAddresses poolName p' s1;
                Some ((ipAddress, ipNum, None), s2)
              }
            })
       })"

definition Mgr_SetAddress ::
  "string \<Rightarrow> string \<Rightarrow> string \<Rightarrow> u32 \<Rightarrow> Plugin \<Rightarrow> ((string \<times> err option) \<times> Plugin) option" where
  "Mgr_SetAddress poolName nodeName vsName ipNum s =
    (case map_of (ipamPoolCache s) poolName of
       None \<Rightarrow> Some (('''', Some (''Cannot find ipam pool '' @ poolName)), s)
     | Some ipamPool \<Rightarrow> do {
         spec \<leftarrow> ipp_Spec ipamPool;
         r \<leftarrow> FindAllocator poolName (scopeEntity spec nodeName vsName) s;
         (case r of
            Inl err \<Rightarrow>
              Some (('''', Some (concat [''Cannot find ipam pool allocator for '', poolName, '': '', err])), s)
          | Inr (allocatorName, pool) \<Rightarrow> do {
              p \<leftarrow> pool;
              let ((ipAddrStr, err), p') = SetAddress p ipNum;
              let s1 = s\<lparr>rc_IPAMPoolAllocators := gput allocatorName (Some p') (rc_IPAMPoolAllocators s)\<rparr>;
              if err \<noteq> None
              then Some (('''', Some (''Cannot allocate address from ipam pool '' @ poolName)), s1)
              else do {
                s2 \<leftarrow> recordAddresses poolName p' s1;
                Some ((ipAddrStr, None), s2)
              }
            })
       })"

definition SetAddressIfInPool :: "string \<Rightarrow> string \<Rightarrow> string \<Rightarrow> string \<Rightarrow> Plugin \<Rightarrow> Plugin option" where
  "SetAddressIfInPool poolName nodeName vsName ipAddress s =
    (case map_of (ipamPoolCache s) poolName of
       None \<Rightarrow> Some s
     | Some ipamPool \<Rightarrow> do {
         spec \<leftarrow> ipp_Spec ipamPool;
         r \<leftarrow> FindAllocator poolName (scopeEntity spec nodeName vsName) s;
         (case r of
            Inl err \<Rightarrow> Some s
          | Inr (allocatorName, pool) \<Rightarrow> do {
              p \<leftarrow> pool;
              p' \<leftarrow> SetIPAddrIfInsidePool p ipAddress;
              recordAddresses poolName p'
                (s\<lparr>rc_IPAMPoolAllocators := gput allocatorName (Some p') (rc_IPAMPoolAllocators s)\<rparr>)
            })
       })"

definition entityCreateStep :: "string \<Rightarrow> string \<Rightarrow> string \<times> IPAMPool \<Rightarrow> Plugin \<Rightarrow> Plugin option" where
  "entityCreateStep entityName scope e s =
    do {
      let ipamPool = snd e;
      spec \<leftarrow> ipp_Spec ipamPool;
      if ips_Scope spec = scope then do {
        md \<leftarrow> ipp_Metadata ipamPool;
        r \<leftarrow> FindAllocator (md_Name md) entityName s;
        (case r of
           Inr _ \<Rightarrow> Some s
         | Inl err \<Rightarrow> do {
             allocatorName \<leftarrow> contructAllocatorName ipamPool entityName;
             let p = NewIPAMPoolAllocator allocatorName (ips_StartRange spec) (ips_EndRange spec) (ips_Network spec);
             Some (s\<lparr>rc_IPAMPoolAllocators := gput allocatorName p (rc_IPAMPoolAllocators s)\<rparr>)
           })
      }
      else Some s
    }"

definition EntityCreate :: "string \<Rightarrow> string \<Rightarrow> Plugin \<Rightarrow> Plugin option" where
  "EntityCreate entityName scope s = foldM (entityCreateStep entityName scope) (ipamPoolCache s) s"

definition entityDeleteStep :: "string \<Rightarrow> string \<Rightarrow> string \<times> IPAMPool \<Rightarrow> Plugin \<Rightarrow> Plugin option" where
  "entityDeleteStep entityName scope e s =
    do {
      let ipamPool = snd e;
      spec \<leftarrow> ipp_Spec ipamPool;
      if ips_Scope spec = scope \<or> scope = IPAMPoolScopeAny then do {
        md \<leftarrow> ipp_Metadata ipamPool;
        r \<leftarrow> FindAllocator (md_Name md) entityName s;
        (case r of
           Inr (_, Some _) \<Rightarrow> do {
             allocatorName \<leftarrow> contructAllocatorName ipamPool entityName;
             cur \<leftarrow> map_of (ipamPoolCache s) (fst e);
             st \<leftarrow> ipp_Status cur;
             let st' = st\<lparr>ipst_Addresses := map_option (gdel allocatorName) (ipst_Addresses st)\<rparr>;
             Some (s\<lparr>ipamPoolCache := gput (fst e) (cur\<lparr>ipp_Status := Some st'\<rparr>) (ipamPoolCache s),
               rc_IPAMPoolAllocators := gdel allocatorName (rc_IPAMPoolAllocators s)\<rparr>)
           }
         | _ \<Rightarrow> Some s)
      }
      else Some s
    }"

definition EntityDelete :: "string \<Rightarrow> string \<Rightarrow> Plugin \<Rightarrow> Plugin option" where
  "EntityDelete entityName scope s = foldM (entityDeleteStep entityName scope) (ipamPoolCache s) s"

definition IPAMPool_KeyPrefix :: string where
  "IPAMPool_KeyPrefix = SfcControllerConfigPrefix @ ''ipam-pool/''"

definition IPAMPool_NameKey :: "string \<Rightarrow> string" where
  "IPAMPool_NameKey name = IPAMPool_KeyPrefix @ name"

definition IPAMPool_writeToDatastore :: "IPAMPool \<Rightarrow> Plugin \<Rightarrow> (err option \<times> Plugin) option" where
  "IPAMPool_writeToDatastore ip s =
    do {
      md \<leftarrow> ipp_Metadata ip;
      Some (WriteToDatastore (IPAMPool_NameKey (md_Name md)) (DIPAMPool ip) s)
    }"

definition IPAMPool_HandleCRUDOperationCU :: "IPAMPool \<Rightarrow> Plugin \<Rightarrow> (err option \<times> Plugin) option" where
  "IPAMPool_HandleCRUDOperationCU data0 s =
    do {
      let ipamPool = \<lparr>ipp_Metadata = ipp_Metadata data0, ipp_Spec = ipp_Spec data0, ipp_Status = None\<rparr>;
      md \<leftarrow> ipp_Metadata data0;
      let s1 = s\<lparr>ipamPoolCache := gput (md_Name md) ipamPool (ipamPoolCache s)\<rparr>;
      spec \<leftarrow> ipp_Spec ipamPool;
      s2 \<leftarrow>
        (if ips_Scope spec = IPAMPoolScopeSystem then EntityCreate '''' (ips_Scope spec) s1
         else if ips_Scope spec = IPAMPoolScopeNode then
           foldM (\<lambda>(_, nn) s. do {
             nmd \<leftarrow> nn_Metadata nn; EntityCreate (md_Name nmd) (ips_Scope spec) s }) (networkNodeCache s1) s1
         else if ips_Scope spec = IPAMPoolScopeNetworkService then
           foldM (\<lambda>(_, ns) s. do {
             nmd \<leftarrow> ns_Metadata ns; EntityCreate (md_Name nmd) (ips_Scope spec) s }) (networkServiceCache s1) s1
         else Some s1);
      let ipamPool' = ipamPool\<lparr>ipp_Status := Some \<lparr>ipst_Addresses = Some []\<rparr>\<rparr>;
      let s3 = s2\<lparr>ipamPoolCache := gput (md_Name md) ipamPool' (ipamPoolCache s2)\<rparr>;
      IPAMPool_writeToDatastore ipamPool' s3
    }"

definition IPAMPool_HandleCRUDOperationD :: "string \<Rightarrow> Plugin \<Rightarrow> (err option \<times> Plugin) option" where
  "IPAMPool_HandleCRUDOperationD name s =
    (case map_of (ipamPoolCache s) name of
       None \<Rightarrow> Some (None, s)
     | Some ipamPool \<Rightarrow> do {
         let s1 = s\<lparr>ipamPoolCache := gdel name (ipamPoolCache s)\<rparr>;
         let s2 = DeleteFromDatastore (IPAMPool_NameKey name) s1;
         spec \<leftarrow> ipp_Spec ipamPool;
         s3 \<leftarrow> EntityDelete name (ips_Scope spec) s2;
         Some (None, s3)
       })"

definition IPAMPool_loadAllFromDatastore :: "Plugin \<Rightarrow> Plugin option" where
  "IPAMPool_loadAllFromDatastore s =
    ReadIterate IPAMPool_KeyPrefix
      (\<lambda>v s. case v of
         DIPAMPool ip \<Rightarrow> do {
           md \<leftarrow> ipp_Metadata ip;
           Some (s\<lparr>ipamPoolCache := gput (md_Name md) ip (ipamPoolCache s)\<rparr>)
         }
       | _ \<Rightarrow> None) s"

definition IPAMPool_InitRAMCache :: "Plugin \<Rightarrow> Plugin" where
  "IPAMPool_InitRAMCache s = s\<lparr>ipamPoolCache := []\<rparr>"

definition IPAMPool_Init :: "Plugin \<Rightarrow> Plugin option" where
  "IPAMPool_Init s = IPAMPool_loadAllFromDatastore (IPAMPool_InitRAMCache s)"

definition IPAMPool_validate :: "IPAMPool \<Rightarrow> err option" where
  "IPAMPool_validate ip =
    (case (ipp_Metadata ip, ipp_Spec ip) of
       (Some md, Some spec) \<Rightarrow>
         if ips_Scope spec \<noteq> IPAMPoolScopeSystem \<and> ips_Scope spec \<noteq> IPAMPoolScopeNode
            \<and> ips_Scope spec \<noteq> IPAMPoolScopeNetworkService then
           Some (concat [''IPAM pool: '', md_Name md, '' scope '', quote, ips_Scope spec, quote, '' not recognized''])
         else if ParseCIDR (ips_Network spec) = None then
           Some (concat [''ipam pool '', quote, md_Name md, quote,
             '', invalid CIDR address: '', ips_Network spec, '', expected format i.p.v.4/xx, or ip::v6/xx''])
         else None
     | _ \<Rightarrow> Some ''IPAM pool: Metadata or Spec config is missing'')"

section \<open>Allocator names\<close>

lemma contructAllocatorName_inject:
  assumes "contructAllocatorName p e = Some n" "contructAllocatorName p' e' = Some n"
    and "ipp_Metadata p = Some md" "ipp_Spec p = Some spec" "IPAMPool_validate p = None"
    and "ipp_Metadata p' = Some md'" "ipp_Spec p' = Some spec'" "IPAMPool_validate p' = None"
    and "CHR ''/'' \<notin> set (md_Name md)" "CHR ''/'' \<notin> set (md_Name md')"
  shows "ips_Scope spec = ips_Scope spec' \<and> md_Name md = md_Name md'
    \<and> (ips_Scope spec \<noteq> IPAMPoolScopeSystem \<longrightarrow> e = e')"
proof -
  have sc: "ips_Scope spec \<in> {IPAMPoolScopeSystem, IPAMPoolScopeNode, IPAMPoolScopeNetworkService}"
    "ips_Scope spec' \<in> {IPAMPoolScopeSystem, IPAMPoolScopeNode, IPAMPoolScopeNetworkService}"
    using assms(3-8) by (auto simp: IPAMPool_validate_def split: if_splits)
  have n: "n = ''/'' @ ips_Scope spec @ ''/'' @ md_Name md @ (if ips_Scope spec = IPAMPoolScopeSystem then [] else ''/'' @ e)"
    "n = ''/'' @ ips_Scope spec' @ ''/'' @ md_Name md' @ (if ips_Scope spec' = IPAMPoolScopeSystem then [] else ''/'' @ e')"
    using assms(1-4,6,7) sc by (auto simp: contructAllocatorName_def)
  have sl: "CHR ''/'' \<notin> set (ips_Scope spec)" "CHR ''/'' \<notin> set (ips_Scope spec')" using sc by auto
  have "ips_Scope spec @ CHR ''/'' # md_Name md @ (if ips_Scope spec = IPAMPoolScopeSystem then [] else ''/'' @ e)
      = ips_Scope spec' @ CHR ''/'' # md_Name md' @ (if ips_Scope spec' = IPAMPoolScopeSystem then [] else ''/'' @ e')"
    using n by simp
  from append_sep_inject [OF sl this] have eq: "ips_Scope spec = ips_Scope spec'"
    "md_Name md @ (if ips_Scope spec = IPAMPoolScopeSystem then [] else ''/'' @ e)
      = md_Name md' @ (if ips_Scope spec' = IPAMPoolScopeSystem then [] else ''/'' @ e')" by auto
  show ?thesis
  proof (cases "ips_Scope spec = IPAMPoolScopeSystem")
    case True
    then show ?thesis using eq by simp
  next
    case False
    then have "md_Name md @ CHR ''/'' # e = md_Name md' @ CHR ''/'' # e'" using eq by simp
    from append_sep_inject [OF assms(9,10) this] eq(1) show ?thesis by simp
  qed
qed

section \<open>Allocation through the manager\<close>

text \<open>The pool exists, is complete, and its allocator for the entity is \<open>p\<close> under the name \<open>an\<close>.\<close>

definition pool_ready :: "string \<Rightarrow> string \<Rightarrow> string \<Rightarrow> string \<Rightarrow> PoolAllocatorType \<Rightarrow> Plugin \<Rightarrow> bool" where
  "pool_ready poolName nodeName vsName an p s \<longleftrightarrow>
    (case map_of (ipamPoolCache s) poolName of
       Some ipamPool \<Rightarrow>
         (case (ipp_Spec ipamPool, ipp_Status ipamPool) of
            (Some spec, Some st) \<Rightarrow>
              contructAllocatorName ipamPool (scopeEntity spec nodeName vsName) = Some an
              \<and> ipst_Addresses st \<noteq> None
              \<and> map_of (rc_IPAMPoolAllocators s) an = Some (Some p)
          | _ \<Rightarrow> False)
     | None \<Rightarrow> False)"

text \<open>What the manager's allocation routines may touch.\<close>

definition same_but_ipam :: "Plugin \<Rightarrow> Plugin \<Rightarrow> bool" where
  "same_but_ipam s s' \<longleftrightarrow> (\<exists>a c. s' = s\<lparr>rc_IPAMPoolAllocators := a, ipamPoolCache := c\<rparr>)"

lemma same_but_ipam_refl [simp]: "same_but_ipam s s"
  unfolding same_but_ipam_def by (rule exI [of _ "rc_IPAMPoolAllocators s"], rule exI [of _ "ipamPoolCache s"]) simp

lemma recordAddresses_ok:
  assumes "pool_ready poolName nodeName vsName an p s"
  shows "\<exists>c. recordAddresses poolName p' (s\<lparr>rc_IPAMPoolAllocators := a\<rparr>)
    = Some (s\<lparr>rc_IPAMPoolAllocators := a, ipamPoolCache := c\<rparr>)"
  using assms by (auto simp: recordAddresses_def pool_ready_def Let_def split: option.splits)

lemma FindAllocator_ready:
  assumes "pool_ready poolName nodeName vsName an p s"
  obtains ipamPool spec where "map_of (ipamPoolCache s) poolName = Some ipamPool" "ipp_Spec ipamPool = Some spec"
    "map_of (rc_IPAMPoolAllocators s) an = Some (Some p)"
    "FindAllocator poolName (scopeEntity spec nodeName vsName) s = Some (Inr (an, Some p))"
  using assms that by (auto simp: pool_ready_def FindAllocator_def split: option.splits)

lemma AllocateAddress_full:
  assumes r: "pool_ready poolName nodeName vsName an p s" and full: "AllocateIPAddress p = Some (('''', 0, Some e), p)"
  shows "\<exists>s'. AllocateAddress poolName nodeName vsName s
      = Some (('''', 0, Some (''Cannot allocate address from ipam pool '' @ poolName)), s')
    \<and> same_but_ipam s s' \<and> map_of (rc_IPAMPoolAllocators s') = map_of (rc_IPAMPoolAllocators s)"
proof -
  obtain ipamPool spec where pool: "map_of (ipamPoolCache s) poolName = Some ipamPool" "ipp_Spec ipamPool = Some spec"
    "map_of (rc_IPAMPoolAllocators s) an = Some (Some p)"
    "FindAllocator poolName (scopeEntity spec nodeName vsName) s = Some (Inr (an, Some p))" by (rule FindAllocator_ready [OF r])
  let ?s' = "s\<lparr>rc_IPAMPoolAllocators := gput an (Some p) (rc_IPAMPoolAllocators s)\<rparr>"
  have "AllocateAddress poolName nodeName vsName s
      = Some (('''', 0, Some (''Cannot allocate address from ipam pool '' @ poolName)), ?s')"
    using pool full by (simp add: AllocateAddress_def)
  moreover have "same_but_ipam s ?s'"
    unfolding same_but_ipam_def by (rule exI [of _ "rc_IPAMPoolAllocators ?s'"], rule exI [of _ "ipamPoolCache s"]) simp
  moreover have "map_of (rc_IPAMPoolAllocators ?s') = map_of (rc_IPAMPoolAllocators s)" using pool(3) by (auto simp: fun_eq_iff)
  ultimately show ?thesis by blast
qed

lemma AllocateAddress_free:
  assumes r: "pool_ready poolName nodeName vsName an p s" and a: "AllocateIPAddress p = Some ((ip, a, None), p')"
  shows "\<exists>s'. AllocateAddress poolName nodeName vsName s = Some ((ip, a, None), s') \<and> same_but_ipam s s'
    \<and> map_of (rc_IPAMPoolAllocators s') = (map_of (rc_IPAMPoolAllocators s))(an \<mapsto> Some p')"
proof -
  obtain ipamPool spec where pool: "map_of (ipamPoolCache s) poolName = Some ipamPool" "ipp_Spec ipamPool = Some spec"
    "FindAllocator poolName (scopeEntity spec nodeName vsName) s = Some (Inr (an, Some p))" by (rule FindAllocator_ready [OF r])
  let ?m = "gput an (Some p') (rc_IPAMPoolAllocators s)"
  obtain c where c: "recordAddresses poolName p' (s\<lparr>rc_IPAMPoolAllocators := ?m\<rparr>)
      = Some (s\<lparr>rc_IPAMPoolAllocators := ?m, ipamPoolCache := c\<rparr>)"
    using recordAddresses_ok [OF r] by blast
  let ?s' = "s\<lparr>rc_IPAMPoolAllocators := ?m, ipamPoolCache := c\<rparr>"
  have "AllocateAddress poolName nodeName vsName s = Some ((ip, a, None), ?s')"
    using pool a c by (simp add: AllocateAddress_def)
  moreover have "same_but_ipam s ?s'" unfolding same_but_ipam_def by blast
  moreover have "map_of (rc_IPAMPoolAllocators ?s') = (map_of (rc_IPAMPoolAllocators s))(an \<mapsto> Some p')" by simp
  ultimately show ?thesis by blast
qed

lemma AllocateAddress_ready:
  assumes r: "pool_ready poolName nodeName vsName an p s" and inv: "ipam_inv p"
  shows "(ipam_space p \<subseteq> ipam_used p
      \<and> (\<exists>s'. AllocateAddress poolName nodeName vsName s
          = Some (('''', 0, Some (''Cannot allocate address from ipam pool '' @ poolName)), s')
          \<and> same_but_ipam s s' \<and> map_of (rc_IPAMPoolAllocators s') = map_of (rc_IPAMPoolAllocators s)))
    \<or> (\<exists>a p' s'. AllocateAddress poolName nodeName vsName s = Some ((formatIPAddress p a, a, None), s')
        \<and> a \<in> ipam_space p - ipam_used p \<and> ipam_used p' = insert a (ipam_used p)
        \<and> ipam_space p' = ipam_space p \<and> ipam_inv p' \<and> same_but_ipam s s'
        \<and> map_of (rc_IPAMPoolAllocators s') = (map_of (rc_IPAMPoolAllocators s))(an \<mapsto> Some p'))"
  using AllocateIPAddress_cases [OF inv]
proof (elim disjE exE conjE)
  assume "ipam_space p \<subseteq> ipam_used p"
    "AllocateIPAddress p = Some (('''', 0, Some (concat [''AllocateIPAddress: '', pa_Name p, '' has no more addresses''])), p)"
  then show ?thesis using AllocateAddress_full [OF r] by blast
next
  fix a p' assume "AllocateIPAddress p = Some ((formatIPAddress p a, a, None), p')" "a \<in> ipam_space p - ipam_used p"
    "ipam_used p' = insert a (ipam_used p)" "ipam_space p' = ipam_space p" "ipam_inv p'"
  then show ?thesis using AllocateAddress_free [OF r] by blast
qed

section \<open>Creating allocators\<close>

text \<open>Pools as the manager caches them: under their own name, validated.\<close>

definition pools_ok :: "Plugin \<Rightarrow> bool" where
  "pools_ok s \<longleftrightarrow> distinct (gkeys (ipamPoolCache s)) \<and>
    (\<forall>(k, p) \<in> set (ipamPoolCache s). IPAMPool_validate p = None \<and> map_option md_Name (ipp_Metadata p) = Some k)"

lemma pools_okD:
  assumes "pools_ok s" "(k, p) \<in> set (ipamPoolCache s)"
  obtains md spec where "ipp_Metadata p = Some md" "md_Name md = k" "ipp_Spec p = Some spec"
    "map_of (ipamPoolCache s) k = Some p" "\<And>e. contructAllocatorName p e \<noteq> None"
proof -
  have "IPAMPool_validate p = None" "map_option md_Name (ipp_Metadata p) = Some k"
    using assms by (auto simp: pools_ok_def)
  then obtain md spec where p: "ipp_Metadata p = Some md" "md_Name md = k" "ipp_Spec p = Some spec"
    by (auto simp: IPAMPool_validate_def split: option.splits)
  moreover have "map_of (ipamPoolCache s) k = Some p"
    using assms by (auto simp: pools_ok_def)
  moreover have "contructAllocatorName p e \<noteq> None" for e
    using p by (simp add: contructAllocatorName_def)
  ultimately show thesis using that by blast
qed

lemma entityCreateStep_ok:
  assumes "pools_ok s0" "(k, p) \<in> set (ipamPoolCache s0)"
    and "s = s0\<lparr>rc_IPAMPoolAllocators := as\<rparr>"
  shows "\<exists>as'. entityCreateStep entityName scope (k, p) s = Some (s0\<lparr>rc_IPAMPoolAllocators := as'\<rparr>)
    \<and> map_of as \<subseteq>\<^sub>m map_of as'
    \<and> (map_option ips_Scope (ipp_Spec p) = Some scope \<longrightarrow>
        (\<exists>n. contructAllocatorName p entityName = Some n \<and> map_of as' n \<noteq> None))"
proof -
  obtain md spec where p: "ipp_Metadata p = Some md" "md_Name md = k" "ipp_Spec p = Some spec"
    "map_of (ipamPoolCache s0) k = Some p" "\<And>e. contructAllocatorName p e \<noteq> None"
    using pools_okD [OF assms(1,2)] by metis
  obtain n where n: "contructAllocatorName p entityName = Some n" using p(5) by auto
  show ?thesis
  proof (cases "ips_Scope spec = scope \<and> map_of as n = None")
    case True
    let ?as' = "gput n (NewIPAMPoolAllocator n (ips_StartRange spec) (ips_EndRange spec) (ips_Network spec)) as"
    have "entityCreateStep entityName scope (k, p) s = Some (s0\<lparr>rc_IPAMPoolAllocators := ?as'\<rparr>)"
      using True p n assms(3) by (simp add: entityCreateStep_def FindAllocator_def)
    moreover have "map_of as \<subseteq>\<^sub>m map_of ?as'" using True by (auto simp: map_le_def)
    ultimately show ?thesis using n by (intro exI [of _ ?as']) simp
  next
    case False
    then have "entityCreateStep entityName scope (k, p) s = Some (s0\<lparr>rc_IPAMPoolAllocators := as\<rparr>)"
      using p n assms(3) by (auto simp: entityCreateStep_def FindAllocator_def split: option.splits)
    then show ?thesis using False n p(3) by (intro exI [of _ as]) auto
  qed
qed

lemma EntityCreate_ok:
  assumes "pools_ok s"
  shows "\<exists>as'. EntityCreate entityName scope s = Some (s\<lparr>rc_IPAMPoolAllocators := as'\<rparr>)
    \<and> map_of (rc_IPAMPoolAllocators s) \<subseteq>\<^sub>m map_of as'
    \<and> (\<forall>(k, p) \<in> set (ipamPoolCache s). map_option ips_Scope (ipp_Spec p) = Some scope \<longrightarrow>
        (\<exists>n. contructAllocatorName p entityName = Some n \<and> map_of as' n \<noteq> None))"
proof -
  have "\<exists>as'. foldM (entityCreateStep entityName scope) es (s\<lparr>rc_IPAMPoolAllocators := as\<rparr>)
      = Some (s\<lparr>rc_IPAMPoolAllocators := as'\<rparr>) \<and> map_of as \<subseteq>\<^sub>m map_of as'
      \<and> (\<forall>(k, p) \<in> set es. map_option ips_Scope (ipp_Spec p) = Some scope \<longrightarrow>
          (\<exists>n. contructAllocatorName p entityName = Some n \<and> map_of as' n \<noteq> None))"
    if "set es \<subseteq> set (ipamPoolCache s)" for es as
    using that
  proof (induction es arbitrary: as)
    case (Cons e es)
    obtain k p where e: "e = (k, p)" by (cases e)
    obtain as1 where s1: "entityCreateStep entityName scope (k, p) (s\<lparr>rc_IPAMPoolAllocators := as\<rparr>)
        = Some (s\<lparr>rc_IPAMPoolAllocators := as1\<rparr>)" "map_of as \<subseteq>\<^sub>m map_of as1"
      "map_option ips_Scope (ipp_Spec p) = Some scope \<longrightarrow>
        (\<exists>n. contructAllocatorName p entityName = Some n \<and> map_of as1 n \<noteq> None)"
      using entityCreateStep_ok [OF assms, of k p _ as entityName scope] Cons.prems e by auto
    obtain as' where as': "foldM (entityCreateStep entityName scope) es (s\<lparr>rc_IPAMPoolAllocators := as1\<rparr>)
      = Some (s\<lparr>rc_IPAMPoolAllocators := as'\<rparr>)" "map_of as1 \<subseteq>\<^sub>m map_of as'"
      "\<forall>(k, p) \<in> set es. map_option ips_Scope (ipp_Spec p) = Some scope \<longrightarrow>
          (\<exists>n. contructAllocatorName p entityName = Some n \<and> map_of as' n \<noteq> None)"
      using Cons.IH [of as1] Cons.prems by auto
    have "map_of as' n \<noteq> None" if "map_of as1 n \<noteq> None" for n
      using that as'(2) by (auto simp: map_le_def dom_def)
    then show ?case
      using s1 as' e map_le_trans [OF s1(2) as'(2)] by (intro exI [of _ as']) auto
  qed auto
  from this [OF subset_refl, of "rc_IPAMPoolAllocators s"] show ?thesis by (simp add: EntityCreate_def)
qed

section \<open>Deleting allocators\<close>

lemma contructAllocatorName_status [simp]:
  "contructAllocatorName (p\<lparr>ipp_Status := st\<rparr>) e = contructAllocatorName p e"
  by (cases "ipp_Spec p") (auto simp: contructAllocatorName_def)

text \<open>\<open>c\<close> differs from the pools \<open>c0\<close> in status texts only.\<close>

definition status_variant :: "IPAMPool gomap \<Rightarrow> IPAMPool gomap \<Rightarrow> bool" where
  "status_variant c0 c \<longleftrightarrow> (\<forall>k p. map_of c0 k = Some p \<longrightarrow>
    (\<exists>st. map_of c k = Some (p\<lparr>ipp_Status := Some st\<rparr>)))"

lemma entityDeleteStep_ok:
  assumes s0: "pools_ok s0" and kp: "(k, p) \<in> set (ipamPoolCache s0)"
    and c: "status_variant (ipamPoolCache s0) (ipamPoolCache s)"
    and sc: "map_option ips_Scope (ipp_Spec p) = Some scope"
    and n: "contructAllocatorName p entityName = Some n"
    and as: "rc_IPAMPoolAllocators s = as"
  shows "\<exists>c'. entityDeleteStep entityName scope (k, p) s = Some (s\<lparr>ipamPoolCache := c',
      rc_IPAMPoolAllocators := (if \<exists>a. map_of as n = Some (Some a) then gdel n as else as)\<rparr>)
    \<and> status_variant (ipamPoolCache s0) c'"
proof -
  obtain md spec where p: "ipp_Metadata p = Some md" "md_Name md = k" "ipp_Spec p = Some spec"
    "map_of (ipamPoolCache s0) k = Some p"
    using pools_okD [OF s0 kp] by metis
  obtain st where st: "map_of (ipamPoolCache s) k = Some (p\<lparr>ipp_Status := Some st\<rparr>)"
    using c p(4) by (auto simp: status_variant_def)
  have f: "FindAllocator k entityName s = Some (case map_of (rc_IPAMPoolAllocators s) n of
      None \<Rightarrow> Inl (concat [''Cannot find allocator pool '', k, '': allocator: '', n])
    | Some a \<Rightarrow> Inr (n, a))"
    using st n by (auto simp: FindAllocator_def split: option.splits)
  show ?thesis
  proof (cases "\<exists>a. map_of (rc_IPAMPoolAllocators s) n = Some (Some a)")
    case True
    let ?c' = "gput k (p\<lparr>ipp_Status := Some (st\<lparr>ipst_Addresses := map_option (gdel n) (ipst_Addresses st)\<rparr>)\<rparr>) (ipamPoolCache s)"
    have "entityDeleteStep entityName scope (k, p) s = Some (s\<lparr>ipamPoolCache := ?c',
        rc_IPAMPoolAllocators := gdel n (rc_IPAMPoolAllocators s)\<rparr>)"
      using True p sc f n st by (auto simp: entityDeleteStep_def)
    moreover have "status_variant (ipamPoolCache s0) ?c'"
      using c p(4) by (auto simp: status_variant_def)
    ultimately show ?thesis using True as by (intro exI [of _ ?c']) simp
  next
    case False
    then have "entityDeleteStep entityName scope (k, p) s = Some s"
      using p sc f by (auto simp: entityDeleteStep_def split: option.splits)
    then show ?thesis using False c unfolding as [symmetric] by (intro exI [of _ "ipamPoolCache s"]) simp
  qed
qed

lemma entityDeleteStep_other:
  assumes "pools_ok s0" "(k, p) \<in> set (ipamPoolCache s0)"
    and "map_option ips_Scope (ipp_Spec p) \<noteq> Some scope" "scope \<noteq> IPAMPoolScopeAny"
  shows "entityDeleteStep entityName scope (k, p) s = Some s"
proof -
  obtain spec where "ipp_Spec p = Some spec" using pools_okD [OF assms(1,2)] by metis
  then show ?thesis using assms(3,4) by (simp add: entityDeleteStep_def)
qed

text \<open>The allocator names of the pools \<open>es\<close> that are in scope, for one entity.\<close>

definition scoped_names :: "string \<Rightarrow> string \<Rightarrow> IPAMPool gomap \<Rightarrow> string set" where
  "scoped_names entityName scope es = {n. \<exists>e \<in> set es.
    map_option ips_Scope (ipp_Spec (snd e)) = Some scope \<and> contructAllocatorName (snd e) entityName = Some n}"

lemma scoped_names_Cons:
  "scoped_names entityName scope ((k, p) # es) =
    (if map_option ips_Scope (ipp_Spec p) = Some scope then
       {n. contructAllocatorName p entityName = Some n} else {}) \<union> scoped_names entityName scope es"
  by (auto simp: scoped_names_def)

text \<open>The allocators of \<open>N\<close> are gone, no other is touched.\<close>

definition freed :: "string set \<Rightarrow> PoolAllocatorType option gomap \<Rightarrow> PoolAllocatorType option gomap \<Rightarrow> bool" where
  "freed N as as' \<longleftrightarrow> (\<forall>n. n \<notin> N \<longrightarrow> map_of as' n = map_of as n)
    \<and> (\<forall>n. n \<in> N \<or> map_of as n \<in> {None, Some None} \<longrightarrow> map_of as' n \<in> {None, Some None})"

lemma freed_refl: "freed {} as as"
  by (simp add: freed_def)

lemma freed_trans: "freed N as as1 \<Longrightarrow> freed M as1 as2 \<Longrightarrow> freed (N \<union> M) as as2"
  unfolding freed_def by (metis Un_iff)

lemma freed_one: "freed {n} as (if \<exists>a. map_of as n = Some (Some a) then gdel n as else as)"
  by (cases "map_of as n"; cases "the (map_of as n)") (auto simp: freed_def)

lemma EntityDelete_fold:
  assumes s: "pools_ok s" and sc: "scope \<noteq> IPAMPoolScopeAny"
    and "set es \<subseteq> set (ipamPoolCache s)" "status_variant (ipamPoolCache s) c"
  shows "\<exists>as' c'. foldM (entityDeleteStep entityName scope) es (s\<lparr>ipamPoolCache := c, rc_IPAMPoolAllocators := as\<rparr>)
      = Some (s\<lparr>ipamPoolCache := c', rc_IPAMPoolAllocators := as'\<rparr>)
    \<and> freed (scoped_names entityName scope es) as as'"
  using assms(3,4)
proof (induction es arbitrary: as c)
  case Nil
  show ?case by (rule exI [of _ as], rule exI [of _ c]) (simp add: scoped_names_def freed_refl)
next
  case (Cons e es)
  obtain k p where e: "e = (k, p)" by (cases e)
  then have kp: "(k, p) \<in> set (ipamPoolCache s)" "set es \<subseteq> set (ipamPoolCache s)" using Cons.prems by auto
  show ?case
  proof (cases "map_option ips_Scope (ipp_Spec p) = Some scope")
    case False
    then show ?thesis
      using Cons.IH [OF kp(2) Cons.prems(2), of as] entityDeleteStep_other [OF s kp(1) False sc] e
      by (auto simp: scoped_names_Cons)
  next
    case True
    obtain n where n: "contructAllocatorName p entityName = Some n"
      using pools_okD [OF s kp(1)] by (metis not_None_eq)
    let ?s = "s\<lparr>ipamPoolCache := c, rc_IPAMPoolAllocators := as\<rparr>"
    let ?as1 = "if \<exists>a. map_of as n = Some (Some a) then gdel n as else as"
    obtain c1 where step: "entityDeleteStep entityName scope (k, p) ?s
        = Some (s\<lparr>ipamPoolCache := c1, rc_IPAMPoolAllocators := ?as1\<rparr>)" "status_variant (ipamPoolCache s) c1"
      using entityDeleteStep_ok [OF s kp(1) _ True n, of ?s as] Cons.prems(2) by auto
    obtain as' c' where ih: "foldM (entityDeleteStep entityName scope) es
        (s\<lparr>ipamPoolCache := c1, rc_IPAMPoolAllocators := ?as1\<rparr>)
        = Some (s\<lparr>ipamPoolCache := c', rc_IPAMPoolAllocators := as'\<rparr>)" "freed (scoped_names entityName scope es) ?as1 as'"
      using Cons.IH [OF kp(2) step(2), of ?as1] by blast
    have "scoped_names entityName scope (e # es) = {n} \<union> scoped_names entityName scope es"
      using True n e by (auto simp: scoped_names_Cons)
    then show ?thesis using freed_trans [OF freed_one ih(2)] step(1) ih(1) e by auto
  qed
qed

lemma status_variant_refl:
  assumes "\<forall>(k, p) \<in> set c. ipp_Status p \<noteq> None"
  shows "status_variant c c"
proof -
  have "\<exists>st. map_of c k = Some (p\<lparr>ipp_Status := Some st\<rparr>)" if m: "map_of c k = Some p" for k p
  proof -
    obtain t where "ipp_Status p = Some t" using assms map_of_SomeD [OF m] by auto
    then have "p = p\<lparr>ipp_Status := Some t\<rparr>" by simp
    then show ?thesis using m by metis
  qed
  then show ?thesis by (simp add: status_variant_def)
qed

text \<open>\<open>EntityDelete\<close> removes the allocators of its scope and entity and no others.\<close>

lemma EntityDelete_ok:
  assumes "pools_ok s" "\<forall>(k, p) \<in> set (ipamPoolCache s). ipp_Status p \<noteq> None" "scope \<noteq> IPAMPoolScopeAny"
  shows "\<exists>as' c'. EntityDelete entityName scope s = Some (s\<lparr>ipamPoolCache := c', rc_IPAMPoolAllocators := as'\<rparr>)
    \<and> (\<forall>n. n \<notin> scoped_names entityName scope (ipamPoolCache s) \<longrightarrow> map_of as' n = map_of (rc_IPAMPoolAllocators s) n)
    \<and> (\<forall>n \<in> scoped_names entityName scope (ipamPoolCache s). map_of as' n \<in> {None, Some None})"
proof -
  obtain as' c' where "foldM (entityDeleteStep entityName scope) (ipamPoolCache s) s
      = Some (s\<lparr>ipamPoolCache := c', rc_IPAMPoolAllocators := as'\<rparr>)"
    "freed (scoped_names entityName scope (ipamPoolCache s)) (rc_IPAMPoolAllocators s) as'"
    using EntityDelete_fold [OF assms(1,3) subset_refl status_variant_refl [OF assms(2)], of entityName "rc_IPAMPoolAllocators s"]
    by auto
  then show ?thesis unfolding EntityDelete_def freed_def by blast
qed

section \<open>Properties\<close>

text \<open>C28. Allocation through the manager is scoped: it takes a free address from the allocator of
  the pool for the entity in scope, the pool's own address text for an id that was not in use, marks
  exactly that id there and leaves every other allocator and the rest of the state alone; when that
  allocator is full, and only then, it reports an error and no allocator changes.\<close>

theorem AllocateAddress_scoped:
  assumes "pool_ready poolName nodeName vsName an p s" "ipam_inv p"
  shows "if ipam_space p \<subseteq> ipam_used p
    then \<exists>s'. AllocateAddress poolName nodeName vsName s
          = Some (('''', 0, Some (''Cannot allocate address from ipam pool '' @ poolName)), s')
        \<and> same_but_ipam s s' \<and> map_of (rc_IPAMPoolAllocators s') = map_of (rc_IPAMPoolAllocators s)
    else \<exists>a p' s'. AllocateAddress poolName nodeName vsName s = Some ((formatIPAddress p a, a, None), s')
        \<and> a \<in> ipam_space p - ipam_used p \<and> ipam_used p' = insert a (ipam_used p)
        \<and> ipam_space p' = ipam_space p \<and> ipam_inv p' \<and> same_but_ipam s s'
        \<and> map_of (rc_IPAMPoolAllocators s') = (map_of (rc_IPAMPoolAllocators s))(an \<mapsto> Some p')"
  using AllocateAddress_ready [OF assms] by auto

definition demo_pool :: "string \<Rightarrow> IPAMPool" where
  "demo_pool n = \<lparr>ipp_Metadata = Some \<lparr>md_Name = n, md_Labels = []\<rparr>,
    ipp_Spec = Some \<lparr>ips_Scope = IPAMPoolScopeSystem, ips_Network = ''10.5.3.0/24'', ips_StartRange = 0, ips_EndRange = 0\<rparr>,
    ipp_Status = Some \<lparr>ipst_Addresses = Some []\<rparr>\<rparr>"

definition demo_pools :: Plugin where
  "demo_pools = (fresh_plugin good_env)\<lparr>ipamPoolCache := [(''a'', demo_pool ''a''), (''b'', demo_pool ''b'')],
    rc_IPAMPoolAllocators := [(''/system/a'', Some pool24), (''/system/b'', Some pool24)]\<rparr>"

theorem AllocateAddress_scoped_witness: "AllocateAddress ''a'' ''n'' ''v'' demo_pools \<noteq> None"
proof -
  have "pool_ready ''a'' ''n'' ''v'' ''/system/a'' pool24 demo_pools"
    by (simp add: pool_ready_def demo_pools_def demo_pool_def fresh_plugin_def contructAllocatorName_def)
  from AllocateAddress_scoped [OF this pool24_facts(1)] show ?thesis by (auto split: if_splits)
qed

text \<open>Allocators are kept apart by name: for validated pools whose names have no slash, two
  allocators have the same name only if they belong to the same scope and pool and, outside the
  system scope, to the same entity.\<close>

theorem allocator_names_injective:
  assumes "contructAllocatorName p e = Some n" "contructAllocatorName p' e' = Some n"
    and "ipp_Metadata p = Some md" "ipp_Spec p = Some spec" "IPAMPool_validate p = None"
    and "ipp_Metadata p' = Some md'" "ipp_Spec p' = Some spec'" "IPAMPool_validate p' = None"
    and "CHR ''/'' \<notin> set (md_Name md)" "CHR ''/'' \<notin> set (md_Name md')"
  shows "ips_Scope spec = ips_Scope spec' \<and> md_Name md = md_Name md'
    \<and> (ips_Scope spec \<noteq> IPAMPoolScopeSystem \<longrightarrow> e = e')"
  by (rule contructAllocatorName_inject [OF assms])

lemma demo_pool_valid: "IPAMPool_validate (demo_pool n) = None"
proof -
  have "ParseCIDR ''10.5.3.0/24'' \<noteq> None" by code_simp
  then show ?thesis by (simp add: IPAMPool_validate_def demo_pool_def)
qed

theorem allocator_names_injective_witness:
  "contructAllocatorName (demo_pool ''a'') ''x'' \<noteq> contructAllocatorName (demo_pool ''b'') ''y''"
proof
  assume eq: "contructAllocatorName (demo_pool ''a'') ''x'' = contructAllocatorName (demo_pool ''b'') ''y''"
  obtain n where n: "contructAllocatorName (demo_pool ''a'') ''x'' = Some n"
    by (simp add: contructAllocatorName_def demo_pool_def)
  show False
    using allocator_names_injective [OF n, of "demo_pool ''b''" "''y''" "the (ipp_Metadata (demo_pool ''a''))"
        "the (ipp_Spec (demo_pool ''a''))" "the (ipp_Metadata (demo_pool ''b''))" "the (ipp_Spec (demo_pool ''b''))"]
      n eq demo_pool_valid
    by (simp add: demo_pool_def)
qed


lemma demo_pools_ok: "pools_ok demo_pools"
  by (simp add: pools_ok_def demo_pools_def fresh_plugin_def demo_pool_valid) (simp add: demo_pool_def)


text \<open>C37. Deleting a pool of system scope leaves its own allocator in the ram cache and removes the
  allocators of all other pools of system scope: the handler takes the pool out of the cache first
  and then calls \<open>EntityDelete\<close>, which walks the pools that remain.\<close>

theorem pool_delete_removes_other_allocators:
  assumes s: "pools_ok s" "\<forall>(k, p) \<in> set (ipamPoolCache s). ipp_Status p \<noteq> None"
    and a: "map_of (ipamPoolCache s) a = Some pa" "map_option ips_Scope (ipp_Spec pa) = Some IPAMPoolScopeSystem"
    and b: "map_of (ipamPoolCache s) b = Some pb" "map_option ips_Scope (ipp_Spec pb) = Some IPAMPoolScopeSystem"
    and ab: "a \<noteq> b"
  shows "\<exists>s'. IPAMPool_HandleCRUDOperationD a s = Some (None, s')
    \<and> map_of (rc_IPAMPoolAllocators s') (''/system/'' @ a) = map_of (rc_IPAMPoolAllocators s) (''/system/'' @ a)
    \<and> map_of (rc_IPAMPoolAllocators s') (''/system/'' @ b) \<in> {None, Some None}"
proof -
  define s2 where "s2 = DeleteFromDatastore (IPAMPool_NameKey a) (s\<lparr>ipamPoolCache := gdel a (ipamPoolCache s)\<rparr>)"
  have s2: "ipamPoolCache s2 = gdel a (ipamPoolCache s)" "rc_IPAMPoolAllocators s2 = rc_IPAMPoolAllocators s"
    by (simp_all add: s2_def DeleteFromDatastore_def)
  have sub: "set (ipamPoolCache s2) \<subseteq> set (ipamPoolCache s)" unfolding s2 by (auto simp: AList.delete_eq)
  have ok2: "pools_ok s2" "\<forall>(k, p) \<in> set (ipamPoolCache s2). ipp_Status p \<noteq> None"
    using s sub by (auto simp: pools_ok_def s2 distinct_delete)
  have name: "contructAllocatorName p e = Some (''/system/'' @ k)"
    if kp: "(k, p) \<in> set (ipamPoolCache s)" and sys: "map_option ips_Scope (ipp_Spec p) = Some IPAMPoolScopeSystem" for k p e
  proof -
    obtain md spec where "ipp_Metadata p = Some md" "md_Name md = k" "ipp_Spec p = Some spec"
      using pools_okD [OF s(1) kp] by metis
    then show ?thesis using sys by (simp add: contructAllocatorName_def)
  qed
  have nb: "''/system/'' @ b \<in> scoped_names a IPAMPoolScopeSystem (ipamPoolCache s2)"
    using name [OF map_of_SomeD [OF b(1)] b(2)] map_of_SomeD [OF b(1)] b(2) ab
    by (auto simp: scoped_names_def s2 AList.delete_eq)
  have na: "''/system/'' @ a \<notin> scoped_names a IPAMPoolScopeSystem (ipamPoolCache s2)"
    using name sub by (fastforce simp: scoped_names_def s2 AList.delete_eq)
  obtain as' c' where d: "EntityDelete a IPAMPoolScopeSystem s2 = Some (s2\<lparr>ipamPoolCache := c', rc_IPAMPoolAllocators := as'\<rparr>)"
    "\<forall>n. n \<notin> scoped_names a IPAMPoolScopeSystem (ipamPoolCache s2) \<longrightarrow> map_of as' n = map_of (rc_IPAMPoolAllocators s2) n"
    "\<forall>n \<in> scoped_names a IPAMPoolScopeSystem (ipamPoolCache s2). map_of as' n \<in> {None, Some None}"
    using EntityDelete_ok [OF ok2, of IPAMPoolScopeSystem a] by auto
  have "IPAMPool_HandleCRUDOperationD a s = Some (None, s2\<lparr>ipamPoolCache := c', rc_IPAMPoolAllocators := as'\<rparr>)"
    using a d(1) by (auto simp: IPAMPool_HandleCRUDOperationD_def s2_def)
  then show ?thesis using d(2,3) na nb by (auto simp: s2)
qed

theorem pool_delete_removes_other_allocators_witness:
  "\<exists>s'. IPAMPool_HandleCRUDOperationD ''a'' demo_pools = Some (None, s')
    \<and> map_of (rc_IPAMPoolAllocators s') ''/system/a'' = Some (Some pool24)"
  using pool_delete_removes_other_allocators [OF demo_pools_ok, of "''a''" "demo_pool ''a''" "''b''" "demo_pool ''b''"]
  by (auto simp: demo_pools_def fresh_plugin_def demo_pool_def)

end
