(* ===== verification/Utils.thy ===== *)
theory Utils
  imports GoStd
begin

text \<open>
  The string helpers of \<open>plugins/controller/utils.go\<close> that take "pod/interface" names apart, and
  the comparison of address lists.
\<close>

section \<open>Model\<close>

definition ConnPodName :: "string \<Rightarrow> string" where
  "ConnPodName str =
    (let n = strIndex CHR ''/'' str in if n = -1 then '''' else take (nat n) str)"

definition ConnInterfaceName :: "string \<Rightarrow> string" where
  "ConnInterfaceName str =
    (let n = strIndex CHR ''/'' str in if n = -1 then '''' else drop (nat (n + 1)) str)"

definition ConnPodInterfaceNames :: "string \<Rightarrow> string \<times> string" where
  "ConnPodInterfaceNames str =
    (let n = strIndex CHR ''/'' str in
     if n = -1 then ('''', '''') else (take (nat n) str, drop (nat (n + 1)) str))"

definition NodeInterfaceNames :: "string \<Rightarrow> string \<times> string" where
  "NodeInterfaceNames str = ConnPodInterfaceNames str"

definition ConnPodInterfaceSlashToUScore :: "string \<Rightarrow> string" where
  "ConnPodInterfaceSlashToUScore str =
    (let (s0, s1) = ConnPodInterfaceNames str in s0 @ ''_'' @ s1)"

definition ipAddressArraysEqual :: "string list \<Rightarrow> string list \<Rightarrow> bool" where
  "ipAddressArraysEqual a1 a2 =
    (if length a1 \<noteq> length a2 then False
     else
       let foundCount = foldl (\<lambda>n e1. if e1 \<in> set a2 then Suc n else n) 0 a1
       in if foundCount \<noteq> length a1 then False else True)"

section \<open>Lemmas\<close>

lemma strIndex_append:
  "c \<notin> set s \<Longrightarrow> strIndex c (s @ c # t) = int (length s)"
  using takeWhile_append_sep [of c s t] by (simp add: strIndex_def)

lemma ConnPodInterfaceNames_append:
  "CHR ''/'' \<notin> set p \<Longrightarrow> ConnPodInterfaceNames (p @ ''/'' @ i) = (p, i)"
  by (simp add: ConnPodInterfaceNames_def strIndex_append nat_add_distrib)

lemma ConnPodInterfaceNames_conv:
  "ConnPodInterfaceNames str = (ConnPodName str, ConnInterfaceName str)"
  by (simp add: ConnPodInterfaceNames_def ConnPodName_def ConnInterfaceName_def Let_def)

lemma foundCount_filter:
  "foldl (\<lambda>n e1. if e1 \<in> S then Suc n else n) k a1 = k + length (filter (\<lambda>e. e \<in> S) a1)"
  by (induction a1 arbitrary: k) auto

lemma ipAddressArraysEqual_iff:
  "ipAddressArraysEqual a1 a2 \<longleftrightarrow> length a1 = length a2 \<and> set a1 \<subseteq> set a2"
proof -
  have "length (filter (\<lambda>e. e \<in> set a2) a1) = length a1 \<longleftrightarrow> set a1 \<subseteq> set a2"
    by (metis filter_id_conv filter_True length_filter_less less_irrefl subset_code(1))
  then show ?thesis by (auto simp: ipAddressArraysEqual_def foundCount_filter)
qed

section \<open>Properties\<close>

text \<open>Splitting inverts joining: for a pod name without a slash, the name "pod/interface" is
  taken apart into exactly pod and interface, by the pair function and by the two single ones;
  a string without a slash yields empty names.\<close>

theorem ConnPodInterfaceNames_roundtrip:
  "(CHR ''/'' \<notin> set pod \<longrightarrow> ConnPodInterfaceNames (pod @ ''/'' @ ifc) = (pod, ifc)
      \<and> ConnPodName (pod @ ''/'' @ ifc) = pod \<and> ConnInterfaceName (pod @ ''/'' @ ifc) = ifc
      \<and> ConnPodInterfaceSlashToUScore (pod @ ''/'' @ ifc) = pod @ ''_'' @ ifc)
    \<and> (CHR ''/'' \<notin> set str \<longrightarrow> ConnPodInterfaceNames str = ('''', ''''))"
proof -
  have "ConnPodName (pod @ ''/'' @ ifc) = pod \<and> ConnInterfaceName (pod @ ''/'' @ ifc) = ifc"
    if "CHR ''/'' \<notin> set pod"
    using ConnPodInterfaceNames_append [OF that, of ifc] by (simp add: ConnPodInterfaceNames_conv)
  moreover have "CHR ''/'' \<notin> set str \<Longrightarrow> ConnPodInterfaceNames str = ('''', '''')"
    by (simp add: ConnPodInterfaceNames_def strIndex_def)
  ultimately show ?thesis
    by (auto simp: ConnPodInterfaceNames_append [simplified] ConnPodInterfaceSlashToUScore_def)
qed

theorem ConnPodInterfaceNames_roundtrip_witness:
  "ConnPodInterfaceNames ''pod1/port2'' = (''pod1'', ''port2'')"
  using ConnPodInterfaceNames_roundtrip [of "''pod1''" "''port2''" "''''"] by simp

end
