(* ===== verification/Interfaces.thy ===== *)
theory Interfaces
  imports IpamPool Utils
begin

text \<open>
  Interface status, \<open>plugins/controller/interfaces.go\<close>: for every interface of a node or a network
  service the controller keeps the MAC address, the ids it took from address pools and the resulting
  addresses.  A status is a pointer shared between the ram cache and the status section of its
  owner; here it is a value, and \<open>InitInterfaceStatus\<close>, which changes a cached status in place,
  writes it back to the cache.
\<close>

section \<open>Model\<close>

definition newInterfaceStatus :: "string \<Rightarrow> string \<Rightarrow> InterfaceStatus" where
  "newInterfaceStatus name node =
    \<lparr>ist_Name = name, ist_Status = '''', ist_Msg = [], ist_MacAddress = '''', ist_MacAddrID = 0,
     ist_IpamPoolNums = Some [], ist_IpAddresses = [], ist_MemifID = 0, ist_Node = node,
     ist_HostPortLabel = '''', ist_Vni = 0, ist_NnoName = ''''\<rparr>"

definition initMacAddress :: "Interface \<Rightarrow> InterfaceStatus \<Rightarrow> Plugin \<Rightarrow> InterfaceStatus \<times> Plugin" where
  "initMacAddress entityInterface ifStatus s =
    (if if_MacAddress entityInterface = '''' then
       (if ist_MacAddress ifStatus = '''' then
          let ((mac, macID), a) = mac_Allocate (rc_MacAddrAllocator s)
          in (ifStatus\<lparr>ist_MacAddress := mac, ist_MacAddrID := macID\<rparr>, s\<lparr>rc_MacAddrAllocator := a\<rparr>)
        else (ifStatus, s))
     else if ist_MacAddress ifStatus \<noteq> if_MacAddress entityInterface then
       (ifStatus\<lparr>ist_MacAddress := if_MacAddress entityInterface\<rparr>, s)
     else (ifStatus, s))"

text \<open>The loop over the ids taken from pools earlier: each is marked as used again and its address
  is appended.\<close>

fun restorePoolAddresses ::
  "string \<Rightarrow> string \<Rightarrow> u32 gomap \<Rightarrow> InterfaceStatus \<Rightarrow> Plugin
    \<Rightarrow> ((err option \<times> InterfaceStatus) \<times> Plugin) option" where
  "restorePoolAddresses entityName vppAgent [] ifStatus s = Some ((None, ifStatus), s)"
| "restorePoolAddresses entityName vppAgent ((poolName, ipNum) # nums) ifStatus s =
    do {
      ((ipAddress, err), s1) \<leftarrow> Mgr_SetAddress poolName vppAgent entityName ipNum s;
      if err \<noteq> None then Some ((err, ifStatus), s1)
      else restorePoolAddresses entityName vppAgent nums
        (ifStatus\<lparr>ist_IpAddresses := ist_IpAddresses ifStatus @ [ipAddress]\<rparr>) s1
    }"

text \<open>The loop over the configured pools: an address is taken from each pool that has not given
  one yet.\<close>

fun allocatePoolAddresses ::
  "string \<Rightarrow> string \<Rightarrow> string list \<Rightarrow> InterfaceStatus \<Rightarrow> Plugin
    \<Rightarrow> ((err option \<times> InterfaceStatus) \<times> Plugin) option" where
  "allocatePoolAddresses entityName vppAgent [] ifStatus s = Some ((None, ifStatus), s)"
| "allocatePoolAddresses entityName vppAgent (poolName # names) ifStatus s =
    (if map_of (case ist_IpamPoolNums ifStatus of Some m \<Rightarrow> m | None \<Rightarrow> []) poolName \<noteq> None
     then allocatePoolAddresses entityName vppAgent names ifStatus s
     else do {
       ((ipAddress, ipNum, err), s1) \<leftarrow> AllocateAddress poolName vppAgent entityName s;
       if err \<noteq> None then Some ((err, ifStatus), s1)
       else do {
         nums \<leftarrow> ist_IpamPoolNums ifStatus;
         allocatePoolAddresses entityName vppAgent names
           (ifStatus\<lparr>ist_IpAddresses := ist_IpAddresses ifStatus @ [ipAddress],
              ist_IpamPoolNums := Some (gput poolName ipNum nums)\<rparr>) s1
       }
     })"

definition setAddressInPools :: "string \<Rightarrow> string \<Rightarrow> string \<Rightarrow> Plugin \<Rightarrow> Plugin option" where
  "setAddressInPools entityName vppAgent ipAddress s =
    foldM (\<lambda>(_, ipamPool) s. do {
      md \<leftarrow> ipp_Metadata ipamPool;
      SetAddressIfInPool (md_Name md) vppAgent entityName ipAddress s
    }) (ipamPoolCache s) s"

text \<open>The status is returned also on an error, for the write-back; the Go code returns nil then.\<close>

definition initInterfaceStatusCore ::
  "string \<Rightarrow> string \<Rightarrow> Interface \<Rightarrow> InterfaceStatus \<Rightarrow> Plugin
    \<Rightarrow> ((err option \<times> InterfaceStatus) \<times> Plugin) option" where
  "initInterfaceStatusCore entityName vppAgent entityInterface ifStatus0 s =
    do {
      let (st1, s1) = initMacAddress entityInterface ifStatus0 s;
      let st2 = st1\<lparr>ist_IpAddresses := if_IpAddresses entityInterface\<rparr>;
      ((err2, st3), s2) \<leftarrow> restorePoolAddresses entityName vppAgent
        (case ist_IpamPoolNums st2 of Some m \<Rightarrow> m | None \<Rightarrow> []) st2 s1;
      if err2 \<noteq> None then Some ((err2, st3), s2)
      else do {
        ((err3, st4), s3) \<leftarrow> allocatePoolAddresses entityName vppAgent (if_IpamPoolNames entityInterface) st3 s2;
        if err3 \<noteq> None then Some ((err3, st4), s3)
        else do {
          s4 \<leftarrow> foldM (setAddressInPools entityName vppAgent) (ist_IpAddresses st4) s3;
          Some ((None, st4), s4)
        }
      }
    }"

definition InitInterfaceStatus ::
  "string \<Rightarrow> string \<Rightarrow> Interface \<Rightarrow> Plugin \<Rightarrow> ((InterfaceStatus option \<times> err option) \<times> Plugin) option" where
  "InitInterfaceStatus entityName vppAgent entityInterface s =
    (let entityInterfaceName = if_Parent entityInterface @ ''/'' @ if_Name entityInterface in
     case map_of (rc_InterfaceStates s) entityInterfaceName of
       Some ifStatus \<Rightarrow> do {
         ((err, st), s1) \<leftarrow> initInterfaceStatusCore entityName vppAgent entityInterface ifStatus s;
         let s2 = s1\<lparr>rc_InterfaceStates := gput entityInterfaceName st (rc_InterfaceStates s1)\<rparr>;
         Some ((if err = None then Some st else None, err), s2)
       }
     | None \<Rightarrow> do {
         ((err, st), s1) \<leftarrow> initInterfaceStatusCore entityName vppAgent entityInterface
           (newInterfaceStatus entityInterfaceName vppAgent) s;
         Some ((if err = None then Some st else None, err), s1)
       })"

definition InterfaceStatusKeyPrefix :: string where
  "InterfaceStatusKeyPrefix = SfcControllerStatusPrefix @ ''interface/''"

text \<open>The caller's map is changed in place and returned; a nil map panics.\<close>

definition PersistInterfaceStatus ::
  "InterfaceStatus gomap option \<Rightarrow> InterfaceStatus \<Rightarrow> string \<Rightarrow> string \<Rightarrow> Plugin
    \<Rightarrow> (InterfaceStatus gomap option \<times> Plugin) option" where
  "PersistInterfaceStatus interfaces ifStatus podName ifName s =
    do {
      let entityInterfaceName = podName @ ''/'' @ ifName;
      let interfaceKey = InterfaceStatusKeyPrefix @ entityInterfaceName;
      m \<leftarrow> interfaces;
      let s1 = s\<lparr>rc_InterfaceStates := gput entityInterfaceName ifStatus (rc_InterfaceStates s)\<rparr>;
      let (_, s2) = WriteToDatastore interfaceKey (DIfStatus ifStatus) s1;
      Some (Some (gput entityInterfaceName ifStatus m), s2)
    }"

definition RetrieveInterfaceStatusFromRamCache ::
  "InterfaceStatus gomap option \<Rightarrow> string \<Rightarrow> InterfaceStatus option" where
  "RetrieveInterfaceStatusFromRamCache interfaces podInterfaceName =
    (case interfaces of None \<Rightarrow> None | Some m \<Rightarrow> map_of m podInterfaceName)"

definition RemoveInterfaceStatus ::
  "InterfaceStatus gomap option \<Rightarrow> string \<Rightarrow> string \<Rightarrow> Plugin \<Rightarrow> InterfaceStatus gomap option \<times> Plugin" where
  "RemoveInterfaceStatus interfaces podName ifName s =
    (let entityInterfaceName = podName @ ''/'' @ ifName;
         interfaceKey = InterfaceStatusKeyPrefix @ entityInterfaceName;
         s1 = s\<lparr>rc_InterfaceStates := gdel entityInterfaceName (rc_InterfaceStates s)\<rparr>
     in (map_option (gdel entityInterfaceName) interfaces, DeleteFromDatastore interfaceKey s1))"

fun setPoolNums :: "string \<Rightarrow> string \<Rightarrow> u32 gomap \<Rightarrow> Plugin \<Rightarrow> (err option \<times> Plugin) option" where
  "setPoolNums node entityName [] s = Some (None, s)"
| "setPoolNums node entityName ((poolName, ipNum) # nums) s =
    do {
      ((_, err), s1) \<leftarrow> Mgr_SetAddress poolName node entityName ipNum s;
      if err \<noteq> None then Some (err, s1) else setPoolNums node entityName nums s1
    }"

definition UpdateRamCacheAllocatorsForInterfaceStatus ::
  "InterfaceStatus \<Rightarrow> string \<Rightarrow> Plugin \<Rightarrow> (err option \<times> Plugin) option" where
  "UpdateRamCacheAllocatorsForInterfaceStatus ifStatus entityName s =
    do {
      (err, s1) \<leftarrow> setPoolNums (ist_Node ifStatus) entityName
        (case ist_IpamPoolNums ifStatus of Some m \<Rightarrow> m | None \<Rightarrow> []) s;
      if err \<noteq> None then Some (err, s1)
      else do {
        s2 \<leftarrow> foldM (setAddressInPools entityName (ist_Node ifStatus)) (ist_IpAddresses ifStatus) s1;
        Some (None, s2)
      }
    }"

definition LoadAllInterfacesFromDatastoreIntoCache :: "Plugin \<Rightarrow> Plugin option" where
  "LoadAllInterfacesFromDatastoreIntoCache s =
    ReadIterate InterfaceStatusKeyPrefix
      (\<lambda>v s. case v of
         DIfStatus st \<Rightarrow> Some (s\<lparr>rc_InterfaceStates := gput (ist_Name st) st (rc_InterfaceStates s)\<rparr>)
       | _ \<Rightarrow> None) s"

text \<open>The loop deletes from the map it walks, each time the entry it visits when the statuses are kept
  under their own names; the model walks the entries the map had at the start.\<close>

definition DeleteInterfaceEntries ::
  "InterfaceStatus gomap option \<Rightarrow> Plugin \<Rightarrow> InterfaceStatus gomap option \<times> Plugin" where
  "DeleteInterfaceEntries interfaces s =
    fold (\<lambda>(_, ifStatus) (m, s).
        RemoveInterfaceStatus m (ConnPodName (ist_Name ifStatus)) (ConnInterfaceName (ist_Name ifStatus)) s)
      (case interfaces of Some m \<Rightarrow> m | None \<Rightarrow> []) (interfaces, s)"

section \<open>Frames\<close>

lemma same_but_ipam_trans: "same_but_ipam s s' \<Longrightarrow> same_but_ipam s' s'' \<Longrightarrow> same_but_ipam s s''"
  unfolding same_but_ipam_def by (elim exE) (hypsubst, simp, intro exI, rule refl)

lemma same_but_ipamI: "same_but_ipam s (s\<lparr>rc_IPAMPoolAllocators := a, ipamPoolCache := c\<rparr>)"
  by (auto simp: same_but_ipam_def)

lemma same_but_ipam_fields:
  "same_but_ipam s s' \<Longrightarrow> rc_InterfaceStates s' = rc_InterfaceStates s
    \<and> rc_MacAddrAllocator s' = rc_MacAddrAllocator s \<and> rc_MemifIDAllocator s' = rc_MemifIDAllocator s
    \<and> rc_VppEntries s' = rc_VppEntries s \<and> afterMap s' = afterMap s \<and> beforeMap s' = beforeMap s
    \<and> txnLevel s' = txnLevel s \<and> db_log s' = db_log s \<and> db_env s' = db_env s
    \<and> networkNodeCache s' = networkNodeCache s \<and> networkServiceCache s' = networkServiceCache s"
  by (auto simp: same_but_ipam_def)

lemma recordAddresses_frame:
  "recordAddresses poolName p (s\<lparr>rc_IPAMPoolAllocators := a\<rparr>) = Some s' \<Longrightarrow> same_but_ipam s s'"
  by (auto simp: recordAddresses_def Let_def same_but_ipamI split: Option.bind_splits)

lemma allocators_frame: "same_but_ipam s (s\<lparr>rc_IPAMPoolAllocators := a\<rparr>)"
  using same_but_ipamI [where s = s and a = a and c = "ipamPoolCache s"] by simp

lemma AllocateAddress_frame:
  "AllocateAddress poolName nodeName vsName s = Some (r, s') \<Longrightarrow> same_but_ipam s s'"
  by (auto simp: AllocateAddress_def Let_def recordAddresses_frame allocators_frame
    split: option.splits Option.bind_splits sum.splits prod.splits if_splits)

lemma Mgr_SetAddress_frame:
  "Mgr_SetAddress poolName nodeName vsName n s = Some (r, s') \<Longrightarrow> same_but_ipam s s'"
  by (auto simp: Mgr_SetAddress_def Let_def recordAddresses_frame allocators_frame
    split: option.splits Option.bind_splits sum.splits prod.splits if_splits)

lemma SetAddressIfInPool_frame:
  "SetAddressIfInPool poolName nodeName vsName ip s = Some s' \<Longrightarrow> same_but_ipam s s'"
  by (auto simp: SetAddressIfInPool_def recordAddresses_frame
    split: option.splits Option.bind_splits sum.splits prod.splits if_splits)

lemma setAddressInPools_frame:
  assumes "setAddressInPools entityName vppAgent ip s = Some s'"
  shows "same_but_ipam s s'"
proof -
  have "same_but_ipam s s2" if "(\<lambda>(_, ipamPool) s. do {
      md \<leftarrow> ipp_Metadata ipamPool;
      SetAddressIfInPool (md_Name md) vppAgent entityName ip s }) x s1 = Some s2" "same_but_ipam s s1" for x s1 s2
    using that by (cases x) (auto split: Option.bind_splits intro: SetAddressIfInPool_frame same_but_ipam_trans)
  then show ?thesis
    by (intro foldM_invariant [OF assms [unfolded setAddressInPools_def], of "same_but_ipam s"]) simp_all
qed

lemma setAddresses_frame:
  assumes "foldM (setAddressInPools entityName vppAgent) ips s = Some s'"
  shows "same_but_ipam s s'"
  using foldM_invariant [OF assms, of "same_but_ipam s"] setAddressInPools_frame same_but_ipam_trans
  by (metis same_but_ipam_refl)

lemma restorePoolAddresses_frame:
  "restorePoolAddresses entityName vppAgent nums st s = Some ((err, st'), s') \<Longrightarrow>
    same_but_ipam s s' \<and> (\<exists>ips. st' = st\<lparr>ist_IpAddresses := ist_IpAddresses st @ ips\<rparr>
      \<and> (err = None \<longrightarrow> length ips = length nums))"
proof (induction entityName vppAgent nums st s arbitrary: err st' s' rule: restorePoolAddresses.induct)
  case (1 entityName vppAgent st s)
  then show ?case by (auto intro!: exI [of _ "[]"])
next
  case (2 entityName vppAgent poolName ipNum nums st s)
  obtain ip e s1 where m: "Mgr_SetAddress poolName vppAgent entityName ipNum s = Some ((ip, e), s1)"
    using 2(2) by (auto split: Option.bind_splits)
  show ?case
  proof (cases "e = None")
    case False
    then show ?thesis using 2(2) m Mgr_SetAddress_frame [OF m] by (auto intro!: exI [of _ "[]"])
  next
    case True
    have "restorePoolAddresses entityName vppAgent nums
        (st\<lparr>ist_IpAddresses := ist_IpAddresses st @ [ip]\<rparr>) s1 = Some ((err, st'), s')"
      using 2(2) m True by simp
    from 2(1) [OF m refl refl _ this] True obtain ips where "same_but_ipam s1 s'"
      "st' = st\<lparr>ist_IpAddresses := (ist_IpAddresses st @ [ip]) @ ips\<rparr>" "err = None \<longrightarrow> length ips = length nums"
      by auto
    then show ?thesis
      using same_but_ipam_trans [OF Mgr_SetAddress_frame [OF m]] by (auto intro!: exI [of _ "ip # ips"])
  qed
qed

definition pool_nums :: "InterfaceStatus \<Rightarrow> u32 gomap" where
  "pool_nums st = (case ist_IpamPoolNums st of Some m \<Rightarrow> m | None \<Rightarrow> [])"

lemma allocatePoolAddresses_cases:
  assumes "allocatePoolAddresses entityName vppAgent (poolName # names) st s = Some ((err, st'), s')"
  obtains (has) "map_of (pool_nums st) poolName \<noteq> None" "allocatePoolAddresses entityName vppAgent names st s = Some ((err, st'), s')"
  | (failed) "map_of (pool_nums st) poolName = None" "err \<noteq> None" "st' = st" "same_but_ipam s s'"
  | (taken) num ip s1 st1 where "map_of (pool_nums st) poolName = None" "same_but_ipam s s1"
      "map_of (pool_nums st1) = (map_of (pool_nums st))(poolName \<mapsto> num)" "ist_IpAddresses st1 = ist_IpAddresses st @ [ip]"
      "ist_MacAddress st1 = ist_MacAddress st" "ist_MacAddrID st1 = ist_MacAddrID st"
      "allocatePoolAddresses entityName vppAgent names st1 s1 = Some ((err, st'), s')"
proof -
  have pn: "(case ist_IpamPoolNums st of Some m \<Rightarrow> m | None \<Rightarrow> []) = pool_nums st" by (simp add: pool_nums_def)
  note run = assms [unfolded allocatePoolAddresses.simps pn]
  show ?thesis
  proof (cases "map_of (pool_nums st) poolName = None")
    case False
    then show ?thesis using run by (intro has) auto
  next
    case True
    obtain ip num e s1 where m: "AllocateAddress poolName vppAgent entityName s = Some ((ip, num, e), s1)"
      using run True by (auto split: Option.bind_splits)
    show ?thesis
    proof (cases "e = None")
      case False
      then show ?thesis using run m True AllocateAddress_frame [OF m] by (intro failed) auto
    next
      case e: True
      then obtain nums where n: "ist_IpamPoolNums st = Some nums" using run m True by (auto split: Option.bind_splits)
      show ?thesis
        by (rule taken [of s1 "st\<lparr>ist_IpAddresses := ist_IpAddresses st @ [ip],
              ist_IpamPoolNums := Some (gput poolName num nums)\<rparr>" num ip, OF True AllocateAddress_frame [OF m]])
          (use run m True e n in \<open>simp_all add: pool_nums_def\<close>)
    qed
  qed
qed

lemma allocatePoolAddresses_frame:
  "allocatePoolAddresses entityName vppAgent names st s = Some ((err, st'), s') \<Longrightarrow>
    same_but_ipam s s' \<and> ist_MacAddress st' = ist_MacAddress st \<and> ist_MacAddrID st' = ist_MacAddrID st
    \<and> (\<exists>ips. ist_IpAddresses st' = ist_IpAddresses st @ ips)
    \<and> map_of (pool_nums st) \<subseteq>\<^sub>m map_of (pool_nums st')
    \<and> (err = None \<longrightarrow> (\<forall>n \<in> set names. map_of (pool_nums st') n \<noteq> None))
    \<and> ((\<forall>n \<in> set names. map_of (pool_nums st) n \<noteq> None) \<longrightarrow> err = None \<and> st' = st \<and> s' = s)"
proof (induction names arbitrary: st s)
  case (Cons poolName names st s)
  from Cons.prems show ?case
  proof (cases rule: allocatePoolAddresses_cases)
    case has
    then show ?thesis using Cons.IH [OF has(2)] by (auto simp: map_le_def dom_def)
  next
    case (taken num ip s1 st1)
    note IH = Cons.IH [OF taken(7)]
    have "map_of (pool_nums st) \<subseteq>\<^sub>m map_of (pool_nums st1)" using taken(1,3) by (auto simp: map_le_def)
    then have "map_of (pool_nums st) \<subseteq>\<^sub>m map_of (pool_nums st')" using IH map_le_trans by blast
    moreover have "map_of (pool_nums st') poolName \<noteq> None"
      using IH taken(3) by (metis domI fun_upd_same map_le_def option.distinct(1))
    ultimately show ?thesis using same_but_ipam_trans [OF taken(2)] IH taken(1,4-6) by auto
  qed simp
qed simp

lemma formatMacAddress_nonempty: "formatMacAddress n \<noteq> []"
  by (simp add: formatMacAddress_def Let_def)

lemma initMacAddress_facts:
  assumes "initMacAddress i st s = (st1, s1)"
  shows "ist_MacAddress st1 \<noteq> []" "if_MacAddress i \<noteq> [] \<Longrightarrow> ist_MacAddress st1 = if_MacAddress i"
    "ist_IpamPoolNums st1 = ist_IpamPoolNums st"
    "ist_MacAddress st \<noteq> [] \<Longrightarrow> if_MacAddress i \<in> {[], ist_MacAddress st} \<Longrightarrow> st1 = st \<and> s1 = s"
    "rc_InterfaceStates s1 = rc_InterfaceStates s"
  using assms by (auto simp: initMacAddress_def mac_Allocate_def Let_def formatMacAddress_nonempty split: if_splits)

text \<open>What the body of \<open>InitInterfaceStatus\<close> does to the status it works on.\<close>

lemma initInterfaceStatusCore_facts:
  assumes run: "initInterfaceStatusCore entityName vppAgent i st0 s = Some ((err, st), s')"
    and mac: "initMacAddress i st0 s = (st1, s1)"
  shows "same_but_ipam s1 s'" "ist_MacAddress st = ist_MacAddress st1" "ist_MacAddrID st = ist_MacAddrID st1"
    "map_of (pool_nums st0) \<subseteq>\<^sub>m map_of (pool_nums st)"
    "\<exists>ips. ist_IpAddresses st = if_IpAddresses i @ ips"
    "err = None \<Longrightarrow> n \<in> set (if_IpamPoolNames i) \<Longrightarrow> map_of (pool_nums st) n \<noteq> None"
    "\<forall>n \<in> set (if_IpamPoolNames i). map_of (pool_nums st0) n \<noteq> None \<Longrightarrow> pool_nums st = pool_nums st0"
proof -
  define st2 where "st2 = st1\<lparr>ist_IpAddresses := if_IpAddresses i\<rparr>"
  obtain err2 st3 s2 where r: "restorePoolAddresses entityName vppAgent
      (case ist_IpamPoolNums st2 of Some m \<Rightarrow> m | None \<Rightarrow> []) st2 s1 = Some ((err2, st3), s2)"
    using run mac by (auto simp: initInterfaceStatusCore_def st2_def split: Option.bind_splits)
  note R = restorePoolAddresses_frame [OF r]
  have pn: "pool_nums st3 = pool_nums st0" "ist_MacAddress st3 = ist_MacAddress st1"
    "ist_MacAddrID st3 = ist_MacAddrID st1" "\<exists>ips. ist_IpAddresses st3 = if_IpAddresses i @ ips"
    using R initMacAddress_facts(3) [OF mac] by (auto simp: st2_def pool_nums_def)
  consider "err2 \<noteq> None" "err = err2" "st = st3" "s' = s2"
    | err3 s3 where "err2 = None"
      "allocatePoolAddresses entityName vppAgent (if_IpamPoolNames i) st3 s2 = Some ((err3, st), s3)"
      "err = err3" "err3 \<noteq> None \<and> s' = s3
        \<or> err3 = None \<and> foldM (setAddressInPools entityName vppAgent) (ist_IpAddresses st) s3 = Some s'"
    using run mac r by (auto simp: initInterfaceStatusCore_def st2_def split: Option.bind_splits if_splits)
  then have "same_but_ipam s1 s' \<and> ist_MacAddress st = ist_MacAddress st1 \<and> ist_MacAddrID st = ist_MacAddrID st1
    \<and> map_of (pool_nums st0) \<subseteq>\<^sub>m map_of (pool_nums st)
    \<and> (\<exists>ips. ist_IpAddresses st = if_IpAddresses i @ ips)
    \<and> (err = None \<longrightarrow> (\<forall>n \<in> set (if_IpamPoolNames i). map_of (pool_nums st) n \<noteq> None))
    \<and> ((\<forall>n \<in> set (if_IpamPoolNames i). map_of (pool_nums st0) n \<noteq> None) \<longrightarrow> pool_nums st = pool_nums st0)"
  proof cases
    case 1
    then show ?thesis using R pn by auto
  next
    case (2 err3 s3)
    note A = allocatePoolAddresses_frame [OF 2(2)]
    have "same_but_ipam s3 s'" using 2(4) setAddresses_frame by auto
    then have "same_but_ipam s1 s'" using R A same_but_ipam_trans by blast
    then show ?thesis using A pn 2 by auto
  qed
  then show "same_but_ipam s1 s'" "ist_MacAddress st = ist_MacAddress st1" "ist_MacAddrID st = ist_MacAddrID st1"
    "map_of (pool_nums st0) \<subseteq>\<^sub>m map_of (pool_nums st)"
    "\<exists>ips. ist_IpAddresses st = if_IpAddresses i @ ips"
    "err = None \<Longrightarrow> n \<in> set (if_IpamPoolNames i) \<Longrightarrow> map_of (pool_nums st) n \<noteq> None"
    "\<forall>n \<in> set (if_IpamPoolNames i). map_of (pool_nums st0) n \<noteq> None \<Longrightarrow> pool_nums st = pool_nums st0"
    by auto
qed

lemma InitInterfaceStatus_success:
  assumes "InitInterfaceStatus entityName vppAgent i s = Some ((Some st, None), s')"
  shows "ist_MacAddress st \<noteq> '''' \<and> (if_MacAddress i \<noteq> '''' \<longrightarrow> ist_MacAddress st = if_MacAddress i)"
    and "\<forall>n \<in> set (if_IpamPoolNames i). map_of (pool_nums st) n \<noteq> None"
    and "map_of (rc_InterfaceStates s) (if_Parent i @ ''/'' @ if_Name i) = Some old \<longrightarrow>
      map_of (pool_nums old) \<subseteq>\<^sub>m map_of (pool_nums st)"
    and "\<exists>ips. ist_IpAddresses st = if_IpAddresses i @ ips"
    and "map_of (rc_InterfaceStates s') = (if map_of (rc_InterfaceStates s) (if_Parent i @ ''/'' @ if_Name i) = None
      then map_of (rc_InterfaceStates s) else (map_of (rc_InterfaceStates s))(if_Parent i @ ''/'' @ if_Name i \<mapsto> st))"
proof -
  define k where "k = if_Parent i @ ''/'' @ if_Name i"
  define st0 where "st0 = (case map_of (rc_InterfaceStates s) k of Some st \<Rightarrow> st | None \<Rightarrow> newInterfaceStatus k vppAgent)"
  obtain s1 where run: "initInterfaceStatusCore entityName vppAgent i st0 s = Some ((None, st), s1)"
    and s': "rc_InterfaceStates s' = (if map_of (rc_InterfaceStates s) k = None then rc_InterfaceStates s1
      else gput k st (rc_InterfaceStates s1))"
    using assms by (auto simp: InitInterfaceStatus_def st0_def k_def Let_def
      split: option.splits Option.bind_splits if_splits)
  obtain st1 s2 where mac: "initMacAddress i st0 s = (st1, s2)" by fastforce
  note F = initInterfaceStatusCore_facts [OF run mac] and M = initMacAddress_facts [OF mac]
  show "ist_MacAddress st \<noteq> '''' \<and> (if_MacAddress i \<noteq> '''' \<longrightarrow> ist_MacAddress st = if_MacAddress i)"
    using F(2) M(1,2) by simp
  show "\<forall>n \<in> set (if_IpamPoolNames i). map_of (pool_nums st) n \<noteq> None"
    using F(6) by blast
  show "map_of (rc_InterfaceStates s) (if_Parent i @ ''/'' @ if_Name i) = Some old \<longrightarrow>
      map_of (pool_nums old) \<subseteq>\<^sub>m map_of (pool_nums st)"
    using F(4) unfolding st0_def k_def by auto
  show "\<exists>ips. ist_IpAddresses st = if_IpAddresses i @ ips" by (rule F(5))
  have "rc_InterfaceStates s1 = rc_InterfaceStates s" using same_but_ipam_fields [OF F(1)] M(5) by simp
  then show "map_of (rc_InterfaceStates s') = (if map_of (rc_InterfaceStates s) (if_Parent i @ ''/'' @ if_Name i) = None
      then map_of (rc_InterfaceStates s) else (map_of (rc_InterfaceStates s))(if_Parent i @ ''/'' @ if_Name i \<mapsto> st))"
    unfolding s' k_def [symmetric] by simp
qed

section \<open>Properties\<close>


definition demo_if :: Interface where
  "demo_if = \<lparr>if_Name = ''eth0'', if_BypassRenderer = False, if_IfType = IfTypeMemif, if_MacAddress = '''', if_Mtu = 0,
    if_RxMode = '''', if_IpAddresses = [''1.2.3.4/24''], if_IpamPoolNames = [''a''], if_AdminStatus = '''',
    if_MemifParms = None, if_TapParms = None, if_Labels = [], if_Parent = ''pod1'', if_HostPortLabel = '''',
    if_Fwd = None, if_LinuxNamespace = None, if_RxPlacementSettings = None\<rparr>"

lemma demo_init: "\<exists>st s'. InitInterfaceStatus ''pod1'' ''node1'' demo_if demo_pools = Some ((Some st, None), s')"
proof -
  have "(case InitInterfaceStatus ''pod1'' ''node1'' demo_if demo_pools of Some ((Some _, None), _) \<Rightarrow> True | _ \<Rightarrow> False)"
    by code_simp
  then show ?thesis by (auto split: option.splits prod.splits)
qed


text \<open>C31. Interface resources are sticky: when the cached status of an interface has a MAC address
  (which the configuration does not contradict) and an id from every pool the interface names,
  \<open>InitInterfaceStatus\<close> allocates nothing: the MAC counter does not move and the status in the cache
  keeps its MAC address and its pool ids, whether or not the call succeeds.\<close>

theorem InitInterfaceStatus_sticky:
  assumes "map_of (rc_InterfaceStates s) (if_Parent i @ ''/'' @ if_Name i) = Some st"
    and "ist_MacAddress st \<noteq> ''''" "if_MacAddress i \<in> {'''', ist_MacAddress st}"
    and "\<forall>n \<in> set (if_IpamPoolNames i). map_of (pool_nums st) n \<noteq> None"
    and "InitInterfaceStatus entityName vppAgent i s = Some (r, s')"
  shows "rc_MacAddrAllocator s' = rc_MacAddrAllocator s
    \<and> (\<exists>st'. map_of (rc_InterfaceStates s') (if_Parent i @ ''/'' @ if_Name i) = Some st'
        \<and> ist_MacAddress st' = ist_MacAddress st \<and> ist_MacAddrID st' = ist_MacAddrID st
        \<and> pool_nums st' = pool_nums st)"
proof -
  define k where "k = if_Parent i @ ''/'' @ if_Name i"
  obtain err st' s1 where run: "initInterfaceStatusCore entityName vppAgent i st s = Some ((err, st'), s1)"
    and s': "s' = s1\<lparr>rc_InterfaceStates := gput k st' (rc_InterfaceStates s1)\<rparr>"
    using assms by (auto simp: InitInterfaceStatus_def k_def Let_def split: Option.bind_splits)
  obtain st1 s2 where mac: "initMacAddress i st s = (st1, s2)" by fastforce
  note F = initInterfaceStatusCore_facts [OF run mac] and M = initMacAddress_facts(4) [OF mac assms(2,3)]
  show ?thesis
    using F(2,3,7) M assms(4) same_but_ipam_fields [OF F(1)] unfolding s' k_def [symmetric] by simp
qed

definition demo_status :: InterfaceStatus where
  "demo_status = (newInterfaceStatus ''pod1/eth0'' ''node1'')\<lparr>ist_MacAddress := ''02:00:00:00:00:09'', ist_MacAddrID := 9,
    ist_IpamPoolNums := Some [(''a'', 7)]\<rparr>"

lemma demo_init_again:
  "InitInterfaceStatus ''pod1'' ''node1'' demo_if
    (demo_pools\<lparr>rc_InterfaceStates := [(''pod1/eth0'', demo_status)]\<rparr>) \<noteq> None"
proof -
  have "(case InitInterfaceStatus ''pod1'' ''node1'' demo_if
    (demo_pools\<lparr>rc_InterfaceStates := [(''pod1/eth0'', demo_status)]\<rparr>) of Some _ \<Rightarrow> True | _ \<Rightarrow> False)"
    by code_simp
  then show ?thesis by (metis option.case_eq_if)
qed

theorem InitInterfaceStatus_sticky_witness:
  "\<exists>r s'. InitInterfaceStatus ''pod1'' ''node1'' demo_if
      (demo_pools\<lparr>rc_InterfaceStates := [(''pod1/eth0'', demo_status)]\<rparr>) = Some (r, s')
    \<and> rc_MacAddrAllocator s' = rc_MacAddrAllocator demo_pools"
proof -
  obtain r s' where run: "InitInterfaceStatus ''pod1'' ''node1'' demo_if
      (demo_pools\<lparr>rc_InterfaceStates := [(''pod1/eth0'', demo_status)]\<rparr>) = Some (r, s')"
    using demo_init_again by auto
  have "rc_MacAddrAllocator s' = rc_MacAddrAllocator (demo_pools\<lparr>rc_InterfaceStates := [(''pod1/eth0'', demo_status)]\<rparr>)"
    using InitInterfaceStatus_sticky [OF _ _ _ _ run, of demo_status]
    by (simp add: demo_if_def demo_status_def pool_nums_def)
  with run show ?thesis by simp
qed

end
