(* ===== verification/SysParms.thy ===== *)
theory SysParms
  imports State
begin

text \<open>
  The system parameters manager, \<open>plugins/controller/sysparms.go\<close>.  The routines that validate
  change the parameters they are given; the changed value is part of the result.
\<close>

section \<open>Model\<close>

definition emptySystemParameters :: SystemParameters where
  "emptySystemParameters = \<lparr>sp_Mtu = 0, sp_MemifDirectory = '''', sp_DefaultStaticRouteWeight = 0,
     sp_DefaultStaticRoutePreference = 0, sp_L2BdTemplates = [], sp_RxMode = '''', sp_MinVrfId = 0\<rparr>"

definition SysParms_InitRAMCache :: "Plugin \<Rightarrow> Plugin" where
  "SysParms_InitRAMCache s = s\<lparr>sysParmCache := emptySystemParameters\<rparr>"

definition SysParms_ConfigEqual :: "SystemParameters \<Rightarrow> SystemParameters \<Rightarrow> bool" where
  "SysParms_ConfigEqual sp sp2 \<longleftrightarrow> sp = sp2"

definition GetDefaultSystemBDParms :: BDParms where
  "GetDefaultSystemBDParms =
    \<lparr>bdp_Name = '''', bdp_Flood = True, bdp_UnknownUnicastFlood = True, bdp_Forward = True,
     bdp_Learn = True, bdp_ArpTermination = False, bdp_MacAgeMinutes = 0\<rparr>"

definition FindL2BDTemplate :: "string \<Rightarrow> Plugin \<Rightarrow> BDParms option" where
  "FindL2BDTemplate templateName s =
    find (\<lambda>l2bdt. templateName = bdp_Name l2bdt) (sp_L2BdTemplates (sysParmCache s))"

definition SysParms_KeyPrefix :: string where
  "SysParms_KeyPrefix = SfcControllerConfigPrefix @ ''system-parameters''"

definition SysParms_validate :: "SystemParameters \<Rightarrow> err option \<times> SystemParameters" where
  "SysParms_validate sp =
    (let sp1 = (if sp_Mtu sp = 0 then sp\<lparr>sp_Mtu := 1500\<rparr> else sp);
         sp2 = (if sp_DefaultStaticRoutePreference sp1 = 0
           then sp1\<lparr>sp_DefaultStaticRoutePreference := 5\<rparr> else sp1)
     in if sp_RxMode sp2 \<noteq> '''' then
          (if sp_RxMode sp2 = RxModeAdaptive \<or> sp_RxMode sp2 = RxModeInterrupt
             \<or> sp_RxMode sp2 = RxModePolling then (None, sp2)
           else (Some (''SysParm: Invalid rxMode setting '' @ sp_RxMode sp2), sp2))
        else (None, sp2))"

definition SysParms_writeToDatastore :: "SystemParameters \<Rightarrow> Plugin \<Rightarrow> err option \<times> Plugin" where
  "SysParms_writeToDatastore sp s = WriteToDatastore SysParms_KeyPrefix (DSysParms sp) s"

definition SysParms_HandleCRUDOperationCU :: "SystemParameters \<Rightarrow> Plugin \<Rightarrow> err option \<times> Plugin" where
  "SysParms_HandleCRUDOperationCU sp s =
    (case SysParms_validate sp of
       (Some err, _) \<Rightarrow> (Some err, s)
     | (None, sp') \<Rightarrow> SysParms_writeToDatastore sp' (s\<lparr>sysParmCache := sp'\<rparr>))"

definition SysParms_HandleCRUDOperationD :: "Plugin \<Rightarrow> err option \<times> Plugin" where
  "SysParms_HandleCRUDOperationD s =
    (let s1 = s\<lparr>sysParmCache := emptySystemParameters\<rparr>;
         (_, s2) = SysParms_HandleCRUDOperationCU (sysParmCache s1) s1
     in (None, s2))"

text \<open>The parameters read from etcd are decoded into the cached ones.\<close>

definition SysParms_LoadAllFromDatastoreIntoCache :: "Plugin \<Rightarrow> err option \<times> Plugin" where
  "SysParms_LoadAllFromDatastoreIntoCache s =
    (let ((v, err), s') = ReadFromDatastore SysParms_KeyPrefix s in
     case v of
       Some (DSysParms sp) \<Rightarrow> (err, if err = None then s'\<lparr>sysParmCache := sp\<rparr> else s')
     | _ \<Rightarrow> (err, s'))"

definition SysParms_Init :: "Plugin \<Rightarrow> Plugin" where
  "SysParms_Init s = snd (SysParms_LoadAllFromDatastoreIntoCache (SysParms_InitRAMCache s))"

definition ResolveMtu :: "u32 \<Rightarrow> Plugin \<Rightarrow> u32" where
  "ResolveMtu mtu s = (if mtu = 0 then sp_Mtu (sysParmCache s) else mtu)"

definition ResolveRxMode :: "string \<Rightarrow> Plugin \<Rightarrow> string" where
  "ResolveRxMode rxMode s = (if rxMode = '''' then sp_RxMode (sysParmCache s) else rxMode)"

section \<open>Properties\<close>

text \<open>Parameters the controller accepts: an MTU, a route preference and a receive mode it knows.\<close>

definition sp_ok :: "SystemParameters \<Rightarrow> bool" where
  "sp_ok sp \<longleftrightarrow> sp_Mtu sp \<noteq> 0 \<and> sp_DefaultStaticRoutePreference sp \<noteq> 0
    \<and> sp_RxMode sp \<in> {'''', RxModeAdaptive, RxModeInterrupt, RxModePolling}"

lemma SysParms_validate_ok:
  "SysParms_validate sp = (None, sp') \<Longrightarrow> sp_ok sp' \<and> (sp_ok sp \<longrightarrow> sp' = sp)"
  by (auto simp: SysParms_validate_def sp_ok_def Let_def split: if_splits)

text \<open>C36. Accepted parameters are normalised: \<open>validate\<close> fails exactly on an unknown receive mode;
  an update that is accepted caches and stores parameters with a non-zero MTU and route
  preference, and leaves already normal ones alone; a refused update changes nothing; a delete
  restores the defaults (MTU 1500, preference 5) in the cache.\<close>

theorem SysParms_update:
  "(fst (SysParms_validate sp) \<noteq> None
      \<longleftrightarrow> sp_RxMode sp \<notin> {'''', RxModeAdaptive, RxModeInterrupt, RxModePolling})
    \<and> (fst (SysParms_validate sp) \<noteq> None \<longrightarrow>
        SysParms_HandleCRUDOperationCU sp s = (fst (SysParms_validate sp), s))
    \<and> (fst (SysParms_validate sp) = None \<longrightarrow>
        (\<exists>sp' err s'. SysParms_HandleCRUDOperationCU sp s = (err, s') \<and> sp_ok sp' \<and> (sp_ok sp \<longrightarrow> sp' = sp)
          \<and> s' = s\<lparr>sysParmCache := sp', db_log := db_log s @ [DbPut SysParms_KeyPrefix (DSysParms sp')]\<rparr>))
    \<and> sysParmCache (snd (SysParms_HandleCRUDOperationD s))
        = emptySystemParameters\<lparr>sp_Mtu := 1500, sp_DefaultStaticRoutePreference := 5\<rparr>"
proof (intro conjI impI)
  show "fst (SysParms_validate sp) \<noteq> None
      \<longleftrightarrow> sp_RxMode sp \<notin> {'''', RxModeAdaptive, RxModeInterrupt, RxModePolling}"
    by (auto simp: SysParms_validate_def Let_def)
  show "sysParmCache (snd (SysParms_HandleCRUDOperationD s))
        = emptySystemParameters\<lparr>sp_Mtu := 1500, sp_DefaultStaticRoutePreference := 5\<rparr>"
    by (simp add: SysParms_HandleCRUDOperationD_def SysParms_HandleCRUDOperationCU_def
      SysParms_validate_def emptySystemParameters_def SysParms_writeToDatastore_def
      WriteToDatastore_def Let_def)
next
  assume "fst (SysParms_validate sp) \<noteq> None"
  then show "SysParms_HandleCRUDOperationCU sp s = (fst (SysParms_validate sp), s)"
    by (auto simp: SysParms_HandleCRUDOperationCU_def split: prod.splits option.splits)
next
  assume "fst (SysParms_validate sp) = None"
  then obtain sp' where "SysParms_validate sp = (None, sp')" by (cases "SysParms_validate sp") auto
  then show "\<exists>sp' err s'. SysParms_HandleCRUDOperationCU sp s = (err, s') \<and> sp_ok sp' \<and> (sp_ok sp \<longrightarrow> sp' = sp)
      \<and> s' = s\<lparr>sysParmCache := sp', db_log := db_log s @ [DbPut SysParms_KeyPrefix (DSysParms sp')]\<rparr>"
    using SysParms_validate_ok
    by (auto simp: SysParms_HandleCRUDOperationCU_def SysParms_writeToDatastore_def
      WriteToDatastore_def Let_def)
qed

theorem SysParms_update_witness:
  "fst (SysParms_validate (emptySystemParameters\<lparr>sp_RxMode := ''busy''\<rparr>)) \<noteq> None
    \<and> (\<exists>s' err. SysParms_HandleCRUDOperationCU emptySystemParameters (fresh_plugin good_env) = (err, s'))"
  using SysParms_update [of "emptySystemParameters\<lparr>sp_RxMode := ''busy''\<rparr>" "fresh_plugin good_env"]
    SysParms_update [of emptySystemParameters "fresh_plugin good_env"]
  by (auto simp: emptySystemParameters_def)

end
