(* ===== verification/Render.thy ===== *)
theory Render
  imports RenderTxn Interfaces SysParms
begin

text \<open>
  The rendering routines of \<open>networknode.go\<close> and \<open>networkservice*.go\<close> thread three things: the
  entity they render (a node or a service, whose status they fill in), the plugin's state, and an
  early return with an error.  A routine is a function from entity and plugin to a result and the
  changed pair; \<open>None\<close> is a panic, \<open>Inl\<close> an error return, after which the caller returns as well.
  This theory has the combinators the routines are written with and the rules by which invariants
  of such routines are proved.
\<close>

section \<open>Combinators\<close>

type_synonym ('e, 'a) render = "'e \<times> Plugin \<Rightarrow> ((err + 'a) \<times> ('e \<times> Plugin)) option"

definition rret :: "'a \<Rightarrow> ('e, 'a) render" where
  "rret x \<sigma> = Some (Inr x, \<sigma>)"

definition rfail :: "err \<Rightarrow> ('e, 'a) render" where
  "rfail e \<sigma> = Some (Inl e, \<sigma>)"

definition rbind :: "('e, 'a) render \<Rightarrow> ('a \<Rightarrow> ('e, 'b) render) \<Rightarrow> ('e, 'b) render" where
  "rbind m f \<sigma> =
    (case m \<sigma> of
       None \<Rightarrow> None
     | Some (Inl e, \<sigma>') \<Rightarrow> Some (Inl e, \<sigma>')
     | Some (Inr x, \<sigma>') \<Rightarrow> f x \<sigma>')"

definition rseq :: "('e, unit) render \<Rightarrow> ('e, 'b) render \<Rightarrow> ('e, 'b) render" where
  "rseq m n = rbind m (\<lambda>_. n)"

text \<open>Reading the state; dereferencing a pointer, a panic when it is nil; an index expression.\<close>

definition rread :: "('e \<times> Plugin \<Rightarrow> 'a) \<Rightarrow> ('e, 'a) render" where
  "rread f \<sigma> = Some (Inr (f \<sigma>), \<sigma>)"

definition rderef :: "'a option \<Rightarrow> ('e, 'a) render" where
  "rderef p \<sigma> = (case p of None \<Rightarrow> None | Some x \<Rightarrow> Some (Inr x, \<sigma>))"

definition rnth :: "'a list \<Rightarrow> nat \<Rightarrow> ('e, 'a) render" where
  "rnth xs i = rderef (if i < length xs then Some (xs ! i) else None)"

text \<open>A routine of the plugin that does not touch the entity and may panic.\<close>

definition rcall :: "(Plugin \<Rightarrow> ('a \<times> Plugin) option) \<Rightarrow> ('e, 'a) render" where
  "rcall f \<sigma> = (case f (snd \<sigma>) of None \<Rightarrow> None | Some (x, s') \<Rightarrow> Some (Inr x, (fst \<sigma>, s')))"

text \<open>Loops: over a list, and over a list with variables of the enclosing function.\<close>

fun rfor :: "'x list \<Rightarrow> ('x \<Rightarrow> ('e, unit) render) \<Rightarrow> ('e, unit) render" where
  "rfor [] f = rret ()"
| "rfor (x # xs) f = rseq (f x) (rfor xs f)"

fun rfold :: "'x list \<Rightarrow> 'v \<Rightarrow> ('x \<Rightarrow> 'v \<Rightarrow> ('e, 'v) render) \<Rightarrow> ('e, 'v) render" where
  "rfold [] v f = rret v"
| "rfold (x # xs) v f = rbind (f x v) (\<lambda>v'. rfold xs v' f)"

section \<open>Invariants of routines\<close>

text \<open>\<open>rkeeps P E m\<close>: the routine keeps \<open>P\<close>, and when it returns an error, \<open>E\<close> holds.\<close>

definition rkeeps :: "('e \<times> Plugin \<Rightarrow> bool) \<Rightarrow> ('e \<times> Plugin \<Rightarrow> bool) \<Rightarrow> ('e, 'a) render \<Rightarrow> bool" where
  "rkeeps P E m \<longleftrightarrow> (\<forall>\<sigma> r \<sigma>'. P \<sigma> \<longrightarrow> m \<sigma> = Some (r, \<sigma>') \<longrightarrow> P \<sigma>' \<and> (\<forall>e. r = Inl e \<longrightarrow> E \<sigma>'))"

text \<open>Running a composition.\<close>

lemma rbind_SomeE:
  assumes "rbind m f \<sigma> = Some (r, \<sigma>')"
  obtains e where "m \<sigma> = Some (Inl e, \<sigma>')" "r = Inl e"
  | x \<sigma>1 where "m \<sigma> = Some (Inr x, \<sigma>1)" "f x \<sigma>1 = Some (r, \<sigma>')"
  using assms unfolding rbind_def by (auto split: option.splits sum.splits)

named_theorems render_rules \<open>invariant rules of the rendering combinators\<close>

lemma rkeepsI:
  assumes "\<And>\<sigma> r \<sigma>'. P \<sigma> \<Longrightarrow> m \<sigma> = Some (r, \<sigma>') \<Longrightarrow> P \<sigma>'"
    and "\<And>\<sigma> e \<sigma>'. P \<sigma> \<Longrightarrow> m \<sigma> = Some (Inl e, \<sigma>') \<Longrightarrow> E \<sigma>'"
  shows "rkeeps P E m"
  using assms unfolding rkeeps_def by blast

lemma rkeepsD:
  assumes "rkeeps P E m" "P \<sigma>" "m \<sigma> = Some (r, \<sigma>')"
  shows "P \<sigma>'" "r = Inl e \<Longrightarrow> E \<sigma>'"
  using assms unfolding rkeeps_def by blast+

lemma rkeeps_rret [render_rules]: "rkeeps P E (rret x)"
  by (simp add: rkeeps_def rret_def)

lemma rkeeps_rread [render_rules]: "rkeeps P E (rread f)"
  by (simp add: rkeeps_def rread_def)

lemma rkeeps_rderef [render_rules]: "rkeeps P E (rderef p)"
  by (simp add: rkeeps_def rderef_def split: option.splits)

lemma rkeeps_rnth [render_rules]: "rkeeps P E (rnth xs i)"
  by (simp add: rnth_def rkeeps_rderef)

lemma rderef_Some [simp]: "rderef p \<sigma> = Some (r, \<sigma>') \<longleftrightarrow> (\<exists>x. p = Some x \<and> r = Inr x \<and> \<sigma>' = \<sigma>)"
  by (auto simp: rderef_def split: option.splits)

text \<open>The continuation may use what the first routine has returned.\<close>

lemma rkeeps_rbind [render_rules]:
  assumes m: "rkeeps P E m" and f: "\<And>x \<sigma> \<sigma>'. m \<sigma> = Some (Inr x, \<sigma>') \<Longrightarrow> rkeeps P E (f x)"
  shows "rkeeps P E (rbind m f)"
proof -
  have "P \<sigma>' \<and> (\<forall>e. r = Inl e \<longrightarrow> E \<sigma>')" if "P \<sigma>" "rbind m f \<sigma> = Some (r, \<sigma>')" for \<sigma> r \<sigma>'
    using that(2)
  proof (cases rule: rbind_SomeE)
    case (1 e)
    then show ?thesis using rkeepsD [OF m that(1)] by blast
  next
    case (2 x \<sigma>1)
    then show ?thesis using rkeepsD [OF f [OF 2(1)] rkeepsD(1) [OF m that(1) 2(1)] 2(2)] by blast
  qed
  then show ?thesis by (simp add: rkeeps_def)
qed

lemma rkeeps_rseq [render_rules]: "rkeeps P E m \<Longrightarrow> rkeeps P E n \<Longrightarrow> rkeeps P E (rseq m n)"
  unfolding rseq_def by (rule rkeeps_rbind)

lemma rkeeps_rfor [render_rules]: "(\<And>x. rkeeps P E (f x)) \<Longrightarrow> rkeeps P E (rfor xs f)"
  by (induction xs) (simp_all add: rkeeps_rret rkeeps_rseq)

lemma rkeeps_rfold [render_rules]: "(\<And>x v. rkeeps P E (f x v)) \<Longrightarrow> rkeeps P E (rfold xs v f)"
  by (induction xs arbitrary: v) (simp_all add: rkeeps_rret rkeeps_rbind)

lemma rkeeps_if [render_rules]:
  "(b \<Longrightarrow> rkeeps P E m) \<Longrightarrow> (\<not> b \<Longrightarrow> rkeeps P E n) \<Longrightarrow> rkeeps P E (if b then m else n)"
  by simp

lemma rkeeps_option [render_rules]:
  "(p = None \<Longrightarrow> rkeeps P E m) \<Longrightarrow> (\<And>x. p = Some x \<Longrightarrow> rkeeps P E (f x))
    \<Longrightarrow> rkeeps P E (case p of None \<Rightarrow> m | Some x \<Rightarrow> f x)"
  by (cases p) simp_all

lemma rkeeps_prod [render_rules]: "(\<And>x y. rkeeps P E (f x y)) \<Longrightarrow> rkeeps P E (case p of (x, y) \<Rightarrow> f x y)"
  by (cases p) simp

lemma rkeeps_list [render_rules]:
  "(xs = [] \<Longrightarrow> rkeeps P E m) \<Longrightarrow> (\<And>y ys. xs = y # ys \<Longrightarrow> rkeeps P E (f y ys))
    \<Longrightarrow> rkeeps P E (case xs of [] \<Rightarrow> m | y # ys \<Rightarrow> f y ys)"
  by (cases xs) simp_all

lemma rkeeps_let [render_rules]: "rkeeps P E (f x) \<Longrightarrow> rkeeps P E (Let x f)"
  by simp

lemma rkeeps_rcall:
  "(\<And>e s x s'. P (e, s) \<Longrightarrow> f s = Some (x, s') \<Longrightarrow> P (e, s')) \<Longrightarrow> rkeeps P E (rcall f)"
  unfolding rkeeps_def rcall_def by (force split: option.splits)

lemma render_run_simps [simp]:
  "rret x \<sigma> = Some (Inr x, \<sigma>)" "rfail e \<sigma> = Some (Inl e, \<sigma>)" "rread f \<sigma> = Some (Inr (f \<sigma>), \<sigma>)"
  "rderef None \<sigma> = None" "rderef (Some x) \<sigma> = Some (Inr x, \<sigma>)"
  by (simp_all add: rret_def rfail_def rread_def rderef_def)

end
