(* ===== verification/Nodes.thy ===== *)
theory Nodes
  imports Render
begin

text \<open>
  The network node manager, \<open>plugins/controller/networknode.go\<close>: validation (which also sets the
  parent of every interface), the CRUD operations, the lookups the service renderer uses, and the
  rendering of a node's interfaces and bridge domains.  A node is a pointer kept in
  \<open>networkNodeCache\<close>; an operation that changes a cached node writes it back.
\<close>

section \<open>Model\<close>

abbreviation ModelTypeNetworkNode :: string where "ModelTypeNetworkNode \<equiv> ''network-node''"
abbreviation ModelTypeNetworkService :: string where "ModelTypeNetworkService \<equiv> ''network-service''"

definition NetworkNode_InitRAMCache :: "Plugin \<Rightarrow> Plugin" where
  "NetworkNode_InitRAMCache s = s\<lparr>networkNodeCache := []\<rparr>"

definition NetworkNode_ConfigEqual :: "NetworkNode \<Rightarrow> NetworkNode \<Rightarrow> bool" where
  "NetworkNode_ConfigEqual nn n2 \<longleftrightarrow> metadataEqual (nn_Metadata nn) (nn_Metadata n2) \<and> nn_Spec nn = nn_Spec n2"

definition NetworkNode_KeyPrefix :: string where
  "NetworkNode_KeyPrefix = SfcControllerConfigPrefix @ ''network-node/''"

definition NetworkNode_NameKey :: "string \<Rightarrow> string" where
  "NetworkNode_NameKey name = NetworkNode_KeyPrefix @ name"

definition NetworkNode_HandleCRUDOperationR :: "string \<Rightarrow> Plugin \<Rightarrow> NetworkNode option" where
  "NetworkNode_HandleCRUDOperationR name s = map_of (networkNodeCache s) name"

definition cidrError :: "string \<Rightarrow> string" where
  "cidrError ipAddress = ''invalid CIDR address: '' @ ipAddress"

text \<open>\<open>nodeValidateInterfaces\<close> sets the parents of the interfaces up to the first invalid one.\<close>

fun nodeValidateInterfaces :: "string \<Rightarrow> Interface list \<Rightarrow> err option \<times> Interface list" where
  "nodeValidateInterfaces nodeName [] = (None, [])"
| "nodeValidateInterfaces nodeName (iFace # iFaces) =
    (if if_IfType iFace \<noteq> IfTypeEthernet \<and> if_IfType iFace \<noteq> IfTypeVxlanTunnel then
       (Some (concat [''node/if: '', nodeName, ''/'', if_Name iFace, '' has invalid if type '', quote,
          if_IfType iFace, quote]), iFace # iFaces)
     else
       let iFace' = iFace\<lparr>if_Parent := nodeName\<rparr> in
       case find (\<lambda>ipAddress. ParseCIDR ipAddress = None) (if_IpAddresses iFace') of
         Some ipAddress \<Rightarrow>
           (Some (concat [''node/if: '', nodeName, ''/'', if_Name iFace', '' '', quote, cidrError ipAddress, quote,
              '', expected format i.p.v.4/xx, or ip::v6/xx'']), iFace' # iFaces)
       | None \<Rightarrow>
           let (err, iFaces') = nodeValidateInterfaces nodeName iFaces in (err, iFace' # iFaces'))"

fun nodeValidateL2Bds :: "string \<Rightarrow> L2BD list \<Rightarrow> Plugin \<Rightarrow> err option" where
  "nodeValidateL2Bds nodeName [] s = None"
| "nodeValidateL2Bds nodeName (l2bd # l2bds) s =
    (if l2bd_L2BdTemplate l2bd \<noteq> '''' \<and> l2bd_BdParms l2bd \<noteq> None then
       Some (concat [''node: '', nodeName, '', l2bd: '', l2bd_Name l2bd,
         ''  cannot refer to temmplate and provide l2bd parameters''])
     else if l2bd_L2BdTemplate l2bd \<noteq> '''' \<and> FindL2BDTemplate (l2bd_L2BdTemplate l2bd) s = None then
       Some (concat [''node: '', nodeName, '', l2bd: '', l2bd_Name l2bd,
         ''  has invalid reference to non-existant l2bd template '', quote, l2bd_L2BdTemplate l2bd, quote])
     else nodeValidateL2Bds nodeName l2bds s)"

text \<open>A node without metadata panics here; in the code it does so here or at the latest in the caller,
  which all use the name next.\<close>

definition NetworkNode_validate :: "NetworkNode \<Rightarrow> Plugin \<Rightarrow> (err option \<times> NetworkNode) option" where
  "NetworkNode_validate nn s =
    do {
      spec \<leftarrow> nn_Spec nn;
      md \<leftarrow> nn_Metadata nn;
      let (err, iFaces) = nodeValidateInterfaces (md_Name md) (nn_Interfaces spec);
      let nn' = nn\<lparr>nn_Spec := Some (spec\<lparr>nn_Interfaces := iFaces\<rparr>)\<rparr>;
      Some (if err \<noteq> None then err else nodeValidateL2Bds (md_Name md) (nn_L2Bds spec) s, nn')
    }"

definition NetworkNode_AppendStatusMsg :: "string \<Rightarrow> NetworkNode \<Rightarrow> NetworkNode option" where
  "NetworkNode_AppendStatusMsg msg nn =
    do {
      st \<leftarrow> nn_Status nn;
      Some (nn\<lparr>nn_Status := Some (st\<lparr>nst_Msg := nst_Msg st @ [msg]\<rparr>)\<rparr>)
    }"

definition emptyNodeStatus :: NetworkNodeStatus where
  "emptyNodeStatus = \<lparr>nst_Status = '''', nst_Msg = [], nst_RenderedVppAgentEntries = None, nst_Interfaces = None\<rparr>"

definition NetworkNode_writeToDatastore :: "NetworkNode \<Rightarrow> Plugin \<Rightarrow> (err option \<times> Plugin) option" where
  "NetworkNode_writeToDatastore nn s =
    do {
      md \<leftarrow> nn_Metadata nn;
      Some (WriteToDatastore (NetworkNode_NameKey (md_Name md)) (DNode nn) s)
    }"

definition NetworkNode_HandleCRUDOperationCU :: "NetworkNode \<Rightarrow> Plugin \<Rightarrow> (err option \<times> Plugin) option" where
  "NetworkNode_HandleCRUDOperationCU data0 s =
    do {
      let nn = data0\<lparr>nn_Status := None\<rparr>;
      (err, nn1) \<leftarrow> NetworkNode_validate nn s;
      nn2 \<leftarrow> (case err of
          Some e \<Rightarrow> NetworkNode_AppendStatusMsg e (nn1\<lparr>nn_Status := Some emptyNodeStatus\<rparr>)
        | None \<Rightarrow> Some nn1);
      md \<leftarrow> nn_Metadata data0;
      let s1 = s\<lparr>networkNodeCache := gput (md_Name md) nn2 (networkNodeCache s)\<rparr>;
      (err2, s2) \<leftarrow> NetworkNode_writeToDatastore nn2 s1;
      if err2 \<noteq> None then Some (err2, s2)
      else do {
        s3 \<leftarrow> EntityCreate (md_Name md) IPAMPoolScopeNode s2;
        Some (None, s3)
      }
    }"

text \<open>The interfaces of a status are a nil map when the rendering has not filled them in.\<close>

definition NetworkNode_renderDelete :: "NetworkNode \<Rightarrow> Plugin \<Rightarrow> Plugin option" where
  "NetworkNode_renderDelete nn s =
    do {
      st \<leftarrow> nn_Status nn;
      let s1 = DeleteRenderedVppAgentEntries
        (case nst_RenderedVppAgentEntries st of Some m \<Rightarrow> m | None \<Rightarrow> []) s;
      Some (snd (DeleteInterfaceEntries (nst_Interfaces st) s1))
    }"

definition NetworkNode_HandleCRUDOperationD :: "string \<Rightarrow> Plugin \<Rightarrow> (err option \<times> Plugin) option" where
  "NetworkNode_HandleCRUDOperationD nodeName s =
    (case map_of (networkNodeCache s) nodeName of
       None \<Rightarrow> Some (None, s)
     | Some nn \<Rightarrow> do {
         s1 \<leftarrow> NetworkNode_renderDelete nn s;
         let s2 = s1\<lparr>networkNodeCache := gdel nodeName (networkNodeCache s1)\<rparr>;
         let s3 = DeleteFromDatastore (NetworkNode_NameKey nodeName) s2;
         s4 \<leftarrow> EntityDelete nodeName IPAMPoolScopeNode s3;
         Some (None, s4)
       })"

definition NetworkNode_loadAllFromDatastore :: "Plugin \<Rightarrow> Plugin option" where
  "NetworkNode_loadAllFromDatastore s =
    ReadIterate NetworkNode_KeyPrefix
      (\<lambda>v s. case v of
         DNode nn \<Rightarrow> do {
           md \<leftarrow> nn_Metadata nn;
           Some (s\<lparr>networkNodeCache := gput (md_Name md) nn (networkNodeCache s)\<rparr>)
         }
       | _ \<Rightarrow> None) s"

definition NetworkNode_Init :: "Plugin \<Rightarrow> Plugin option" where
  "NetworkNode_Init s = NetworkNode_loadAllFromDatastore (NetworkNode_InitRAMCache s)"

section \<open>Lookups\<close>

text \<open>The first address of a vxlan interface that parses.\<close>

fun firstVxlanAddress :: "Interface list \<Rightarrow> string option" where
  "firstVxlanAddress [] = None"
| "firstVxlanAddress (iFace # iFaces) =
    (if if_IfType iFace = IfTypeVxlanTunnel then
       (case find (\<lambda>ipAddress. ParseCIDR ipAddress \<noteq> None) (if_IpAddresses iFace) of
          Some ipAddress \<Rightarrow> map_option (\<lambda>(ip, _). IPString ip) (ParseCIDR ipAddress)
        | None \<Rightarrow> firstVxlanAddress iFaces)
     else firstVxlanAddress iFaces)"

definition FindVxlanIPaddress :: "string \<Rightarrow> Plugin \<Rightarrow> (string \<times> err option) option" where
  "FindVxlanIPaddress nodeName s =
    (case NetworkNode_HandleCRUDOperationR nodeName s of
       None \<Rightarrow> Some ('''', Some (''node not found: '' @ nodeName))
     | Some nn \<Rightarrow> do {
         spec \<leftarrow> nn_Spec nn;
         Some (case firstVxlanAddress (nn_Interfaces spec) of
             Some ip \<Rightarrow> (ip, None)
           | None \<Rightarrow> ('''', Some (''no vxlan ip address found for node: '' @ nodeName)))
       })"

definition FindInterfaceInNode :: "string \<Rightarrow> string \<Rightarrow> Plugin \<Rightarrow> (Interface option \<times> string) option" where
  "FindInterfaceInNode nodeName ifName s =
    (case map_of (networkNodeCache s) nodeName of
       None \<Rightarrow> Some (None, '''')
     | Some nn \<Rightarrow> do {
         spec \<leftarrow> nn_Spec nn;
         Some (case find (\<lambda>iFace. if_Name iFace = ifName) (nn_Interfaces spec) of
             Some iFace \<Rightarrow> (Some iFace, if_IfType iFace)
           | None \<Rightarrow> (None, ''''))
       })"

text \<open>An interface is listed once for each of its labels that is asked for.\<close>

definition labelMatches :: "string list \<Rightarrow> Interface \<Rightarrow> Interface list" where
  "labelMatches labels iFace =
    map (\<lambda>_. iFace) (filter (\<lambda>ifaceLabel. list_ex (\<lambda>label. ifaceLabel = label) labels) (if_Labels iFace))"

definition FindInterfacesForThisLabelInNode ::
  "string \<Rightarrow> string list \<Rightarrow> Plugin \<Rightarrow> (Interface list \<times> string list) option" where
  "FindInterfacesForThisLabelInNode nodeName labels s =
    (case map_of (networkNodeCache s) nodeName of
       None \<Rightarrow> Some ([], [])
     | Some nn \<Rightarrow> do {
         spec \<leftarrow> nn_Spec nn;
         let iFaces = concat (map (labelMatches labels) (nn_Interfaces spec));
         Some (iFaces, map if_IfType iFaces)
       })"

definition FindL2BDForNode :: "string \<Rightarrow> string \<Rightarrow> Plugin \<Rightarrow> L2BD option option" where
  "FindL2BDForNode nodeName l2bdName s =
    (case map_of (networkNodeCache s) nodeName of
       None \<Rightarrow> Some None
     | Some nn \<Rightarrow> do {
         spec \<leftarrow> nn_Spec nn;
         Some (find (\<lambda>l2bd. l2bd_Name l2bd = l2bdName) (nn_L2Bds spec))
       })"

definition vppKeyL2BDName :: "string \<Rightarrow> string \<Rightarrow> string" where
  "vppKeyL2BDName nodeName l2bdName = ''L2BD_'' @ nodeName @ ''_'' @ l2bdName"

text \<open>The node and the bridge domain of the entry found, \<open>None\<close> for two nil results.\<close>

definition FindVppL2BDForNode ::
  "string \<Rightarrow> string \<Rightarrow> Plugin \<Rightarrow> (NetworkNode option \<times> BridgeDomain option) option option" where
  "FindVppL2BDForNode nodeName l2bdName s =
    do {
      l2bd \<leftarrow> FindL2BDForNode nodeName l2bdName s;
      if l2bd = None then Some None
      else
        let key = L2BridgeDomainKey nodeName (vppKeyL2BDName nodeName l2bdName) in
        case RenderTxnGetAfterMap key s of
          Some vppKey \<Rightarrow> Some (Some (map_of (networkNodeCache s) nodeName, kv_L2BD vppKey))
        | None \<Rightarrow>
            (case map_of (rc_VppEntries s) key of
               Some vppKey \<Rightarrow> Some (Some (map_of (networkNodeCache s) nodeName, kv_L2BD vppKey))
             | None \<Rightarrow> Some None)
    }"

definition findInterfaceLabel :: "string list \<Rightarrow> string \<Rightarrow> bool" where
  "findInterfaceLabel labels label = list_ex (\<lambda>l. l = label) labels"

section \<open>Rendering\<close>

text \<open>\<open>RenderTxnAddVppEntryToTxn\<close> with the rendered entries of the node's status.\<close>

definition node_addEntry :: "KVType \<Rightarrow> (NetworkNode, unit) render" where
  "node_addEntry vppKV = (\<lambda>(nn, s). do {
      st \<leftarrow> nn_Status nn;
      md \<leftarrow> nn_Metadata nn;
      (rendered, s') \<leftarrow> RenderTxnAddVppEntryToTxn (nst_RenderedVppAgentEntries st)
        (ModelTypeNetworkNode @ ''/'' @ md_Name md) vppKV s;
      Some (Inr (), (nn\<lparr>nn_Status := Some (st\<lparr>nst_RenderedVppAgentEntries := rendered\<rparr>)\<rparr>, s'))
    })"

definition nodeBdParms :: "L2BD \<Rightarrow> Plugin \<Rightarrow> BDParms option" where
  "nodeBdParms l2bd s =
    (if l2bd_L2BdTemplate l2bd \<noteq> '''' then FindL2BDTemplate (l2bd_L2BdTemplate l2bd) s
     else case l2bd_BdParms l2bd of
       None \<Rightarrow> Some GetDefaultSystemBDParms
     | Some p \<Rightarrow> Some p)"

definition node_name :: "(NetworkNode, string) render" where
  "node_name = rbind (rread (\<lambda>(nn, _). nn_Metadata nn)) (\<lambda>p. rbind (rderef p) (\<lambda>md. rret (md_Name md)))"

definition renderNodeL2BDs :: "L2BD list \<Rightarrow> (NetworkNode, unit) render" where
  "renderNodeL2BDs l2bds = rfor l2bds (\<lambda>l2bd.
    rbind node_name (\<lambda>name.
    rbind (rread (\<lambda>(_, s). nodeBdParms l2bd s)) (\<lambda>p.
    rbind (rderef p) (\<lambda>bdParms.
      node_addEntry (ConstructL2BD name (vppKeyL2BDName name (l2bd_Name l2bd)) [] bdParms)))))"

text \<open>The status of an interface is initialised and persisted; when that fails the old status is
  removed, the failure recorded and returned.\<close>

definition node_initInterface :: "Interface \<Rightarrow> (NetworkNode, InterfaceStatus) render" where
  "node_initInterface iFace = (\<lambda>(nn, s). do {
      md \<leftarrow> nn_Metadata nn;
      st \<leftarrow> nn_Status nn;
      ((r, err), s1) \<leftarrow> InitInterfaceStatus (md_Name md) (md_Name md) iFace s;
      (case err of
         Some e \<Rightarrow>
           let (ifs, s2) = RemoveInterfaceStatus (nst_Interfaces st) (if_Parent iFace) (if_Name iFace) s1;
               msg = concat [''node interface: '', if_Parent iFace, ''/'', if_Name iFace, '', '', e]
           in Some (Inl e, (nn\<lparr>nn_Status := Some (st\<lparr>nst_Interfaces := ifs, nst_Msg := nst_Msg st @ [msg]\<rparr>)\<rparr>, s2))
       | None \<Rightarrow> do {
           ifStatus \<leftarrow> r;
           (ifs, s2) \<leftarrow> PersistInterfaceStatus (nst_Interfaces st) ifStatus (if_Parent iFace) (if_Name iFace) s1;
           Some (Inr ifStatus, (nn\<lparr>nn_Status := Some (st\<lparr>nst_Interfaces := ifs\<rparr>)\<rparr>, s2))
         })
    })"

definition renderNodeInterfaces :: "Interface list \<Rightarrow> (NetworkNode, unit) render" where
  "renderNodeInterfaces iFaces = rfor iFaces (\<lambda>iFace.
    if if_IfType iFace = IfTypeEthernet \<and> \<not> if_BypassRenderer iFace then
      rbind (node_initInterface iFace) (\<lambda>ifStatus.
      rbind node_name (\<lambda>name.
      rbind (rread snd) (\<lambda>s.
        node_addEntry (ConstructEthernetInterface name (if_Name iFace) (ist_IpAddresses ifStatus)
          (ist_MacAddress ifStatus) (ResolveMtu (if_Mtu iFace) s) (if_AdminStatus iFace)
          (ResolveRxMode (if_RxMode iFace) s)))))
    else rret ())"

definition NetworkNode_renderComplete :: "NetworkNode \<Rightarrow> Plugin \<Rightarrow> (NetworkNode \<times> Plugin) option" where
  "NetworkNode_renderComplete nn s =
    do {
      st \<leftarrow> nn_Status nn;
      let (st1, s1) =
        (if nst_Msg st = [] then (st\<lparr>nst_Msg := nst_Msg st @ [''OK''], nst_Status := OperStatusUp\<rparr>, s)
         else (st\<lparr>nst_RenderedVppAgentEntries := None, nst_Status := OperStatusDown\<rparr>,
           RenderTxnConfigEntityRemoveEntries s));
      let nn1 = nn\<lparr>nn_Status := Some st1\<rparr>;
      (_, s2) \<leftarrow> NetworkNode_writeToDatastore nn1 s1;
      Some (nn1, s2)
    }"

text \<open>The body of \<open>renderConfig\<close> between its two deferred calls.\<close>

definition node_renderBody :: "NetworkNodeSpec \<Rightarrow> (NetworkNode, unit) render" where
  "node_renderBody spec = rseq (renderNodeInterfaces (nn_Interfaces spec)) (renderNodeL2BDs (nn_L2Bds spec))"

definition NetworkNode_renderConfig :: "NetworkNode \<Rightarrow> Plugin \<Rightarrow> ((err option \<times> NetworkNode) \<times> Plugin) option" where
  "NetworkNode_renderConfig nn s =
    do {
      let s1 = RenderTxnConfigEntityStart s;
      (err, nn1) \<leftarrow> NetworkNode_validate nn s1;
      if err \<noteq> None then do {
        s2 \<leftarrow> RenderTxnConfigEntityEnd s1;
        Some ((err, nn1), s2)
      }
      else do {
        spec \<leftarrow> nn_Spec nn1;
        let nn2 = nn1\<lparr>nn_Status := Some (emptyNodeStatus
          \<lparr>nst_RenderedVppAgentEntries := Some [], nst_Interfaces := Some []\<rparr>)\<rparr>;
        (r, (nn3, s2)) \<leftarrow> node_renderBody spec (nn2, s1);
        (nn4, s3) \<leftarrow> NetworkNode_renderComplete nn3 s2;
        s4 \<leftarrow> RenderTxnConfigEntityEnd s3;
        Some ((case r of Inl e \<Rightarrow> Some e | Inr _ \<Rightarrow> None, nn4), s4)
      }
    }"

definition NetworkNode_RenderAll :: "Plugin \<Rightarrow> Plugin option" where
  "NetworkNode_RenderAll s =
    foldM (\<lambda>(k, _) s. do {
      nn \<leftarrow> map_of (networkNodeCache s) k;
      ((_, nn'), s') \<leftarrow> NetworkNode_renderConfig nn s;
      Some (s'\<lparr>networkNodeCache := gput k nn' (networkNodeCache s')\<rparr>)
    }) (networkNodeCache s) s"

section \<open>Tunnel end points\<close>

definition vxlanRouteInterface :: "string \<Rightarrow> NetworkNodeSpec \<Rightarrow> Interface \<Rightarrow> bool" where
  "vxlanRouteInterface label spec iFace \<longleftrightarrow>
    if_IfType iFace = IfTypeEthernet \<and> (findInterfaceLabel (if_Labels iFace) label \<or> length (nn_Interfaces spec) = 1)"

text \<open>One route of the two nested loops, from an interface of the node \<open>n1\<close> to one of the other node.\<close>

definition renderVxlanRoute ::
  "string \<Rightarrow> string \<Rightarrow> string \<Rightarrow> u32 \<Rightarrow> string \<Rightarrow> NetworkNode \<Rightarrow> Interface \<Rightarrow> Interface
    \<Rightarrow> RenderedVppAgentEntry gomap option \<times> Plugin \<Rightarrow> (RenderedVppAgentEntry gomap option \<times> Plugin) option" where
  "renderVxlanRoute renderingEntity fromNode toNode vrfID toVxlanAddress n1 node1Iface node2Iface = (\<lambda>(re, s). do {
      nextHop \<leftarrow> (case if_IpAddresses node2Iface of [] \<Rightarrow> None | a # _ \<Rightarrow> Some a);
      md1 \<leftarrow> nn_Metadata n1;
      vppKV \<leftarrow> ConstructStaticRoute (md_Name md1)
        \<lparr>vr_VrfId = vrfID,
         vr_Description = concat [''L3VRF_VXLAN Node:'', fromNode, '' to Node:'', toNode],
         vr_DstIpAddr = toVxlanAddress, vr_NextHopAddr = nextHop,
         vr_OutgoingInterface = if_Name node1Iface,
         vr_Weight = sp_DefaultStaticRouteWeight (sysParmCache s),
         vr_Preference = sp_DefaultStaticRoutePreference (sysParmCache s)\<rparr>;
      RenderTxnAddVppEntryToTxn re renderingEntity vppKV s
    })"

definition renderVxlanRoutes ::
  "string \<Rightarrow> string \<Rightarrow> string \<Rightarrow> u32 \<Rightarrow> string \<Rightarrow> string \<Rightarrow> NetworkNode \<Rightarrow> Interface
    \<Rightarrow> RenderedVppAgentEntry gomap option \<times> Plugin \<Rightarrow> (RenderedVppAgentEntry gomap option \<times> Plugin) option" where
  "renderVxlanRoutes renderingEntity fromNode toNode vrfID toVxlanAddress label n1 node1Iface \<sigma> = do {
      n2 \<leftarrow> map_of (networkNodeCache (snd \<sigma>)) toNode;
      spec2 \<leftarrow> nn_Spec n2;
      foldM (renderVxlanRoute renderingEntity fromNode toNode vrfID toVxlanAddress n1 node1Iface)
        (filter (vxlanRouteInterface label spec2) (nn_Interfaces spec2)) \<sigma>
    }"

text \<open>The loopback interface of the tunnel's end on \<open>fromNode\<close> and the routes to the end on \<open>toNode\<close>; the
  result is the map of the entries that are new to the transaction.\<close>

definition renderVxlanLoopback ::
  "string \<Rightarrow> string \<Rightarrow> string \<Rightarrow> Plugin \<Rightarrow> (RenderedVppAgentEntry gomap option \<times> Plugin) option" where
  "renderVxlanLoopback renderingEntity fromNode fromVxlanAddress s =
    do {
      n1 \<leftarrow> map_of (networkNodeCache s) fromNode;
      md1 \<leftarrow> nn_Metadata n1;
      RenderTxnAddVppEntryToTxn (Some []) renderingEntity
        (ConstructLoopbackInterface (md_Name md1) (''IF_VXLAN_LOOPBACK_'' @ fromNode) [fromVxlanAddress] ''''
          (sp_Mtu (sysParmCache s)) IfAdminStatusEnabled (sp_RxMode (sysParmCache s))) s
    }"

definition RenderVxlanLoopbackInterfaceAndStaticRoutes ::
  "string \<Rightarrow> string \<Rightarrow> string \<Rightarrow> u32 \<Rightarrow> string \<Rightarrow> string \<Rightarrow> bool \<Rightarrow> bool \<Rightarrow> string \<Rightarrow> Plugin
    \<Rightarrow> (RenderedVppAgentEntry gomap option \<times> Plugin) option" where
  "RenderVxlanLoopbackInterfaceAndStaticRoutes renderingEntity fromNode toNode vrfID fromVxlanAddress0 toVxlanAddress0
      createLoopbackInterface createLoopbackStaticRoutes networkNodeInterfaceLabel s =
    do {
      let fromVxlanAddress = StripSlashAndSubnetIPAddress fromVxlanAddress0;
      let toVxlanAddress = StripSlashAndSubnetIPAddress toVxlanAddress0;
      \<sigma>1 \<leftarrow> (if createLoopbackInterface then renderVxlanLoopback renderingEntity fromNode fromVxlanAddress s
        else Some (Some [], s));
      if createLoopbackStaticRoutes then do {
        n1 \<leftarrow> map_of (networkNodeCache s) fromNode;
        spec1 \<leftarrow> nn_Spec n1;
        foldM (renderVxlanRoutes renderingEntity fromNode toNode vrfID toVxlanAddress networkNodeInterfaceLabel n1)
          (filter (vxlanRouteInterface networkNodeInterfaceLabel spec1) (nn_Interfaces spec1)) \<sigma>1
      }
      else Some \<sigma>1
    }"

end
