(* ===== verification/Overlays.thy ===== *)
theory Overlays
  imports Nodes
begin

text \<open>
  The manager of network node overlays, \<open>plugins/controller/networknodeoverlay.go\<close>: validation, the
  CRUD operations with the VNI allocator of every mesh, and the addresses of the tunnel end points.
\<close>

section \<open>Model\<close>

definition Overlay_InitRAMCache :: "Plugin \<Rightarrow> Plugin" where
  "Overlay_InitRAMCache s = s\<lparr>networkNodeOverlayCache := [], vniAllocators := [], vxLanAddresses := []\<rparr>"

definition Overlay_ConfigEqual :: "NetworkNodeOverlay \<Rightarrow> NetworkNodeOverlay \<Rightarrow> bool" where
  "Overlay_ConfigEqual nno n2 \<longleftrightarrow> metadataEqual (nno_Metadata nno) (nno_Metadata n2) \<and> nno_Spec nno = nno_Spec n2"

text \<open>Unlike for nodes and services, adding a message starts from an empty status.\<close>

definition Overlay_AppendStatusMsg :: "string \<Rightarrow> NetworkNodeOverlay \<Rightarrow> NetworkNodeOverlay" where
  "Overlay_AppendStatusMsg msg nno =
    nno\<lparr>nno_Status := Some \<lparr>nos_Status = '''', nos_Msg = [msg], nos_RenderedVppAgentEntries = None\<rparr>\<rparr>"

definition Overlay_KeyPrefix :: string where
  "Overlay_KeyPrefix = SfcControllerConfigPrefix @ ''network-node-overlay/''"

definition Overlay_NameKey :: "string \<Rightarrow> string" where
  "Overlay_NameKey name = Overlay_KeyPrefix @ name"

definition Overlay_HandleCRUDOperationR :: "string \<Rightarrow> Plugin \<Rightarrow> NetworkNodeOverlay option" where
  "Overlay_HandleCRUDOperationR name s = map_of (networkNodeOverlayCache s) name"

text \<open>The address of a tunnel end point on a node: a fixed one of the node's interfaces when no pool
  is named, otherwise one address per node from the system-scope pool.\<close>

definition AllocateVxlanAddress ::
  "string \<Rightarrow> string \<Rightarrow> string \<Rightarrow> Plugin \<Rightarrow> ((string \<times> u32 \<times> err option) \<times> Plugin) option" where
  "AllocateVxlanAddress poolName nodeName nodeLabel s =
    (if poolName = '''' then do {
       (ipAddress, err) \<leftarrow> FindVxlanIPaddress nodeName s;
       if err = None then Some ((ipAddress, 0, err), s)
       else if nodeLabel \<noteq> '''' then do {
         (nodeInterfaces, nodeIfTypes) \<leftarrow> FindInterfacesForThisLabelInNode nodeName [nodeLabel] s;
         if length nodeInterfaces \<noteq> 1 then
           Some (('''', 0, Some (''One interface must have a label: '' @ nodeLabel)), s)
         else if nodeIfTypes ! 0 \<noteq> IfTypeEthernet \<or> length (if_IpAddresses (nodeInterfaces ! 0)) \<noteq> 1 then
           Some (('''', 0, Some (''An ethernet interface with an ip_address is required for this label: '' @ nodeLabel)), s)
         else Some ((if_IpAddresses (nodeInterfaces ! 0) ! 0, 0, None), s)
       }
       else Some ((ipAddress, 0, err), s)
     }
     else case map_of (vxLanAddresses s) nodeName of
       Some vxlanIPAddress \<Rightarrow> Some ((vxlanIPAddress, 0, None), s)
     | None \<Rightarrow> do {
         r \<leftarrow> FindAllocator poolName '''' s;
         (case r of
            Inl err \<Rightarrow> Some (('''', 0, Some (concat [''Cannot find system vxlan pool '', poolName, '': '', err])), s)
          | Inr (allocatorName, pool) \<Rightarrow> do {
              p \<leftarrow> pool;
              ((vxlanIPAddress, ipNum, err), p') \<leftarrow> AllocateIPAddress p;
              let s1 = s\<lparr>rc_IPAMPoolAllocators := gput allocatorName (Some p') (rc_IPAMPoolAllocators s)\<rparr>;
              if err \<noteq> None then
                Some (('''', 0, Some (''Cannot allocate address from node overlay vxlan pool '' @ poolName)), s1)
              else Some ((vxlanIPAddress, ipNum, None),
                s1\<lparr>vxLanAddresses := gput nodeName vxlanIPAddress (vxLanAddresses s1)\<rparr>)
            })
       })"

text \<open>A missing specification panics.  (A missing name does so only in an error message.)\<close>

definition Overlay_validate :: "NetworkNodeOverlay \<Rightarrow> err option option" where
  "Overlay_validate nno =
    do {
      spec \<leftarrow> nno_Spec nno;
      md \<leftarrow> nno_Metadata nno;
      let who = ''Network Node Overlay: '' @ md_Name md;
      if nno_ServiceMeshType spec \<noteq> NetworkNodeOverlayTypeMesh
         \<and> nno_ServiceMeshType spec \<noteq> NetworkNodeOverlayTypeHubAndSpoke then
        Some (Some (concat [who, '' service mesh type '', quote, nno_ServiceMeshType spec, quote, '' not recognized'']))
      else if nno_ConnectionType spec = NetworkNodeOverlayConnectionTypeVxlan then
        (if nno_ServiceMeshType spec = NetworkNodeOverlayTypeMesh then
           (case nno_VxlanMeshParms spec of
              None \<Rightarrow> Some (Some (who @ '' vxlan mesh parameters not specified''))
            | Some mp \<Rightarrow>
                if vm_VniRangeStart mp > vm_VniRangeEnd mp \<or> vm_VniRangeStart mp = 0 \<or> vm_VniRangeEnd mp = 0
                then Some (Some (who @ '' vxlan vni range invalid''))
                else Some None)
         else
           (case nno_VxlanHubAndSpokeParms spec of
              None \<Rightarrow> Some (Some (who @ '' vxlan hub and spoke parameters not specified''))
            | Some hp \<Rightarrow>
                if hs_Vni hp = 0 then Some (Some (who @ '' vxlan vni invalid'')) else Some None))
      else Some (Some (concat [who, '' connection type '', quote, nno_ConnectionType spec, quote, '' not recognized'']))
    }"

definition Overlay_writeToDatastore :: "NetworkNodeOverlay \<Rightarrow> Plugin \<Rightarrow> (err option \<times> Plugin) option" where
  "Overlay_writeToDatastore nno s =
    do {
      md \<leftarrow> nno_Metadata nno;
      Some (WriteToDatastore (Overlay_NameKey (md_Name md)) (DOverlay nno) s)
    }"

definition Overlay_HandleCRUDOperationCU :: "NetworkNodeOverlay \<Rightarrow> Plugin \<Rightarrow> (err option \<times> Plugin) option" where
  "Overlay_HandleCRUDOperationCU data0 s =
    do {
      let nno = data0\<lparr>nno_Status := None\<rparr>;
      err \<leftarrow> Overlay_validate nno;
      let nno1 = (case err of Some e \<Rightarrow> Overlay_AppendStatusMsg e nno | None \<Rightarrow> nno);
      md \<leftarrow> nno_Metadata data0;
      let s1 = s\<lparr>networkNodeOverlayCache := gput (md_Name md) nno1 (networkNodeOverlayCache s)\<rparr>;
      spec \<leftarrow> nno_Spec nno1;
      let s2 = (case nno_VxlanMeshParms spec of
          None \<Rightarrow> s1
        | Some mp \<Rightarrow>
            if map_of (vniAllocators s1) (md_Name md) = None then
              s1\<lparr>vniAllocators := gput (md_Name md)
                (NewVxlanVniAllocator (vm_VniRangeStart mp) (vm_VniRangeEnd mp)) (vniAllocators s1)\<rparr>
            else s1);
      Overlay_writeToDatastore nno1 s2
    }"

definition Overlay_HandleCRUDOperationD :: "string \<Rightarrow> Plugin \<Rightarrow> err option \<times> Plugin" where
  "Overlay_HandleCRUDOperationD name s =
    (if map_of (networkNodeOverlayCache s) name = None then (None, s)
     else (None, DeleteFromDatastore (Overlay_NameKey name)
       (s\<lparr>networkNodeOverlayCache := gdel name (networkNodeOverlayCache s)\<rparr>)))"

definition Overlay_loadAllFromDatastore :: "Plugin \<Rightarrow> Plugin option" where
  "Overlay_loadAllFromDatastore s =
    ReadIterate Overlay_KeyPrefix
      (\<lambda>v s. case v of
         DOverlay nno \<Rightarrow> do {
           md \<leftarrow> nno_Metadata nno;
           Some (s\<lparr>networkNodeOverlayCache := gput (md_Name md) nno (networkNodeOverlayCache s)\<rparr>)
         }
       | _ \<Rightarrow> None) s"

definition Overlay_Init :: "Plugin \<Rightarrow> Plugin option" where
  "Overlay_Init s = Overlay_loadAllFromDatastore (Overlay_InitRAMCache s)"

text \<open>Taking a VNI for a connection: \<open>None\<close> in the result when the overlay has no allocator,
  \<open>Some None\<close> when it is exhausted.\<close>

definition overlayAllocateVni :: "string \<Rightarrow> Plugin \<Rightarrow> (u32 option option \<times> Plugin) option" where
  "overlayAllocateVni name s =
    (case map_of (vniAllocators s) name of
       None \<Rightarrow> Some (None, s)
     | Some a \<Rightarrow> do {
         (vni, err, a') \<leftarrow> AllocateVni a;
         let s' = s\<lparr>vniAllocators := gput name a' (vniAllocators s)\<rparr>;
         Some (Some (if err \<noteq> None then None else Some vni), s')
       })"

section \<open>Properties\<close>

text \<open>A controller whose only pool is a system-scope one.\<close>

definition demo_overlay_pool :: IPAMPool where
  "demo_overlay_pool = \<lparr>ipp_Metadata = Some \<lparr>md_Name = ''vxlan'', md_Labels = []\<rparr>,
     ipp_Spec = Some \<lparr>ips_Scope = IPAMPoolScopeSystem, ips_Network = ''10.1.0.0/24'', ips_StartRange = 1, ips_EndRange = 9\<rparr>,
     ipp_Status = None\<rparr>"

definition demo_overlay_plugin :: Plugin where
  "demo_overlay_plugin = snd (the (IPAMPool_HandleCRUDOperationCU demo_overlay_pool (fresh_plugin good_env)))"

text \<open>C39. A node has one tunnel address for as long as the controller runs: once an address has been
  allocated for it from a pool, every later request for the node returns it, whatever pool it names,
  and the addresses of other nodes are not touched.\<close>

theorem AllocateVxlanAddress_sticky:
  assumes "poolName \<noteq> ''''" "AllocateVxlanAddress poolName nodeName label s = Some ((a, n, None), s')"
  shows "(pool2 \<noteq> '''' \<longrightarrow> AllocateVxlanAddress pool2 nodeName label2 s' = Some ((a, 0, None), s'))
    \<and> (node2 \<noteq> nodeName \<longrightarrow> map_of (vxLanAddresses s') node2 = map_of (vxLanAddresses s) node2)"
  using assms
  by (auto simp: AllocateVxlanAddress_def Let_def split: option.splits Option.bind_splits sum.splits if_splits)

theorem AllocateVxlanAddress_sticky_witness:
  "\<exists>a s'. AllocateVxlanAddress ''vxlan'' ''n1'' '''' demo_overlay_plugin = Some ((a, 1, None), s')
    \<and> AllocateVxlanAddress ''other'' ''n1'' '''' s' = Some ((a, 0, None), s')"
proof -
  have "(case AllocateVxlanAddress ''vxlan'' ''n1'' '''' demo_overlay_plugin of
      Some ((a, n, None), s') \<Rightarrow> n = 1 | _ \<Rightarrow> False)" by code_simp
  then obtain a s' where a: "AllocateVxlanAddress ''vxlan'' ''n1'' '''' demo_overlay_plugin = Some ((a, 1, None), s')"
    by (auto split: option.splits)
  show ?thesis using a AllocateVxlanAddress_sticky [OF _ a, of "''other''" "''''"] by simp
qed

end
