(* ===== verification/Services.thy ===== *)
theory Services
  imports Overlays
begin

text \<open>
  Network services, \<open>plugins/controller/networkservice.go\<close>: validation, the CRUD operations, and
  the basic steps of the service renderer, which all other rendering routines are composed of.
  A service is a pointer kept in \<open>networkServiceCache\<close>; while it is rendered it is the entity of
  the rendering routines, and it is written back at the end.
\<close>

section \<open>Validation\<close>

text \<open>A loop that returns the first error of its body.\<close>

fun firstErr :: "('a \<Rightarrow> err option) \<Rightarrow> 'a list \<Rightarrow> err option" where
  "firstErr f [] = None"
| "firstErr f (x # xs) = (case f x of Some e \<Rightarrow> Some e | None \<Rightarrow> firstErr f xs)"

text \<open>The same when the body can panic.\<close>

fun firstErrM :: "('a \<Rightarrow> err option option) \<Rightarrow> 'a list \<Rightarrow> err option option" where
  "firstErrM f [] = Some None"
| "firstErrM f (x # xs) =
    (case f x of None \<Rightarrow> None | Some (Some e) \<Rightarrow> Some (Some e) | Some None \<Rightarrow> firstErrM f xs)"

definition invalidSize :: "string \<Rightarrow> bool" where
  "invalidSize v \<longleftrightarrow> v \<noteq> '''' \<and> (case Atoi v of None \<Rightarrow> True | Some i \<Rightarrow> i < 0)"

definition validateMemifParms :: "string \<Rightarrow> string \<Rightarrow> Interface_MemIFParms \<Rightarrow> err option" where
  "validateMemifParms nsName ifName mp =
    (let who = concat [''network-service/if: '', nsName, ''/'', ifName] in
     if mp_Mode mp \<noteq> '''' \<and> mp_Mode mp \<noteq> IfMemifModeEhernet \<and> mp_Mode mp \<noteq> IfMemifModeIP
        \<and> mp_Mode mp \<noteq> IfMemifModePuntInject then
       Some (concat [who, '', unsupported memif mode='', mp_Mode mp])
     else if invalidSize (mp_RingSize mp) then Some (concat [who, '', invalid memif ring_size='', mp_RingSize mp])
     else if invalidSize (mp_BufferSize mp) then Some (concat [who, '', invalid memif buffer_size='', mp_BufferSize mp])
     else if invalidSize (mp_RxQueues mp) then Some (concat [who, '', invalid memif rx_queues='', mp_RxQueues mp])
     else if invalidSize (mp_TxQueues mp) then Some (concat [who, '', invalid memif tx_queues='', mp_TxQueues mp])
     else None)"

definition validateTapParms :: "string \<Rightarrow> string \<Rightarrow> Interface_TapParms \<Rightarrow> err option" where
  "validateTapParms nsName ifName tp =
    (let who = concat [''network-service/if: '', nsName, ''/'', ifName] in
     if invalidSize (tp_RxRingSize tp) then Some (concat [who, '', invalid tap rx_ring_size='', tp_RxRingSize tp])
     else if invalidSize (tp_TxRingSize tp) then Some (concat [who, '', invalid tap tx_ring_size='', tp_TxRingSize tp])
     else None)"

definition validatePodInterface :: "string \<Rightarrow> Interface \<Rightarrow> err option" where
  "validatePodInterface nsName iFace =
    (if if_IfType iFace \<noteq> IfTypeMemif \<and> if_IfType iFace \<noteq> IfTypeEthernet \<and> if_IfType iFace \<noteq> IfTypeVeth
        \<and> if_IfType iFace \<noteq> IfTypeTap then
       Some (concat [''network-service/pod: '', nsName, ''/'', if_Name iFace, '' has invalid if type '', quote,
         if_IfType iFace, quote])
     else case find (\<lambda>ipAddress. ParseCIDR ipAddress = None) (if_IpAddresses iFace) of
       Some ipAddress \<Rightarrow>
         Some (concat [''network-service/if: '', nsName, ''/'', if_Name iFace, '' '', quote, cidrError ipAddress,
           quote, '', expected format i.p.v.4/xx, or ip::v6/xx''])
     | None \<Rightarrow>
         (case (case if_MemifParms iFace of None \<Rightarrow> None | Some mp \<Rightarrow> validateMemifParms nsName (if_Name iFace) mp) of
            Some e \<Rightarrow> Some e
          | None \<Rightarrow>
              (case if_TapParms iFace of None \<Rightarrow> None | Some tp \<Rightarrow> validateTapParms nsName (if_Name iFace) tp)))"

definition validateNetworkPod :: "string \<Rightarrow> NetworkPod \<Rightarrow> err option" where
  "validateNetworkPod nsName networkPod =
    (case pod_Metadata networkPod of
       None \<Rightarrow> Some (concat [''ValidatePod: network-service: '', nsName, '', network-pod is missing metadata or name''])
     | Some md \<Rightarrow>
         if md_Name md = '''' then
           Some (concat [''ValidatePod: network-service: '', nsName, '', network-pod is missing metadata or name''])
         else case pod_Spec networkPod of
           None \<Rightarrow> Some (concat [''ValidatePod: network-service: '', nsName, '', network-pod: '', md_Name md,
             '' is missing spec''])
         | Some spec \<Rightarrow>
             if pod_PodType spec \<noteq> NetworkPodTypeExternal \<and> pod_PodType spec \<noteq> NetworkPodTypeVPPContainer
                \<and> pod_PodType spec \<noteq> NetworkPodTypeNonVPPContainer then
               Some (concat [''ValidatePod: network-service: '', nsName, '', network-pod: '', md_Name md,
                 '' invalid pod-type '', pod_PodType spec])
             else if pod_Interfaces spec = [] then
               Some (concat [''network-service/pod: '', nsName, ''/'', md_Name md, '' no interfaces defined''])
             else firstErr (validatePodInterface nsName) (pod_Interfaces spec))"

fun findNetworkPodAndInterfaceInList ::
  "string \<Rightarrow> string \<Rightarrow> NetworkPod list \<Rightarrow> (Interface option \<times> string) option" where
  "findNetworkPodAndInterfaceInList networkPodName ifName [] = Some (None, '''')"
| "findNetworkPodAndInterfaceInList networkPodName ifName (networkPod # networkPods) =
    do {
      spec \<leftarrow> pod_Spec networkPod;
      if pod_Interfaces spec = [] then findNetworkPodAndInterfaceInList networkPodName ifName networkPods
      else do {
        md \<leftarrow> pod_Metadata networkPod;
        (case (if md_Name md = networkPodName then find (\<lambda>iFace. if_Name iFace = ifName) (pod_Interfaces spec) else None) of
           Some iFace \<Rightarrow> Some (Some iFace, pod_PodType spec)
         | None \<Rightarrow> findNetworkPodAndInterfaceInList networkPodName ifName networkPods)
      }
    }"

text \<open>The bridge domain part of a multi-point connection.\<close>

definition validateConnL2Bd :: "string \<Rightarrow> Connection \<Rightarrow> Plugin \<Rightarrow> err option" where
  "validateConnL2Bd nsName conn s =
    (case conn_L2Bd conn of
       None \<Rightarrow> None
     | Some bd \<Rightarrow>
         if conn_UseNodeL2Bd conn \<noteq> '''' then
           Some (concat [''network-service: '', nsName,
             '' conn: cannot refer to a node bd AND provide l2bd parameters''])
         else if l2bd_L2BdTemplate bd \<noteq> '''' \<and> l2bd_BdParms bd \<noteq> None then
           Some (concat [''network-service: '', nsName, '' conn: l2bd: '', l2bd_Name bd,
             ''  cannot refer to temmplate and provide l2bd parameters''])
         else if l2bd_L2BdTemplate bd \<noteq> '''' then
           (if FindL2BDTemplate (l2bd_L2BdTemplate bd) s = None then
              Some (concat [''network-service: '', nsName, '', conn: l2bd: '', l2bd_Name bd,
                ''  has invalid reference to non-existant l2bd template '', quote, l2bd_L2BdTemplate bd, quote])
            else None)
         else if l2bd_BdParms bd = None then
           Some (concat [''network-service: '', nsName, '', conn: l2bd: '', l2bd_Name bd,
             '' has no DB parms nor refer to a template''])
         else None)"

definition validateConnType :: "string \<Rightarrow> Connection \<Rightarrow> Plugin \<Rightarrow> err option" where
  "validateConnType nsName conn s =
    (if conn_ConnType conn = ConnTypeL2PP then
       (if length (conn_PodInterfaces conn) + length (conn_NodeInterfaces conn) + length (conn_NodeInterfaceLabels conn) \<noteq> 2
        then Some (concat [''network-service: '', nsName, '' conn: l2 p2p must have 2 interfaces only'']) else None)
     else if conn_ConnType conn = ConnTypeL2MP then
       (if length (conn_PodInterfaces conn) + length (conn_NodeInterfaces conn) = 0
        then Some (concat [''network-service: '', nsName, '' conn: l2 p2mp must have at least one interface''])
        else validateConnL2Bd nsName conn s)
     else if conn_ConnType conn = ConnTypeL3PP then
       (if length (conn_PodInterfaces conn) + length (conn_NodeInterfaces conn) + length (conn_NodeInterfaceLabels conn) \<noteq> 2
        then Some (concat [''network-service: '', nsName, '' conn: l3 p2p must have 2 interfaces only'']) else None)
     else if conn_ConnType conn = ConnTypeL3MP then
       (if length (conn_PodInterfaces conn) + length (conn_NodeInterfaces conn) = 0
        then Some (concat [''network-service: '', nsName, '' conn: l3 p2mp must have at least one interface''])
        else validateConnL2Bd nsName conn s)
     else Some (concat [''network-service: '', nsName, '', connection has invalid conn type '', quote,
       conn_ConnType conn, quote]))"

definition validateConnPod :: "string \<Rightarrow> NetworkPod list \<Rightarrow> string \<Rightarrow> err option option" where
  "validateConnPod nsName networkPods connPodInterface =
    (let (connPodName, connInterfaceName) = ConnPodInterfaceNames connPodInterface in
     if connPodName = '''' \<or> connInterfaceName = '''' then
       Some (Some (concat [''network-service: '', nsName, '' conn: pod/port: '', connPodInterface,
         '' must be of pod/interface format'']))
     else do {
       (iface, _) \<leftarrow> findNetworkPodAndInterfaceInList (ConnPodName connPodInterface)
         (ConnInterfaceName connPodInterface) networkPods;
       Some (if iface = None then
           Some (concat [''network-service: '', nsName, '' conn: pod/port: '', connPodInterface,
             '' not found in NetworkPod interfaces''])
         else None)
     })"

definition validateConnection :: "string \<Rightarrow> NetworkPod list \<Rightarrow> Plugin \<Rightarrow> Connection \<Rightarrow> err option option" where
  "validateConnection nsName networkPods s conn =
    (case validateConnType nsName conn s of
       Some e \<Rightarrow> Some (Some e)
     | None \<Rightarrow> do {
         r \<leftarrow> firstErrM (validateConnPod nsName networkPods) (conn_PodInterfaces conn);
         Some (case r of
             Some e \<Rightarrow> Some e
           | None \<Rightarrow>
               if conn_ConnMethod conn \<noteq> '''' \<and> conn_ConnMethod conn \<noteq> ConnMethodDirect
                  \<and> conn_ConnMethod conn \<noteq> ConnMethodVswitch then
                 Some (concat [''network-service: '', nsName, '', connection has invalid conn method '', quote,
                   conn_ConnMethod conn, quote])
               else None)
       })"

definition NetworkService_validate :: "NetworkService \<Rightarrow> Plugin \<Rightarrow> err option option" where
  "NetworkService_validate ns s =
    (case ns_Metadata ns of
       None \<Rightarrow> Some (Some ''Validate error: network-service: missing metadata or name'')
     | Some md \<Rightarrow>
         if md_Name md = '''' then Some (Some ''Validate error: network-service: missing metadata or name'')
         else do {
           spec \<leftarrow> ns_Spec ns;
           (case firstErr (validateNetworkPod (md_Name md)) (nsp_NetworkPods spec) of
              Some e \<Rightarrow> Some (Some e)
            | None \<Rightarrow> firstErrM (validateConnection (md_Name md) (nsp_NetworkPods spec) s) (nsp_Connections spec))
         })"

section \<open>Manager\<close>

definition NetworkService_InitRAMCache :: "Plugin \<Rightarrow> Plugin" where
  "NetworkService_InitRAMCache s = s\<lparr>networkServiceCache := []\<rparr>"

definition NetworkService_ConfigEqual :: "NetworkService \<Rightarrow> NetworkService \<Rightarrow> bool" where
  "NetworkService_ConfigEqual ns ns2 \<longleftrightarrow> metadataEqual (ns_Metadata ns) (ns_Metadata ns2) \<and> ns_Spec ns = ns_Spec ns2"

definition NetworkService_KeyPrefix :: string where
  "NetworkService_KeyPrefix = SfcControllerConfigPrefix @ ''network-service/''"

definition NetworkService_NameKey :: "string \<Rightarrow> string" where
  "NetworkService_NameKey name = NetworkService_KeyPrefix @ name"

definition NetworkService_HandleCRUDOperationR :: "string \<Rightarrow> Plugin \<Rightarrow> NetworkService option" where
  "NetworkService_HandleCRUDOperationR name s = map_of (networkServiceCache s) name"

definition NetworkService_AppendStatusMsg :: "string \<Rightarrow> NetworkService \<Rightarrow> NetworkService option" where
  "NetworkService_AppendStatusMsg msg ns =
    do {
      st \<leftarrow> ns_Status ns;
      Some (ns\<lparr>ns_Status := Some (st\<lparr>nss_Msg := nss_Msg st @ [msg]\<rparr>)\<rparr>)
    }"

definition NetworkService_writeToDatastore :: "NetworkService \<Rightarrow> Plugin \<Rightarrow> (err option \<times> Plugin) option" where
  "NetworkService_writeToDatastore ns s =
    do {
      md \<leftarrow> ns_Metadata ns;
      Some (WriteToDatastore (NetworkService_NameKey (md_Name md)) (DService ns) s)
    }"

definition NetworkService_HandleCRUDOperationCU :: "NetworkService \<Rightarrow> Plugin \<Rightarrow> (err option \<times> Plugin) option" where
  "NetworkService_HandleCRUDOperationCU data0 s =
    do {
      let ns = data0\<lparr>ns_Status := None\<rparr>;
      err \<leftarrow> NetworkService_validate ns s;
      ns1 \<leftarrow> (case err of Some e \<Rightarrow> NetworkService_AppendStatusMsg e ns | None \<Rightarrow> Some ns);
      md \<leftarrow> ns_Metadata ns1;
      let s1 = s\<lparr>networkServiceCache := gput (md_Name md) ns1 (networkServiceCache s)\<rparr>;
      (err2, s2) \<leftarrow> NetworkService_writeToDatastore ns1 s1;
      if err2 \<noteq> None then Some (err2, s2)
      else do {
        s3 \<leftarrow> EntityCreate (md_Name md) IPAMPoolScopeNetworkService s2;
        Some (None, s3)
      }
    }"

definition NetworkService_renderDelete :: "NetworkService \<Rightarrow> Plugin \<Rightarrow> Plugin option" where
  "NetworkService_renderDelete ns s =
    do {
      st \<leftarrow> ns_Status ns;
      let s1 = DeleteRenderedVppAgentEntries
        (case nss_RenderedVppAgentEntries st of Some m \<Rightarrow> m | None \<Rightarrow> []) s;
      Some (snd (DeleteInterfaceEntries (nss_Interfaces st) s1))
    }"

definition NetworkService_HandleCRUDOperationD :: "string \<Rightarrow> Plugin \<Rightarrow> (err option \<times> Plugin) option" where
  "NetworkService_HandleCRUDOperationD name s =
    (case map_of (networkServiceCache s) name of
       None \<Rightarrow> Some (None, s)
     | Some ns \<Rightarrow> do {
         s1 \<leftarrow> NetworkService_renderDelete ns s;
         let s2 = s1\<lparr>networkServiceCache := gdel name (networkServiceCache s1)\<rparr>;
         let s3 = DeleteFromDatastore (NetworkService_NameKey name) s2;
         s4 \<leftarrow> EntityDelete name IPAMPoolScopeNetworkService s3;
         Some (None, s4)
       })"

definition NetworkService_loadAllFromDatastore :: "Plugin \<Rightarrow> Plugin option" where
  "NetworkService_loadAllFromDatastore s =
    ReadIterate NetworkService_KeyPrefix
      (\<lambda>v s. case v of
         DService ns \<Rightarrow> do {
           md \<leftarrow> ns_Metadata ns;
           Some (s\<lparr>networkServiceCache := gput (md_Name md) ns (networkServiceCache s)\<rparr>)
         }
       | _ \<Rightarrow> None) s"

definition NetworkService_Init :: "Plugin \<Rightarrow> Plugin option" where
  "NetworkService_Init s = NetworkService_loadAllFromDatastore (NetworkService_InitRAMCache s)"

definition findInterfaceStatus :: "string \<Rightarrow> NetworkService \<Rightarrow> InterfaceStatus option" where
  "findInterfaceStatus podInterfaceName ns =
    (case ns_Status ns of
       None \<Rightarrow> None
     | Some st \<Rightarrow>
         if nss_Interfaces st = None then None
         else RetrieveInterfaceStatusFromRamCache (nss_Interfaces st) podInterfaceName)"

fun FindInterfaceStatus_in :: "string \<Rightarrow> NetworkService gomap \<Rightarrow> InterfaceStatus option" where
  "FindInterfaceStatus_in podInterfaceName [] = None"
| "FindInterfaceStatus_in podInterfaceName ((_, ns) # nss) =
    (case findInterfaceStatus podInterfaceName ns of
       Some ifStatus \<Rightarrow> Some ifStatus
     | None \<Rightarrow> FindInterfaceStatus_in podInterfaceName nss)"

definition FindInterfaceStatus :: "string \<Rightarrow> Plugin \<Rightarrow> InterfaceStatus option" where
  "FindInterfaceStatus podInterfaceName s = FindInterfaceStatus_in podInterfaceName (networkServiceCache s)"

end
