(* ===== verification/PodNodeMap.thy ===== *)
theory PodNodeMap
  imports State
begin

text \<open>
  The manager of the pod-to-node map, \<open>plugins/controller/networkpodnodemap.go\<close>.  Where a pod is
  hosted is known from two sources: the configuration (kept in \<open>networkPodNodeCache\<close>) and what
  contiv-ksr writes to etcd.  The renderers use the union, in the ram cache, which
  \<open>SyncNetworkPodToNodeMap\<close> rebuilds.
\<close>

section \<open>Model\<close>

definition PodNodeMap_InitRAMCache :: "Plugin \<Rightarrow> Plugin" where
  "PodNodeMap_InitRAMCache s = s\<lparr>networkPodNodeCache := []\<rparr>"

definition PodNodeMap_ToArray :: "Plugin \<Rightarrow> NetworkPodToNodeMap list" where
  "PodNodeMap_ToArray s = map snd (networkPodNodeCache s)"

definition PodNodeMap_ConfigEqual :: "NetworkPodToNodeMap \<Rightarrow> NetworkPodToNodeMap \<Rightarrow> bool" where
  "PodNodeMap_ConfigEqual p2n p2n2 \<longleftrightarrow> pnm_Pod p2n = pnm_Pod p2n2 \<and> pnm_Node p2n = pnm_Node p2n2"

definition PodNodeMap_KeyPrefix :: string where
  "PodNodeMap_KeyPrefix = SfcControllerConfigPrefix @ ''network-pod-to-node-map/''"

definition PodNodeMap_NameKey :: "string \<Rightarrow> string" where
  "PodNodeMap_NameKey name = PodNodeMap_KeyPrefix @ name"

definition ContivKsrNetworkPodToNodePrefix :: string where
  "ContivKsrNetworkPodToNodePrefix =
    SfcControllerContivKSRPrefix @ SfcControllerStatusPrefix @ ''network-pod-to-node-map/''"

definition PodNodeMap_validate :: "NetworkPodToNodeMap \<Rightarrow> err option" where
  "PodNodeMap_validate p2n = None"

definition PodNodeMap_writeToDatastore :: "NetworkPodToNodeMap \<Rightarrow> Plugin \<Rightarrow> err option \<times> Plugin" where
  "PodNodeMap_writeToDatastore p2n s = WriteToDatastore (PodNodeMap_NameKey (pnm_Pod p2n)) (DPodMap p2n) s"

definition PodNodeMap_HandleCRUDOperationCU :: "NetworkPodToNodeMap \<Rightarrow> Plugin \<Rightarrow> err option \<times> Plugin" where
  "PodNodeMap_HandleCRUDOperationCU p2n s =
    (case PodNodeMap_validate p2n of
       Some err \<Rightarrow> (Some err, s)
     | None \<Rightarrow>
         let s1 = s\<lparr>networkPodNodeCache := gput (pnm_Pod p2n) p2n (networkPodNodeCache s),
               rc_NetworkPodToNodeMap := gput (pnm_Pod p2n) p2n (rc_NetworkPodToNodeMap s)\<rparr>
         in PodNodeMap_writeToDatastore p2n s1)"

definition PodNodeMap_HandleCRUDOperationR :: "string \<Rightarrow> Plugin \<Rightarrow> NetworkPodToNodeMap option" where
  "PodNodeMap_HandleCRUDOperationR name s = map_of (networkPodNodeCache s) name"

definition PodNodeMap_HandleCRUDOperationD :: "string \<Rightarrow> Plugin \<Rightarrow> err option \<times> Plugin" where
  "PodNodeMap_HandleCRUDOperationD name s =
    (None, DeleteFromDatastore (PodNodeMap_NameKey name)
      (s\<lparr>networkPodNodeCache := gdel name (networkPodNodeCache s)\<rparr>))"

definition PodNodeMap_loadAllFromDatastore ::
  "string \<Rightarrow> NetworkPodToNodeMap gomap \<Rightarrow> Plugin \<Rightarrow> (NetworkPodToNodeMap gomap \<times> Plugin) option" where
  "PodNodeMap_loadAllFromDatastore keyPrefix p2nMap s =
    ReadIterateInto keyPrefix
      (\<lambda>v m. case v of DPodMap p2n \<Rightarrow> Some (gput (pnm_Pod p2n) p2n m) | _ \<Rightarrow> None) p2nMap s"

definition PodNodeMap_LoadAllFromDatastoreIntoCache :: "Plugin \<Rightarrow> Plugin option" where
  "PodNodeMap_LoadAllFromDatastoreIntoCache s =
    do {
      (m1, s1) \<leftarrow> PodNodeMap_loadAllFromDatastore PodNodeMap_KeyPrefix (rc_NetworkPodToNodeMap s) s;
      let s2 = s1\<lparr>rc_NetworkPodToNodeMap := m1\<rparr>;
      (m2, s3) \<leftarrow> PodNodeMap_loadAllFromDatastore PodNodeMap_KeyPrefix (networkPodNodeCache s2) s2;
      Some (s3\<lparr>networkPodNodeCache := m2\<rparr>)
    }"

definition PodNodeMap_Init :: "Plugin \<Rightarrow> Plugin option" where
  "PodNodeMap_Init s = PodNodeMap_LoadAllFromDatastoreIntoCache (PodNodeMap_InitRAMCache s)"

text \<open>The comparison of the ram cache before and after a resync.\<close>

definition podMapChanged :: "NetworkPodToNodeMap gomap \<Rightarrow> NetworkPodToNodeMap gomap \<Rightarrow> bool" where
  "podMapChanged temp new =
    (if length temp \<noteq> length new then True
     else list_ex (\<lambda>(_, entry).
       case map_of new (pnm_Pod entry) of
         None \<Rightarrow> True
       | Some ramEntry \<Rightarrow> \<not> PodNodeMap_ConfigEqual ramEntry entry) temp)"

definition SyncNetworkPodToNodeMap :: "Plugin \<Rightarrow> (bool \<times> Plugin) option" where
  "SyncNetworkPodToNodeMap s =
    do {
      (contiv, s1) \<leftarrow> PodNodeMap_loadAllFromDatastore ContivKsrNetworkPodToNodePrefix [] s;
      let temp = rc_NetworkPodToNodeMap s1;
      let new = gput_all contiv (gput_all (networkPodNodeCache s1) []);
      Some (podMapChanged temp new, s1\<lparr>rc_NetworkPodToNodeMap := new\<rparr>)
    }"

section \<open>Lemmas\<close>

text \<open>A map keyed by the pods of its entries, each key once: what the Go maps of this file are.\<close>

definition pod_keyed :: "NetworkPodToNodeMap gomap \<Rightarrow> bool" where
  "pod_keyed m \<longleftrightarrow> distinct (gkeys m) \<and> (\<forall>(k, e) \<in> set m. k = pnm_Pod e)"

lemma pod_keyed_Nil [simp]: "pod_keyed []"
  by (simp add: pod_keyed_def)

lemma set_gput: "x \<in> set (gput k e m) \<Longrightarrow> x = (k, e) \<or> x \<in> set m"
  by (induction m) (auto split: if_splits)

lemma pod_keyed_gput: "pod_keyed m \<Longrightarrow> k = pnm_Pod e \<Longrightarrow> pod_keyed (gput k e m)"
  unfolding pod_keyed_def by (auto simp: distinct_update dest!: set_gput)

lemma pod_keyed_gdel: "pod_keyed m \<Longrightarrow> pod_keyed (gdel k m)"
  unfolding pod_keyed_def by (auto simp: AList.delete_eq distinct_map intro: inj_on_subset)

lemma pod_keyed_gput_all:
  "pod_keyed m \<Longrightarrow> \<forall>(k, e) \<in> set kvs. k = pnm_Pod e \<Longrightarrow> pod_keyed (gput_all kvs m)"
  by (induction kvs arbitrary: m) (auto simp: pod_keyed_gput)

lemma ConfigEqual_eq: "PodNodeMap_ConfigEqual a b \<longleftrightarrow> a = b"
  by (auto simp: PodNodeMap_ConfigEqual_def)

lemma load_pod_keyed:
  assumes "PodNodeMap_loadAllFromDatastore p m s = Some (m', s')" "pod_keyed m"
  shows "pod_keyed m'" "s' = s\<lparr>db_log := db_log s @ [DbList p]\<rparr>"
proof -
  obtain vs where vs: "foldM (\<lambda>v m. case v of DPodMap p2n \<Rightarrow> Some (gput (pnm_Pod p2n) p2n m) | _ \<Rightarrow> None) vs m = Some m'"
    and s': "s' = s\<lparr>db_log := db_log s @ [DbList p]\<rparr>"
    using assms(1) by (auto simp: PodNodeMap_loadAllFromDatastore_def ReadIterateInto_def Let_def split: Option.bind_splits)
  show "pod_keyed m'"
    by (rule foldM_invariant [where P = pod_keyed, OF vs assms(2)]) (auto simp: pod_keyed_gput split: dbval.splits)
  show "s' = s\<lparr>db_log := db_log s @ [DbList p]\<rparr>" by (rule s')
qed

text \<open>Two keyed maps of the same size, one included in the other, are the same map.\<close>

lemma podMapChanged_iff:
  assumes t: "pod_keyed t" and n: "pod_keyed n"
  shows "podMapChanged t n \<longleftrightarrow> map_of t \<noteq> map_of n"
proof -
  have lt: "length t = card (dom (map_of t))" "length n = card (dom (map_of n))"
    using t n by (simp_all add: pod_keyed_def dom_map_of_conv_image_fst) (metis distinct_card length_map list.set_map)+
  have sub: "\<not> list_ex (\<lambda>(_, entry). case map_of n (pnm_Pod entry) of None \<Rightarrow> True
      | Some ramEntry \<Rightarrow> \<not> PodNodeMap_ConfigEqual ramEntry entry) t \<longleftrightarrow> map_of t \<subseteq>\<^sub>m map_of n"
  proof
    assume a: "\<not> list_ex (\<lambda>(_, entry). case map_of n (pnm_Pod entry) of None \<Rightarrow> True
      | Some ramEntry \<Rightarrow> \<not> PodNodeMap_ConfigEqual ramEntry entry) t"
    show "map_of t \<subseteq>\<^sub>m map_of n"
    proof (unfold map_le_def, intro ballI)
      fix k assume "k \<in> dom (map_of t)"
      then obtain e where e: "map_of t k = Some e" by auto
      then have "(k, e) \<in> set t" "k = pnm_Pod e" using t map_of_SomeD [OF e] by (auto simp: pod_keyed_def)
      with a have "map_of n k = Some e" by (fastforce simp: list_ex_iff ConfigEqual_eq split: option.splits)
      with e show "map_of t k = map_of n k" by simp
    qed
  next
    assume "map_of t \<subseteq>\<^sub>m map_of n"
    then have "map_of n (pnm_Pod e) = Some e" if "(k, e) \<in> set t" for k e
      using t that map_of_is_SomeI [of t k e] by (force simp: pod_keyed_def map_le_def dom_def)
    then show "\<not> list_ex (\<lambda>(_, entry). case map_of n (pnm_Pod entry) of None \<Rightarrow> True
      | Some ramEntry \<Rightarrow> \<not> PodNodeMap_ConfigEqual ramEntry entry) t"
      by (fastforce simp: list_ex_iff ConfigEqual_eq)
  qed
  have "map_of t = map_of n" if "map_of t \<subseteq>\<^sub>m map_of n" "length t = length n"
  proof -
    have "dom (map_of t) = dom (map_of n)"
      using that map_le_implies_dom_le [OF that(1)] lt by (simp add: card_subset_eq finite_dom_map_of)
    then show ?thesis using that(1) by (metis map_le_antisym map_le_def)
  qed
  then show ?thesis
    using sub lt by (auto simp: podMapChanged_def)
qed

section \<open>Properties\<close>

text \<open>The invariant of the two maps.\<close>

definition podmaps_ok :: "Plugin \<Rightarrow> bool" where
  "podmaps_ok s \<longleftrightarrow> pod_keyed (networkPodNodeCache s) \<and> pod_keyed (rc_NetworkPodToNodeMap s)"

lemma gput_all_keyed: "pod_keyed c \<Longrightarrow> map_of (gput_all c m) = map_of m ++ map_of c"
  by (simp add: map_of_gput_all pod_keyed_def)

text \<open>C32. \<open>SyncNetworkPodToNodeMap\<close> makes the ram cache the configured map overridden by what contiv-ksr
  reports, asks for rendering exactly when the ram cache changed as a map, and changes nothing else;
  it returns whenever etcd answers with pod entries.\<close>

theorem SyncNetworkPodToNodeMap_exact:
  assumes ok: "podmaps_ok s"
    and etcd: "env_list (db_env s) (db_log s @ [DbList ContivKsrNetworkPodToNodePrefix]) = Some (map DPodMap ps)"
  shows "\<exists>b s'. SyncNetworkPodToNodeMap s = Some (b, s') \<and> podmaps_ok s'
    \<and> map_of (rc_NetworkPodToNodeMap s')
        = map_of (networkPodNodeCache s) ++ map_of (rev (map (\<lambda>p. (pnm_Pod p, p)) ps))
    \<and> (b \<longleftrightarrow> map_of (rc_NetworkPodToNodeMap s') \<noteq> map_of (rc_NetworkPodToNodeMap s))
    \<and> s' = s\<lparr>rc_NetworkPodToNodeMap := rc_NetworkPodToNodeMap s',
        db_log := db_log s @ [DbList ContivKsrNetworkPodToNodePrefix]\<rparr>"
proof -
  define step where "step = (\<lambda>v m. case v of DPodMap p2n \<Rightarrow> Some (gput (pnm_Pod p2n) p2n m) | _ \<Rightarrow> None)"
  have run: "\<exists>c. foldM step (map DPodMap ps) m = Some c
      \<and> map_of c = map_of m ++ map_of (rev (map (\<lambda>p. (pnm_Pod p, p)) ps))" for m
    by (induction ps arbitrary: m) (force simp: step_def)+
  from run [of "[]"] obtain c where c: "foldM step (map DPodMap ps) [] = Some c"
    "map_of c = map_of (rev (map (\<lambda>p. (pnm_Pod p, p)) ps))" by auto
  have load: "PodNodeMap_loadAllFromDatastore ContivKsrNetworkPodToNodePrefix [] s
      = Some (c, s\<lparr>db_log := db_log s @ [DbList ContivKsrNetworkPodToNodePrefix]\<rparr>)"
    using etcd c(1) by (simp add: PodNodeMap_loadAllFromDatastore_def ReadIterateInto_def step_def)
  have ck: "pod_keyed c" using load_pod_keyed(1) [OF load] by simp
  define new where "new = gput_all c (gput_all (networkPodNodeCache s) [])"
  have cfg: "pod_keyed (networkPodNodeCache s)" using ok by (simp add: podmaps_ok_def)
  have "pod_keyed (gput_all (networkPodNodeCache s) [])"
    by (rule pod_keyed_gput_all) (use cfg in \<open>simp_all add: pod_keyed_def\<close>)
  then have new: "pod_keyed new"
    unfolding new_def by (rule pod_keyed_gput_all) (use ck in \<open>simp add: pod_keyed_def\<close>)
  have mnew: "map_of new = map_of (networkPodNodeCache s) ++ map_of c"
    unfolding new_def gput_all_keyed [OF ck] gput_all_keyed [OF cfg] by simp
  have "SyncNetworkPodToNodeMap s = Some (podMapChanged (rc_NetworkPodToNodeMap s) new,
      s\<lparr>db_log := db_log s @ [DbList ContivKsrNetworkPodToNodePrefix], rc_NetworkPodToNodeMap := new\<rparr>)"
    by (simp add: SyncNetworkPodToNodeMap_def load new_def Let_def)
  moreover have "podMapChanged (rc_NetworkPodToNodeMap s) new \<longleftrightarrow> map_of new \<noteq> map_of (rc_NetworkPodToNodeMap s)"
    using podMapChanged_iff [OF _ new] ok by (auto simp: podmaps_ok_def)
  ultimately show ?thesis using cfg new mnew c(2) by (simp add: podmaps_ok_def)
qed

theorem SyncNetworkPodToNodeMap_exact_witness:
  "\<exists>s'. SyncNetworkPodToNodeMap (fresh_plugin (good_env\<lparr>env_list := (\<lambda>_. Some [DPodMap \<lparr>pnm_Pod = ''p'', pnm_Node = ''n''\<rparr>])\<rparr>))
    = Some (True, s')"
proof -
  let ?s = "fresh_plugin (good_env\<lparr>env_list := (\<lambda>_. Some [DPodMap \<lparr>pnm_Pod = ''p'', pnm_Node = ''n''\<rparr>])\<rparr>)"
  have "podmaps_ok ?s" by (simp add: podmaps_ok_def fresh_plugin_def)
  from SyncNetworkPodToNodeMap_exact [OF this, of "[\<lparr>pnm_Pod = ''p'', pnm_Node = ''n''\<rparr>]"]
  show ?thesis by (auto simp: fresh_plugin_def fun_eq_iff)
qed

text \<open>Every operation of the manager keeps the two maps keyed by pod name; after an update both
  maps and a delete only the configured one know about it: a deleted pod stays in the ram cache
  until the next resync.\<close>

theorem PodNodeMap_operations:
  assumes "podmaps_ok s"
  shows "podmaps_ok (snd (PodNodeMap_HandleCRUDOperationCU p s)) \<and> podmaps_ok (snd (PodNodeMap_HandleCRUDOperationD n s))
    \<and> map_of (rc_NetworkPodToNodeMap (snd (PodNodeMap_HandleCRUDOperationCU p s)))
        = (map_of (rc_NetworkPodToNodeMap s))(pnm_Pod p \<mapsto> p)
    \<and> PodNodeMap_HandleCRUDOperationR m (snd (PodNodeMap_HandleCRUDOperationCU p s))
        = (if m = pnm_Pod p then Some p else PodNodeMap_HandleCRUDOperationR m s)
    \<and> PodNodeMap_HandleCRUDOperationR m (snd (PodNodeMap_HandleCRUDOperationD n s))
        = (if m = n then None else PodNodeMap_HandleCRUDOperationR m s)
    \<and> rc_NetworkPodToNodeMap (snd (PodNodeMap_HandleCRUDOperationD n s)) = rc_NetworkPodToNodeMap s"
  using assms
  by (simp add: podmaps_ok_def PodNodeMap_HandleCRUDOperationCU_def PodNodeMap_validate_def Let_def
    PodNodeMap_writeToDatastore_def WriteToDatastore_def PodNodeMap_HandleCRUDOperationD_def
    DeleteFromDatastore_def PodNodeMap_HandleCRUDOperationR_def pod_keyed_gput pod_keyed_gdel)

theorem PodNodeMap_operations_witness:
  "podmaps_ok (snd (PodNodeMap_HandleCRUDOperationD ''p'' (fresh_plugin good_env)))"
  using PodNodeMap_operations [of "fresh_plugin good_env"] by (simp add: podmaps_ok_def fresh_plugin_def)

end
