(* ===== verification/ServiceSteps.thy ===== *)
theory ServiceSteps
  imports Services PodNodeMap
begin

text \<open>
  The steps the service renderer is composed of: recording a message or an entry in the status of
  the service being rendered, looking up interfaces (which sets their parent), initialising and
  persisting interface statuses, taking ids, and extending bridge domains.  Each one is a routine
  of \<open>Render\<close>; the renderers of \<open>networkservice*.go\<close> and \<open>networknodeoverlay_*.go\<close> are built from
  these steps with the combinators only.
\<close>

section \<open>Steps\<close>

type_synonym 'a service = "(NetworkService, 'a) render"

definition svc_name :: "string service" where
  "svc_name = rbind (rread (\<lambda>(ns, _). ns_Metadata ns)) (\<lambda>p. rbind (rderef p) (\<lambda>md. rret (md_Name md)))"

definition svc_pods :: "NetworkPod list service" where
  "svc_pods = rbind (rread (\<lambda>(ns, _). ns_Spec ns)) (\<lambda>p. rbind (rderef p) (\<lambda>spec. rret (nsp_NetworkPods spec)))"

text \<open>\<open>ns.AppendStatusMsg(msg)\<close>, and the usual \<open>return fmt.Errorf(msg)\<close> after it.\<close>

definition svc_msg :: "string \<Rightarrow> unit service" where
  "svc_msg msg = (\<lambda>(ns, s).
    case NetworkService_AppendStatusMsg msg ns of None \<Rightarrow> None | Some ns' \<Rightarrow> Some (Inr (), (ns', s)))"

definition svc_fail :: "string \<Rightarrow> 'a service" where
  "svc_fail msg = (\<lambda>(ns, s).
    case NetworkService_AppendStatusMsg msg ns of None \<Rightarrow> None | Some ns' \<Rightarrow> Some (Inl msg, (ns', s)))"

text \<open>\<open>RenderTxnAddVppEntryToTxn\<close> with the rendered entries of the service's status.\<close>

definition svc_addEntry :: "KVType \<Rightarrow> unit service" where
  "svc_addEntry vppKV = (\<lambda>(ns, s). do {
      st \<leftarrow> ns_Status ns;
      md \<leftarrow> ns_Metadata ns;
      (rendered, s') \<leftarrow> RenderTxnAddVppEntryToTxn (nss_RenderedVppAgentEntries st)
        (ModelTypeNetworkService @ ''/'' @ md_Name md) vppKV s;
      Some (Inr (), (ns\<lparr>ns_Status := Some (st\<lparr>nss_RenderedVppAgentEntries := rendered\<rparr>)\<rparr>, s'))
    })"

definition svc_addEntries :: "KVType list \<Rightarrow> unit service" where
  "svc_addEntries vppKVs = rfor vppKVs svc_addEntry"

text \<open>\<open>InitInterfaceStatus\<close> and the handling of its error: the old status is removed, the failure is
  recorded and returned.\<close>

definition svc_initInterface :: "string \<Rightarrow> Interface \<Rightarrow> InterfaceStatus service" where
  "svc_initInterface vppAgent iFace = (\<lambda>(ns, s). do {
      md \<leftarrow> ns_Metadata ns;
      st \<leftarrow> ns_Status ns;
      ((r, err), s1) \<leftarrow> InitInterfaceStatus (md_Name md) vppAgent iFace s;
      (case err of
         Some e \<Rightarrow>
           let (ifs, s2) = RemoveInterfaceStatus (nss_Interfaces st) (if_Parent iFace) (if_Name iFace) s1;
               msg = concat [''network pod interface: '', if_Parent iFace, ''/'', if_Name iFace, '', '', e]
           in Some (Inl e, (ns\<lparr>ns_Status := Some (st\<lparr>nss_Interfaces := ifs, nss_Msg := nss_Msg st @ [msg]\<rparr>)\<rparr>, s2))
       | None \<Rightarrow> do {
           ifStatus \<leftarrow> r;
           Some (Inr ifStatus, (ns, s1))
         })
    })"

definition svc_persist :: "InterfaceStatus \<Rightarrow> string \<Rightarrow> string \<Rightarrow> unit service" where
  "svc_persist ifStatus podName ifName = (\<lambda>(ns, s). do {
      st \<leftarrow> ns_Status ns;
      (ifs, s') \<leftarrow> PersistInterfaceStatus (nss_Interfaces st) ifStatus podName ifName s;
      Some (Inr (), (ns\<lparr>ns_Status := Some (st\<lparr>nss_Interfaces := ifs\<rparr>)\<rparr>, s'))
    })"

definition svc_memifID :: "u32 service" where
  "svc_memifID = rcall (\<lambda>s. let (n, a) = memif_Allocate (rc_MemifIDAllocator s) in Some (n, s\<lparr>rc_MemifIDAllocator := a\<rparr>))"

definition svc_vrfID :: "u32 service" where
  "svc_vrfID = rcall (\<lambda>s. let (n, a) = vrf_Allocate (rc_VrfIDAllocator s) in Some (n, s\<lparr>rc_VrfIDAllocator := a\<rparr>))"

text \<open>\<open>conn.VrfId = ...\<close>: the connection belongs to the service's specification.\<close>

definition svc_setConnVrf :: "u32 \<Rightarrow> u32 \<Rightarrow> unit service" where
  "svc_setConnVrf connIndex vrf = (\<lambda>(ns, s). do {
      spec \<leftarrow> ns_Spec ns;
      let conns = nsp_Connections spec;
      let i = unat connIndex;
      let conns' = (if i < length conns then conns[i := (conns ! i)\<lparr>conn_VrfId := vrf\<rparr>] else conns);
      Some (Inr (), (ns\<lparr>ns_Spec := Some (spec\<lparr>nsp_Connections := conns'\<rparr>)\<rparr>, s))
    })"

text \<open>Looking up a pod's interface and setting its parent, which changes the service's
  specification; a missing interface is a nil dereference.\<close>

fun setParentInPods :: "string \<Rightarrow> string \<Rightarrow> NetworkPod list \<Rightarrow> NetworkPod list" where
  "setParentInPods podName ifName [] = []"
| "setParentInPods podName ifName (pod # pods) =
    (case (pod_Metadata pod, pod_Spec pod) of
       (Some md, Some spec) \<Rightarrow>
         if md_Name md = podName \<and> list_ex (\<lambda>i. if_Name i = ifName) (pod_Interfaces spec) then
           let n = length (takeWhile (\<lambda>i. if_Name i \<noteq> ifName) (pod_Interfaces spec));
               ifs = (pod_Interfaces spec)[n := (pod_Interfaces spec ! n)\<lparr>if_Parent := podName\<rparr>]
           in pod\<lparr>pod_Spec := Some (spec\<lparr>pod_Interfaces := ifs\<rparr>)\<rparr> # pods
         else pod # setParentInPods podName ifName pods
     | _ \<Rightarrow> pod # setParentInPods podName ifName pods)"

definition svc_podInterface :: "string \<Rightarrow> string \<Rightarrow> (Interface \<times> string) service" where
  "svc_podInterface podName ifName = (\<lambda>(ns, s). do {
      spec \<leftarrow> ns_Spec ns;
      (iface, podType) \<leftarrow> findNetworkPodAndInterfaceInList podName ifName (nsp_NetworkPods spec);
      i \<leftarrow> iface;
      let spec' = spec\<lparr>nsp_NetworkPods := setParentInPods podName ifName (nsp_NetworkPods spec)\<rparr>;
      Some (Inr (i\<lparr>if_Parent := podName\<rparr>, podType), (ns\<lparr>ns_Spec := Some spec'\<rparr>, s))
    })"

text \<open>The same for an interface of a node, and for those of a node with certain labels.\<close>

definition updNodeInterfaces :: "string \<Rightarrow> (Interface list \<Rightarrow> Interface list) \<Rightarrow> Plugin \<Rightarrow> Plugin" where
  "updNodeInterfaces nodeName f s =
    (case map_of (networkNodeCache s) nodeName of
       None \<Rightarrow> s
     | Some nn \<Rightarrow>
         (case nn_Spec nn of
            None \<Rightarrow> s
          | Some spec \<Rightarrow>
              let nn' = nn\<lparr>nn_Spec := Some (spec\<lparr>nn_Interfaces := f (nn_Interfaces spec)\<rparr>)\<rparr>
              in s\<lparr>networkNodeCache := gput nodeName nn' (networkNodeCache s)\<rparr>))"

definition nodeInterface :: "string \<Rightarrow> string \<Rightarrow> Plugin \<Rightarrow> ((Interface \<times> string) \<times> Plugin) option" where
  "nodeInterface nodeName ifName s =
    do {
      (iface, ifType) \<leftarrow> FindInterfaceInNode nodeName ifName s;
      i \<leftarrow> iface;
      let i' = i\<lparr>if_Parent := nodeName\<rparr>;
      Some ((i', ifType), updNodeInterfaces nodeName
        (\<lambda>ifs. ifs[length (takeWhile (\<lambda>j. if_Name j \<noteq> ifName) ifs) := i']) s)
    }"

definition nodeLabelInterfaces ::
  "string \<Rightarrow> string list \<Rightarrow> Plugin \<Rightarrow> ((Interface list \<times> string list) \<times> Plugin) option" where
  "nodeLabelInterfaces nodeName labels s =
    do {
      (ifs, ifTypes) \<leftarrow> FindInterfacesForThisLabelInNode nodeName labels s;
      Some ((map (\<lambda>i. i\<lparr>if_Parent := nodeName\<rparr>) ifs, ifTypes), updNodeInterfaces nodeName
        (map (\<lambda>i. if labelMatches labels i \<noteq> [] then i\<lparr>if_Parent := nodeName\<rparr> else i)) s)
    }"

text \<open>The memif ids of two interfaces that used to be connected directly are reset: a status is shared
  by the cache and the status section of the service.\<close>

definition resetMemifID :: "string \<Rightarrow> InterfaceStatus gomap \<Rightarrow> InterfaceStatus gomap" where
  "resetMemifID key m =
    (case map_of m key of None \<Rightarrow> m | Some st \<Rightarrow> gput key (st\<lparr>ist_MemifID := 0\<rparr>) m)"

definition svc_resetEqualMemifIDs :: "string \<Rightarrow> string \<Rightarrow> unit service" where
  "svc_resetEqualMemifIDs key0 key1 = (\<lambda>(ns, s).
    case (map_of (rc_InterfaceStates s) key0, map_of (rc_InterfaceStates s) key1) of
      (Some st0, Some st1) \<Rightarrow>
        if ist_MemifID st0 = ist_MemifID st1 then
          let s' = s\<lparr>rc_InterfaceStates := resetMemifID key1 (resetMemifID key0 (rc_InterfaceStates s))\<rparr>;
              ns' = ns\<lparr>ns_Status := map_option (\<lambda>st. st\<lparr>nss_Interfaces :=
                map_option (\<lambda>m. resetMemifID key1 (resetMemifID key0 m)) (nss_Interfaces st)\<rparr>) (ns_Status ns)\<rparr>
          in Some (Inr (), (ns', s'))
        else Some (Inr (), (ns, s))
    | _ \<Rightarrow> Some (Inr (), (ns, s)))"

text \<open>The entries of a tunnel's end point are copied into the service's status.\<close>

definition svc_vxlanEndPoint ::
  "string \<Rightarrow> string \<Rightarrow> u32 \<Rightarrow> string \<Rightarrow> string \<Rightarrow> bool \<Rightarrow> bool \<Rightarrow> string \<Rightarrow> unit service" where
  "svc_vxlanEndPoint fromNode toNode vrfID fromAddr toAddr mkIf mkRoutes label = (\<lambda>(ns, s). do {
      md \<leftarrow> ns_Metadata ns;
      st \<leftarrow> ns_Status ns;
      (re, s') \<leftarrow> RenderVxlanLoopbackInterfaceAndStaticRoutes (ModelTypeNetworkService @ ''/'' @ md_Name md)
        fromNode toNode vrfID fromAddr toAddr mkIf mkRoutes label s;
      let new = (case re of Some m \<Rightarrow> m | None \<Rightarrow> []);
      rendered \<leftarrow>
        (if new = [] then Some (nss_RenderedVppAgentEntries st)
         else map_option (\<lambda>m. Some (gput_all new m)) (nss_RenderedVppAgentEntries st));
      Some (Inr (), (ns\<lparr>ns_Status := Some (st\<lparr>nss_RenderedVppAgentEntries := rendered\<rparr>)\<rparr>, s'))
    })"

section \<open>Bridge domains\<close>

text \<open>The bridge domain of a node's entry is a pointer: extending it changes the entry where it was
  found, in the transaction, or in the entry cache and the before map, which share it.\<close>

definition storeNodeL2BD :: "string \<Rightarrow> BridgeDomain \<Rightarrow> Plugin \<Rightarrow> Plugin" where
  "storeNodeL2BD key bd s =
    (case RenderTxnGetAfterMap key s of
       Some kv \<Rightarrow>
         s\<lparr>afterMap := AList.update 0 (gput key (kv\<lparr>kv_L2BD := Some bd\<rparr>) (levelGet (afterMap s) 0)) (afterMap s)\<rparr>
     | None \<Rightarrow>
         (case map_of (rc_VppEntries s) key of
            None \<Rightarrow> s
          | Some kv \<Rightarrow>
              s\<lparr>rc_VppEntries := gput key (kv\<lparr>kv_L2BD := Some bd\<rparr>) (rc_VppEntries s),
                beforeMap := (case map_of (levelGet (beforeMap s) 0) key of
                    None \<Rightarrow> beforeMap s
                  | Some b \<Rightarrow> AList.update 0 (gput key (b\<lparr>kv_L2BD := Some bd\<rparr>) (levelGet (beforeMap s) 0)) (beforeMap s))\<rparr>))"

definition svc_nodeL2BD :: "string \<Rightarrow> string \<Rightarrow> BDInterface list \<Rightarrow> unit service" where
  "svc_nodeL2BD nodeName l2bdName l2bdIFs =
    rbind svc_name (\<lambda>name.
    rbind (rread (\<lambda>(_, s). FindVppL2BDForNode nodeName l2bdName s)) (\<lambda>r.
    rbind (rderef r) (\<lambda>found.
      (case found of
         None \<Rightarrow> rbind (rderef None) (\<lambda>nn :: NetworkNode. rret ())
       | Some (nn, None) \<Rightarrow>
           rbind (rderef nn) (\<lambda>nn. rbind (rderef (nn_Metadata nn)) (\<lambda>md.
             svc_fail (concat [''network-service: '', name, '', referencing a missing node/l2bd: '',
               md_Name md, ''/'', l2bdName])))
       | Some (nn, Some bd) \<Rightarrow>
           let (vppKV, bd') = AppendInterfacesToL2BD nodeName bd l2bdIFs;
               key = L2BridgeDomainKey nodeName (vppKeyL2BDName nodeName l2bdName)
           in rseq (rcall (\<lambda>s. Some ((), storeNodeL2BD key bd' s))) (svc_addEntry vppKV)))))"

definition connBdParms :: "Connection \<Rightarrow> Plugin \<Rightarrow> BDParms option" where
  "connBdParms conn s =
    (case conn_L2Bd conn of
       Some bd \<Rightarrow>
         if l2bd_L2BdTemplate bd \<noteq> '''' then FindL2BDTemplate (l2bd_L2BdTemplate bd) s else l2bd_BdParms bd
     | None \<Rightarrow> Some GetDefaultSystemBDParms)"

definition connBdName :: "string \<Rightarrow> u32 \<Rightarrow> string" where
  "connBdName name connIndex = concat [''BD_'', name, ''_CONN_'', decU (connIndex + 1)]"

definition RenderL2BD :: "Connection \<Rightarrow> u32 \<Rightarrow> string \<Rightarrow> BDInterface list \<Rightarrow> unit service" where
  "RenderL2BD conn connIndex nodeName l2bdIFs =
    (if conn_UseNodeL2Bd conn \<noteq> '''' then svc_nodeL2BD nodeName (conn_UseNodeL2Bd conn) l2bdIFs
     else
       rbind svc_name (\<lambda>name.
       rbind (rread (\<lambda>(_, s). connBdParms conn s)) (\<lambda>p.
       rbind (rderef p) (\<lambda>bdParms.
         svc_addEntry (ConstructL2BD nodeName (connBdName name connIndex) l2bdIFs bdParms)))))"

definition RenderNetworkPodL2BD :: "Connection \<Rightarrow> u32 \<Rightarrow> string \<Rightarrow> BDInterface list \<Rightarrow> unit service" where
  "RenderNetworkPodL2BD conn connIndex podName l2bdIFs =
    rbind svc_name (\<lambda>name.
    if conn_UseNodeL2Bd conn \<noteq> '''' then
      svc_fail (concat [''network-service/connIndex: '', name, ''/'', decU (connIndex + 1),
        '', cannot use a node/l2bd: '', conn_UseNodeL2Bd conn, '' for vnf='', podName, '' bridge''])
    else
      rbind (rread (\<lambda>(_, s). connBdParms conn s)) (\<lambda>p.
      rbind (rderef p) (\<lambda>bdParms.
        svc_addEntry (ConstructL2BD podName (connBdName name connIndex) l2bdIFs bdParms))))"

end
