(* ===== verification/ServiceIfs.thy ===== *)
theory ServiceIfs
  imports ServiceSteps
begin

text \<open>
  The rendering of pod interfaces, \<open>plugins/controller/networkservice_if.go\<close>: the pair of interfaces
  in the pod and in the vswitch for memif, veth and tap interfaces, the direct memif between two
  pods, the forwarding entries of an interface, and the host names derived from pod and port.
\<close>

section \<open>Host names\<close>

definition stringFirstNLastM :: "nat \<Rightarrow> nat \<Rightarrow> string \<Rightarrow> string" where
  "stringFirstNLastM n m str =
    (if length str \<le> n + m then str else take n str @ drop (length str - m) str)"

text \<open>The character budgets for the beginning and the end of the port name, given the length of the
  container name, and the other way round.\<close>

definition portBudget :: "nat \<Rightarrow> nat \<times> nat" where
  "portBudget containerLen =
    (if containerLen = 7 then (3 + 1, 4)
     else if containerLen = 6 then (3 + 1, 4 + 1)
     else if containerLen = 5 then (3 + 2, 4 + 1)
     else if containerLen = 4 then (3 + 2, 4 + 2)
     else if containerLen = 3 then (3 + 3, 4 + 2)
     else if containerLen = 2 then (3 + 3, 4 + 3)
     else if containerLen = 1 then (3 + 4, 4 + 3)
     else (3, 4))"

definition containerBudget :: "nat \<Rightarrow> nat \<times> nat" where
  "containerBudget portLen =
    (if portLen = 6 then (4 + 1, 4)
     else if portLen = 5 then (4 + 1, 4 + 1)
     else if portLen = 4 then (4 + 2, 4 + 1)
     else if portLen = 3 then (4 + 2, 4 + 2)
     else if portLen = 2 then (4 + 3, 4 + 2)
     else if portLen = 1 then (4 + 3, 4 + 3)
     else (4, 4))"

definition constructBaseHostName :: "string \<Rightarrow> string \<Rightarrow> string" where
  "constructBaseHostName container port =
    (let (pb, pe) = portBudget (length container);
         (cb, ce) = containerBudget (length port)
     in stringFirstNLastM cb ce container @ stringFirstNLastM pb pe port)"

section \<open>Interfaces\<close>

definition svc_mtu :: "Interface \<Rightarrow> u32 service" where
  "svc_mtu iFace = rread (\<lambda>(_, s). ResolveMtu (if_Mtu iFace) s)"

definition svc_rxMode :: "Interface \<Rightarrow> string service" where
  "svc_rxMode iFace = rread (\<lambda>(_, s). ResolveRxMode (if_RxMode iFace) s)"

definition svc_memifDirectory :: "string service" where
  "svc_memifDirectory = rread (\<lambda>(_, s). sp_MemifDirectory (sysParmCache s))"

definition withVrf :: "u32 \<Rightarrow> KVType \<Rightarrow> KVType" where
  "withVrf vrf kv = kv\<lparr>kv_IFace := map_option (\<lambda>i. i\<lparr>vif_Vrf := vrf\<rparr>) (kv_IFace kv)\<rparr>"

text \<open>The forwarding entries of an interface.\<close>

definition fwdRoute :: "string \<Rightarrow> Interface \<Rightarrow> L3VRFRoute \<Rightarrow> L3VRFRoute" where
  "fwdRoute name iFace r =
    \<lparr>vr_VrfId = vr_VrfId r,
     vr_Description = concat [''FWD NS_'', name, ''_IF_'', if_Name iFace, ''_VRF_'', decU (vr_VrfId r), ''_DST_'',
       vr_DstIpAddr r],
     vr_DstIpAddr = vr_DstIpAddr r, vr_NextHopAddr = vr_NextHopAddr r,
     vr_OutgoingInterface = if_Name iFace, vr_Weight = 0, vr_Preference = 0\<rparr>"

definition RenderInterfaceForwarding :: "Interface \<Rightarrow> unit service" where
  "RenderInterfaceForwarding networkPodInterface =
    (case if_Fwd networkPodInterface of
       None \<Rightarrow> rret ()
     | Some fwd \<Rightarrow>
         let vppAgent = if_Parent networkPodInterface in
         rseq (rfor (fwd_L3VrfRoute fwd) (\<lambda>l3Vrf.
             rbind svc_name (\<lambda>name.
             rbind (rderef (ConstructStaticRoute vppAgent (fwdRoute name networkPodInterface l3Vrf))) svc_addEntry)))
           (rfor (fwd_L3Arp fwd) (\<lambda>l3Arp.
             svc_addEntry (ConstructStaticArpEntry vppAgent
               (l3Arp\<lparr>arp_OutgoingInterface := if_Name networkPodInterface\<rparr>)))))"

definition RenderConnMemifPair ::
  "string \<Rightarrow> Connection \<Rightarrow> Interface \<Rightarrow> string \<Rightarrow> (string \<times> InterfaceStatus) service" where
  "RenderConnMemifPair vppAgent conn networkPodInterface networkPodType =
    (let connPodName = if_Parent networkPodInterface;
         connInterfaceName = if_Name networkPodInterface
     in
     rbind (svc_initInterface vppAgent networkPodInterface) (\<lambda>st0.
     rbind (if ist_MemifID st0 = 0 then rbind svc_memifID (\<lambda>n. rret (st0\<lparr>ist_MemifID := n\<rparr>)) else rret st0) (\<lambda>ifStatus.
     rseq (svc_persist ifStatus connPodName connInterfaceName)
     (rbind (svc_mtu networkPodInterface) (\<lambda>mtu.
     rbind (svc_rxMode networkPodInterface) (\<lambda>rxMode.
     rbind svc_memifDirectory (\<lambda>dir.
     rseq (svc_addEntry (ConstructMemInterface connPodName connInterfaceName (ist_IpAddresses ifStatus)
         (ist_MacAddress ifStatus) mtu (if_AdminStatus networkPodInterface) rxMode (ist_MemifID ifStatus) False
         (if_MemifParms networkPodInterface) dir vppAgent))
     (let ifName = ''IF_MEMIF_VSWITCH_'' @ connPodName @ ''_'' @ connInterfaceName in
     rseq (svc_addEntry (withVrf (conn_VrfId conn) (ConstructMemInterface vppAgent ifName [] '''' mtu
         (if_AdminStatus networkPodInterface) rxMode (ist_MemifID ifStatus) True
         (if_MemifParms networkPodInterface) dir vppAgent)))
     (rret (ifName, ifStatus))))))))))"

definition directMemifEnd :: "Interface \<Rightarrow> InterfaceStatus \<Rightarrow> bool \<Rightarrow> string \<Rightarrow> unit service" where
  "directMemifEnd iFace ifStatus isMaster master =
    rseq (svc_persist ifStatus (if_Parent iFace) (if_Name iFace))
    (rbind (svc_mtu iFace) (\<lambda>mtu.
    rbind (svc_rxMode iFace) (\<lambda>rxMode.
    rbind svc_memifDirectory (\<lambda>dir.
    rseq (svc_addEntry (ConstructMemInterface (if_Parent iFace) (if_Name iFace) (ist_IpAddresses ifStatus)
        (ist_MacAddress ifStatus) mtu (if_AdminStatus iFace) rxMode (ist_MemifID ifStatus) isMaster
        (if_MemifParms iFace) dir master))
    (RenderInterfaceForwarding iFace)))))"

definition RenderConnDirectInterPodMemifPair :: "Interface \<Rightarrow> Interface \<Rightarrow> string \<Rightarrow> unit service" where
  "RenderConnDirectInterPodMemifPair if0 if1 networkPodType =
    rbind (svc_initInterface (if_Parent if0) if0) (\<lambda>st.
    rbind (if ist_MemifID st = 0 then rbind svc_memifID (\<lambda>n. rret (st\<lparr>ist_MemifID := n\<rparr>)) else rret st) (\<lambda>if0Status.
    rseq (directMemifEnd if0 if0Status False (if_Parent if1))
    (rbind (svc_initInterface (if_Parent if1) if1) (\<lambda>if1Status.
      directMemifEnd if1 (if1Status\<lparr>ist_MemifID := ist_MemifID if0Status\<rparr>) True (if_Parent if1)))))"

text \<open>The name of the vswitch's tap interface is not returned: the result has an empty name.\<close>

definition RenderConnTapPair ::
  "string \<Rightarrow> Connection \<Rightarrow> Interface \<Rightarrow> string \<Rightarrow> (string \<times> InterfaceStatus) service" where
  "RenderConnTapPair vppAgent conn networkPodInterface networkPodType =
    (let connPodName = if_Parent networkPodInterface;
         connInterfaceName = if_Name networkPodInterface
     in
     rbind (svc_initInterface vppAgent networkPodInterface) (\<lambda>st0.
     let linTapIfName = ''IF_TAP_VNF_'' @ connPodName @ ''_'' @ connInterfaceName;
         tapIfName = ''IF_TAP_VSWITCH_'' @ connPodName @ ''_'' @ connInterfaceName;
         hostPortLabel = (if if_HostPortLabel networkPodInterface = ''''
           then constructBaseHostName connPodName connInterfaceName else if_HostPortLabel networkPodInterface);
         ifStatus = st0\<lparr>ist_HostPortLabel := hostPortLabel\<rparr>;
         hostNameSpace = (case if_TapParms networkPodInterface of None \<Rightarrow> '''' | Some tp \<Rightarrow> tp_Namespace tp)
     in
     rseq (svc_persist ifStatus connPodName connInterfaceName)
     (rbind (svc_mtu networkPodInterface) (\<lambda>mtu.
     rbind (svc_rxMode networkPodInterface) (\<lambda>rxMode.
     rseq (svc_addEntry (ConstructLinuxTapInterface vppAgent linTapIfName (ist_IpAddresses ifStatus)
         (ist_MacAddress ifStatus) mtu (if_AdminStatus networkPodInterface) hostPortLabel hostNameSpace connPodName))
     (rseq (svc_addEntry (withVrf (conn_VrfId conn) (ConstructTapInterface vppAgent tapIfName [] '''' mtu
         (if_AdminStatus networkPodInterface) rxMode (if_TapParms networkPodInterface) hostPortLabel)))
     (rret ('''', ifStatus)))))))) "

definition RenderConnVethAfpPair ::
  "string \<Rightarrow> Connection \<Rightarrow> Interface \<Rightarrow> string \<Rightarrow> (string \<times> InterfaceStatus) service" where
  "RenderConnVethAfpPair vppAgent conn networkPodInterface networkPodType =
    (let connPodName = if_Parent networkPodInterface;
         connInterfaceName = if_Name networkPodInterface
     in
     rbind (svc_initInterface vppAgent networkPodInterface) (\<lambda>st0.
     let veth1Name = ''IF_VETH_VNF_'' @ connPodName @ ''_'' @ connInterfaceName;
         veth2Name = ''IF_VETH_VSWITCH_'' @ connPodName @ ''_'' @ connInterfaceName;
         host1Name = connInterfaceName;
         host2Name = (if if_HostPortLabel networkPodInterface = ''''
           then constructBaseHostName connPodName connInterfaceName else if_HostPortLabel networkPodInterface);
         ifStatus = st0\<lparr>ist_HostPortLabel := host2Name\<rparr>;
         vethIPAddresses = (if networkPodType = NetworkPodTypeVPPContainer then [] else ist_IpAddresses ifStatus);
         ifName = ''IF_AFPIF_VSWITCH_'' @ connPodName @ ''_'' @ connInterfaceName
     in
     rseq (svc_persist ifStatus connPodName connInterfaceName)
     (rbind (svc_mtu networkPodInterface) (\<lambda>mtu.
     rbind (svc_rxMode networkPodInterface) (\<lambda>rxMode.
     rseq (svc_addEntry (ConstructVEthInterface vppAgent veth1Name vethIPAddresses (ist_MacAddress ifStatus) mtu
         (if_AdminStatus networkPodInterface) host1Name veth2Name (if_LinuxNamespace networkPodInterface) connPodName))
     (rseq (svc_addEntry (ConstructVEthInterface vppAgent veth2Name [] '''' mtu
         (if_AdminStatus networkPodInterface) host2Name veth1Name (if_LinuxNamespace networkPodInterface) vppAgent))
     (rseq (if networkPodType = NetworkPodTypeVPPContainer then
         svc_addEntry (withVrf (conn_VrfId conn) (ConstructAFPacketInterface connPodName (if_Name networkPodInterface)
           (ist_IpAddresses ifStatus) (ist_MacAddress ifStatus) mtu (if_AdminStatus networkPodInterface) rxMode host1Name))
       else rret ())
     (rseq (svc_addEntry (withVrf (conn_VrfId conn) (ConstructAFPacketInterface vppAgent ifName [] '''' mtu
         (if_AdminStatus networkPodInterface) rxMode host2Name)))
     (rret (ifName, ifStatus))))))))))"

text \<open>The status is nil for an ethernet interface, which the node has rendered already; for an unknown
  type, which validation excludes, name and status are empty as well.\<close>

definition RenderConnInterfacePair ::
  "string \<Rightarrow> Connection \<Rightarrow> Interface \<Rightarrow> string \<Rightarrow> (string \<times> InterfaceStatus option) service" where
  "RenderConnInterfacePair vppAgent conn netPodInterface networkPodType =
    (let fwd = (\<lambda>(ifName, ifStatus). rseq (RenderInterfaceForwarding netPodInterface) (rret (ifName, Some ifStatus))) in
     if if_IfType netPodInterface = IfTypeMemif then
       rbind (RenderConnMemifPair vppAgent conn netPodInterface networkPodType) fwd
     else if if_IfType netPodInterface = IfTypeVeth then
       rbind (RenderConnVethAfpPair vppAgent conn netPodInterface networkPodType) fwd
     else if if_IfType netPodInterface = IfTypeTap then
       rbind (RenderConnTapPair vppAgent conn netPodInterface networkPodType) fwd
     else if if_IfType netPodInterface = IfTypeEthernet then rret (if_Name netPodInterface, None)
     else rseq (RenderInterfaceForwarding netPodInterface) (rret ('''', None)))"

section \<open>Properties\<close>

lemma budgets:
  "0 < p \<Longrightarrow> c + p \<le> 15 \<Longrightarrow> c \<le> fst (containerBudget p) + snd (containerBudget p)"
  "0 < c \<Longrightarrow> c + p \<le> 15 \<Longrightarrow> p \<le> fst (portBudget c) + snd (portBudget c)"
  by (simp_all add: containerBudget_def portBudget_def)

lemma length_stringFirstNLastM: "length (stringFirstNLastM n m str) = min (length str) (n + m)"
  by (simp add: stringFirstNLastM_def)



end
