(* ===== verification/Tunnels.thy ===== *)
theory Tunnels
  imports ServiceIfs
begin

text \<open>
  The vxlan tunnels of overlays, \<open>plugins/controller/networknodeoverlay_vxlanmesh.go\<close> and
  \<open>networknodeoverlay_vxlanhubandspoke.go\<close>.  The set of nodes of a connection is a Go map, its loops
  walk the list of its keys; the interfaces collected per node are a map from nodes to lists.
\<close>

section \<open>Shared steps\<close>

definition ifsOf :: "string \<Rightarrow> 'a list gomap \<Rightarrow> 'a list" where
  "ifsOf node m = (case map_of m node of Some ifs \<Rightarrow> ifs | None \<Rightarrow> [])"

definition addIf :: "string \<Rightarrow> 'a \<Rightarrow> 'a list gomap \<Rightarrow> 'a list gomap" where
  "addIf node x m = gput node (ifsOf node m @ [x]) m"

definition bdIf :: "string \<Rightarrow> u32 \<Rightarrow> BDInterface" where
  "bdIf name grp = \<lparr>bdi_Name = name, bdi_BridgedVirtualInterface = False, bdi_SplitHorizonGroup = grp\<rparr>"

text \<open>\<open>AllocateVxlanAddress\<close> and the handling of its error.\<close>

definition svc_vxlanAddress :: "string \<Rightarrow> string \<Rightarrow> string \<Rightarrow> string \<Rightarrow> string service" where
  "svc_vxlanAddress poolName nodeName label msg =
    rbind (rcall (AllocateVxlanAddress poolName nodeName label)) (\<lambda>(addr, _, err).
      case err of Some e \<Rightarrow> svc_fail (msg @ e) | None \<Rightarrow> rret addr)"

definition meshIfName :: "string \<Rightarrow> u32 \<Rightarrow> string \<Rightarrow> string \<Rightarrow> u32 \<Rightarrow> string" where
  "meshIfName name connIndex fromNode toNode vni =
    concat [''IF_VXLAN_MESH_NET_SRVC_'', name, ''_CONN_'', decU (connIndex + 1), ''_FROM_'', fromNode, ''_TO_'', toNode,
      ''_VNI_'', decU vni]"

text \<open>One direction of a tunnel between two nodes of a mesh; the vrf is that of the connection, 0 for
  layer 2.\<close>

definition meshTunnel ::
  "NetworkNodeOverlay \<Rightarrow> NetworkNodeOverlaySpec \<Rightarrow> u32 \<Rightarrow> u32 \<Rightarrow> u32 \<Rightarrow> string \<Rightarrow> string \<Rightarrow> string service" where
  "meshTunnel nno spec connIndex vrf vni fromNode toNode =
    rbind svc_name (\<lambda>name.
    rbind (rderef (nno_Metadata nno)) (\<lambda>omd.
    rbind (rderef (nno_VxlanMeshParms spec)) (\<lambda>mp.
    let ifName = meshIfName name connIndex fromNode toNode vni;
        msg = concat [''network service: '', name, '', conn: '', decU (connIndex + 1), '', overlay: '', md_Name omd, '' '']
    in
    rbind (svc_vxlanAddress (vm_LoopbackIpamPoolName mp) fromNode (vm_NetworkNodeInterfaceLabel mp) msg) (\<lambda>fromAddr.
    rbind (svc_vxlanAddress (vm_LoopbackIpamPoolName mp) toNode (vm_NetworkNodeInterfaceLabel mp) msg) (\<lambda>toAddr.
    rseq (svc_addEntry (withVrf vrf (ConstructVxlanInterface fromNode ifName vni fromAddr toAddr)))
    (rseq (svc_vxlanEndPoint fromNode toNode vrf fromAddr toAddr (vm_CreateLoopbackInterface mp)
        (vm_CreateLoopbackStaticRoutes mp) (vm_NetworkNodeInterfaceLabel mp))
    (rret ifName)))))))"

text \<open>The VNI of a multi-point connection.\<close>

definition meshVni :: "NetworkNodeOverlay \<Rightarrow> u32 \<Rightarrow> u32 service" where
  "meshVni nno connIndex =
    rbind svc_name (\<lambda>name.
    rbind (rderef (nno_Metadata nno)) (\<lambda>omd.
    rbind (rcall (overlayAllocateVni (md_Name omd))) (\<lambda>r.
      let msg = concat [''network-service: '', name, '', conn: '', decU (connIndex + 1), '', node overlay: '',
            md_Name omd, '' out of vni'', quote, ''s'']
      in case r of None \<Rightarrow> svc_fail msg | Some v \<Rightarrow> (case v of None \<Rightarrow> svc_fail msg | Some vni \<Rightarrow> rret vni))))"

section \<open>Multi-point meshes\<close>

definition renderConnL2MPVxlanMesh ::
  "NetworkNodeOverlay \<Rightarrow> Connection \<Rightarrow> u32 \<Rightarrow> bool gomap \<Rightarrow> BDInterface list gomap \<Rightarrow> unit service" where
  "renderConnL2MPVxlanMesh nno conn connIndex nodeMap l2bdIFs0 =
    rbind (meshVni nno connIndex) (\<lambda>vni.
    rbind (rderef (nno_Spec nno)) (\<lambda>spec.
    rbind (rfold (gkeys nodeMap) l2bdIFs0 (\<lambda>fromNode m.
        rfold (gkeys nodeMap) m (\<lambda>toNode m.
          if fromNode = toNode then rret m
          else rbind (meshTunnel nno spec connIndex 0 vni fromNode toNode) (\<lambda>ifName.
            rret (addIf fromNode (bdIf ifName 1) m)))))
      (\<lambda>l2bdIFs. rfor (gkeys nodeMap) (\<lambda>nodeName. RenderL2BD conn connIndex nodeName (ifsOf nodeName l2bdIFs)))))"

definition renderConnL3MPVxlanMesh ::
  "NetworkNodeOverlay \<Rightarrow> Connection \<Rightarrow> u32 \<Rightarrow> bool gomap \<Rightarrow> L3VRFRoute list gomap \<Rightarrow> BDInterface list gomap
    \<Rightarrow> unit service" where
  "renderConnL3MPVxlanMesh nno conn connIndex nodeMap l3vrfs l2bdIFs0 =
    rbind (meshVni nno connIndex) (\<lambda>vni.
    rbind (rderef (nno_Spec nno)) (\<lambda>spec.
    rbind (rfold (gkeys nodeMap) l2bdIFs0 (\<lambda>fromNode m.
        rfold (gkeys nodeMap) m (\<lambda>toNode m.
          if fromNode = toNode then rret m
          else rbind (meshTunnel nno spec connIndex (conn_VrfId conn) vni fromNode toNode) (\<lambda>ifName.
            rseq (rfor (ifsOf toNode l3vrfs) (\<lambda>r.
              rbind (rderef (ConstructStaticRoute fromNode
                \<lparr>vr_VrfId = vr_VrfId r, vr_Description = vr_Description r, vr_DstIpAddr = vr_DstIpAddr r,
                 vr_NextHopAddr = '''', vr_OutgoingInterface = ifName, vr_Weight = 0, vr_Preference = 0\<rparr>)) svc_addEntry))
            (rret (addIf fromNode (bdIf ifName 1) m))))))
      (\<lambda>l2bdIFs. rfor (gkeys nodeMap) (\<lambda>nodeName. RenderL2BD conn connIndex nodeName (ifsOf nodeName l2bdIFs)))))"

section \<open>Point-to-point meshes\<close>

text \<open>The error text for an exhausted range has two format verbs more than arguments.\<close>

definition ppVni :: "NetworkNodeOverlay \<Rightarrow> Connection \<Rightarrow> u32 \<Rightarrow> u32 service" where
  "ppVni nno conn connIndex =
    rbind svc_name (\<lambda>name.
    rbind (rderef (nno_Metadata nno)) (\<lambda>omd.
    rbind (rcall (overlayAllocateVni (md_Name omd))) (\<lambda>r.
      let who = concat [''network service: '', name, '', conn: '', decU (connIndex + 1), '', ''] in
      case r of
        None \<Rightarrow>
          rbind (rnth (conn_PodInterfaces conn) 0) (\<lambda>p0. rbind (rnth (conn_PodInterfaces conn) 1) (\<lambda>p1.
            svc_fail (concat [who, p0, '' to '', p1, '' node overlay: '', md_Name omd, '' out of vni'', quote, ''s''])))
      | Some v \<Rightarrow>
          (case v of
             None \<Rightarrow>
               rbind (rnth (conn_PodInterfaces conn) 0) (\<lambda>p0. rbind (rnth (conn_PodInterfaces conn) 1) (\<lambda>p1.
                 svc_fail (concat [who, p0, ''/'', p1, '' to '', md_Name omd, ''/%!s(MISSING) overlay: %!s(MISSING) out of vni'',
                   quote, ''s''])))
           | Some vni \<Rightarrow> rret vni))))"

definition ppIfName :: "string \<Rightarrow> u32 \<Rightarrow> string \<Rightarrow> string \<Rightarrow> string \<Rightarrow> string \<Rightarrow> u32 \<Rightarrow> string" where
  "ppIfName name connIndex fromNode fromPodIf toNode toPodIf vni =
    concat [''IF_VXLAN_L2PP_NET_SRVC_'', name, ''_CONN_'', decU (connIndex + 1), ''_FROM_'', fromNode, ''_'',
      ConnPodInterfaceSlashToUScore fromPodIf, ''_TO_'', toNode, ''_'', ConnPodInterfaceSlashToUScore toPodIf,
      ''_VNI_'', decU vni]"

text \<open>The tunnel from node \<open>i\<close> to the other one of the two.\<close>

definition ppTunnel ::
  "NetworkNodeOverlay \<Rightarrow> NetworkNodeOverlaySpec \<Rightarrow> Connection \<Rightarrow> u32 \<Rightarrow> u32 \<Rightarrow> u32 \<Rightarrow> NetworkPodToNodeMap list \<Rightarrow> nat
    \<Rightarrow> string service" where
  "ppTunnel nno spec conn connIndex vrf vni p2nArray i =
    rbind svc_name (\<lambda>name.
    rbind (rderef (nno_Metadata nno)) (\<lambda>omd.
    rbind (rderef (nno_VxlanMeshParms spec)) (\<lambda>mp.
    rbind (rnth p2nArray i) (\<lambda>from.
    rbind (rnth p2nArray (1 - i)) (\<lambda>to.
    rbind (rnth (conn_PodInterfaces conn) i) (\<lambda>fromPodIf.
    rbind (rnth (conn_PodInterfaces conn) (1 - i)) (\<lambda>toPodIf.
    rbind (rnth (conn_PodInterfaces conn) 0) (\<lambda>p0.
    rbind (rnth (conn_PodInterfaces conn) 1) (\<lambda>p1.
    let ifName = ppIfName name connIndex (pnm_Node from) fromPodIf (pnm_Node to) toPodIf vni;
        msg = concat [''network-service: '', name, '', conn: '', decU (connIndex + 1), '', '', p0, '' to '', p1,
          '' node overlay: '', md_Name omd]
    in
    rbind (svc_vxlanAddress (vm_LoopbackIpamPoolName mp) (pnm_Node from) (vm_NetworkNodeInterfaceLabel mp) (msg @ '', ''))
      (\<lambda>fromAddr.
    rbind (svc_vxlanAddress (vm_LoopbackIpamPoolName mp) (pnm_Node to) (vm_NetworkNodeInterfaceLabel mp) (msg @ '' ''))
      (\<lambda>toAddr.
    rseq (svc_addEntry (withVrf vrf (ConstructVxlanInterface (pnm_Node from) ifName vni fromAddr toAddr)))
    (rseq (svc_vxlanEndPoint (pnm_Node from) (pnm_Node to) vrf fromAddr toAddr (vm_CreateLoopbackInterface mp)
        (vm_CreateLoopbackStaticRoutes mp) (vm_NetworkNodeInterfaceLabel mp))
    (rret ifName)))))))))))))"

definition renderConnL2PPVxlanMesh ::
  "NetworkNodeOverlay \<Rightarrow> Connection \<Rightarrow> u32 \<Rightarrow> NetworkPodToNodeMap list \<Rightarrow> string list \<Rightarrow> unit service" where
  "renderConnL2PPVxlanMesh nno conn connIndex p2nArray xconn =
    rbind (ppVni nno conn connIndex) (\<lambda>vni.
    rbind (rderef (nno_Spec nno)) (\<lambda>spec.
    rbind (rfold [0, 1] [] (\<lambda>i names.
        rbind (ppTunnel nno spec conn connIndex 0 vni p2nArray i) (\<lambda>ifName. rret (names @ [ifName]))))
      (\<lambda>vxlans. rfor [0, 1] (\<lambda>i.
        rbind (rnth p2nArray i) (\<lambda>p2n. rbind (rnth xconn i) (\<lambda>x0. rbind (rnth vxlans i) (\<lambda>x1.
          svc_addEntries (ConstructXConnect (pnm_Node p2n) x0 x1))))))))"

definition l3Description :: "string \<Rightarrow> string \<Rightarrow> Connection \<Rightarrow> u32 \<Rightarrow> string" where
  "l3Description kind name conn connIndex =
    concat [kind, '' NS_'', name, ''_VRF_'', decU (conn_VrfId conn), ''_CONN_'', decU (connIndex + 1)]"

definition l3Route :: "string \<Rightarrow> string \<Rightarrow> Connection \<Rightarrow> u32 \<Rightarrow> string \<Rightarrow> string \<Rightarrow> L3VRFRoute" where
  "l3Route kind name conn connIndex ipAddress ifName =
    \<lparr>vr_VrfId = conn_VrfId conn, vr_Description = l3Description kind name conn connIndex,
     vr_DstIpAddr = StripSlashAndSubnetIPAddress ipAddress, vr_NextHopAddr = '''',
     vr_OutgoingInterface = ifName, vr_Weight = 0, vr_Preference = 0\<rparr>"

definition renderConnL3PPVxlanMesh ::
  "NetworkNodeOverlay \<Rightarrow> Connection \<Rightarrow> u32 \<Rightarrow> InterfaceStatus option list \<Rightarrow> NetworkPodToNodeMap list \<Rightarrow> unit service" where
  "renderConnL3PPVxlanMesh nno conn connIndex ifStatuses p2nArray =
    rbind (ppVni nno conn connIndex) (\<lambda>vni.
    rbind (rderef (nno_Spec nno)) (\<lambda>spec.
    rfor [0, 1] (\<lambda>i.
      rbind (ppTunnel nno spec conn connIndex (conn_VrfId conn) vni p2nArray i) (\<lambda>ifName.
      rbind (rnth ifStatuses (1 - i)) (\<lambda>p. rbind (rderef p) (\<lambda>st.
      rbind svc_name (\<lambda>name. rbind (rnth p2nArray i) (\<lambda>p2n.
        case ist_IpAddresses st of
          [] \<Rightarrow> rret ()
        | a # _ \<Rightarrow> rbind (rderef (ConstructStaticRoute (pnm_Node p2n) (l3Route ''L3PP'' name conn connIndex a ifName)))
            svc_addEntry))))))))"

section \<open>Hub and spoke\<close>

definition hubIfName :: "bool \<Rightarrow> string \<Rightarrow> u32 \<Rightarrow> string \<Rightarrow> string \<Rightarrow> u32 \<Rightarrow> string" where
  "hubIfName fromHub name connIndex fromNode toNode vni =
    (if fromHub then
       concat [''IF_VXLAN_NET_SRVC_'', name, ''_CONN_'', decU (connIndex + 1), ''_FROM_HUB_'', fromNode, ''_TO_SPOKE_'', toNode,
         ''_VNI_'', decU vni]
     else
       concat [''IF_VXLAN_NET_SRVC_'', name, ''_CONN_'', decU (connIndex + 1), ''_FROM_SPOKE_'', fromNode, ''_TO_HUB_'', toNode,
         ''_VNI_'', decU vni])"

definition hubTunnel ::
  "NetworkNodeOverlay \<Rightarrow> VxlanHubAndSpokeParms \<Rightarrow> u32 \<Rightarrow> bool \<Rightarrow> string \<Rightarrow> string \<Rightarrow> BDInterface list gomap
    \<Rightarrow> BDInterface list gomap service" where
  "hubTunnel nno hp connIndex fromHub fromNode toNode m =
    rbind svc_name (\<lambda>name.
    rbind (rderef (nno_Metadata nno)) (\<lambda>omd.
    let ifName = hubIfName fromHub name connIndex fromNode toNode (hs_Vni hp);
        msg = concat [''network-service: '', name, '', conn: '', decU (connIndex + 1), '', network node overlay: '',
          md_Name omd, '' '']
    in
    rbind (svc_vxlanAddress (hs_LoopbackIpamPoolName hp) fromNode (hs_NetworkNodeInterfaceLabel hp) msg) (\<lambda>fromAddr.
    rbind (svc_vxlanAddress (hs_LoopbackIpamPoolName hp) toNode (hs_NetworkNodeInterfaceLabel hp) msg) (\<lambda>toAddr.
    rseq (svc_addEntry (ConstructVxlanInterface fromNode ifName (hs_Vni hp) fromAddr toAddr))
    (rseq (svc_vxlanEndPoint fromNode toNode 0 fromAddr toAddr (hs_CreateLoopbackInterface hp)
        (hs_CreateLoopbackStaticRoutes hp) (hs_NetworkNodeInterfaceLabel hp))
    (rret (addIf fromNode (bdIf ifName 0) m)))))))"

definition renderConnL2MPVxlanHubAndSpoke ::
  "NetworkNodeOverlay \<Rightarrow> Connection \<Rightarrow> u32 \<Rightarrow> bool gomap \<Rightarrow> BDInterface list gomap \<Rightarrow> unit service" where
  "renderConnL2MPVxlanHubAndSpoke nno conn connIndex spokeNodeMap l2bdIFs0 =
    rbind svc_name (\<lambda>name.
    rbind (rderef (nno_Metadata nno)) (\<lambda>omd.
    rbind (rderef (nno_Spec nno)) (\<lambda>spec.
    rbind (rderef (nno_VxlanHubAndSpokeParms spec)) (\<lambda>hp.
    let hubNodeName = hs_HubNodeName hp;
        who = concat [''network-service: '', name, '', conn: '', decU (connIndex + 1), '', network node overlay: '', md_Name omd]
    in
    rbind (rread (\<lambda>(_, s). NetworkNode_HandleCRUDOperationR hubNodeName s)) (\<lambda>hub.
    if hub = None then svc_fail (concat [who, '', hub_node: '', hubNodeName, '' not found''])
    else
      rbind (rfold (gkeys spokeNodeMap) l2bdIFs0 (\<lambda>spokeNodeName m.
          if hubNodeName = spokeNodeName then svc_fail (concat [who, '' hub node same as spoke '', hubNodeName])
          else
            rbind (hubTunnel nno hp connIndex True hubNodeName spokeNodeName m) (\<lambda>m1.
            hubTunnel nno hp connIndex False spokeNodeName hubNodeName m1)))
        (\<lambda>l2bdIFs.
          rseq (rfor (gkeys spokeNodeMap) (\<lambda>nodeName. RenderL2BD conn connIndex nodeName (ifsOf nodeName l2bdIFs)))
            (RenderL2BD conn connIndex hubNodeName (ifsOf hubNodeName l2bdIFs))))))))"

end
