(* ===== verification/Connections.thy ===== *)
theory Connections
  imports Tunnels
begin

text \<open>
  The four kinds of connections of a network service: \<open>networkservice_l2pp.go\<close>,
  \<open>networkservice_l2mp.go\<close>, \<open>networkservice_l3pp.go\<close> and \<open>networkservice_l3mp.go\<close>.  A renderer first
  resolves the interfaces of the connection to pods, nodes and interface descriptions, and then
  renders the connection inside one pod, on one node or between nodes.  The resolution is the same
  code for the two point-to-point and for the two multi-point kinds, up to the text of messages.
\<close>

section \<open>Resolving point-to-point connections\<close>

text \<open>The local variables of \<open>RenderConnL2PP\<close> and \<open>RenderConnL3PP\<close>; the arrays have two elements, an
  interface that has not been set is nil.\<close>

record pp_vars =
  pp_p2nArray :: "NetworkPodToNodeMap list"
  pp_netPodInterfaces :: "Interface option list"
  pp_networkPodTypes :: "string list"
  pp_ifIndex :: nat
  pp_allPodsAssignedToNodes :: bool
  pp_staticNodes :: bool

definition noNode :: NetworkPodToNodeMap where
  "noNode = \<lparr>pnm_Pod = '''', pnm_Node = ''''\<rparr>"

definition pp_init :: pp_vars where
  "pp_init = \<lparr>pp_p2nArray = [noNode, noNode], pp_netPodInterfaces = [None, None], pp_networkPodTypes = ['''', ''''],
     pp_ifIndex = 0, pp_allPodsAssignedToNodes = True, pp_staticNodes = False\<rparr>"

definition pp_put :: "NetworkPodToNodeMap \<Rightarrow> Interface \<Rightarrow> string \<Rightarrow> pp_vars \<Rightarrow> pp_vars" where
  "pp_put p2n iface t v =
    (let i = pp_ifIndex v in
     v\<lparr>pp_p2nArray := (pp_p2nArray v)[i := p2n], pp_netPodInterfaces := (pp_netPodInterfaces v)[i := Some iface],
       pp_networkPodTypes := (pp_networkPodTypes v)[i := t], pp_ifIndex := i + 1\<rparr>)"

definition tooMany :: "string \<Rightarrow> string" where
  "tooMany kind = concat [''Too many connection segments specified for a '', kind, '' connection'']"

definition ppPod :: "string \<Rightarrow> nat \<times> string \<Rightarrow> pp_vars \<Rightarrow> pp_vars service" where
  "ppPod kind ic v =
    (if pp_ifIndex v \<ge> 2 then svc_fail (tooMany kind)
     else
       let connPodInterface = snd ic;
           (connPodName, connInterfaceName) = ConnPodInterfaceNames connPodInterface;
           who = concat [''connection segment '', dec (fst ic), '': '', connPodInterface]
       in
       rbind (rread (\<lambda>(_, s). map_of (rc_NetworkPodToNodeMap s) connPodName)) (\<lambda>p.
       case p of
         None \<Rightarrow> rseq (svc_msg (who @ '', network pod not mapped to a node in network_pod_to_node_map''))
           (rret (v\<lparr>pp_allPodsAssignedToNodes := False\<rparr>))
       | Some p2n \<Rightarrow>
           if pnm_Node p2n = '''' then
             rseq (svc_msg (who @ '', network pod not mapped to a node in network_pod_to_node_map''))
               (rret (v\<lparr>pp_allPodsAssignedToNodes := False\<rparr>))
           else
             rbind (rread (\<lambda>(_, s). NetworkNode_HandleCRUDOperationR (pnm_Node p2n) s)) (\<lambda>node.
             if node = None then
               rseq (svc_msg (concat [who, '', network pod references non existant host: '', pnm_Node p2n]))
                 (rret (v\<lparr>pp_allPodsAssignedToNodes := False\<rparr>))
             else
               rbind (svc_podInterface connPodName connInterfaceName) (\<lambda>(iface, t).
               rret (pp_put p2n iface t v)))))"

definition ppNode :: "string \<Rightarrow> string \<Rightarrow> pp_vars \<Rightarrow> pp_vars service" where
  "ppNode kind nodeIf v =
    (if pp_ifIndex v \<ge> 2 then svc_fail (tooMany kind)
     else
       let (connNodeName, connInterfaceName) = NodeInterfaceNames nodeIf in
       rbind (rcall (nodeInterface connNodeName connInterfaceName)) (\<lambda>(iface, t).
       rret ((pp_put \<lparr>pnm_Pod = connNodeName, pnm_Node = connNodeName\<rparr> iface t v)\<lparr>pp_staticNodes := True\<rparr>)))"

text \<open>The text of \<open>%v\<close> for a list of strings.\<close>

fun joinBlank :: "string list \<Rightarrow> string" where
  "joinBlank [] = ''''"
| "joinBlank [x] = x"
| "joinBlank (x # xs) = x @ '' '' @ joinBlank xs"

definition showStrings :: "string list \<Rightarrow> string" where
  "showStrings xs = ''['' @ joinBlank xs @ '']''"

definition ppLabels :: "string list \<Rightarrow> pp_vars \<Rightarrow> pp_vars service" where
  "ppLabels labels v =
    (if labels = [] then rret v
     else if pp_ifIndex v \<ge> 2 then svc_fail (tooMany ''l2pp'')
     else
       rbind svc_name (\<lambda>name.
       if pp_ifIndex v \<noteq> 1 \<or> length labels \<noteq> 1 then
         svc_fail (concat [''network service: '', name,
           '', need 1 interface in conn and  1 nodeInterface label: incorrect config''])
       else
         rbind (rnth (pp_p2nArray v) 0) (\<lambda>p0.
         rbind (rread (\<lambda>(_, s). FindInterfacesForThisLabelInNode (pnm_Node p0) labels s)) (\<lambda>r.
         rbind (rderef r) (\<lambda>(found, _).
         if length found \<noteq> 1 then
           svc_fail (concat [''network service: '', name, '', nodeLabels '', showStrings labels,
             '': must match only 1 node interface: incorrect config''])
         else
           rbind (rcall (nodeLabelInterfaces (pnm_Node p0) labels)) (\<lambda>(ifs, ts).
           rbind (rnth ifs 0) (\<lambda>iface.
           rbind (rnth ts 0) (\<lambda>t.
           rret (v\<lparr>pp_p2nArray := (pp_p2nArray v)[1 := \<lparr>pnm_Pod = pnm_Node p0, pnm_Node = pnm_Node p0\<rparr>],
             pp_netPodInterfaces := (pp_netPodInterfaces v)[1 := Some iface],
             pp_networkPodTypes := (pp_networkPodTypes v)[1 := t]\<rparr>))))))))) "

definition resolvePP :: "string \<Rightarrow> Connection \<Rightarrow> pp_vars service" where
  "resolvePP kind conn =
    rbind (rfold (List.enumerate 0 (conn_PodInterfaces conn)) pp_init (ppPod kind)) (\<lambda>v1.
    rbind (rfold (conn_NodeInterfaces conn) v1 (ppNode kind)) (\<lambda>v2.
    rbind svc_name (\<lambda>name.
    if \<not> pp_allPodsAssignedToNodes v2 then
      svc_fail (concat [''network-service: '', name, '', not all pods in this connection are mapped to nodes''])
    else ppLabels (conn_NodeInterfaceLabels conn) v2)))"

text \<open>The choice between the same node and two nodes, and the overlay of the latter.\<close>

definition ppDispatch ::
  "Connection \<Rightarrow> pp_vars \<Rightarrow> (string \<Rightarrow> unit service) \<Rightarrow> (NetworkNodeOverlay \<Rightarrow> unit service) \<Rightarrow> unit service" where
  "ppDispatch conn v sameNode interNode =
    rbind (rnth (pp_p2nArray v) 0) (\<lambda>p0.
    rbind (rnth (pp_p2nArray v) 1) (\<lambda>p1.
    if pnm_Node p0 = pnm_Node p1 then sameNode (pnm_Node p0)
    else
      rbind svc_name (\<lambda>name.
      if pp_staticNodes v then
        svc_fail (concat [''netwrok service: '', name, '', nodes '', pnm_Node p0, ''/'', pnm_Node p1, '' must be the same''])
      else
        rbind (rnth (pp_netPodInterfaces v) 0) (\<lambda>q0. rbind (rderef q0) (\<lambda>i0.
        rbind (rnth (pp_netPodInterfaces v) 1) (\<lambda>q1. rbind (rderef q1) (\<lambda>i1.
        let who = concat [''network-service: '', name, '', '', if_Parent i0, ''/'', if_Name i0, '' to '', if_Parent i1,
              ''/'', if_Name i1]
        in
        if conn_NetworkNodeOverlayName conn = '''' then svc_fail (who @ '' no node overlay specified'')
        else
          rbind (rread (\<lambda>(_, s). Overlay_HandleCRUDOperationR (conn_NetworkNodeOverlayName conn) s)) (\<lambda>ov.
          case ov of
            None \<Rightarrow> svc_fail (concat [who, '' referencing a missing node overlay: '', conn_NetworkNodeOverlayName conn])
          | Some nno \<Rightarrow> interNode nno)))))))) "

text \<open>Overlays that cannot carry a point-to-point connection.\<close>

definition ppOverlay ::
  "string \<Rightarrow> NetworkNodeOverlay \<Rightarrow> Connection \<Rightarrow> u32 \<Rightarrow> unit service \<Rightarrow> unit service" where
  "ppOverlay kind nno conn connIndex mesh =
    rbind svc_name (\<lambda>name.
    rbind (rderef (nno_Spec nno)) (\<lambda>spec.
    let fail = (\<lambda>why.
          rbind (rnth (conn_PodInterfaces conn) 0) (\<lambda>p0. rbind (rnth (conn_PodInterfaces conn) 1) (\<lambda>p1.
          rbind (rderef (nno_Metadata nno)) (\<lambda>omd.
            svc_fail (concat [''vnf-service: '', name, '', conn: '', decU connIndex, '', '', p0, '' to '', p1,
              '' node overlay: '', md_Name omd, why])))))
    in
    if nno_ConnectionType spec = NetworkNodeOverlayConnectionTypeVxlan then
      (if nno_ServiceMeshType spec = NetworkNodeOverlayTypeMesh then mesh
       else if nno_ServiceMeshType spec = NetworkNodeOverlayTypeHubAndSpoke then fail ('' type not supported for '' @ kind)
       else rret ())
    else fail '' type not implemented''))"

section \<open>L2 point to point\<close>

definition renderConnL2PPSameVnf :: "Interface \<Rightarrow> Interface \<Rightarrow> unit service" where
  "renderConnL2PPSameVnf if0 if1 =
    rseq (svc_addEntries (ConstructXConnect (if_Parent if0) (if_Name if0) (if_Name if1)))
      (svc_addEntries (ConstructXConnect (if_Parent if0) (if_Name if1) (if_Name if0)))"

text \<open>Both interfaces are rendered towards the vswitch and cross connected there.\<close>

definition xconnectPair :: "string \<Rightarrow> Connection \<Rightarrow> Interface \<Rightarrow> Interface \<Rightarrow> string list \<Rightarrow> unit service" where
  "xconnectPair vppAgent conn if0 if1 types =
    rbind (rnth types 0) (\<lambda>t0. rbind (rnth types 1) (\<lambda>t1.
    rbind (RenderConnInterfacePair vppAgent conn if0 t0) (\<lambda>(x0, _).
    rbind (RenderConnInterfacePair vppAgent conn if1 t1) (\<lambda>(x1, _).
    rseq (svc_addEntries (ConstructXConnect vppAgent x0 x1)) (svc_addEntries (ConstructXConnect vppAgent x1 x0))))))"

definition bothMemif :: "Interface \<Rightarrow> Interface \<Rightarrow> bool" where
  "bothMemif if0 if1 \<longleftrightarrow> if_IfType if0 = if_IfType if1 \<and> if_IfType if0 = IfTypeMemif"

definition memifDirect :: "Connection \<Rightarrow> bool" where
  "memifDirect conn \<longleftrightarrow> (if conn_ConnMethod conn = '''' then ConnMethodDirect else conn_ConnMethod conn) = ConnMethodDirect"

definition pp_interfaces :: "pp_vars \<Rightarrow> (Interface \<times> Interface) service" where
  "pp_interfaces v =
    rbind (rnth (pp_netPodInterfaces v) 0) (\<lambda>q0. rbind (rderef q0) (\<lambda>i0.
    rbind (rnth (pp_netPodInterfaces v) 1) (\<lambda>q1. rbind (rderef q1) (\<lambda>i1. rret (i0, i1)))))"

definition renderConnL2PPSameNode :: "Connection \<Rightarrow> pp_vars \<Rightarrow> string \<Rightarrow> unit service" where
  "renderConnL2PPSameNode conn v vppAgent =
    rbind (pp_interfaces v) (\<lambda>(if0, if1).
    if if_Parent if0 = if_Parent if1 \<and> if_Name if0 \<noteq> if_Name if1 then renderConnL2PPSameVnf if0 if1
    else if bothMemif if0 if1 \<and> memifDirect conn then RenderConnDirectInterPodMemifPair if0 if1 IfTypeMemif
    else
      rseq (if bothMemif if0 if1 then
          svc_resetEqualMemifIDs (if_Parent if0 @ ''/'' @ if_Name if0) (if_Parent if1 @ ''/'' @ if_Name if1)
        else rret ())
      (xconnectPair vppAgent conn if0 if1 (pp_networkPodTypes v)))"

definition renderConnL2PPInterNode :: "Connection \<Rightarrow> u32 \<Rightarrow> pp_vars \<Rightarrow> NetworkNodeOverlay \<Rightarrow> unit service" where
  "renderConnL2PPInterNode conn connIndex v nno =
    rbind (rfold [0, 1] [] (\<lambda>i xconn.
        rbind (rnth (pp_p2nArray v) i) (\<lambda>p2n.
        rbind (rnth (pp_netPodInterfaces v) i) (\<lambda>q. rbind (rderef q) (\<lambda>iface.
        rbind (rnth (pp_networkPodTypes v) i) (\<lambda>t.
        rbind (RenderConnInterfacePair (pnm_Node p2n) conn iface t) (\<lambda>(ifName, _).
        rret (xconn @ [ifName]))))))))
      (\<lambda>xconn. ppOverlay ''L2PP'' nno conn connIndex
        (renderConnL2PPVxlanMesh nno conn connIndex (pp_p2nArray v) xconn))"

definition RenderConnL2PP :: "Connection \<Rightarrow> u32 \<Rightarrow> unit service" where
  "RenderConnL2PP conn connIndex =
    rbind (resolvePP ''l2pp'' conn) (\<lambda>v.
      ppDispatch conn v (renderConnL2PPSameNode conn v) (renderConnL2PPInterNode conn connIndex v))"

section \<open>L3 point to point\<close>

definition renderConnL3PPSameNode :: "Connection \<Rightarrow> pp_vars \<Rightarrow> string \<Rightarrow> unit service" where
  "renderConnL3PPSameNode conn v vppAgent =
    rbind (pp_interfaces v) (\<lambda>(if0, if1).
    if bothMemif if0 if1 \<and> memifDirect conn then RenderConnDirectInterPodMemifPair if0 if1 IfTypeMemif
    else xconnectPair vppAgent conn if0 if1 (pp_networkPodTypes v))"

text \<open>A connection without a vrf takes one from the allocator and keeps it.\<close>

definition connWithVrf :: "Connection \<Rightarrow> u32 \<Rightarrow> Connection service" where
  "connWithVrf conn connIndex =
    (if conn_VrfId conn = 0 then
       rbind svc_vrfID (\<lambda>v. rseq (svc_setConnVrf connIndex v) (rret (conn\<lparr>conn_VrfId := v\<rparr>)))
     else rret conn)"

text \<open>The route to the first address of a rendered interface, a nil dereference without a status.\<close>

definition svc_interfaceRoute ::
  "string \<Rightarrow> Connection \<Rightarrow> u32 \<Rightarrow> InterfaceStatus \<Rightarrow> string \<Rightarrow> L3VRFRoute option service" where
  "svc_interfaceRoute kind conn connIndex ifStatus ifName =
    rbind svc_name (\<lambda>name.
      rret (case ist_IpAddresses ifStatus of
          [] \<Rightarrow> None
        | a # _ \<Rightarrow> Some (l3Route kind name conn connIndex a ifName)))"

definition svc_addRoute :: "string \<Rightarrow> L3VRFRoute option \<Rightarrow> unit service" where
  "svc_addRoute node r =
    (case r of None \<Rightarrow> rret () | Some l3sr \<Rightarrow> rbind (rderef (ConstructStaticRoute node l3sr)) svc_addEntry)"

definition renderConnL3PPInterNode :: "Connection \<Rightarrow> u32 \<Rightarrow> pp_vars \<Rightarrow> NetworkNodeOverlay \<Rightarrow> unit service" where
  "renderConnL3PPInterNode conn0 connIndex v nno =
    rbind (connWithVrf conn0 connIndex) (\<lambda>conn.
    rbind (rfold [0, 1] [] (\<lambda>i sts.
        rbind (rnth (pp_p2nArray v) i) (\<lambda>p2n.
        rbind (rnth (pp_netPodInterfaces v) i) (\<lambda>q. rbind (rderef q) (\<lambda>iface.
        rbind (rnth (pp_networkPodTypes v) i) (\<lambda>t.
        rbind (RenderConnInterfacePair (pnm_Node p2n) conn iface t) (\<lambda>(ifName, ifStatus).
        rbind (rderef ifStatus) (\<lambda>st.
        rbind (svc_interfaceRoute ''L3PP'' conn connIndex st ifName) (\<lambda>r.
        rseq (svc_addRoute (pnm_Node p2n) r)
        (rret (sts @ [ifStatus]))))))))))) 
      (\<lambda>ifStatuses. ppOverlay ''L3PP'' nno conn connIndex
        (renderConnL3PPVxlanMesh nno conn connIndex ifStatuses (pp_p2nArray v))))"

definition RenderConnL3PP :: "Connection \<Rightarrow> u32 \<Rightarrow> unit service" where
  "RenderConnL3PP conn connIndex =
    rbind (resolvePP ''l3pp'' conn) (\<lambda>v.
      ppDispatch conn v (renderConnL3PPSameNode conn v) (renderConnL3PPInterNode conn connIndex v))"

section \<open>Resolving multi-point connections\<close>

record mp_vars =
  mp_p2nArray :: "NetworkPodToNodeMap list"
  mp_netPodInterfaces :: "Interface list"
  mp_networkPodTypes :: "string list"
  mp_allInterfacesAssignedToSameVnf :: bool
  mp_allPodsAssignedToNodes :: bool
  mp_staticNodes :: bool
  mp_nodeMap :: "bool gomap"
  mp_vnfMap :: "bool gomap"

definition mp_init :: mp_vars where
  "mp_init = \<lparr>mp_p2nArray = [], mp_netPodInterfaces = [], mp_networkPodTypes = [],
     mp_allInterfacesAssignedToSameVnf = True, mp_allPodsAssignedToNodes = True, mp_staticNodes = False,
     mp_nodeMap = [], mp_vnfMap = []\<rparr>"

definition mp_put :: "NetworkPodToNodeMap \<Rightarrow> Interface \<Rightarrow> string \<Rightarrow> mp_vars \<Rightarrow> mp_vars" where
  "mp_put p2n iface t v =
    v\<lparr>mp_p2nArray := mp_p2nArray v @ [p2n], mp_netPodInterfaces := mp_netPodInterfaces v @ [iface],
      mp_networkPodTypes := mp_networkPodTypes v @ [t], mp_nodeMap := gput (pnm_Node p2n) True (mp_nodeMap v)\<rparr>"

definition mpPod :: "nat \<times> string \<Rightarrow> mp_vars \<Rightarrow> mp_vars service" where
  "mpPod ic v =
    (let connPodInterface = snd ic;
         (connPodName, connInterfaceName) = ConnPodInterfaceNames connPodInterface;
         who = concat [''conn: '', dec (fst ic + 1), '': '', connPodInterface]
     in
     rbind (rread (\<lambda>(_, s). map_of (rc_NetworkPodToNodeMap s) connPodName)) (\<lambda>p.
     case p of
       None \<Rightarrow> rseq (svc_msg (who @ '', network pod not mapped to a node in network-pod-to-node-map''))
         (rret (v\<lparr>mp_allPodsAssignedToNodes := False\<rparr>))
     | Some p2n \<Rightarrow>
         if pnm_Node p2n = '''' then
           rseq (svc_msg (who @ '', network pod not mapped to a node in network-pod-to-node-map''))
             (rret (v\<lparr>mp_allPodsAssignedToNodes := False\<rparr>))
         else
           rbind (rread (\<lambda>(_, s). NetworkNode_HandleCRUDOperationR (pnm_Node p2n) s)) (\<lambda>node.
           if node = None then
             rseq (svc_msg (concat [who, '', network pod references non existant host: '', pnm_Node p2n]))
               (rret (v\<lparr>mp_allPodsAssignedToNodes := False\<rparr>))
           else
             rbind (svc_podInterface connPodName connInterfaceName) (\<lambda>(iface, t).
             rret ((mp_put p2n iface t v)\<lparr>mp_vnfMap := gput (pnm_Pod p2n) True (mp_vnfMap v)\<rparr>)))))"

definition mpNode :: "string \<Rightarrow> mp_vars \<Rightarrow> mp_vars service" where
  "mpNode nodeIf v =
    (let (connNodeName, connInterfaceName) = NodeInterfaceNames nodeIf in
     rbind (rcall (nodeInterface connNodeName connInterfaceName)) (\<lambda>(iface, t).
     rret ((mp_put \<lparr>pnm_Pod = connNodeName, pnm_Node = connNodeName\<rparr> iface t v)
       \<lparr>mp_staticNodes := True, mp_allInterfacesAssignedToSameVnf := False\<rparr>)))"

definition mpLabels :: "string \<Rightarrow> string list \<Rightarrow> mp_vars \<Rightarrow> mp_vars service" where
  "mpLabels same labels v =
    (if labels = [] then rret v
     else
       rbind svc_name (\<lambda>name.
       if mp_nodeMap v = [] then
         svc_fail (concat [''network service: '', name, '', no interfaces specified to connect to node interface label''])
       else if length (mp_nodeMap v) \<noteq> 1 then
         svc_fail (concat [''network service: '', name, '', all interfaces must be on '', same,
           '' node to connect to node interface label''])
       else
         rbind (rnth (mp_p2nArray v) 0) (\<lambda>p0.
         rbind (rcall (nodeLabelInterfaces (pnm_Node p0) labels)) (\<lambda>(ifs, ts).
         if ifs = [] then
           svc_fail (concat [''network service: '', name, '', nodeLabels '', showStrings labels,
             '': must match at least one node interface: incorrect config''])
         else
           rret (v\<lparr>mp_allInterfacesAssignedToSameVnf := False,
             mp_p2nArray := mp_p2nArray v @ map (\<lambda>_. \<lparr>pnm_Pod = pnm_Node p0, pnm_Node = pnm_Node p0\<rparr>) ifs,
             mp_netPodInterfaces := mp_netPodInterfaces v @ ifs,
             mp_networkPodTypes := mp_networkPodTypes v @ ts\<rparr>)))))"

definition mpOverlay :: "Connection \<Rightarrow> u32 \<Rightarrow> NetworkNodeOverlay option service" where
  "mpOverlay conn connIndex =
    (if conn_NetworkNodeOverlayName conn = '''' then rret None
     else
       rbind svc_name (\<lambda>name.
       rbind (rread (\<lambda>(_, s). Overlay_HandleCRUDOperationR (conn_NetworkNodeOverlayName conn) s)) (\<lambda>ov.
       case ov of
         None \<Rightarrow> svc_fail (concat [''network-service: '', name, '', conn: '', decU (connIndex + 1),
           '', referencing a missing overlay: '', conn_NetworkNodeOverlayName conn])
       | Some nno \<Rightarrow> rret (Some nno))))"

definition resolveMP :: "string \<Rightarrow> Connection \<Rightarrow> u32 \<Rightarrow> (mp_vars \<times> NetworkNodeOverlay option) service" where
  "resolveMP same conn connIndex =
    rbind (rfold (List.enumerate 0 (conn_PodInterfaces conn)) mp_init mpPod) (\<lambda>v1.
    rbind (rfold (conn_NodeInterfaces conn) v1 mpNode) (\<lambda>v2.
    rbind svc_name (\<lambda>name.
    if \<not> mp_allPodsAssignedToNodes v2 then
      svc_fail (concat [''network-service: '', name, '', not all network pods in this connection are mapped to nodes''])
    else
      rbind (mpOverlay conn connIndex) (\<lambda>nno.
      rbind (mpLabels same (conn_NodeInterfaceLabels conn) v2) (\<lambda>v3. rret (v3, nno))))))"

definition mpNodesDiffer :: "mp_vars \<Rightarrow> unit service" where
  "mpNodesDiffer v =
    rbind svc_name (\<lambda>name. rbind (rnth (mp_p2nArray v) 0) (\<lambda>p0. rbind (rnth (mp_p2nArray v) 1) (\<lambda>p1.
      svc_fail (concat [''network service: '', name, '', nodes '', pnm_Node p0, ''/'', pnm_Node p1, '' must be the same'']))))"

definition hubAndSpokeVxlan :: "NetworkNodeOverlay option \<Rightarrow> NetworkNodeOverlay option service" where
  "hubAndSpokeVxlan nno =
    (case nno of
       None \<Rightarrow> rret None
     | Some ov \<Rightarrow> rbind (rderef (nno_Spec ov)) (\<lambda>spec.
         rret (if nno_ServiceMeshType spec = NetworkNodeOverlayTypeHubAndSpoke
             \<and> nno_ConnectionType spec = NetworkNodeOverlayConnectionTypeVxlan then Some ov else None)))"

text \<open>The overlays of a connection between nodes: a nil overlay is dereferenced.\<close>

definition mpBetweenNodes ::
  "NetworkNodeOverlay option \<Rightarrow> u32 \<Rightarrow> (NetworkNodeOverlay \<Rightarrow> unit service) \<Rightarrow> (NetworkNodeOverlay \<Rightarrow> unit service)
    \<Rightarrow> unit service" where
  "mpBetweenNodes nno connIndex mesh hub =
    rbind (rderef nno) (\<lambda>ov.
    rbind (rderef (nno_Spec ov)) (\<lambda>spec.
    if nno_ConnectionType spec = NetworkNodeOverlayConnectionTypeVxlan then
      (if nno_ServiceMeshType spec = NetworkNodeOverlayTypeMesh then mesh ov
       else if nno_ServiceMeshType spec = NetworkNodeOverlayTypeHubAndSpoke then hub ov
       else rret ())
    else
      rbind svc_name (\<lambda>name. rbind (rderef (nno_Metadata ov)) (\<lambda>omd.
        svc_fail (concat [''network-service: '', name, '', conn: '', decU (connIndex + 1), '', node overlay: '',
          md_Name omd, '' type not implemented''])))))"

section \<open>L2 multi-point\<close>

definition renderConnL2MPSameVnf :: "Connection \<Rightarrow> u32 \<Rightarrow> mp_vars \<Rightarrow> unit service" where
  "renderConnL2MPSameVnf conn connIndex v =
    rbind (rnth (mp_p2nArray v) 0) (\<lambda>p0.
      RenderNetworkPodL2BD conn connIndex (pnm_Pod p0)
        (map (\<lambda>i. bdIf (if_Name i) 0) (mp_netPodInterfaces v)))"

definition renderConnL2MPSameNode ::
  "Connection \<Rightarrow> u32 \<Rightarrow> mp_vars \<Rightarrow> NetworkNodeOverlay option \<Rightarrow> unit service" where
  "renderConnL2MPSameNode conn connIndex v nno =
    rbind (rnth (mp_p2nArray v) 0) (\<lambda>p0.
    let nodeName = pnm_Node p0 in
    rbind (rfold [0..<length (mp_netPodInterfaces v)] [] (\<lambda>i m.
        rbind (rnth (mp_netPodInterfaces v) i) (\<lambda>iface.
        rbind (rnth (mp_networkPodTypes v) i) (\<lambda>t.
        rbind (RenderConnInterfacePair nodeName conn iface t) (\<lambda>(ifName, _).
        rret (addIf nodeName (bdIf ifName 0) m))))))
      (\<lambda>l2bdIFs. rbind (hubAndSpokeVxlan nno) (\<lambda>h.
        case h of
          Some ov \<Rightarrow> renderConnL2MPVxlanHubAndSpoke ov conn connIndex [(nodeName, True)] l2bdIFs
        | None \<Rightarrow> RenderL2BD conn connIndex nodeName (ifsOf nodeName l2bdIFs))))"

definition renderConnL2MPInterNode ::
  "Connection \<Rightarrow> u32 \<Rightarrow> mp_vars \<Rightarrow> NetworkNodeOverlay option \<Rightarrow> unit service" where
  "renderConnL2MPInterNode conn connIndex v nno =
    rbind (rfold [0..<length (mp_netPodInterfaces v)] [] (\<lambda>i m.
        rbind (rnth (mp_p2nArray v) i) (\<lambda>p2n.
        rbind (rnth (mp_netPodInterfaces v) i) (\<lambda>iface.
        rbind (rnth (mp_networkPodTypes v) i) (\<lambda>t.
        rbind (RenderConnInterfacePair (pnm_Node p2n) conn iface t) (\<lambda>(ifName, _).
        rret (addIf (pnm_Node p2n) (bdIf ifName 0) m)))))))
      (\<lambda>l2bdIFs. mpBetweenNodes nno connIndex
        (\<lambda>ov. renderConnL2MPVxlanMesh ov conn connIndex (mp_nodeMap v) l2bdIFs)
        (\<lambda>ov. renderConnL2MPVxlanHubAndSpoke ov conn connIndex (mp_nodeMap v) l2bdIFs))"

definition RenderConnL2MP :: "Connection \<Rightarrow> u32 \<Rightarrow> unit service" where
  "RenderConnL2MP conn connIndex =
    rbind (resolveMP ''same'' conn connIndex) (\<lambda>(v, nno).
    if length (mp_vnfMap v) = 1 \<and> mp_allInterfacesAssignedToSameVnf v then renderConnL2MPSameVnf conn connIndex v
    else if length (mp_nodeMap v) = 1 then renderConnL2MPSameNode conn connIndex v nno
    else if mp_staticNodes v then mpNodesDiffer v
    else renderConnL2MPInterNode conn connIndex v nno)"

section \<open>L3 multi-point\<close>

text \<open>The status of an interface rendered for a layer 3 connection is dereferenced, and so is its
  first address for the arp entry.\<close>

definition svc_interfaceArp :: "string \<Rightarrow> InterfaceStatus \<Rightarrow> string \<Rightarrow> unit service" where
  "svc_interfaceArp node ifStatus ifName =
    rbind (rnth (ist_IpAddresses ifStatus) 0) (\<lambda>a.
      svc_addEntry (ConstructStaticArpEntry node
        \<lparr>arp_IpAddress = StripSlashAndSubnetIPAddress a, arp_PhysAddress = ist_MacAddress ifStatus,
         arp_OutgoingInterface = ifName\<rparr>))"

definition renderConnL3MPSameNode ::
  "Connection \<Rightarrow> u32 \<Rightarrow> mp_vars \<Rightarrow> NetworkNodeOverlay option \<Rightarrow> unit service" where
  "renderConnL3MPSameNode conn0 connIndex v nno =
    rbind (rnth (mp_p2nArray v) 0) (\<lambda>p0.
    let nodeName = pnm_Node p0 in
    rbind (connWithVrf conn0 connIndex) (\<lambda>conn.
    rbind (rfold [0..<length (mp_netPodInterfaces v)] [] (\<lambda>i m.
        rbind (rnth (mp_netPodInterfaces v) i) (\<lambda>iface.
        rbind (rnth (mp_networkPodTypes v) i) (\<lambda>t.
        rbind (RenderConnInterfacePair nodeName conn iface t) (\<lambda>(ifName, ifStatus).
        rbind (rderef ifStatus) (\<lambda>st.
        rbind (svc_interfaceRoute ''L3MP'' conn connIndex st ifName) (\<lambda>r.
        rseq (svc_addRoute nodeName r)
        (rseq (svc_interfaceArp nodeName st ifName)
        (rret (addIf nodeName (bdIf ifName 0) m))))))))))
      (\<lambda>l2bdIFs. rbind (hubAndSpokeVxlan nno) (\<lambda>h.
        case h of
          Some ov \<Rightarrow> renderConnL2MPVxlanHubAndSpoke ov conn connIndex [(nodeName, True)] l2bdIFs
        | None \<Rightarrow> rret ()))))"

definition renderConnL3MPInterNode ::
  "Connection \<Rightarrow> u32 \<Rightarrow> mp_vars \<Rightarrow> NetworkNodeOverlay option \<Rightarrow> unit service" where
  "renderConnL3MPInterNode conn0 connIndex v nno =
    rbind (connWithVrf conn0 connIndex) (\<lambda>conn.
    rbind (rfold [0..<length (mp_netPodInterfaces v)] ([], []) (\<lambda>i (l3vrfs, m).
        rbind (rnth (mp_p2nArray v) i) (\<lambda>p2n.
        rbind (rnth (mp_netPodInterfaces v) i) (\<lambda>iface.
        rbind (rnth (mp_networkPodTypes v) i) (\<lambda>t.
        rbind (RenderConnInterfacePair (pnm_Node p2n) conn iface t) (\<lambda>(ifName, ifStatus).
        rbind (rderef ifStatus) (\<lambda>st.
        rbind (svc_interfaceRoute ''L3MP'' conn connIndex st ifName) (\<lambda>r.
        rseq (svc_interfaceArp (pnm_Node p2n) st ifName)
        (rret (case r of None \<Rightarrow> l3vrfs | Some l3sr \<Rightarrow> addIf (pnm_Node p2n) l3sr l3vrfs,
          addIf (pnm_Node p2n) (bdIf ifName 0) m))))))))))
      (\<lambda>(l3vrfs, l2bdIFs). mpBetweenNodes nno connIndex
        (\<lambda>ov. renderConnL3MPVxlanMesh ov conn connIndex (mp_nodeMap v) l3vrfs l2bdIFs)
        (\<lambda>ov. renderConnL2MPVxlanHubAndSpoke ov conn connIndex (mp_nodeMap v) l2bdIFs)))"

definition RenderConnL3MP :: "Connection \<Rightarrow> u32 \<Rightarrow> unit service" where
  "RenderConnL3MP conn connIndex =
    rbind (resolveMP ''smae'' conn connIndex) (\<lambda>(v, nno).
    if length (mp_nodeMap v) = 1 then renderConnL3MPSameNode conn connIndex v nno
    else if mp_staticNodes v then mpNodesDiffer v
    else renderConnL3MPInterNode conn connIndex v nno)"

end
