(* ===== verification/ServiceRender.thy ===== *)
theory ServiceRender
  imports Connections
begin

text \<open>
  Rendering a network service: \<open>renderConnectionSegments\<close>, \<open>renderConfig\<close>, \<open>renderComplete\<close> and
  \<open>RenderAll\<close> of \<open>networkservice.go\<close>.  The two deferred calls of \<open>renderConfig\<close> run in reverse order:
  first \<open>renderComplete\<close>, if it was deferred, then \<open>RenderTxnConfigEntityEnd\<close>.
\<close>

section \<open>Model\<close>

definition renderConnectionSegments :: "Connection \<Rightarrow> u32 \<Rightarrow> unit service" where
  "renderConnectionSegments conn i =
    (if conn_ConnType conn = ConnTypeL2PP then RenderConnL2PP conn i
     else if conn_ConnType conn = ConnTypeL2MP then RenderConnL2MP conn i
     else if conn_ConnType conn = ConnTypeL3PP then RenderConnL3PP conn i
     else if conn_ConnType conn = ConnTypeL3MP then RenderConnL3MP conn i
     else rret ())"

definition NetworkService_renderComplete :: "NetworkService \<Rightarrow> Plugin \<Rightarrow> (NetworkService \<times> Plugin) option" where
  "NetworkService_renderComplete ns s =
    do {
      st \<leftarrow> ns_Status ns;
      let (st1, s1) =
        (if nss_Msg st = [] then (st\<lparr>nss_Msg := nss_Msg st @ [''OK''], nss_OperStatus := OperStatusUp\<rparr>, s)
         else (st\<lparr>nss_RenderedVppAgentEntries := None, nss_OperStatus := OperStatusDown\<rparr>,
           RenderTxnConfigEntityRemoveEntries s));
      let ns1 = ns\<lparr>ns_Status := Some st1\<rparr>;
      (_, s2) \<leftarrow> NetworkService_writeToDatastore ns1 s1;
      Some (ns1, s2)
    }"

definition emptyServiceStatus :: NetworkServiceStatus where
  "emptyServiceStatus = \<lparr>nss_OperStatus = '''', nss_Msg = [],
     nss_RenderedVppAgentEntries = Some [], nss_Interfaces = Some []\<rparr>"

text \<open>The body of \<open>renderConfig\<close> between its two deferred calls.\<close>

definition service_renderBody :: "NetworkServiceSpec \<Rightarrow> unit service" where
  "service_renderBody spec = rfor (List.enumerate 0 (nsp_Connections spec))
    (\<lambda>(i, conn). renderConnectionSegments conn (word_of_nat i))"

definition NetworkService_renderConfig ::
  "NetworkService \<Rightarrow> Plugin \<Rightarrow> ((err option \<times> NetworkService) \<times> Plugin) option" where
  "NetworkService_renderConfig ns s =
    do {
      let s1 = RenderTxnConfigEntityStart s;
      err \<leftarrow> NetworkService_validate ns s1;
      if err \<noteq> None then do {
        s2 \<leftarrow> RenderTxnConfigEntityEnd s1;
        Some ((err, ns), s2)
      }
      else do {
        spec \<leftarrow> ns_Spec ns;
        (r, (ns1, s2)) \<leftarrow> service_renderBody spec (ns\<lparr>ns_Status := Some emptyServiceStatus\<rparr>, s1);
        (ns2, s3) \<leftarrow> NetworkService_renderComplete ns1 s2;
        s4 \<leftarrow> RenderTxnConfigEntityEnd s3;
        Some ((case r of Inl e \<Rightarrow> Some e | Inr _ \<Rightarrow> None, ns2), s4)
      }
    }"

definition NetworkService_RenderAll :: "Plugin \<Rightarrow> Plugin option" where
  "NetworkService_RenderAll s =
    foldM (\<lambda>(k, _) s. do {
      ns \<leftarrow> map_of (networkServiceCache s) k;
      ((_, ns'), s') \<leftarrow> NetworkService_renderConfig ns s;
      Some (s'\<lparr>networkServiceCache := gput k ns' (networkServiceCache s')\<rparr>)
    }) (networkServiceCache s) s"

end
