(* ===== verification/RenderInv.thy ===== *)
theory RenderInv
  imports Overlays
begin

text \<open>
  What rendering an entity does to the controller's state.  Inside a transaction a renderer may only
  add entries to the level of its entity; everything else it does, such as allocating addresses and
  storing statuses, leaves the transaction alone (\<open>quiet\<close>).  The entries it has added are exactly the
  ones recorded in the status of the entity (\<open>records\<close>).  The theory has the frame lemmas of the
  operations the renderers call, the invariant of an open entity, and the outcome of rendering a
  node.
\<close>

section \<open>Frames\<close>

text \<open>Keys of the controller itself, as opposed to those of vpp agents.\<close>

definition own_key :: "string \<Rightarrow> bool" where
  "own_key k \<longleftrightarrow> take (length SfcControllerPrefix) k = SfcControllerPrefix"

fun own_op :: "db_op \<Rightarrow> bool" where
  "own_op (DbPut k v) = own_key k"
| "own_op (DbDelete k) = own_key k"
| "own_op (DbDeletePrefix p) = own_key p"
| "own_op (DbGet k) = True"
| "own_op (DbList k) = True"

definition txn_view :: "Plugin \<Rightarrow> KVType gomap \<times> level_maps \<times> level_maps \<times> int \<times> bool" where
  "txn_view s = (rc_VppEntries s, beforeMap s, afterMap s, txnLevel s, configLocked s)"

definition node_status :: "Plugin \<Rightarrow> string \<Rightarrow> NetworkNodeStatus option option" where
  "node_status s = (\<lambda>k. map_option nn_Status (map_of (networkNodeCache s) k))"

text \<open>A service that uses a bridge domain of a node appends to the entry object the node has rendered, and
  that object may be a cached one.  Apart from bridge domains the entry cache is as it was.\<close>

definition same_but_bds :: "KVType gomap \<Rightarrow> KVType gomap \<Rightarrow> bool" where
  "same_but_bds es es' \<longleftrightarrow> (\<forall>k kv'. map_of es' k = Some kv' \<longrightarrow> VppEntryType kv' \<noteq> VppEntryTypeL2BD \<longrightarrow>
    (\<exists>kv. map_of es k = Some kv \<and> VppEntryType kv = VppEntryType kv' \<and> payload kv = payload kv'))"

lemma same_but_bds_refl [simp]: "same_but_bds es es"
  by (simp add: same_but_bds_def)

lemma same_but_bds_trans: "same_but_bds es es' \<Longrightarrow> same_but_bds es' es'' \<Longrightarrow> same_but_bds es es''"
  unfolding same_but_bds_def by metis

lemma same_but_bds_put:
  assumes "map_of es k = Some kv"
  shows "same_but_bds es (gput k (kv\<lparr>kv_L2BD := bd\<rparr>) es)"
  using assms by (auto simp: same_but_bds_def payload_def)

text \<open>The state outside the transaction: the bridge domains aside the entry cache, the cache of services and the statuses of nodes are as
  they were, and etcd has only seen operations on the controller's own keys.\<close>

definition beside :: "Plugin \<Rightarrow> Plugin \<Rightarrow> bool" where
  "beside s s' \<longleftrightarrow> db_env s' = db_env s \<and> same_but_bds (rc_VppEntries s) (rc_VppEntries s')
    \<and> networkServiceCache s' = networkServiceCache s
    \<and> node_status s' = node_status s \<and> gkeys (networkNodeCache s') = gkeys (networkNodeCache s)
    \<and> (\<exists>ops. db_log s' = db_log s @ ops \<and> list_all own_op ops)"

definition quiet :: "Plugin \<Rightarrow> Plugin \<Rightarrow> bool" where
  "quiet s s' \<longleftrightarrow> txn_view s' = txn_view s \<and> beside s s'"

lemma beside_refl [simp]: "beside s s"
  by (simp add: beside_def)

lemma beside_trans: "beside s s' \<Longrightarrow> beside s' s'' \<Longrightarrow> beside s s''"
  by (auto simp: beside_def intro: same_but_bds_trans)

lemma quiet_refl [simp]: "quiet s s"
  by (simp add: quiet_def)

lemma quiet_trans: "quiet s s' \<Longrightarrow> quiet s' s'' \<Longrightarrow> quiet s s''"
  by (auto simp: quiet_def intro: beside_trans)

text \<open>A state that differs only in fields nobody looks at.\<close>

definition render_view where
  "render_view s = (txn_view s, db_env s, networkServiceCache s, networkNodeCache s, db_log s)"

lemma render_view_quiet: "render_view s' = render_view s \<Longrightarrow> quiet s s'"
  by (simp add: render_view_def txn_view_def quiet_def beside_def node_status_def fun_eq_iff)

lemma own_prefixes [simp]:
  "own_key (SfcControllerConfigPrefix @ k)" "own_key (SfcControllerStatusPrefix @ k)"
  by (simp_all add: own_key_def SfcControllerConfigPrefix_def SfcControllerStatusPrefix_def)

lemma same_but_ipam_view: "same_but_ipam s s' \<Longrightarrow> render_view s' = render_view s"
  by (auto simp: same_but_ipam_def render_view_def txn_view_def)

lemma initMacAddress_view: "initMacAddress i st s = (st1, s1) \<Longrightarrow> render_view s1 = render_view s"
  by (auto simp: initMacAddress_def Let_def render_view_def txn_view_def split: if_splits prod.splits)

lemma InitInterfaceStatus_view:
  assumes "InitInterfaceStatus entityName vppAgent i s = Some (r, s')"
  shows "render_view s' = render_view s"
proof -
  have core: "render_view s2 = render_view s"
    if "initInterfaceStatusCore entityName vppAgent i st0 s = Some ((err, st), s2)" for err st st0 s2
  proof -
    obtain st1 s1 where mac: "initMacAddress i st0 s = (st1, s1)" by fastforce
    show ?thesis
      using same_but_ipam_view [OF initInterfaceStatusCore_facts(1) [OF that mac]] initMacAddress_view [OF mac] by simp
  qed
  show ?thesis
    using assms
    by (auto simp: InitInterfaceStatus_def Let_def split: option.splits Option.bind_splits dest!: core)
      (simp add: render_view_def txn_view_def)
qed

lemma InitInterfaceStatus_quiet: "InitInterfaceStatus entityName vppAgent i s = Some (r, s') \<Longrightarrow> quiet s s'"
  by (intro render_view_quiet InitInterfaceStatus_view)

lemma PersistInterfaceStatus_quiet:
  "PersistInterfaceStatus m st podName ifName s = Some (m', s') \<Longrightarrow> quiet s s'"
  by (auto simp: PersistInterfaceStatus_def WriteToDatastore_def Let_def quiet_def txn_view_def beside_def
    node_status_def InterfaceStatusKeyPrefix_def split: Option.bind_splits)

lemma RemoveInterfaceStatus_quiet:
  "RemoveInterfaceStatus m podName ifName s = (m', s') \<Longrightarrow> quiet s s'"
  by (auto simp: RemoveInterfaceStatus_def DeleteFromDatastore_def Let_def quiet_def txn_view_def beside_def
    node_status_def InterfaceStatusKeyPrefix_def)

lemma AllocateVxlanAddress_quiet:
  "AllocateVxlanAddress poolName nodeName label s = Some (r, s') \<Longrightarrow> quiet s s'"
  by (rule render_view_quiet)
    (auto simp: AllocateVxlanAddress_def render_view_def txn_view_def Let_def
      split: if_splits option.splits Option.bind_splits sum.splits)

lemma overlayAllocateVni_quiet: "overlayAllocateVni name s = Some (r, s') \<Longrightarrow> quiet s s'"
  by (rule render_view_quiet)
    (auto simp: overlayAllocateVni_def render_view_def txn_view_def Let_def split: option.splits Option.bind_splits)

section \<open>An open entity\<close>

definition txn_base :: "Plugin \<Rightarrow> bool" where
  "txn_base s \<longleftrightarrow> txn_ready s \<and> configLocked s \<and> map_of (afterMap s) 0 \<noteq> None"

definition txn_idle :: "Plugin \<Rightarrow> bool" where
  "txn_idle s \<longleftrightarrow> txn_base s \<and> txnLevel s = 0"

definition txn_entity :: "Plugin \<Rightarrow> bool" where
  "txn_entity s \<longleftrightarrow> txn_base s \<and> txnLevel s = 1 \<and> map_of (afterMap s) 1 \<noteq> None
    \<and> entries_ok (levelGet (afterMap s) 1)"

text \<open>The keys rendered so far by the finished entities and by the open one.\<close>

abbreviation done_keys :: "Plugin \<Rightarrow> string set" where
  "done_keys s \<equiv> dom (map_of (levelGet (afterMap s) 0))"

abbreviation entity_keys :: "Plugin \<Rightarrow> string set" where
  "entity_keys s \<equiv> dom (map_of (levelGet (afterMap s) 1))"

text \<open>A status section that lists exactly a set of keys.\<close>

definition records :: "RenderedVppAgentEntry gomap option \<Rightarrow> string set \<Rightarrow> bool" where
  "records re K \<longleftrightarrow> (\<exists>m. re = Some m \<and> distinct (gkeys m) \<and> dom (map_of m) = K
    \<and> (\<forall>k e. map_of m k = Some e \<longrightarrow> rve_VppAgentKey e = k))"

lemma txn_view_cong:
  assumes "txn_view s' = txn_view s"
  shows "txn_entity s' = txn_entity s" "txn_idle s' = txn_idle s"
    "done_keys s' = done_keys s" "entity_keys s' = entity_keys s"
  using assms
  by (simp_all add: txn_view_def txn_entity_def txn_idle_def txn_base_def txn_ready_def)

text \<open>What a renderer keeps while its entity is open; \<open>s0\<close> is the state when it was opened.\<close>

definition entity_inv :: "Plugin \<Rightarrow> Plugin \<Rightarrow> bool" where
  "entity_inv s0 s \<longleftrightarrow> txn_entity s \<and> beside s0 s \<and> done_keys s = done_keys s0"

lemma entity_inv_quiet: "entity_inv s0 s \<Longrightarrow> quiet s s' \<Longrightarrow> entity_inv s0 s' \<and> entity_keys s' = entity_keys s"
  using txn_view_cong [of s' s] beside_trans [of s0 s s'] by (auto simp: entity_inv_def quiet_def)

lemma entries_ok_gput:
  assumes "entries_ok es" "k = VppKey kv" "kv_wf kv"
  shows "entries_ok (gput k kv es)"
proof (rule entries_okI)
  show "distinct (gkeys (gput k kv es))" using assms(1) by (simp add: entries_ok_def distinct_update)
  fix k' kv' assume "map_of (gput k kv es) k' = Some kv'"
  then show "VppKey kv' = k' \<and> kv_wf kv'"
    using assms entries_okD [OF assms(1)] by (auto split: if_splits)
qed

lemma AddVppEntry_entity:
  assumes run: "RenderTxnAddVppEntryToTxn re e kv s = Some (re', s')"
    and inv: "entity_inv s0 s" and wf: "kv_wf kv" and rec: "records re K" "entity_keys s = K \<union> K0"
  shows "entity_inv s0 s' \<and> (\<exists>K'. records re' K' \<and> entity_keys s' = K' \<union> K0)"
proof -
  have lvl: "txnLevel s = 1" "entries_ok (levelGet (afterMap s) 1)" using inv by (simp_all add: entity_inv_def txn_entity_def)
  obtain m where m: "re = Some m" "distinct (gkeys m)" "dom (map_of m) = K" "\<forall>k e. map_of m k = Some e \<longrightarrow> rve_VppAgentKey e = k"
    using rec(1) by (auto simp: records_def)
  have s': "s' = s\<lparr>afterMap := AList.update 1 (gput (VppKey kv) kv (levelGet (afterMap s) 1)) (afterMap s)\<rparr>"
    and re': "re' = (if VppKey kv \<in> entity_keys s then re
      else Some (gput (VppKey kv) \<lparr>rve_VppAgentKey = VppKey kv, rve_VppAgentType = VppEntryType kv\<rparr> m))"
    using run lvl(1) m(1)
    by (auto simp: RenderTxnAddVppEntryToTxn_def dest!: levelPut_SomeD split: Option.bind_splits if_splits)
  have "entity_inv s0 s'"
    using inv wf lvl(2) unfolding s' entity_inv_def txn_entity_def txn_base_def txn_ready_def
    by (auto simp: entries_ok_gput update_conv' beside_def node_status_def)
  moreover have "entity_keys s' = insert (VppKey kv) (entity_keys s)" by (simp add: s')
  moreover have "records re' (if VppKey kv \<in> entity_keys s then K else insert (VppKey kv) K)"
    using m unfolding re' by (auto simp: records_def distinct_update)
  ultimately show ?thesis
    using rec(2) by (intro conjI exI [of _ "if VppKey kv \<in> entity_keys s then K else insert (VppKey kv) K"]) auto
qed

lemma AddVppEntry_records:
  assumes "RenderTxnAddVppEntryToTxn re e kv s = Some (re', s')"
    and "entity_inv s0 s" "records re (entity_keys s)" "kv_wf kv"
  shows "entity_inv s0 s' \<and> records re' (entity_keys s')"
  using AddVppEntry_entity [OF assms(1,2,4,3), of "{}"] by auto

text \<open>The loops over routes of a tunnel's end point.\<close>

definition endpoint_inv ::
  "Plugin \<Rightarrow> string set \<Rightarrow> RenderedVppAgentEntry gomap option \<times> Plugin \<Rightarrow> bool" where
  "endpoint_inv s0 K0 = (\<lambda>(re, s). entity_inv s0 s \<and> (\<exists>K. records re K \<and> entity_keys s = K \<union> K0))"

lemma endpoint_inv_entry:
  assumes "RenderTxnAddVppEntryToTxn re e kv s = Some \<sigma>" "endpoint_inv s0 K0 (re, s)" "kv_wf kv"
  shows "endpoint_inv s0 K0 \<sigma>"
  using assms AddVppEntry_entity by (cases \<sigma>) (fastforce simp: endpoint_inv_def)

lemma RenderVxlan_entity:
  assumes run: "RenderVxlanLoopbackInterfaceAndStaticRoutes e fromNode toNode vrf a1 a2 mkIf mkRoutes label s = Some \<sigma>"
    and inv: "entity_inv s0 s"
  shows "endpoint_inv s0 (entity_keys s) \<sigma>"
proof -
  let ?I = "endpoint_inv s0 (entity_keys s)"
  have start: "?I (Some [], s)" using inv by (simp add: endpoint_inv_def records_def)
  obtain \<sigma>1 where l: "(if mkIf then renderVxlanLoopback e fromNode (StripSlashAndSubnetIPAddress a1) s
      else Some (Some [], s)) = Some \<sigma>1"
    using run by (auto simp: RenderVxlanLoopbackInterfaceAndStaticRoutes_def Let_def split: Option.bind_splits)
  have i1: "?I \<sigma>1"
    using l start
    by (auto simp: renderVxlanLoopback_def split: if_splits Option.bind_splits intro: endpoint_inv_entry [OF _ start])
  have route: "?I \<sigma>3" if "?I \<sigma>2" "renderVxlanRoute e fromNode toNode vrf ad n1 if1 if2 \<sigma>2 = Some \<sigma>3"
    for ad n1 if1 if2 \<sigma>2 \<sigma>3
    using that by (cases \<sigma>2) (auto simp: renderVxlanRoute_def split: Option.bind_splits
      intro: endpoint_inv_entry construct_wf(7))
  have routes: "?I \<sigma>3" if "?I \<sigma>2" "renderVxlanRoutes e fromNode toNode vrf ad label n1 if1 \<sigma>2 = Some \<sigma>3"
    for ad n1 if1 \<sigma>2 \<sigma>3
    using that
    by (auto simp: renderVxlanRoutes_def split: Option.bind_splits intro: route elim!: foldM_invariant [where P = ?I])
  show ?thesis
    using run l i1
    by (auto simp: RenderVxlanLoopbackInterfaceAndStaticRoutes_def Let_def split: if_splits Option.bind_splits
      intro: routes elim!: foldM_invariant [where P = ?I])
qed

section \<open>Opening and closing an entity\<close>

lemma EntityStart_inv:
  assumes "txn_idle s"
  shows "entity_inv s (RenderTxnConfigEntityStart s)" "entity_keys (RenderTxnConfigEntityStart s) = {}"
  using assms
  by (auto simp: RenderTxnConfigEntityStart_def initLevelMap_def Let_def entity_inv_def txn_entity_def txn_idle_def
    txn_base_def txn_ready_def beside_def node_status_def update_conv' entries_ok_def)

lemma RemoveEntries_inv:
  assumes "entity_inv s0 s"
  shows "entity_inv s0 (RenderTxnConfigEntityRemoveEntries s)" "entity_keys (RenderTxnConfigEntityRemoveEntries s) = {}"
  using assms
  by (auto simp: RenderTxnConfigEntityRemoveEntries_def entity_inv_def txn_entity_def txn_base_def txn_ready_def
    beside_def node_status_def update_conv' entries_ok_def)

lemma entries_ok_gput_all:
  assumes "entries_ok as" "entries_ok bs"
  shows "entries_ok (gput_all as bs)"
proof (rule entries_okI)
  show "distinct (gkeys (gput_all as bs))" using assms(2) by (simp add: entries_ok_def distinct_gput_all)
  fix k kv assume "map_of (gput_all as bs) k = Some kv"
  then show "VppKey kv = k \<and> kv_wf kv"
    using assms entries_okD [OF assms(1)] entries_okD [OF assms(2)]
    by (auto simp: map_of_gput_all entries_ok_def [of as] map_add_Some_iff)
qed

lemma EntityEnd_inv:
  assumes inv: "entity_inv s0 s"
  obtains s' where "RenderTxnConfigEntityEnd s = Some s'" "txn_idle s'" "beside s0 s'"
    "done_keys s' = done_keys s0 \<union> entity_keys s"
proof -
  have e: "txn_entity s" "beside s0 s" "done_keys s = done_keys s0" using inv by (simp_all add: entity_inv_def)
  then have l: "map_of (afterMap s) 0 \<noteq> None" "txnLevel s = 1" by (simp_all add: txn_entity_def txn_base_def)
  let ?es = "levelGet (afterMap s) 1"
  let ?am = "AList.delete 1 (if ?es = [] then afterMap s
    else AList.update 0 (gput_all ?es (levelGet (afterMap s) 0)) (afterMap s))"
  define s' where "s' = s\<lparr>afterMap := ?am, beforeMap := AList.delete 1 (beforeMap s), txnLevel := 0\<rparr>"
  have run: "RenderTxnConfigEntityEnd s = Some s'"
    using mergeLevel_ok [OF l(1), of ?es] l(2)
    by (simp add: RenderTxnConfigEntityEnd_def removeLevelMap_def Let_def s'_def)
  have ok: "entries_ok ?es" "entries_ok (levelGet (afterMap s) 0)"
    using e(1) by (simp_all add: txn_entity_def txn_base_def txn_ready_def)
  have l0: "levelGet (afterMap s') 0 = gput_all ?es (levelGet (afterMap s) 0)" by (simp add: s'_def)
  have "txn_idle s'"
    using e(1) entries_ok_gput_all [OF ok] l0
    unfolding txn_idle_def txn_base_def txn_ready_def txn_entity_def by (simp add: s'_def update_conv' delete_conv')
  moreover have "beside s0 s'" using e(2) by (simp add: s'_def beside_def node_status_def)
  moreover have "done_keys s' = done_keys s0 \<union> entity_keys s"
    using ok(1) e(3) by (auto simp: l0 map_of_gput_all entries_ok_def)
  ultimately show ?thesis using that run by blast
qed

section \<open>Rendering a node\<close>

definition node_inv :: "Plugin \<Rightarrow> NetworkNode \<Rightarrow> NetworkNode \<times> Plugin \<Rightarrow> bool" where
  "node_inv s0 nn0 = (\<lambda>(nn, s). nn_Metadata nn = nn_Metadata nn0 \<and> nn_Spec nn = nn_Spec nn0 \<and> entity_inv s0 s
    \<and> (\<exists>st. nn_Status nn = Some st \<and> records (nst_RenderedVppAgentEntries st) (entity_keys s)))"

definition node_reports :: "NetworkNode \<times> Plugin \<Rightarrow> bool" where
  "node_reports = (\<lambda>(nn, s). \<exists>st. nn_Status nn = Some st \<and> nst_Msg st \<noteq> [])"

lemma node_addEntry_keeps [render_rules]: "kv_wf kv \<Longrightarrow> rkeeps (node_inv s0 nn0) node_reports (node_addEntry kv)"
  by (rule rkeepsI)
    (auto simp: node_inv_def node_addEntry_def split: Option.bind_splits
      dest!: AddVppEntry_records)

lemma node_initInterface_keeps [render_rules]: "rkeeps (node_inv s0 nn0) node_reports (node_initInterface i)"
proof -
  have q: "node_inv s0 nn0 (nn\<lparr>nn_Status := Some (st\<lparr>nst_Interfaces := m, nst_Msg := msgs\<rparr>)\<rparr>, s')"
    if "node_inv s0 nn0 (nn, s)" "nn_Status nn = Some st" "quiet s s'" for nn st m msgs s s'
    using that entity_inv_quiet [OF _ that(3)] by (auto simp: node_inv_def)
  have p: "node_inv s0 nn0 (nn\<lparr>nn_Status := Some (st\<lparr>nst_Interfaces := m\<rparr>)\<rparr>, s')"
    if "node_inv s0 nn0 (nn, s)" "nn_Status nn = Some st" "quiet s s'" for nn st m s s'
    using that entity_inv_quiet [OF _ that(3)] by (auto simp: node_inv_def)
  show ?thesis
    unfolding rkeeps_def node_initInterface_def node_reports_def
    by (auto split: Option.bind_splits option.splits prod.splits
      dest!: InitInterfaceStatus_quiet PersistInterfaceStatus_quiet RemoveInterfaceStatus_quiet
      intro!: p q intro: quiet_trans)
qed

lemma node_renderBody_keeps: "rkeeps (node_inv s0 nn0) node_reports (node_renderBody spec)"
  unfolding node_renderBody_def renderNodeInterfaces_def renderNodeL2BDs_def node_name_def
  by (intro render_rules) simp_all

lemma NetworkNode_validate_keeps:
  "NetworkNode_validate nn s = Some (err, nn') \<Longrightarrow> nn_Metadata nn' = nn_Metadata nn \<and> nn_Status nn' = nn_Status nn"
  by (auto simp: NetworkNode_validate_def Let_def split: Option.bind_splits prod.splits option.splits if_splits)

text \<open>What a rendered entity's status says: up, and then it lists exactly the entries the entity has
  contributed to the transaction, or down, and then it has contributed none.\<close>

definition outcome ::
  "err option \<Rightarrow> string \<Rightarrow> string list \<Rightarrow> RenderedVppAgentEntry gomap option \<Rightarrow> string set \<Rightarrow> string set \<Rightarrow> bool" where
  "outcome err oper msgs re D D' \<longleftrightarrow>
    oper = OperStatusUp \<and> err = None \<and> msgs = [''OK''] \<and> (\<exists>K. records re K \<and> D' = D \<union> K)
    \<or> oper = OperStatusDown \<and> msgs \<noteq> [] \<and> re = None \<and> D' = D"

lemma outcome_keys: "outcome err oper msgs re D D' \<Longrightarrow> x \<in> D' \<Longrightarrow> x \<notin> D \<Longrightarrow> \<exists>m. re = Some m \<and> x \<in> dom (map_of m)"
  unfolding outcome_def records_def by blast

lemma node_written:
  assumes "NetworkNode_writeToDatastore nn s = Some (e, s')" "entity_inv s0 s"
  shows "entity_inv s0 s'" "entity_keys s' = entity_keys s"
proof -
  have "quiet s s'"
    using assms(1) by (auto simp: NetworkNode_writeToDatastore_def WriteToDatastore_def Let_def quiet_def txn_view_def
      beside_def node_status_def NetworkNode_NameKey_def NetworkNode_KeyPrefix_def split: Option.bind_splits)
  from entity_inv_quiet [OF assms(2) this] show "entity_inv s0 s'" "entity_keys s' = entity_keys s" by simp_all
qed

lemma NetworkNode_renderComplete_outcome:
  assumes run: "NetworkNode_renderComplete nn s = Some (nn', s')"
    and inv: "node_inv s0 nn0 (nn, s)" and rep: "err \<noteq> None \<Longrightarrow> node_reports (nn, s)"
  shows "entity_inv s0 s' \<and> nn_Metadata nn' = nn_Metadata nn0 \<and> (\<exists>st. nn_Status nn' = Some st
    \<and> outcome err (nst_Status st) (nst_Msg st) (nst_RenderedVppAgentEntries st) (done_keys s0)
        (done_keys s0 \<union> entity_keys s'))"
proof -
  obtain st where st: "nn_Status nn = Some st" "records (nst_RenderedVppAgentEntries st) (entity_keys s)"
    and e: "entity_inv s0 s" "nn_Metadata nn = nn_Metadata nn0" using inv by (auto simp: node_inv_def)
  show ?thesis
  proof (cases "nst_Msg st = []")
    case True
    then have err: "err = None" using rep st(1) by (cases err) (auto simp: node_reports_def)
    let ?nn = "nn\<lparr>nn_Status := Some (st\<lparr>nst_Msg := [''OK''], nst_Status := OperStatusUp\<rparr>)\<rparr>"
    obtain w where w: "NetworkNode_writeToDatastore ?nn s = Some (w, s')" "nn' = ?nn"
      using run st(1) True by (auto simp: NetworkNode_renderComplete_def Let_def split: Option.bind_splits)
    show ?thesis using node_written [OF w(1) e(1)] w(2) st(2) e(2) err by (auto simp: outcome_def)
  next
    case False
    let ?nn = "nn\<lparr>nn_Status := Some (st\<lparr>nst_RenderedVppAgentEntries := None, nst_Status := OperStatusDown\<rparr>)\<rparr>"
    obtain w where w: "NetworkNode_writeToDatastore ?nn (RenderTxnConfigEntityRemoveEntries s) = Some (w, s')" "nn' = ?nn"
      using run st(1) False by (auto simp: NetworkNode_renderComplete_def Let_def split: Option.bind_splits)
    show ?thesis
      using node_written [OF w(1) RemoveEntries_inv(1) [OF e(1)]] RemoveEntries_inv(2) [OF e(1)] w(2) e(2) False
      by (auto simp: outcome_def)
  qed
qed

lemma NetworkNode_renderConfig_facts:
  assumes idle: "txn_idle s" and run: "NetworkNode_renderConfig nn s = Some ((err, nn'), s')"
  shows "txn_idle s' \<and> beside s s' \<and> nn_Metadata nn' = nn_Metadata nn
    \<and> (err \<noteq> None \<and> nn_Status nn' = nn_Status nn \<and> done_keys s' = done_keys s
      \<or> (\<exists>st. nn_Status nn' = Some st
          \<and> outcome err (nst_Status st) (nst_Msg st) (nst_RenderedVppAgentEntries st) (done_keys s) (done_keys s')))"
proof -
  define s1 where "s1 = RenderTxnConfigEntityStart s"
  note s1 = EntityStart_inv [OF idle, folded s1_def]
  obtain verr nn1 where v: "NetworkNode_validate nn s1 = Some (verr, nn1)"
    using run by (auto simp: NetworkNode_renderConfig_def s1_def Let_def split: Option.bind_splits)
  note V = NetworkNode_validate_keeps [OF v]
  show ?thesis
  proof (cases "verr = None")
    case False
    then have "RenderTxnConfigEntityEnd s1 = Some s'" "err = verr" "nn' = nn1"
      using run v by (auto simp: NetworkNode_renderConfig_def s1_def Let_def split: Option.bind_splits)
    then show ?thesis using EntityEnd_inv [OF s1(1)] s1(2) V False by (metis Un_empty_right option.inject)
  next
    case True
    then obtain spec r nn3 s2 nn4 s3 where b: "node_renderBody spec (nn1\<lparr>nn_Status := Some (emptyNodeStatus
          \<lparr>nst_RenderedVppAgentEntries := Some [], nst_Interfaces := Some []\<rparr>)\<rparr>, s1) = Some (r, (nn3, s2))"
      "NetworkNode_renderComplete nn3 s2 = Some (nn4, s3)" "RenderTxnConfigEntityEnd s3 = Some s'"
      "err = (case r of Inl e \<Rightarrow> Some e | Inr _ \<Rightarrow> None)" "nn' = nn4"
      using run v by (auto simp: NetworkNode_renderConfig_def s1_def Let_def split: Option.bind_splits)
    have i1: "node_inv s nn1 (nn1\<lparr>nn_Status := Some (emptyNodeStatus
          \<lparr>nst_RenderedVppAgentEntries := Some [], nst_Interfaces := Some []\<rparr>)\<rparr>, s1)"
      using s1 by (simp add: node_inv_def records_def)
    note K = rkeepsD [OF node_renderBody_keeps i1 b(1)]
    have "node_reports (nn3, s2)" if "err \<noteq> None" using K(2) b(4) that by (cases r) auto
    from NetworkNode_renderComplete_outcome [OF b(2) K(1) this] obtain st where c: "entity_inv s s3"
      "nn_Metadata nn4 = nn_Metadata nn1" "nn_Status nn4 = Some st"
      "outcome err (nst_Status st) (nst_Msg st) (nst_RenderedVppAgentEntries st) (done_keys s)
        (done_keys s \<union> entity_keys s3)" by auto
    obtain s4 where "RenderTxnConfigEntityEnd s3 = Some s4" "txn_idle s4" "beside s s4"
      "done_keys s4 = done_keys s \<union> entity_keys s3" by (rule EntityEnd_inv [OF c(1)])
    then show ?thesis using c b(3,5) V by auto
  qed
qed

section \<open>Rendering all nodes\<close>

text \<open>The keys listed by the statuses of some nodes, or services, of a cache.\<close>

definition node_records :: "string set \<Rightarrow> Plugin \<Rightarrow> string set" where
  "node_records N s = {k. \<exists>n \<in> N. \<exists>st m. node_status s n = Some (Some st)
    \<and> nst_RenderedVppAgentEntries st = Some m \<and> k \<in> dom (map_of m)}"

lemma node_records_insert:
  "node_records (insert n N) s = {k. \<exists>st m. node_status s n = Some (Some st)
    \<and> nst_RenderedVppAgentEntries st = Some m \<and> k \<in> dom (map_of m)} \<union> node_records N s"
  by (auto simp: node_records_def)

lemma node_records_beside: "beside s s' \<Longrightarrow> node_records N s' = node_records N s"
  by (simp add: node_records_def beside_def)

lemma txn_idle_nodes [simp]: "txn_idle (s\<lparr>networkNodeCache := c\<rparr>) = txn_idle s"
  by (simp add: txn_idle_def txn_base_def txn_ready_def)

text \<open>What the loops over the entities leave as it was; etcd sees only the controller's own keys.\<close>

definition txn_frame :: "Plugin \<Rightarrow> Plugin \<Rightarrow> bool" where
  "txn_frame s s' \<longleftrightarrow> db_env s' = db_env s \<and> same_but_bds (rc_VppEntries s) (rc_VppEntries s')
    \<and> (distinct (gkeys (networkNodeCache s)) \<longrightarrow> distinct (gkeys (networkNodeCache s')))
    \<and> (distinct (gkeys (networkServiceCache s)) \<longrightarrow> distinct (gkeys (networkServiceCache s')))
    \<and> (\<exists>ops. db_log s' = db_log s @ ops \<and> list_all own_op ops)"

lemma txn_frame_refl [simp]: "txn_frame s s"
  by (simp add: txn_frame_def)

lemma txn_frame_trans: "txn_frame s s' \<Longrightarrow> txn_frame s' s'' \<Longrightarrow> txn_frame s s''"
  by (auto simp: txn_frame_def intro: same_but_bds_trans)

lemma beside_frame:
  assumes "beside s s'"
  shows "txn_frame s (s'\<lparr>networkNodeCache := gput k nn (networkNodeCache s')\<rparr>)"
    and "txn_frame s (s'\<lparr>networkServiceCache := gput k ns (networkServiceCache s')\<rparr>)"
  using assms by (auto simp: beside_def txn_frame_def distinct_update)

definition node_step :: "string \<times> NetworkNode \<Rightarrow> Plugin \<Rightarrow> Plugin option" where
  "node_step = (\<lambda>(k, _) s. do {
      nn \<leftarrow> map_of (networkNodeCache s) k;
      ((_, nn'), s') \<leftarrow> NetworkNode_renderConfig nn s;
      Some (s'\<lparr>networkNodeCache := gput k nn' (networkNodeCache s')\<rparr>)
    })"

lemma node_step_facts:
  assumes idle: "txn_idle s" and run: "node_step (k, x) s = Some s'" and new: "k \<notin> N"
    and cov: "done_keys s \<subseteq> node_records N s"
  shows "txn_idle s' \<and> done_keys s' \<subseteq> node_records (insert k N) s'
    \<and> networkServiceCache s' = networkServiceCache s \<and> txn_frame s s'"
proof -
  obtain nn err nn' s1 where r: "map_of (networkNodeCache s) k = Some nn"
    "NetworkNode_renderConfig nn s = Some ((err, nn'), s1)" "s' = s1\<lparr>networkNodeCache := gput k nn' (networkNodeCache s1)\<rparr>"
    using run by (auto simp: node_step_def split: Option.bind_splits)
  note F = NetworkNode_renderConfig_facts [OF idle r(2)]
  have b: "beside s s1" using F by simp
  have ns: "node_status s' = (node_status s)(k \<mapsto> nn_Status nn')"
    using b by (simp add: r(3) beside_def) (auto simp: node_status_def fun_eq_iff)
  have other: "node_records N s' = node_records N s"
  proof -
    have "node_status s' n = node_status s n" if "n \<in> N" for n using that new by (auto simp: ns)
    then show ?thesis unfolding node_records_def by auto
  qed
  have st: "node_status s' k = Some (nn_Status nn')" by (simp add: ns)
  have "done_keys s' \<subseteq> node_records (insert k N) s'"
  proof -
    have "done_keys s1 \<subseteq> done_keys s \<union> {x. \<exists>st m. nn_Status nn' = Some st
        \<and> nst_RenderedVppAgentEntries st = Some m \<and> x \<in> dom (map_of m)}"
      using F outcome_keys by blast
    moreover have "done_keys s' = done_keys s1" by (simp add: r(3))
    ultimately show ?thesis using cov unfolding node_records_insert other st by simp blast
  qed
  then show ?thesis using F beside_frame(1) [OF b] by (auto simp: r(3) beside_def)
qed

lemma NetworkNode_RenderAll_loop:
  assumes "foldM node_step es s = Some s'" "distinct (gkeys es)" "N \<inter> set (gkeys es) = {}"
    and "txn_idle s" "done_keys s \<subseteq> node_records N s"
  shows "txn_idle s' \<and> done_keys s' \<subseteq> node_records (N \<union> set (gkeys es)) s'
    \<and> networkServiceCache s' = networkServiceCache s \<and> txn_frame s s'"
  using assms
proof (induction es arbitrary: s N)
  case Nil
  then show ?case by simp
next
  case (Cons e es)
  obtain k x where e: "e = (k, x)" by (cases e)
  obtain s1 where s1: "node_step (k, x) s = Some s1" "foldM node_step es s1 = Some s'"
    using Cons.prems(1) by (auto simp: e split: Option.bind_splits)
  have "k \<notin> N" using Cons.prems(3) by (simp add: e)
  note F = node_step_facts [OF Cons.prems(4) s1(1) this Cons.prems(5)]
  have "txn_idle s' \<and> done_keys s' \<subseteq> node_records (insert k N \<union> set (gkeys es)) s'
    \<and> networkServiceCache s' = networkServiceCache s1 \<and> txn_frame s1 s'"
    by (rule Cons.IH [OF s1(2)]) (use Cons.prems(2,3) F e in auto)
  then show ?case using F by (auto simp: e intro: txn_frame_trans)
qed

section \<open>Properties\<close>

text \<open>A node with one ethernet interface, and a transaction that has just started.\<close>

definition demo_interface :: "string \<Rightarrow> Interface" where
  "demo_interface n = \<lparr>if_Name = n, if_BypassRenderer = False, if_IfType = IfTypeEthernet, if_MacAddress = ''00:00:00:00:00:01'',
     if_Mtu = 1500, if_RxMode = '''', if_IpAddresses = [], if_IpamPoolNames = [], if_AdminStatus = '''', if_MemifParms = None,
     if_TapParms = None, if_Labels = [], if_Parent = '''', if_HostPortLabel = '''', if_Fwd = None, if_LinuxNamespace = None,
     if_RxPlacementSettings = None\<rparr>"

definition demo_node :: NetworkNode where
  "demo_node = \<lparr>nn_Metadata = Some \<lparr>md_Name = ''n1'', md_Labels = []\<rparr>,
     nn_Spec = Some \<lparr>nn_K8SNodeName = '''', nn_NodeType = '''', nn_Interfaces = [demo_interface ''i1''], nn_L2Bds = []\<rparr>,
     nn_Status = None\<rparr>"

definition demo_start :: Plugin where
  "demo_start = the (RenderTxnConfigStart (fresh_plugin good_env))"

lemma demo_start_idle: "txn_idle demo_start" "done_keys demo_start = {}"
  by (simp_all add: demo_start_def RenderTxnConfigStart_def fresh_plugin_def initLevelMap_def txn_idle_def txn_base_def
    txn_ready_def levelGet_def entries_ok_def)

text \<open>C8. Rendering a node is all or nothing.  When \<open>renderConfig\<close> returns inside a transaction, the
  transaction is again between two entities and etcd has only seen operations on the controller's own
  keys.  Either the node was refused by validation, its status is the old one and it has contributed
  no entry; or its status is up, says OK and lists exactly the entries the node has contributed; or
  its status is down with a message, lists nothing, and the node has contributed nothing.\<close>

theorem NetworkNode_renderConfig_outcome:
  assumes "txn_idle s" "NetworkNode_renderConfig nn s = Some ((err, nn'), s')"
  shows "txn_idle s' \<and> (\<exists>ops. db_log s' = db_log s @ ops \<and> list_all own_op ops)
    \<and> (err \<noteq> None \<and> nn_Status nn' = nn_Status nn \<and> done_keys s' = done_keys s
      \<or> (\<exists>st. nn_Status nn' = Some st
          \<and> (nst_Status st = OperStatusUp \<and> err = None \<and> nst_Msg st = [''OK'']
              \<and> (\<exists>K. records (nst_RenderedVppAgentEntries st) K \<and> done_keys s' = done_keys s \<union> K)
            \<or> nst_Status st = OperStatusDown \<and> nst_Msg st \<noteq> []
              \<and> nst_RenderedVppAgentEntries st = None \<and> done_keys s' = done_keys s)))"
  using NetworkNode_renderConfig_facts [OF assms] unfolding outcome_def beside_def by blast

theorem NetworkNode_renderConfig_outcome_witness:
  "\<exists>nn' s'. NetworkNode_renderConfig demo_node demo_start = Some ((None, nn'), s') \<and> txn_idle s'
    \<and> nn_Status nn' \<noteq> None"
proof -
  have "(case NetworkNode_renderConfig demo_node demo_start of Some ((None, nn'), s') \<Rightarrow> True | _ \<Rightarrow> False)"
    by code_simp
  then obtain nn' s' where r: "NetworkNode_renderConfig demo_node demo_start = Some ((None, nn'), s')"
    by (auto split: option.splits)
  then show ?thesis using NetworkNode_renderConfig_outcome [OF demo_start_idle(1) r] by auto
qed

end
