(* ===== verification/ServiceInv.thy ===== *)
theory ServiceInv
  imports ServiceRender RenderInv
begin

text \<open>
  Invariants of service rendering.  The locale \<open>service_steps\<close> is the contract between the steps of
  \<open>ServiceSteps\<close> and the renderers composed of them: if every step keeps an invariant \<open>P\<close>, and
  \<open>E\<close> holds wherever a step returns an error, then so does the rendering of a whole service.  It is
  interpreted for the status section of the service and for the transaction.
\<close>

section \<open>The contract of the steps\<close>

lemma kv_wf_withVrf [simp]: "kv_wf (withVrf v kv) = kv_wf kv"
  by (auto simp: kv_wf_def kv_typed_def payload_def withVrf_def)

locale service_steps =
  fixes P E :: "NetworkService \<times> Plugin \<Rightarrow> bool"
  assumes step_msg: "P (ns, s) \<Longrightarrow> NetworkService_AppendStatusMsg m ns = Some ns' \<Longrightarrow> P (ns', s) \<and> E (ns', s)"
    and step_entry: "kv_wf kv \<Longrightarrow> rkeeps P E (svc_addEntry kv)"
    and step_init: "rkeeps P E (svc_initInterface vppAgent iface)"
    and step_persist: "rkeeps P E (svc_persist st podName ifName)"
    and step_memif: "rkeeps P E svc_memifID"
    and step_vrf: "rkeeps P E svc_vrfID"
    and step_setVrf: "rkeeps P E (svc_setConnVrf connIndex vrf)"
    and step_pod: "rkeeps P E (svc_podInterface podName ifName)"
    and step_node: "rkeeps P E (rcall (nodeInterface nodeName ifName))"
    and step_labels: "rkeeps P E (rcall (nodeLabelInterfaces nodeName labels))"
    and step_reset: "rkeeps P E (svc_resetEqualMemifIDs key0 key1)"
    and step_endPoint: "rkeeps P E (svc_vxlanEndPoint fromNode toNode vrf fromAddr toAddr mkIf mkRoutes label)"
    and step_address: "rkeeps P E (rcall (AllocateVxlanAddress poolName nodeName label))"
    and step_vni: "rkeeps P E (rcall (overlayAllocateVni name))"
    and step_bd: "rkeeps P E (rcall (\<lambda>s. Some ((), storeNodeL2BD key bd s)))"
begin

lemmas steps [render_rules] = step_entry step_init step_persist step_memif step_vrf step_setVrf step_pod step_node
  step_labels step_reset step_endPoint step_address step_vni step_bd

lemma keeps_msg [render_rules]: "rkeeps P E (svc_msg m)"
  unfolding rkeeps_def svc_msg_def using step_msg by (auto split: option.splits)

lemma keeps_fail [render_rules]: "rkeeps P E (svc_fail m)"
  unfolding rkeeps_def svc_fail_def using step_msg by (auto split: option.splits)

lemma keeps_name [render_rules]: "rkeeps P E svc_name"
  unfolding svc_name_def by (intro render_rules)

lemma keeps_xconnect [render_rules]: "rkeeps P E (svc_addEntries (ConstructXConnect a i j))"
  unfolding svc_addEntries_def ConstructXConnect_def by (simp, intro render_rules) simp_all

text \<open>Bridge domains.\<close>

lemma keeps_nodeL2BD [render_rules]: "rkeeps P E (svc_nodeL2BD nodeName l2bdName l2bdIFs)"
  unfolding svc_nodeL2BD_def case_prod_unfold by (intro render_rules) (auto dest: construct_wf(7))

lemma keeps_L2BD [render_rules]: "rkeeps P E (RenderL2BD conn connIndex nodeName l2bdIFs)"
  unfolding RenderL2BD_def by (intro render_rules) (auto dest: construct_wf(7))

lemma keeps_podL2BD [render_rules]: "rkeeps P E (RenderNetworkPodL2BD conn connIndex podName l2bdIFs)"
  unfolding RenderNetworkPodL2BD_def by (intro render_rules) (auto dest: construct_wf(7))

text \<open>Interfaces.\<close>

lemma keeps_forwarding [render_rules]: "rkeeps P E (RenderInterfaceForwarding iface)"
  unfolding RenderInterfaceForwarding_def by (intro render_rules) (auto dest: construct_wf(7))

lemma keeps_memifPair [render_rules]: "rkeeps P E (RenderConnMemifPair vppAgent conn iface podType)"
  unfolding RenderConnMemifPair_def svc_mtu_def svc_rxMode_def svc_memifDirectory_def by (intro render_rules) (auto dest: construct_wf(7))

lemma keeps_directMemif [render_rules]: "rkeeps P E (RenderConnDirectInterPodMemifPair if0 if1 podType)"
  unfolding RenderConnDirectInterPodMemifPair_def directMemifEnd_def svc_mtu_def svc_rxMode_def
    svc_memifDirectory_def by (intro render_rules) (auto dest: construct_wf(7))

lemma keeps_tapPair [render_rules]: "rkeeps P E (RenderConnTapPair vppAgent conn iface podType)"
  unfolding RenderConnTapPair_def svc_mtu_def svc_rxMode_def by (intro render_rules) (auto dest: construct_wf(7))

lemma keeps_vethPair [render_rules]: "rkeeps P E (RenderConnVethAfpPair vppAgent conn iface podType)"
  unfolding RenderConnVethAfpPair_def svc_mtu_def svc_rxMode_def by (intro render_rules) (auto dest: construct_wf(7))

lemma keeps_interfacePair [render_rules]: "rkeeps P E (RenderConnInterfacePair vppAgent conn iface podType)"
  unfolding RenderConnInterfacePair_def by (intro render_rules)

text \<open>Tunnels.\<close>

lemma keeps_address [render_rules]: "rkeeps P E (svc_vxlanAddress poolName nodeName label msg)"
  unfolding svc_vxlanAddress_def by (intro render_rules)

lemma keeps_meshTunnel [render_rules]: "rkeeps P E (meshTunnel nno spec connIndex vrf vni fromNode toNode)"
  unfolding meshTunnel_def by (intro render_rules) (auto dest: construct_wf(7))

lemma keeps_l2mpMesh [render_rules]: "rkeeps P E (renderConnL2MPVxlanMesh nno conn connIndex nodeMap ifs)"
  unfolding renderConnL2MPVxlanMesh_def meshVni_def by (intro render_rules)

lemma keeps_l3mpMesh [render_rules]: "rkeeps P E (renderConnL3MPVxlanMesh nno conn connIndex nodeMap l3vrfs ifs)"
  unfolding renderConnL3MPVxlanMesh_def meshVni_def by (intro render_rules) (auto dest: construct_wf(7))

lemma keeps_ppTunnel [render_rules]: "rkeeps P E (ppTunnel nno spec conn connIndex vrf vni p2nArray i)"
  unfolding ppTunnel_def by (intro render_rules) (auto dest: construct_wf(7))

lemma keeps_ppVni [render_rules]: "rkeeps P E (ppVni nno conn connIndex)"
  unfolding ppVni_def by (intro render_rules)

lemma keeps_l2ppMesh [render_rules]: "rkeeps P E (renderConnL2PPVxlanMesh nno conn connIndex p2nArray xconn)"
  unfolding renderConnL2PPVxlanMesh_def by (intro render_rules)

lemma keeps_l3ppMesh [render_rules]: "rkeeps P E (renderConnL3PPVxlanMesh nno conn connIndex ifStatuses p2nArray)"
  unfolding renderConnL3PPVxlanMesh_def by (intro render_rules) (auto dest: construct_wf(7))

lemma keeps_hub [render_rules]: "rkeeps P E (renderConnL2MPVxlanHubAndSpoke nno conn connIndex spokes ifs)"
  unfolding renderConnL2MPVxlanHubAndSpoke_def hubTunnel_def by (intro render_rules) (auto dest: construct_wf(7))

text \<open>Connections.\<close>

lemma keeps_resolvePP [render_rules]: "rkeeps P E (resolvePP kind conn)"
  unfolding resolvePP_def ppPod_def ppNode_def ppLabels_def by (intro render_rules)

lemma keeps_resolveMP [render_rules]: "rkeeps P E (resolveMP same conn connIndex)"
  unfolding resolveMP_def mpPod_def mpNode_def mpLabels_def mpOverlay_def by (intro render_rules)

lemma keeps_ppOverlay [render_rules]: "rkeeps P E mesh \<Longrightarrow> rkeeps P E (ppOverlay kind nno conn connIndex mesh)"
  unfolding ppOverlay_def by (intro render_rules)

lemma keeps_ppDispatch [render_rules]:
  "(\<And>node. rkeeps P E (sameNode node)) \<Longrightarrow> (\<And>nno. rkeeps P E (interNode nno))
    \<Longrightarrow> rkeeps P E (ppDispatch conn v sameNode interNode)"
  unfolding ppDispatch_def by (intro render_rules)

lemma keeps_xconnectPair [render_rules]: "rkeeps P E (xconnectPair vppAgent conn if0 if1 types)"
  unfolding xconnectPair_def by (intro render_rules)

lemma keeps_l2pp [render_rules]: "rkeeps P E (RenderConnL2PP conn connIndex)"
  unfolding RenderConnL2PP_def renderConnL2PPSameNode_def renderConnL2PPSameVnf_def
    renderConnL2PPInterNode_def pp_interfaces_def by (intro render_rules)

lemma keeps_connWithVrf [render_rules]: "rkeeps P E (connWithVrf conn connIndex)"
  unfolding connWithVrf_def by (intro render_rules)

lemma keeps_addRoute [render_rules]: "rkeeps P E (svc_addRoute node r)"
  unfolding svc_addRoute_def by (intro render_rules) (auto dest: construct_wf(7))

lemma keeps_interfaceRoute [render_rules]: "rkeeps P E (svc_interfaceRoute kind conn connIndex st ifName)"
  unfolding svc_interfaceRoute_def by (intro render_rules)

lemma keeps_interfaceArp [render_rules]: "rkeeps P E (svc_interfaceArp node st ifName)"
  unfolding svc_interfaceArp_def by (intro render_rules) (auto dest: construct_wf(7))

lemma keeps_l3pp [render_rules]: "rkeeps P E (RenderConnL3PP conn connIndex)"
  unfolding RenderConnL3PP_def renderConnL3PPSameNode_def renderConnL3PPInterNode_def pp_interfaces_def by (intro render_rules)

lemma keeps_betweenNodes [render_rules]:
  "(\<And>ov. rkeeps P E (mesh ov)) \<Longrightarrow> (\<And>ov. rkeeps P E (hub ov)) \<Longrightarrow> rkeeps P E (mpBetweenNodes nno connIndex mesh hub)"
  unfolding mpBetweenNodes_def by (intro render_rules)

lemma keeps_hubAndSpoke [render_rules]: "rkeeps P E (hubAndSpokeVxlan nno)"
  unfolding hubAndSpokeVxlan_def by (intro render_rules)

lemma keeps_l2mp [render_rules]: "rkeeps P E (RenderConnL2MP conn connIndex)"
  unfolding RenderConnL2MP_def renderConnL2MPSameVnf_def renderConnL2MPSameNode_def
    renderConnL2MPInterNode_def mpNodesDiffer_def by (intro render_rules)

lemma keeps_l3mp [render_rules]: "rkeeps P E (RenderConnL3MP conn connIndex)"
  unfolding RenderConnL3MP_def renderConnL3MPSameNode_def renderConnL3MPInterNode_def
    mpNodesDiffer_def by (intro render_rules)

text \<open>The body of \<open>renderConfig\<close>.\<close>

lemma keeps_body: "rkeeps P E (service_renderBody spec)"
  unfolding service_renderBody_def renderConnectionSegments_def by (intro render_rules)

end

section \<open>The steps keep the transaction and the status\<close>

definition svc_inv :: "Plugin \<Rightarrow> NetworkService \<Rightarrow> NetworkService \<times> Plugin \<Rightarrow> bool" where
  "svc_inv s0 ns0 = (\<lambda>(ns, s). ns_Metadata ns = ns_Metadata ns0 \<and> entity_inv s0 s
    \<and> (\<exists>st. ns_Status ns = Some st \<and> records (nss_RenderedVppAgentEntries st) (entity_keys s)))"

definition svc_reports :: "NetworkService \<times> Plugin \<Rightarrow> bool" where
  "svc_reports = (\<lambda>(ns, s). \<exists>st. ns_Status ns = Some st \<and> nss_Msg st \<noteq> [])"

text \<open>A step that leaves the transaction alone and, of the service, at most fills in other parts of its
  status or changes its specification.\<close>

lemma svc_inv_quiet:
  assumes "svc_inv s0 ns0 (ns, s)" "quiet s s'"
    and "ns_Metadata ns' = ns_Metadata ns"
    and "map_option nss_RenderedVppAgentEntries (ns_Status ns') = map_option nss_RenderedVppAgentEntries (ns_Status ns)"
  shows "svc_inv s0 ns0 (ns', s')"
  using assms entity_inv_quiet [OF _ assms(2)] by (fastforce simp: svc_inv_def map_option_eq_Some)

lemma quiet_rcall:
  assumes "\<And>s x s'. f s = Some (x, s') \<Longrightarrow> quiet s s'"
  shows "rkeeps (svc_inv s0 ns0) E (rcall f)"
  by (rule rkeeps_rcall) (auto intro: svc_inv_quiet assms)

lemma gkeys_gput: "map_of m k \<noteq> None \<Longrightarrow> gkeys (AList.update k v m) = gkeys m"
  by (induction m) auto

lemma updNodeInterfaces_quiet: "quiet s (updNodeInterfaces nodeName f s)"
proof (cases "map_of (networkNodeCache s) nodeName")
  case None
  then show ?thesis by (simp add: updNodeInterfaces_def)
next
  case (Some nn)
  then show ?thesis
    by (auto simp: updNodeInterfaces_def Let_def quiet_def txn_view_def beside_def node_status_def fun_eq_iff
      gkeys_gput split: option.splits)
qed

lemma nodeInterface_quiet: "nodeInterface nodeName ifName s = Some (r, s') \<Longrightarrow> quiet s s'"
  by (auto simp: nodeInterface_def Let_def updNodeInterfaces_quiet split: Option.bind_splits)

lemma nodeLabelInterfaces_quiet: "nodeLabelInterfaces nodeName labels s = Some (r, s') \<Longrightarrow> quiet s s'"
  by (auto simp: nodeLabelInterfaces_def updNodeInterfaces_quiet split: Option.bind_splits)

text \<open>Replacing the bridge domain of an entry, wherever it is kept.\<close>

abbreviation withBD :: "KVType \<Rightarrow> BridgeDomain \<Rightarrow> KVType" where
  "withBD kv bd \<equiv> kv\<lparr>kv_L2BD := Some bd\<rparr>"

lemma withBD_wf: "kv_wf kv \<Longrightarrow> kv_wf (withBD kv bd)"
  by (auto simp: kv_wf_def kv_typed_def payload_def split: if_splits)

lemma entries_ok_withBD:
  "entries_ok es \<Longrightarrow> map_of es key = Some kv \<Longrightarrow> entries_ok (gput key (withBD kv bd) es)"
  by (rule entries_ok_gput) (auto dest: entries_okD intro: withBD_wf)

lemma storeNodeL2BD_inv:
  assumes inv: "entity_inv s0 s"
  shows "entity_inv s0 (storeNodeL2BD key bd s) \<and> entity_keys (storeNodeL2BD key bd s) = entity_keys s"
proof (cases "map_of (levelGet (afterMap s) 0) key")
  case (Some kv)
  then show ?thesis
    using inv entries_ok_withBD [OF _ Some]
    by (auto simp: storeNodeL2BD_def RenderTxnGetAfterMap_def entity_inv_def txn_entity_def txn_base_def txn_ready_def
      update_conv' beside_def node_status_def insert_absorb domI)
next
  case None
  note after = this
  have eq: "map_of (levelGet (beforeMap s) 0) = map_of (rc_VppEntries s)" "entries_ok (levelGet (beforeMap s) 0)"
    using inv by (simp_all add: entity_inv_def txn_entity_def txn_base_def txn_ready_def)
  show ?thesis
  proof (cases "map_of (rc_VppEntries s) key")
    case None
    then show ?thesis using inv after by (simp add: storeNodeL2BD_def RenderTxnGetAfterMap_def)
  next
    case (Some kv)
    then show ?thesis
      using inv after eq(1) entries_ok_withBD [OF eq(2), of key kv bd] same_but_bds_trans [OF _ same_but_bds_put [OF Some]]
      by (auto simp: storeNodeL2BD_def RenderTxnGetAfterMap_def entity_inv_def txn_entity_def txn_base_def txn_ready_def
        distinct_update beside_def node_status_def)
  qed
qed

lemma svc_vxlanEndPoint_keeps:
  "rkeeps (svc_inv s0 ns0) E (svc_vxlanEndPoint fromNode toNode vrf fromAddr toAddr mkIf mkRoutes label)"
proof (rule rkeepsI)
  fix \<sigma> r \<sigma>'
  assume inv: "svc_inv s0 ns0 \<sigma>"
    and run: "svc_vxlanEndPoint fromNode toNode vrf fromAddr toAddr mkIf mkRoutes label \<sigma> = Some (r, \<sigma>')"
  obtain ns s where \<sigma>: "\<sigma> = (ns, s)" by (cases \<sigma>)
  obtain st where st: "ns_Status ns = Some st" "records (nss_RenderedVppAgentEntries st) (entity_keys s)"
    and e: "entity_inv s0 s" "ns_Metadata ns = ns_Metadata ns0" using inv by (auto simp: svc_inv_def \<sigma>)
  obtain re s1 rendered where v: "RenderVxlanLoopbackInterfaceAndStaticRoutes
        (ModelTypeNetworkService @ ''/'' @ md_Name (the (ns_Metadata ns)))
        fromNode toNode vrf fromAddr toAddr mkIf mkRoutes label s = Some (re, s1)"
    "(let new = (case re of Some m \<Rightarrow> m | None \<Rightarrow> []) in if new = [] then Some (nss_RenderedVppAgentEntries st)
         else map_option (\<lambda>m. Some (gput_all new m)) (nss_RenderedVppAgentEntries st)) = Some rendered"
    "\<sigma>' = (ns\<lparr>ns_Status := Some (st\<lparr>nss_RenderedVppAgentEntries := rendered\<rparr>)\<rparr>, s1)"
    using run st(1) by (auto simp: \<sigma> svc_vxlanEndPoint_def Let_def split: Option.bind_splits)
  obtain m K where m: "re = Some m" "dom (map_of m) = K" "entity_keys s1 = K \<union> entity_keys s"
    "\<forall>k e. map_of m k = Some e \<longrightarrow> rve_VppAgentKey e = k" "entity_inv s0 s1" "distinct (gkeys m)"
    using RenderVxlan_entity [OF v(1) e(1)] by (auto simp: endpoint_inv_def records_def)
  obtain m0 where m0: "nss_RenderedVppAgentEntries st = Some m0" "distinct (gkeys m0)" "dom (map_of m0) = entity_keys s"
    "\<forall>k e. map_of m0 k = Some e \<longrightarrow> rve_VppAgentKey e = k" using st(2) by (auto simp: records_def)
  have "rendered = Some (gput_all m m0)" using v(2) m(1) m0(1) by (auto simp: Let_def split: if_splits)
  then have "records rendered (entity_keys s1)"
    using m m0 unfolding records_def by (auto simp: map_of_gput_all distinct_gput_all map_add_Some_iff)
  then show "svc_inv s0 ns0 \<sigma>'" using v(3) e(2) m(5) by (simp add: svc_inv_def)
next
  fix \<sigma> e \<sigma>'
  assume "svc_vxlanEndPoint fromNode toNode vrf fromAddr toAddr mkIf mkRoutes label \<sigma> = Some (Inl e, \<sigma>')"
  then show "E \<sigma>'" by (cases \<sigma>) (auto simp: svc_vxlanEndPoint_def Let_def split: Option.bind_splits)
qed

interpretation svc: service_steps "svc_inv s0 ns0" svc_reports for s0 ns0
proof
  fix ns s m ns' assume "svc_inv s0 ns0 (ns, s)" "NetworkService_AppendStatusMsg m ns = Some ns'"
  then show "svc_inv s0 ns0 (ns', s) \<and> svc_reports (ns', s)"
    by (auto simp: NetworkService_AppendStatusMsg_def svc_inv_def svc_reports_def split: Option.bind_splits)
next
  fix kv assume "kv_wf kv"
  then show "rkeeps (svc_inv s0 ns0) svc_reports (svc_addEntry kv)"
    by (intro rkeepsI) (auto simp: svc_inv_def svc_addEntry_def split: Option.bind_splits dest!: AddVppEntry_records)
next
  fix vppAgent iface
  show "rkeeps (svc_inv s0 ns0) svc_reports (svc_initInterface vppAgent iface)"
    unfolding rkeeps_def svc_initInterface_def svc_reports_def
    by (auto split: Option.bind_splits option.splits prod.splits dest!: InitInterfaceStatus_quiet
      RemoveInterfaceStatus_quiet elim!: svc_inv_quiet intro: quiet_trans)
next
  fix st podName ifName
  show "rkeeps (svc_inv s0 ns0) svc_reports (svc_persist st podName ifName)"
    unfolding rkeeps_def svc_persist_def
    by (auto split: Option.bind_splits dest!: PersistInterfaceStatus_quiet elim!: svc_inv_quiet)
next
  show "rkeeps (svc_inv s0 ns0) svc_reports svc_memifID"
    unfolding svc_memifID_def by (rule quiet_rcall) (auto simp: render_view_def txn_view_def intro!: render_view_quiet split: prod.splits)
next
  show "rkeeps (svc_inv s0 ns0) svc_reports svc_vrfID"
    unfolding svc_vrfID_def by (rule quiet_rcall) (auto simp: render_view_def txn_view_def intro!: render_view_quiet split: prod.splits)
next
  fix connIndex vrf
  show "rkeeps (svc_inv s0 ns0) svc_reports (svc_setConnVrf connIndex vrf)"
    unfolding rkeeps_def svc_setConnVrf_def Let_def by (auto split: Option.bind_splits elim!: svc_inv_quiet)
next
  fix podName ifName
  show "rkeeps (svc_inv s0 ns0) svc_reports (svc_podInterface podName ifName)"
    unfolding rkeeps_def svc_podInterface_def Let_def by (auto split: Option.bind_splits elim!: svc_inv_quiet)
next
  fix nodeName ifName labels poolName label name
  show "rkeeps (svc_inv s0 ns0) svc_reports (rcall (nodeInterface nodeName ifName))"
    and "rkeeps (svc_inv s0 ns0) svc_reports (rcall (nodeLabelInterfaces nodeName labels))"
    and "rkeeps (svc_inv s0 ns0) svc_reports (rcall (AllocateVxlanAddress poolName nodeName label))"
    and "rkeeps (svc_inv s0 ns0) svc_reports (rcall (overlayAllocateVni name))"
    by (auto intro!: quiet_rcall intro: nodeInterface_quiet nodeLabelInterfaces_quiet AllocateVxlanAddress_quiet
      overlayAllocateVni_quiet)
next
  fix key0 key1
  show "rkeeps (svc_inv s0 ns0) svc_reports (svc_resetEqualMemifIDs key0 key1)"
    unfolding rkeeps_def svc_resetEqualMemifIDs_def Let_def
    by (auto split: option.splits if_splits elim!: svc_inv_quiet intro!: render_view_quiet
      simp: render_view_def txn_view_def option.map_comp comp_def)
next
  fix fromNode toNode vrf fromAddr toAddr mkIf mkRoutes label
  show "rkeeps (svc_inv s0 ns0) svc_reports (svc_vxlanEndPoint fromNode toNode vrf fromAddr toAddr mkIf mkRoutes label)"
    by (rule svc_vxlanEndPoint_keeps)
next
  fix key bd
  show "rkeeps (svc_inv s0 ns0) svc_reports (rcall (\<lambda>s. Some ((), storeNodeL2BD key bd s)))"
    by (rule rkeeps_rcall) (auto simp: svc_inv_def storeNodeL2BD_inv)
qed

section \<open>Rendering a service\<close>

lemma service_written:
  assumes "NetworkService_writeToDatastore ns s = Some (e, s')" "entity_inv s0 s"
  shows "entity_inv s0 s'" "entity_keys s' = entity_keys s"
proof -
  have "quiet s s'"
    using assms(1) by (auto simp: NetworkService_writeToDatastore_def WriteToDatastore_def Let_def quiet_def txn_view_def
      beside_def node_status_def NetworkService_NameKey_def NetworkService_KeyPrefix_def split: Option.bind_splits)
  from entity_inv_quiet [OF assms(2) this] show "entity_inv s0 s'" "entity_keys s' = entity_keys s" by simp_all
qed

lemma NetworkService_renderComplete_outcome:
  assumes run: "NetworkService_renderComplete ns s = Some (ns', s')"
    and inv: "svc_inv s0 ns0 (ns, s)" and rep: "err \<noteq> None \<Longrightarrow> svc_reports (ns, s)"
  shows "entity_inv s0 s' \<and> ns_Metadata ns' = ns_Metadata ns0 \<and> (\<exists>st. ns_Status ns' = Some st
    \<and> outcome err (nss_OperStatus st) (nss_Msg st) (nss_RenderedVppAgentEntries st) (done_keys s0)
        (done_keys s0 \<union> entity_keys s'))"
proof -
  obtain st where st: "ns_Status ns = Some st" "records (nss_RenderedVppAgentEntries st) (entity_keys s)"
    and e: "entity_inv s0 s" "ns_Metadata ns = ns_Metadata ns0" using inv by (auto simp: svc_inv_def)
  show ?thesis
  proof (cases "nss_Msg st = []")
    case True
    then have err: "err = None" using rep st(1) by (cases err) (auto simp: svc_reports_def)
    let ?ns = "ns\<lparr>ns_Status := Some (st\<lparr>nss_Msg := [''OK''], nss_OperStatus := OperStatusUp\<rparr>)\<rparr>"
    obtain w where w: "NetworkService_writeToDatastore ?ns s = Some (w, s')" "ns' = ?ns"
      using run st(1) True by (auto simp: NetworkService_renderComplete_def Let_def split: Option.bind_splits)
    show ?thesis using service_written [OF w(1) e(1)] w(2) st(2) e(2) err by (auto simp: outcome_def)
  next
    case False
    let ?ns = "ns\<lparr>ns_Status := Some (st\<lparr>nss_RenderedVppAgentEntries := None, nss_OperStatus := OperStatusDown\<rparr>)\<rparr>"
    obtain w where w: "NetworkService_writeToDatastore ?ns (RenderTxnConfigEntityRemoveEntries s) = Some (w, s')" "ns' = ?ns"
      using run st(1) False by (auto simp: NetworkService_renderComplete_def Let_def split: Option.bind_splits)
    show ?thesis
      using service_written [OF w(1) RemoveEntries_inv(1) [OF e(1)]] RemoveEntries_inv(2) [OF e(1)] w(2) e(2) False
      by (auto simp: outcome_def)
  qed
qed

lemma NetworkService_renderConfig_facts:
  assumes idle: "txn_idle s" and run: "NetworkService_renderConfig ns s = Some ((err, ns'), s')"
  shows "txn_idle s' \<and> beside s s' \<and> ns_Metadata ns' = ns_Metadata ns
    \<and> (err \<noteq> None \<and> ns' = ns \<and> done_keys s' = done_keys s
      \<or> (\<exists>st. ns_Status ns' = Some st
          \<and> outcome err (nss_OperStatus st) (nss_Msg st) (nss_RenderedVppAgentEntries st) (done_keys s) (done_keys s')))"
proof -
  define s1 where "s1 = RenderTxnConfigEntityStart s"
  note s1 = EntityStart_inv [OF idle, folded s1_def]
  obtain verr where v: "NetworkService_validate ns s1 = Some verr"
    using run by (auto simp: NetworkService_renderConfig_def s1_def Let_def split: Option.bind_splits)
  show ?thesis
  proof (cases "verr = None")
    case False
    then have "RenderTxnConfigEntityEnd s1 = Some s'" "err = verr" "ns' = ns"
      using run v by (auto simp: NetworkService_renderConfig_def s1_def Let_def split: Option.bind_splits)
    then show ?thesis using EntityEnd_inv [OF s1(1)] s1(2) False by (metis Un_empty_right option.inject)
  next
    case True
    then obtain spec r ns1 s2 ns2 s3 where
      b: "service_renderBody spec (ns\<lparr>ns_Status := Some emptyServiceStatus\<rparr>, s1) = Some (r, (ns1, s2))"
      "NetworkService_renderComplete ns1 s2 = Some (ns2, s3)" "RenderTxnConfigEntityEnd s3 = Some s'"
      "err = (case r of Inl e \<Rightarrow> Some e | Inr _ \<Rightarrow> None)" "ns' = ns2"
      using run v by (auto simp: NetworkService_renderConfig_def s1_def Let_def split: Option.bind_splits)
    have i1: "svc_inv s ns (ns\<lparr>ns_Status := Some emptyServiceStatus\<rparr>, s1)"
      using s1 by (simp add: svc_inv_def records_def emptyServiceStatus_def)
    note K = rkeepsD [OF svc.keeps_body i1 b(1)]
    have "svc_reports (ns1, s2)" if "err \<noteq> None" using K(2) b(4) that by (cases r) auto
    from NetworkService_renderComplete_outcome [OF b(2) K(1) this] obtain st where c: "entity_inv s s3"
      "ns_Metadata ns2 = ns_Metadata ns" "ns_Status ns2 = Some st"
      "outcome err (nss_OperStatus st) (nss_Msg st) (nss_RenderedVppAgentEntries st) (done_keys s)
        (done_keys s \<union> entity_keys s3)" by auto
    obtain s4 where "RenderTxnConfigEntityEnd s3 = Some s4" "txn_idle s4" "beside s s4"
      "done_keys s4 = done_keys s \<union> entity_keys s3" by (rule EntityEnd_inv [OF c(1)])
    then show ?thesis using c b(3,5) by auto
  qed
qed

section \<open>Rendering all services\<close>

definition service_records :: "string set \<Rightarrow> Plugin \<Rightarrow> string set" where
  "service_records N s = {k. \<exists>n \<in> N. \<exists>ns st m. map_of (networkServiceCache s) n = Some ns \<and> ns_Status ns = Some st
    \<and> nss_RenderedVppAgentEntries st = Some m \<and> k \<in> dom (map_of m)}"

lemma service_records_insert:
  "service_records (insert n N) s = {k. \<exists>ns st m. map_of (networkServiceCache s) n = Some ns \<and> ns_Status ns = Some st
    \<and> nss_RenderedVppAgentEntries st = Some m \<and> k \<in> dom (map_of m)} \<union> service_records N s"
  by (auto simp: service_records_def)

lemma txn_idle_services [simp]: "txn_idle (s\<lparr>networkServiceCache := c\<rparr>) = txn_idle s"
  by (simp add: txn_idle_def txn_base_def txn_ready_def)

definition service_step :: "string \<times> NetworkService \<Rightarrow> Plugin \<Rightarrow> Plugin option" where
  "service_step = (\<lambda>(k, _) s. do {
      ns \<leftarrow> map_of (networkServiceCache s) k;
      ((_, ns'), s') \<leftarrow> NetworkService_renderConfig ns s;
      Some (s'\<lparr>networkServiceCache := gput k ns' (networkServiceCache s')\<rparr>)
    })"

lemma service_step_facts:
  assumes idle: "txn_idle s" and run: "service_step (k, x) s = Some s'" and new: "k \<notin> N"
    and cov: "done_keys s \<subseteq> C \<union> service_records N s"
  shows "txn_idle s' \<and> done_keys s' \<subseteq> C \<union> service_records (insert k N) s'
    \<and> node_status s' = node_status s \<and> txn_frame s s'"
proof -
  obtain ns err ns' s1 where r: "map_of (networkServiceCache s) k = Some ns"
    "NetworkService_renderConfig ns s = Some ((err, ns'), s1)"
    "s' = s1\<lparr>networkServiceCache := gput k ns' (networkServiceCache s1)\<rparr>"
    using run by (auto simp: service_step_def split: Option.bind_splits)
  note F = NetworkService_renderConfig_facts [OF idle r(2)]
  have c: "map_of (networkServiceCache s') = (map_of (networkServiceCache s))(k \<mapsto> ns')"
    using F by (simp add: r(3) beside_def)
  have other: "service_records N s' = service_records N s"
  proof -
    have "map_of (networkServiceCache s') n = map_of (networkServiceCache s) n" if "n \<in> N" for n
      using that new by (auto simp: c)
    then show ?thesis unfolding service_records_def by auto
  qed
  have "done_keys s' = done_keys s1" by (simp add: r(3))
  moreover have "done_keys s1 \<subseteq> done_keys s \<union> {x. \<exists>st m. ns_Status ns' = Some st
      \<and> nss_RenderedVppAgentEntries st = Some m \<and> x \<in> dom (map_of m)}"
    using F outcome_keys by blast
  ultimately have "done_keys s' \<subseteq> C \<union> service_records (insert k N) s'"
    using cov unfolding service_records_insert other c by simp blast
  moreover have "node_status s' = node_status s" using F by (simp add: r(3) beside_def) (auto simp: node_status_def)
  ultimately show ?thesis using F beside_frame(2) [of s s1] by (simp add: r(3))
qed

lemma NetworkService_RenderAll_loop:
  assumes "foldM service_step es s = Some s'" "distinct (gkeys es)" "N \<inter> set (gkeys es) = {}"
    and "txn_idle s" "done_keys s \<subseteq> C \<union> service_records N s"
  shows "txn_idle s' \<and> done_keys s' \<subseteq> C \<union> service_records (N \<union> set (gkeys es)) s'
    \<and> node_status s' = node_status s \<and> txn_frame s s'"
  using assms
proof (induction es arbitrary: s N)
  case Nil
  then show ?case by simp
next
  case (Cons e es)
  obtain k x where e: "e = (k, x)" by (cases e)
  obtain s1 where s1: "service_step (k, x) s = Some s1" "foldM service_step es s1 = Some s'"
    using Cons.prems(1) by (auto simp: e split: Option.bind_splits)
  have "k \<notin> N" using Cons.prems(3) by (simp add: e)
  note F = service_step_facts [OF Cons.prems(4) s1(1) this Cons.prems(5)]
  have "txn_idle s' \<and> done_keys s' \<subseteq> C \<union> service_records (insert k N \<union> set (gkeys es)) s'
    \<and> node_status s' = node_status s1 \<and> txn_frame s1 s'"
    by (rule Cons.IH [OF s1(2)]) (use Cons.prems(2,3) F e in auto)
  then show ?case using F by (auto simp: e intro: txn_frame_trans)
qed

section \<open>Properties\<close>

text \<open>A service whose only connection joins two interfaces of one pod, and the node of the pod.\<close>

definition demo_service :: NetworkService where
  "demo_service = \<lparr>ns_Metadata = Some \<lparr>md_Name = ''s1'', md_Labels = []\<rparr>,
    ns_Spec = Some \<lparr>nsp_NetworkPods = [\<lparr>pod_Metadata = Some \<lparr>md_Name = ''vnf1'', md_Labels = []\<rparr>,
        pod_Spec = Some \<lparr>pod_PodType = NetworkPodTypeVPPContainer,
          pod_Interfaces = [(demo_interface ''p1'')\<lparr>if_IfType := IfTypeMemif\<rparr>, (demo_interface ''p2'')\<lparr>if_IfType := IfTypeMemif\<rparr>],
          pod_L2Bds = []\<rparr>\<rparr>],
      nsp_Connections = [\<lparr>conn_Name = '''', conn_ConnType = ConnTypeL2PP, conn_NetworkNodeOverlayName = '''',
        conn_PodInterfaces = [''vnf1/p1'', ''vnf1/p2''], conn_NodeInterfaces = [], conn_NodeInterfaceLabels = [],
        conn_UseNodeL2Bd = '''', conn_L2Bd = None, conn_VrfId = 0, conn_ConnMethod = ''''\<rparr>]\<rparr>,
    ns_Status = None\<rparr>"

definition demo_service_start :: Plugin where
  "demo_service_start = demo_start\<lparr>rc_NetworkPodToNodeMap := [(''vnf1'', \<lparr>pnm_Pod = ''vnf1'', pnm_Node = ''n1''\<rparr>)],
     networkNodeCache := [(''n1'', demo_node)]\<rparr>"




definition demo_bd :: "BDInterface list \<Rightarrow> KVType" where
  "demo_bd ifs = ConstructL2BD ''n1'' ''bd'' ifs GetDefaultSystemBDParms"

definition demo_bd_if :: BDInterface where
  "demo_bd_if = \<lparr>bdi_Name = ''i2'', bdi_BridgedVirtualInterface = False, bdi_SplitHorizonGroup = 0\<rparr>"

definition demo_bd_plugin :: Plugin where
  "demo_bd_plugin = demo_start\<lparr>rc_VppEntries := [(VppKey (demo_bd []), demo_bd [])],
     beforeMap := [(0, [(VppKey (demo_bd []), demo_bd [])])]\<rparr>"


end
