(* ===== verification/Controller.thy ===== *)
theory Controller
  imports ServiceInv
begin

text \<open>
  The controller plugin: the six registered managers and the loop that processes operational
  messages (\<open>model_mgrs.go\<close>), the start of the plugin with the load from etcd
  (\<open>plugin_impl_controller.go\<close>), and the start-up configuration (\<open>sfc_config_yaml.go\<close>).

  The loop is the only consumer of the message channel and runs its handlers to completion, so a
  message is one step.  Reaching \<open>os.Exit\<close>, a panic, or a send by the loop to its own channel, which
  blocks for ever, is \<open>None\<close>.
\<close>

section \<open>Managers\<close>

datatype manager =
    SysParametersMgr
  | IpamPoolMgr
  | NetworkPodNodeMapMgr
  | NetworkNodeOverlayMgr
  | NetworkNodeMgr
  | NetworkServiceMgr

definition RegisteredManagers :: "(string \<times> manager) list" where
  "RegisteredManagers =
    [(''system-parameters'', SysParametersMgr), (''ipam-pool'', IpamPoolMgr),
     (''network-pod-to-node-map'', NetworkPodNodeMapMgr), (''network-node-overlay'', NetworkNodeOverlayMgr),
     (''network-node'', NetworkNodeMgr), (''network-service'', NetworkServiceMgr)]"

fun findModelManager :: "string \<Rightarrow> (string \<times> manager) list \<Rightarrow> manager option" where
  "findModelManager modelName [] = None"
| "findModelManager modelName ((modelTypeName, mgr) # entries) =
    (if modelTypeName = modelName then Some mgr else findModelManager modelName entries)"

text \<open>What a message carries: an entity, or a name, behind \<open>interface{}\<close>.\<close>

datatype msg_data =
    MSysParms SystemParameters
  | MIPAMPool IPAMPool
  | MPodMap NetworkPodToNodeMap
  | MOverlay NetworkNodeOverlay
  | MNode NetworkNode
  | MService NetworkService
  | MName string
  | MNil

definition HandleCRUDOperationCU :: "manager \<Rightarrow> msg_data \<Rightarrow> Plugin \<Rightarrow> (err option \<times> Plugin) option" where
  "HandleCRUDOperationCU mgr d s =
    (case mgr of
       SysParametersMgr \<Rightarrow> (case d of MSysParms sp \<Rightarrow> Some (SysParms_HandleCRUDOperationCU sp s) | _ \<Rightarrow> None)
     | IpamPoolMgr \<Rightarrow> (case d of MIPAMPool ip \<Rightarrow> IPAMPool_HandleCRUDOperationCU ip s | _ \<Rightarrow> None)
     | NetworkPodNodeMapMgr \<Rightarrow> (case d of MPodMap p2n \<Rightarrow> Some (PodNodeMap_HandleCRUDOperationCU p2n s) | _ \<Rightarrow> None)
     | NetworkNodeOverlayMgr \<Rightarrow> (case d of MOverlay nno \<Rightarrow> Overlay_HandleCRUDOperationCU nno s | _ \<Rightarrow> None)
     | NetworkNodeMgr \<Rightarrow> (case d of MNode nn \<Rightarrow> NetworkNode_HandleCRUDOperationCU nn s | _ \<Rightarrow> None)
     | NetworkServiceMgr \<Rightarrow> (case d of MService ns \<Rightarrow> NetworkService_HandleCRUDOperationCU ns s | _ \<Rightarrow> None))"

text \<open>Only the manager of the system parameters ignores the name.\<close>

definition HandleCRUDOperationD :: "manager \<Rightarrow> msg_data \<Rightarrow> Plugin \<Rightarrow> (err option \<times> Plugin) option" where
  "HandleCRUDOperationD mgr d s =
    (if mgr = SysParametersMgr then Some (SysParms_HandleCRUDOperationD s)
     else case d of
       MName n \<Rightarrow>
         (case mgr of
            SysParametersMgr \<Rightarrow> Some (SysParms_HandleCRUDOperationD s)
          | IpamPoolMgr \<Rightarrow> IPAMPool_HandleCRUDOperationD n s
          | NetworkPodNodeMapMgr \<Rightarrow> Some (PodNodeMap_HandleCRUDOperationD n s)
          | NetworkNodeOverlayMgr \<Rightarrow> Some (Overlay_HandleCRUDOperationD n s)
          | NetworkNodeMgr \<Rightarrow> NetworkNode_HandleCRUDOperationD n s
          | NetworkServiceMgr \<Rightarrow> NetworkService_HandleCRUDOperationD n s)
     | _ \<Rightarrow> None)"

section \<open>Rendering\<close>

definition Plugin_RenderAll :: "Plugin \<Rightarrow> Plugin option" where
  "Plugin_RenderAll s = NetworkNode_RenderAll s \<bind> NetworkService_RenderAll"

text \<open>The three calls the loop renders with; the error of the last one is ignored.\<close>

definition renderTxn :: "Plugin \<Rightarrow> Plugin option" where
  "renderTxn s =
    do {
      s1 \<leftarrow> RenderTxnConfigStart s;
      s2 \<leftarrow> Plugin_RenderAll s1;
      (_, s3) \<leftarrow> RenderTxnConfigEnd s2;
      Some s3
    }"

section \<open>Operational messages\<close>

datatype opcode =
    OpCodeRender
  | OpCodeEnableRenderer
  | OpCodeDisableRenderer
  | OpCodeCreateUpdate
  | OpCodeDelete
  | OpCodeResyncContivNetworkPodMap

record OperationalMsg =
  om_model :: string
  om_opCode :: opcode
  om_data :: msg_data

text \<open>The variables of the loop and the plugin.\<close>

record loop_state =
  isRenderingEnabled :: bool
  isRenderingPending :: bool
  ls_plugin :: Plugin

text \<open>The channel is made with capacity 0: its length is always 0.\<close>

definition OperationalMsgChannel_len :: nat where
  "OperationalMsgChannel_len = 0"

text \<open>Sending to the channel from the loop, its only receiver, never returns.\<close>

definition AddOperationMsgToQueue_fromLoop :: "loop_state \<Rightarrow> loop_state option" where
  "AddOperationMsgToQueue_fromLoop ls = None"

definition processMsg :: "OperationalMsg \<Rightarrow> loop_state \<Rightarrow> loop_state option" where
  "processMsg msg ls =
    (case om_opCode msg of
       OpCodeRender \<Rightarrow> Some (ls\<lparr>isRenderingPending := True\<rparr>)
     | OpCodeDisableRenderer \<Rightarrow> Some (ls\<lparr>isRenderingEnabled := False\<rparr>)
     | OpCodeEnableRenderer \<Rightarrow> Some (ls\<lparr>isRenderingEnabled := True\<rparr>)
     | OpCodeCreateUpdate \<Rightarrow> do {
         mgr \<leftarrow> findModelManager (om_model msg) RegisteredManagers;
         (_, s) \<leftarrow> HandleCRUDOperationCU mgr (om_data msg) (ls_plugin ls);
         Some (ls\<lparr>isRenderingPending := True, ls_plugin := s\<rparr>)
       }
     | OpCodeDelete \<Rightarrow> do {
         mgr \<leftarrow> findModelManager (om_model msg) RegisteredManagers;
         (_, s) \<leftarrow> HandleCRUDOperationD mgr (om_data msg) (ls_plugin ls);
         Some (ls\<lparr>isRenderingPending := True, ls_plugin := s\<rparr>)
       }
     | OpCodeResyncContivNetworkPodMap \<Rightarrow> do {
         (changed, s) \<leftarrow> SyncNetworkPodToNodeMap (ls_plugin ls);
         Some (ls\<lparr>isRenderingPending := isRenderingPending ls \<or> changed, ls_plugin := s\<rparr>)
       })"

text \<open>The second half of an iteration; \<open>elapsed\<close> tells whether more than a second has passed.\<close>

definition renderIfPending :: "bool \<Rightarrow> loop_state \<Rightarrow> loop_state option" where
  "renderIfPending elapsed ls =
    (if isRenderingEnabled ls \<and> isRenderingPending ls then
       if OperationalMsgChannel_len \<noteq> 0 then
         if elapsed then do {
           ls1 \<leftarrow> AddOperationMsgToQueue_fromLoop ls;
           s \<leftarrow> renderTxn (ls_plugin ls1);
           Some (ls1\<lparr>ls_plugin := s, isRenderingPending := False\<rparr>)
         }
         else Some ls
       else do {
         s \<leftarrow> renderTxn (ls_plugin ls);
         Some (ls\<lparr>ls_plugin := s, isRenderingPending := False\<rparr>)
       }
     else Some ls)"

definition loop_step :: "bool \<Rightarrow> OperationalMsg \<Rightarrow> loop_state \<Rightarrow> loop_state option" where
  "loop_step elapsed msg ls = processMsg msg ls \<bind> renderIfPending elapsed"

text \<open>\<open>ProcessOperationalMessages\<close> on a sequence of messages, each with its reading of the clock.\<close>

definition ProcessOperationalMessages :: "(bool \<times> OperationalMsg) list \<Rightarrow> Plugin \<Rightarrow> loop_state option" where
  "ProcessOperationalMessages msgs s =
    foldM (\<lambda>(elapsed, msg). loop_step elapsed msg) msgs
      \<lparr>isRenderingEnabled = False, isRenderingPending = False, ls_plugin = s\<rparr>"

section \<open>Starting the plugin\<close>

fun mgr_InitRAMCache :: "manager \<Rightarrow> Plugin \<Rightarrow> Plugin" where
  "mgr_InitRAMCache SysParametersMgr s = SysParms_InitRAMCache s"
| "mgr_InitRAMCache IpamPoolMgr s = IPAMPool_InitRAMCache s"
| "mgr_InitRAMCache NetworkPodNodeMapMgr s = PodNodeMap_InitRAMCache s"
| "mgr_InitRAMCache NetworkNodeOverlayMgr s = Overlay_InitRAMCache s"
| "mgr_InitRAMCache NetworkNodeMgr s = NetworkNode_InitRAMCache s"
| "mgr_InitRAMCache NetworkServiceMgr s = NetworkService_InitRAMCache s"

fun mgr_Init :: "manager \<Rightarrow> Plugin \<Rightarrow> Plugin option" where
  "mgr_Init SysParametersMgr s = Some (SysParms_Init s)"
| "mgr_Init IpamPoolMgr s = IPAMPool_Init s"
| "mgr_Init NetworkPodNodeMapMgr s = PodNodeMap_Init s"
| "mgr_Init NetworkNodeOverlayMgr s = Overlay_Init s"
| "mgr_Init NetworkNodeMgr s = NetworkNode_Init s"
| "mgr_Init NetworkServiceMgr s = NetworkService_Init s"

definition Plugin_InitRAMCache :: "Plugin \<Rightarrow> Plugin" where
  "Plugin_InitRAMCache s =
    (let s1 = s\<lparr>rc_IPAMPoolAllocators := [], rc_VppEntries := [], rc_MacAddrAllocator := NewMacAddrAllocator,
           rc_MemifIDAllocator := NewMemifAllocator, rc_VrfIDAllocator := NewVrfAllocator, rc_InterfaceStates := []\<rparr>;
         s2 = fold (\<lambda>(_, mgr). mgr_InitRAMCache mgr) RegisteredManagers s1
     in s2\<lparr>rc_NetworkPodToNodeMap := []\<rparr>)"

definition initMgrs :: "Plugin \<Rightarrow> Plugin option" where
  "initMgrs s = foldM (\<lambda>(_, mgr). mgr_Init mgr) RegisteredManagers s"

fun LoadVppAgentEntriesFromRenderedVppAgentEntries ::
  "RenderedVppAgentEntry gomap \<Rightarrow> Plugin \<Rightarrow> err option \<times> Plugin" where
  "LoadVppAgentEntriesFromRenderedVppAgentEntries [] s = (None, s)"
| "LoadVppAgentEntriesFromRenderedVppAgentEntries ((_, e) # es) s =
    (let vppKVEntry = NewKVEntry (rve_VppAgentKey e) (rve_VppAgentType e);
         ((found, err, kv), s1) = ReadFromEtcd vppKVEntry s
     in if err \<noteq> None then (err, s1)
        else LoadVppAgentEntriesFromRenderedVppAgentEntries es
          (if found then s1\<lparr>rc_VppEntries := gput (VppKey kv) kv (rc_VppEntries s1)\<rparr> else s1))"

text \<open>The interface statuses of a loaded entity: cached, and their ids taken in the allocators.\<close>

definition loadInterfaceStatus :: "string \<Rightarrow> string \<times> InterfaceStatus \<Rightarrow> Plugin \<Rightarrow> Plugin option" where
  "loadInterfaceStatus entityName = (\<lambda>(_, ifStatus) s. do {
      let s1 = s\<lparr>rc_InterfaceStates := gput (ist_Name ifStatus) ifStatus (rc_InterfaceStates s)\<rparr>;
      let s2 = (if ist_MemifID ifStatus > MemifID (rc_MemifIDAllocator s1)
        then s1\<lparr>rc_MemifIDAllocator := (rc_MemifIDAllocator s1)\<lparr>MemifID := ist_MemifID ifStatus\<rparr>\<rparr> else s1);
      let s3 = (if ist_MacAddrID ifStatus > MacAddrID (rc_MacAddrAllocator s2)
        then s2\<lparr>rc_MacAddrAllocator := (rc_MacAddrAllocator s2)\<lparr>MacAddrID := ist_MacAddrID ifStatus\<rparr>\<rparr> else s2);
      (_, s4) \<leftarrow> UpdateRamCacheAllocatorsForInterfaceStatus ifStatus entityName s3;
      Some s4
    })"

text \<open>An entity loaded from etcd: its allocators of scoped pools, its rendered entries, its interfaces.
  An error of the load ends the whole function.\<close>

definition postProcessEntity ::
  "string \<Rightarrow> string \<Rightarrow> (RenderedVppAgentEntry gomap option \<times> InterfaceStatus gomap option) option
    \<Rightarrow> Plugin \<Rightarrow> (err option \<times> Plugin) option" where
  "postProcessEntity name scope status s =
    do {
      s1 \<leftarrow> EntityCreate name scope s;
      (case status of
         None \<Rightarrow> Some (None, s1)
       | Some (rendered, interfaces) \<Rightarrow>
           (case LoadVppAgentEntriesFromRenderedVppAgentEntries (case rendered of Some m \<Rightarrow> m | None \<Rightarrow> []) s1 of
              (Some e, s2) \<Rightarrow> Some (Some e, s2)
            | (None, s2) \<Rightarrow> do {
                s3 \<leftarrow> foldM (loadInterfaceStatus name) (case interfaces of Some m \<Rightarrow> m | None \<Rightarrow> []) s2;
                Some (None, s3)
              }))
    }"

fun postProcessAll :: "(Plugin \<Rightarrow> (err option \<times> Plugin) option) list \<Rightarrow> Plugin \<Rightarrow> (err option \<times> Plugin) option" where
  "postProcessAll [] s = Some (None, s)"
| "postProcessAll (f # fs) s =
    do {
      (err, s1) \<leftarrow> f s;
      if err \<noteq> None then Some (err, s1) else postProcessAll fs s1
    }"

definition postProcessNode :: "string \<times> NetworkNode \<Rightarrow> Plugin \<Rightarrow> (err option \<times> Plugin) option" where
  "postProcessNode = (\<lambda>(_, nn) s. do {
      md \<leftarrow> nn_Metadata nn;
      postProcessEntity (md_Name md) IPAMPoolScopeNode
        (map_option (\<lambda>st. (nst_RenderedVppAgentEntries st, nst_Interfaces st)) (nn_Status nn)) s
    })"

definition postProcessService :: "string \<times> NetworkService \<Rightarrow> Plugin \<Rightarrow> (err option \<times> Plugin) option" where
  "postProcessService = (\<lambda>(_, ns) s. do {
      md \<leftarrow> ns_Metadata ns;
      postProcessEntity (md_Name md) IPAMPoolScopeNetworkService
        (map_option (\<lambda>st. (nss_RenderedVppAgentEntries st, nss_Interfaces st)) (ns_Status ns)) s
    })"

definition withPoolStatus :: "IPAMPool \<Rightarrow> IPAMPool" where
  "withPoolStatus ip =
    (case ipp_Status ip of
       None \<Rightarrow> ip\<lparr>ipp_Status := Some \<lparr>ipst_Addresses = Some []\<rparr>\<rparr>
     | Some st \<Rightarrow> if ipst_Addresses st = None then ip\<lparr>ipp_Status := Some (st\<lparr>ipst_Addresses := Some []\<rparr>)\<rparr> else ip)"

definition PostProcessLoadedDatastore :: "Plugin \<Rightarrow> (err option \<times> Plugin) option" where
  "PostProcessLoadedDatastore s =
    do {
      let s1 = s\<lparr>ipamPoolCache := map (\<lambda>(k, ip). (k, withPoolStatus ip)) (ipamPoolCache s)\<rparr>;
      s2 \<leftarrow> EntityCreate '''' IPAMPoolScopeSystem s1;
      (err, s3) \<leftarrow> postProcessAll (map postProcessNode (networkNodeCache s2)) s2;
      if err \<noteq> None then Some (err, s3)
      else postProcessAll (map postProcessService (networkServiceCache s3)) s3
    }"

definition CleanVppAgentEntriesFromEtcd :: "Plugin \<Rightarrow> Plugin" where
  "CleanVppAgentEntriesFromEtcd s = fold (\<lambda>(_, kv). DeleteFromDatastore (VppKey kv)) (rc_VppEntries s) s"

section \<open>Start-up configuration\<close>

record SfcConfigYaml =
  y_Version :: int
  y_SysParms :: "SystemParameters option"
  y_IPAMPools :: "IPAMPool list"
  y_NetworkPodToNodeMap :: "NetworkPodToNodeMap list"
  y_NetworkNodeOverlays :: "NetworkNodeOverlay list"
  y_NetworkNodes :: "NetworkNode list"
  y_NetworkServices :: "NetworkService list"

definition sfcYamlVersion :: int where
  "sfcYamlVersion = 2"

fun processEach ::
  "('a \<Rightarrow> Plugin \<Rightarrow> (err option \<times> Plugin) option) \<Rightarrow> 'a list \<Rightarrow> Plugin \<Rightarrow> (err option \<times> Plugin) option" where
  "processEach f [] s = Some (None, s)"
| "processEach f (x # xs) s =
    do {
      (err, s1) \<leftarrow> f x s;
      if err \<noteq> None then Some (err, s1) else processEach f xs s1
    }"

definition SfcConfigYamlProcessConfig :: "SfcConfigYaml \<Rightarrow> Plugin \<Rightarrow> (err option \<times> Plugin) option" where
  "SfcConfigYamlProcessConfig y s =
    (if y_Version y \<noteq> sfcYamlVersion then
       Some (Some (concat [''SfcConfigYamlProcessConfig: incorrect yaml version, expecting '', decI sfcYamlVersion,
         '', got: '', decI (y_Version y)]), s)
     else postProcessAll
       [\<lambda>s. Some (case y_SysParms y of None \<Rightarrow> (None, s) | Some sp \<Rightarrow> SysParms_HandleCRUDOperationCU sp s),
        processEach IPAMPool_HandleCRUDOperationCU (y_IPAMPools y),
        processEach NetworkNode_HandleCRUDOperationCU (y_NetworkNodes y),
        processEach NetworkService_HandleCRUDOperationCU (y_NetworkServices y),
        processEach (\<lambda>p2n s. Some (PodNodeMap_HandleCRUDOperationCU p2n s)) (y_NetworkPodToNodeMap y),
        processEach Overlay_HandleCRUDOperationCU (y_NetworkNodeOverlays y)] s)"

text \<open>\<open>Init\<close> with the flag that cleans the datastore and the content of the start-up file, if there is
  one: \<open>Inl\<close> is a file that cannot be read or decoded.\<close>

definition Plugin_Init :: "bool \<Rightarrow> (err + SfcConfigYaml) option \<Rightarrow> Plugin \<Rightarrow> Plugin option" where
  "Plugin_Init clean yaml s =
    do {
      let s1 = Plugin_InitRAMCache s;
      s2 \<leftarrow> initMgrs s1;
      (err, s3) \<leftarrow> PostProcessLoadedDatastore s2;
      if err \<noteq> None then None
      else do {
        let s4 = (if clean then Plugin_InitRAMCache (CleanVppAgentEntriesFromEtcd
            (CleanDatastore SfcControllerConfigPrefix s3)) else s3);
        (case yaml of
           None \<Rightarrow> Some s4
         | Some (Inl _) \<Rightarrow> None
         | Some (Inr y) \<Rightarrow> do {
             (err, s5) \<leftarrow> SfcConfigYamlProcessConfig y s4;
             if err \<noteq> None then None else Some s5
           })
      }
    }"

end
