(* ===== verification/ControllerInv.thy ===== *)
theory ControllerInv
  imports Controller
begin

text \<open>
  Invariants of the message loop.  Between two messages the entry cache is well-formed, the
  configuration lock is free and no change is waiting to be rendered; as long as etcd accepts what
  is written, the cache mirrors what etcd holds.  The proofs compose the outcome of rendering an
  entity, the reconciliation of \<open>RenderTxn\<close> and the effect of the CRUD handlers on the cache.
\<close>

section \<open>Frame of the end of a transaction\<close>

definition other_view where
  "other_view s = (networkNodeCache s, networkServiceCache s, db_env s)"

lemma WriteToEtcd_other: "other_view (snd (WriteToEtcd kv s)) = other_view s"
  by (simp add: WriteToEtcd_def WriteToDatastore_def other_view_def Let_def)

lemma endBefore_other: "endBefore ks s = Some s' \<Longrightarrow> other_view s' = other_view s"
proof (induction ks s rule: endBefore.induct)
  case (2 key keys s)
  then obtain s1 where s1: "endBeforeStep key s = Some s1" "endBefore keys s1 = Some s'"
    by (auto split: Option.bind_splits)
  then have "other_view s1 = other_view s"
    by (auto simp: endBeforeStep_def other_view_def Let_def split: Option.bind_splits option.splits if_splits)
  then show ?case using 2 s1 by simp
qed simp

lemma endAfter_other: "other_view (snd (endAfter es s)) = other_view s"
proof (induction es s rule: endAfter.induct)
  case (2 key after es s)
  then show ?case using WriteToEtcd_other [of after s] by (auto split: prod.splits option.splits)
qed simp

lemma RenderTxnConfigEnd_other:
  assumes "RenderTxnConfigEnd s = Some (err, s')"
  shows "other_view s' = other_view s"
proof -
  obtain s1 where e1: "endBefore (gkeys (levelGet (beforeMap s) 0)) s = Some s1"
    using assms by (auto simp: RenderTxnConfigEnd_def split: Option.bind_splits)
  obtain e s2 where e2: "endAfter (levelGet (afterMap s1) 0) s1 = (e, s2)" by fastforce
  note s1 = e1 e2
  have "other_view s' = other_view s2"
    using assms s1 by (auto simp: RenderTxnConfigEnd_def other_view_def split: option.splits)
  then show ?thesis using endBefore_other [OF s1(1)] endAfter_other [of "levelGet (afterMap s1) 0" s1] s1(2) by simp
qed

lemma RenderTxnConfigEnd_entries_ok:
  assumes ready: "txn_ready s" and run: "RenderTxnConfigEnd s = Some (err, s')"
  shows "entries_ok (rc_VppEntries s')"
proof -
  define bs as where "bs = levelGet (beforeMap s) 0" and "as = levelGet (afterMap s) 0"
  have ok: "entries_ok bs" "entries_ok as" using ready by (simp_all add: txn_ready_def bs_def as_def)
  have d: "distinct (gkeys (rc_VppEntries s'))"
    and V: "map_of (rc_VppEntries s') k = Some kv \<Longrightarrow> map_of bs k = Some kv \<or> map_of as k = Some kv" for k kv
    using RenderTxnConfigEnd_cases [OF ready] run
    by (auto simp: bs_def as_def unchanged_def split: option.splits if_splits)
  show ?thesis by (rule entries_okI [OF d]) (use V ok entries_okD in blast)
qed

lemma RenderTxnConfigEnd_result:
  assumes ready: "txn_ready s" and run: "RenderTxnConfigEnd s = Some (err, s')"
  shows "\<not> configLocked s'" "dom (map_of (rc_VppEntries s')) \<subseteq> done_keys s"
    "err \<noteq> None \<Longrightarrow> err = env_put (db_env s) (db_log s')"
proof -
  have E: "\<not> configLocked s'" "err \<noteq> None \<longrightarrow> err = env_put (db_env s) (db_log s')"
    "map_of (rc_VppEntries s') = (\<lambda>k. case map_of (levelGet (afterMap s) 0) k of None \<Rightarrow> None
        | Some a \<Rightarrow> Some (if unchanged (levelGet (beforeMap s) 0) (levelGet (afterMap s) 0) k
            then the (map_of (levelGet (beforeMap s) 0) k) else a))
      \<or> map_of (rc_VppEntries s')
        = (\<lambda>k. if map_of (levelGet (afterMap s) 0) k = None then None else map_of (levelGet (beforeMap s) 0) k)"
    using RenderTxnConfigEnd_cases [OF ready] unfolding run option.inject prod.inject by (blast, blast, metis)
  show "\<not> configLocked s'" "err \<noteq> None \<Longrightarrow> err = env_put (db_env s) (db_log s')" using E by simp_all
  have "map_of (rc_VppEntries s') k = None" if "map_of (levelGet (afterMap s) 0) k = None" for k
    using E(3) that by (metis (mono_tags, lifting) option.simps(4))
  then show "dom (map_of (rc_VppEntries s')) \<subseteq> done_keys s" unfolding dom_def by (intro Collect_mono) metis
qed

section \<open>The effect of handlers\<close>

text \<open>A handler leaves the lock alone, keeps the caches keyed, and removes some entries of vpp agents
  both from the entry cache and from etcd; nothing else it does touches the keys of agents.\<close>

definition crud :: "Plugin \<Rightarrow> Plugin \<Rightarrow> bool" where
  "crud s s' \<longleftrightarrow> configLocked s' = configLocked s \<and> db_env s' = db_env s
    \<and> (distinct (gkeys (networkNodeCache s)) \<longrightarrow> distinct (gkeys (networkNodeCache s')))
    \<and> (distinct (gkeys (networkServiceCache s)) \<longrightarrow> distinct (gkeys (networkServiceCache s')))
    \<and> (distinct (gkeys (rc_VppEntries s)) \<longrightarrow> distinct (gkeys (rc_VppEntries s')))
    \<and> (\<exists>K. (\<forall>k. map_of (rc_VppEntries s') k = (if k \<in> K then None else map_of (rc_VppEntries s) k))
        \<and> (\<forall>k. agent_key k \<longrightarrow> store_of (db_log s') k = (if k \<in> K then None else store_of (db_log s) k)))"

lemma crud_trans:
  assumes "crud s s'" "crud s' s''"
  shows "crud s s''"
proof -
  obtain K K' where K: "\<forall>k. map_of (rc_VppEntries s') k = (if k \<in> K then None else map_of (rc_VppEntries s) k)"
    "\<forall>k. agent_key k \<longrightarrow> store_of (db_log s') k = (if k \<in> K then None else store_of (db_log s) k)"
    "\<forall>k. map_of (rc_VppEntries s'') k = (if k \<in> K' then None else map_of (rc_VppEntries s') k)"
    "\<forall>k. agent_key k \<longrightarrow> store_of (db_log s'') k = (if k \<in> K' then None else store_of (db_log s') k)"
    using assms unfolding crud_def by blast
  have "\<exists>K. (\<forall>k. map_of (rc_VppEntries s'') k = (if k \<in> K then None else map_of (rc_VppEntries s) k))
        \<and> (\<forall>k. agent_key k \<longrightarrow> store_of (db_log s'') k = (if k \<in> K then None else store_of (db_log s) k))"
    by (rule exI [of _ "K \<union> K'"]) (use K in auto)
  then show ?thesis using assms unfolding crud_def by simp
qed

lemma own_agent: "own_key k \<Longrightarrow> \<not> agent_key k"
proof
  assume "own_key k" "agent_key k"
  then have "take 2 (take (length SfcControllerPrefix) k) = take 2 SfcControllerPrefix"
    "take 2 (take (length agentPrefix) k) = take 2 agentPrefix" by (simp_all add: own_key_def agent_key_def)
  then show False by (simp add: SfcControllerPrefix_def agentPrefix_def)
qed

lemma own_key_prefix: "own_key p \<Longrightarrow> take (length p) k = p \<Longrightarrow> own_key k"
proof -
  assume "own_key p" "take (length p) k = p"
  then have "k = (SfcControllerPrefix @ drop (length SfcControllerPrefix) p) @ drop (length p) k"
    unfolding own_key_def by (metis append_take_drop_id)
  then have "take (length SfcControllerPrefix) k = take (length SfcControllerPrefix)
      (SfcControllerPrefix @ drop (length SfcControllerPrefix) p @ drop (length p) k)" by (simp only: append_assoc)
  then show ?thesis by (simp add: own_key_def)
qed

text \<open>A state whose entries, lock, keyed caches and log are untouched, and the operations on etcd.\<close>

definition crud_view where
  "crud_view s = (rc_VppEntries s, configLocked s, db_env s, gkeys (networkNodeCache s), gkeys (networkServiceCache s))"

lemma store_own:
  assumes "agent_key k" "list_all own_op ops"
  shows "store_of (l @ ops) k = store_of l k"
  using assms(2)
proof (induction ops rule: rev_induct)
  case (snoc op ops)
  have "store_of (l @ ops @ [op]) k = apply_op op (store_of (l @ ops)) k" by (simp flip: append_assoc)
  also have "\<dots> = store_of (l @ ops) k"
    using snoc.prems assms(1) by (cases op) (auto dest: own_agent own_key_prefix)
  finally show ?case using snoc by simp
qed simp

lemma crud_own:
  assumes "crud_view s' = crud_view s" "db_log s' = db_log s @ ops" "list_all own_op ops"
  shows "crud s s'"
  using assms store_own [OF _ assms(3)] by (auto simp: crud_def crud_view_def intro!: exI [of _ "{}"])

lemma crud_refl [simp]: "crud s s"
  by (rule crud_own [where ops = "[]"]) simp_all

lemma crud_quiet_view: "crud_view s' = crud_view s \<Longrightarrow> db_log s' = db_log s \<Longrightarrow> crud s s'"
  by (rule crud_own [where ops = "[]"]) simp_all

lemma crud_put: "own_key k \<Longrightarrow> crud s (snd (WriteToDatastore k v s))"
  by (rule crud_own [where ops = "[DbPut k v]"]) (simp_all add: WriteToDatastore_def crud_view_def Let_def)

lemma crud_delete: "own_key k \<Longrightarrow> crud s (DeleteFromDatastore k s)"
  by (rule crud_own [where ops = "[DbDelete k]"]) (simp_all add: DeleteFromDatastore_def crud_view_def)

text \<open>Removing the entries an entity has rendered.\<close>

lemma crud_deleteEntry:
  "crud s (DeleteFromDatastore k (s\<lparr>rc_VppEntries := gdel k (rc_VppEntries s)\<rparr>))"
proof -
  let ?s' = "DeleteFromDatastore k (s\<lparr>rc_VppEntries := gdel k (rc_VppEntries s)\<rparr>)"
  have "map_of (rc_VppEntries ?s') k' = (if k' \<in> {k} then None else map_of (rc_VppEntries s) k')"
    "store_of (db_log ?s') k' = (if k' \<in> {k} then None else store_of (db_log s) k')" for k'
    by (simp_all add: DeleteFromDatastore_def)
  then have "\<exists>K. (\<forall>k. map_of (rc_VppEntries ?s') k = (if k \<in> K then None else map_of (rc_VppEntries s) k))
      \<and> (\<forall>k. agent_key k \<longrightarrow> store_of (db_log ?s') k = (if k \<in> K then None else store_of (db_log s) k))" by blast
  then show ?thesis unfolding crud_def by (simp add: DeleteFromDatastore_def distinct_delete)
qed

lemma crud_deleteEntries: "crud s (DeleteRenderedVppAgentEntries es s)"
proof (induction es s rule: DeleteRenderedVppAgentEntries.induct)
  case (2 k e es s)
  show ?case using crud_trans [OF crud_deleteEntry 2] by simp
qed simp

lemma crud_removeInterface: "crud s (snd (RemoveInterfaceStatus m podName ifName s))"
  by (rule crud_own [where ops = "[DbDelete (InterfaceStatusKeyPrefix @ podName @ ''/'' @ ifName)]"])
    (simp_all add: RemoveInterfaceStatus_def DeleteFromDatastore_def crud_view_def Let_def InterfaceStatusKeyPrefix_def)

lemma crud_deleteInterfaces: "crud s (snd (DeleteInterfaceEntries interfaces s))"
proof -
  have "crud s (snd (fold (\<lambda>(_, ifStatus) (m, s).
        RemoveInterfaceStatus m (ConnPodName (ist_Name ifStatus)) (ConnInterfaceName (ist_Name ifStatus)) s) es (m, s)))"
    for es m
  proof (induction es arbitrary: m s)
    case (Cons e es)
    obtain k st where e: "e = (k, st)" by (cases e)
    obtain m1 s1 where r: "RemoveInterfaceStatus m (ConnPodName (ist_Name st)) (ConnInterfaceName (ist_Name st)) s = (m1, s1)"
      by fastforce
    have "crud s s1"
      using crud_removeInterface [of s m "ConnPodName (ist_Name st)" "ConnInterfaceName (ist_Name st)"] r by simp
    from crud_trans [OF this Cons.IH [of s1 m1]] show ?case by (simp add: e r)
  qed simp
  then show ?thesis by (simp add: DeleteInterfaceEntries_def)
qed

text \<open>The managers' handlers.\<close>

lemma EntityCreate_crud: "EntityCreate entityName scope s = Some s' \<Longrightarrow> crud s s'"
proof -
  have step: "crud s s'" if "entityCreateStep entityName scope e s = Some s'" for e s s'
    by (rule crud_quiet_view)
      (use that in \<open>auto simp: entityCreateStep_def crud_view_def Let_def split: Option.bind_splits sum.splits if_splits\<close>)
  assume "EntityCreate entityName scope s = Some s'"
  then show ?thesis
    unfolding EntityCreate_def by (rule foldM_invariant [where P = "crud s"]) (auto intro: crud_trans step)
qed

lemma EntityDelete_crud: "EntityDelete entityName scope s = Some s' \<Longrightarrow> crud s s'"
proof -
  have step: "crud s s'" if "entityDeleteStep entityName scope e s = Some s'" for e s s'
    by (rule crud_quiet_view)
      (use that in \<open>auto simp: entityDeleteStep_def crud_view_def Let_def
        split: Option.bind_splits sum.splits option.splits prod.splits if_splits\<close>)
  assume "EntityDelete entityName scope s = Some s'"
  then show ?thesis
    unfolding EntityDelete_def by (rule foldM_invariant [where P = "crud s"]) (auto intro: crud_trans step)
qed

lemma crud_write:
  assumes "WriteToDatastore k v s1 = (err, s')" "own_key k" "crud s s1"
  shows "crud s s'"
  using crud_trans [OF assms(3) crud_put [OF assms(2), of s1 v]] assms(1) by simp

lemma SysParms_crud: "crud s (snd (SysParms_HandleCRUDOperationCU sp s))" "crud s (snd (SysParms_HandleCRUDOperationD s))"
proof -
  have own: "own_key SysParms_KeyPrefix" by (simp add: SysParms_KeyPrefix_def)
  have set: "crud s (s\<lparr>sysParmCache := sp\<rparr>)" for sp s by (rule crud_quiet_view) (simp_all add: crud_view_def)
  show cu: "crud s (snd (SysParms_HandleCRUDOperationCU sp s))" for sp s
    using crud_trans [OF set crud_put [OF own]]
    by (auto simp: SysParms_HandleCRUDOperationCU_def SysParms_writeToDatastore_def split: prod.splits option.splits)
  show "crud s (snd (SysParms_HandleCRUDOperationD s))"
    using crud_trans [OF set cu]
    by (simp add: SysParms_HandleCRUDOperationD_def Let_def split: prod.splits) (metis snd_conv)
qed

lemma PodNodeMap_crud:
  "crud s (snd (PodNodeMap_HandleCRUDOperationCU p2n s))" "crud s (snd (PodNodeMap_HandleCRUDOperationD name s))"
proof -
  have own: "own_key (PodNodeMap_NameKey n)" for n by (simp add: PodNodeMap_NameKey_def PodNodeMap_KeyPrefix_def)
  have set: "crud s (s\<lparr>networkPodNodeCache := m\<rparr>)"
    "crud s (s\<lparr>networkPodNodeCache := m, rc_NetworkPodToNodeMap := m'\<rparr>)" for m m'
    by (rule crud_quiet_view; simp add: crud_view_def)+
  show "crud s (snd (PodNodeMap_HandleCRUDOperationCU p2n s))"
    using crud_trans [OF set(2) crud_put [OF own]]
    by (simp add: PodNodeMap_HandleCRUDOperationCU_def PodNodeMap_writeToDatastore_def PodNodeMap_validate_def Let_def)
  show "crud s (snd (PodNodeMap_HandleCRUDOperationD name s))"
    using crud_trans [OF set(1) crud_delete [OF own]] by (simp add: PodNodeMap_HandleCRUDOperationD_def)
qed

lemma Overlay_crud:
  "Overlay_HandleCRUDOperationCU nno s = Some (err, s') \<Longrightarrow> crud s s'" "crud s (snd (Overlay_HandleCRUDOperationD name s))"
proof -
  have own: "own_key (Overlay_NameKey n)" for n by (simp add: Overlay_NameKey_def Overlay_KeyPrefix_def)
  have set: "crud s (s\<lparr>networkNodeOverlayCache := m\<rparr>)"
    "crud s (s\<lparr>networkNodeOverlayCache := m, vniAllocators := m'\<rparr>)" for m m'
    by (rule crud_quiet_view; simp add: crud_view_def)+
  show "crud s (snd (Overlay_HandleCRUDOperationD name s))"
    using crud_trans [OF set(1) crud_delete [OF own]] by (simp add: Overlay_HandleCRUDOperationD_def)
  assume "Overlay_HandleCRUDOperationCU nno s = Some (err, s')"
  then show "crud s s'"
    by (auto simp: Overlay_HandleCRUDOperationCU_def Overlay_writeToDatastore_def Let_def
      split: Option.bind_splits option.splits if_splits intro!: set own elim!: crud_write)
qed

lemma IPAMPool_crud:
  "IPAMPool_HandleCRUDOperationCU ip s = Some (err, s') \<Longrightarrow> crud s s'"
  "IPAMPool_HandleCRUDOperationD name s = Some (err, s') \<Longrightarrow> crud s s'"
proof -
  have own: "own_key (IPAMPool_NameKey n)" for n by (simp add: IPAMPool_NameKey_def IPAMPool_KeyPrefix_def)
  have set: "crud s (s\<lparr>ipamPoolCache := m\<rparr>)" for s m by (rule crud_quiet_view) (simp_all add: crud_view_def)
  have entities: "crud s s'" if "foldM (\<lambda>(_, x) s. do { md \<leftarrow> f x; EntityCreate (md_Name md) scope s }) xs s = Some s'"
    for f scope and xs :: "(string \<times> 'a) list" and s s'
    using that by (rule foldM_invariant [where P = "crud s"])
      (auto split: Option.bind_splits intro: crud_trans [OF _ EntityCreate_crud])
  show "IPAMPool_HandleCRUDOperationD name s = Some (err, s') \<Longrightarrow> crud s s'"
    using crud_trans [OF crud_trans [OF set crud_delete [OF own]]]
    by (auto simp: IPAMPool_HandleCRUDOperationD_def Let_def split: option.splits Option.bind_splits dest!: EntityDelete_crud)
  assume "IPAMPool_HandleCRUDOperationCU ip s = Some (err, s')"
  then show "crud s s'"
    by (auto simp: IPAMPool_HandleCRUDOperationCU_def IPAMPool_writeToDatastore_def Let_def
      split: Option.bind_splits if_splits intro!: set own elim!: crud_write
      intro: crud_trans [OF crud_trans [OF set EntityCreate_crud] set] crud_trans [OF crud_trans [OF set entities] set])
qed

lemma node_delete_view: "crud s (s\<lparr>networkNodeCache := gdel n (networkNodeCache s)\<rparr>)"
  by (auto simp: crud_def distinct_delete intro!: exI [of _ "{}"])

lemma node_put_view: "crud s (s\<lparr>networkNodeCache := gput n nn (networkNodeCache s)\<rparr>)"
  by (auto simp: crud_def distinct_update intro!: exI [of _ "{}"])

lemma service_delete_view: "crud s (s\<lparr>networkServiceCache := gdel n (networkServiceCache s)\<rparr>)"
  by (auto simp: crud_def distinct_delete intro!: exI [of _ "{}"])

lemma service_put_view: "crud s (s\<lparr>networkServiceCache := gput n ns (networkServiceCache s)\<rparr>)"
  by (auto simp: crud_def distinct_update intro!: exI [of _ "{}"])

lemma crud_delete_then: "own_key k \<Longrightarrow> EntityDelete n scope (DeleteFromDatastore k s1) = Some s' \<Longrightarrow> crud s s1 \<Longrightarrow> crud s s'"
  by (meson EntityDelete_crud crud_delete crud_trans)

lemma crud_rendered: "crud s (snd (DeleteInterfaceEntries interfaces (DeleteRenderedVppAgentEntries es s)))"
  by (rule crud_trans [OF crud_deleteEntries crud_deleteInterfaces])

lemma NetworkNode_crud:
  "NetworkNode_HandleCRUDOperationCU nn s = Some (err, s') \<Longrightarrow> crud s s'"
  "NetworkNode_HandleCRUDOperationD name s = Some (err, s') \<Longrightarrow> crud s s'"
proof -
  have own: "own_key (NetworkNode_NameKey n)" for n by (simp add: NetworkNode_NameKey_def NetworkNode_KeyPrefix_def)
  show "NetworkNode_HandleCRUDOperationD name s = Some (err, s') \<Longrightarrow> crud s s'"
    by (auto simp: NetworkNode_HandleCRUDOperationD_def NetworkNode_renderDelete_def Let_def
      split: option.splits Option.bind_splits elim!: crud_delete_then [OF own]
      intro: crud_trans [OF crud_rendered node_delete_view] crud_trans [OF crud_deleteInterfaces node_delete_view])
  assume "NetworkNode_HandleCRUDOperationCU nn s = Some (err, s')"
  then obtain n nn' err1 s1 where w: "WriteToDatastore (NetworkNode_NameKey n) (DNode nn')
      (s\<lparr>networkNodeCache := gput n nn' (networkNodeCache s)\<rparr>) = (err1, s1)"
    and s': "s' = s1 \<or> EntityCreate n IPAMPoolScopeNode s1 = Some s'"
    by (auto simp: NetworkNode_HandleCRUDOperationCU_def NetworkNode_writeToDatastore_def NetworkNode_validate_def
      NetworkNode_AppendStatusMsg_def Let_def split: Option.bind_splits option.splits if_splits prod.splits)
  note s1 = crud_write [OF w own node_put_view]
  show "crud s s'" using s' crud_trans [OF s1 EntityCreate_crud] s1 by blast
qed

lemma NetworkService_crud:
  "NetworkService_HandleCRUDOperationCU ns s = Some (err, s') \<Longrightarrow> crud s s'"
  "NetworkService_HandleCRUDOperationD name s = Some (err, s') \<Longrightarrow> crud s s'"
proof -
  have own: "own_key (NetworkService_NameKey n)" for n
    by (simp add: NetworkService_NameKey_def NetworkService_KeyPrefix_def)
  show "NetworkService_HandleCRUDOperationD name s = Some (err, s') \<Longrightarrow> crud s s'"
    by (auto simp: NetworkService_HandleCRUDOperationD_def NetworkService_renderDelete_def Let_def
      split: option.splits Option.bind_splits elim!: crud_delete_then [OF own]
      intro: crud_trans [OF crud_rendered service_delete_view] crud_trans [OF crud_deleteInterfaces service_delete_view])
  assume "NetworkService_HandleCRUDOperationCU ns s = Some (err, s')"
  then obtain n ns' err1 s1 where w: "WriteToDatastore (NetworkService_NameKey n) (DService ns')
      (s\<lparr>networkServiceCache := gput n ns' (networkServiceCache s)\<rparr>) = (err1, s1)"
    and s': "s' = s1 \<or> EntityCreate n IPAMPoolScopeNetworkService s1 = Some s'"
    by (auto simp: NetworkService_HandleCRUDOperationCU_def NetworkService_writeToDatastore_def
      NetworkService_AppendStatusMsg_def Let_def split: Option.bind_splits option.splits if_splits prod.splits)
  note s1 = crud_write [OF w own service_put_view]
  show "crud s s'" using s' crud_trans [OF s1 EntityCreate_crud] s1 by blast
qed

lemma Sync_crud: "SyncNetworkPodToNodeMap s = Some (changed, s') \<Longrightarrow> crud s s'"
proof -
  have read: "crud_view s1 = crud_view s \<and> (\<exists>ops. db_log s1 = db_log s @ ops \<and> list_all own_op ops)"
    if "PodNodeMap_loadAllFromDatastore p m s = Some (m1, s1)" for p m m1 s1
    using that by (auto simp: PodNodeMap_loadAllFromDatastore_def ReadIterateInto_def crud_view_def Let_def
      split: Option.bind_splits prod.splits)
  assume "SyncNetworkPodToNodeMap s = Some (changed, s')"
  then obtain m1 s1 m2 where l: "PodNodeMap_loadAllFromDatastore ContivKsrNetworkPodToNodePrefix [] s = Some (m1, s1)"
    "s' = s1\<lparr>rc_NetworkPodToNodeMap := m2\<rparr>"
    by (auto simp: SyncNetworkPodToNodeMap_def Let_def split: Option.bind_splits)
  from read [OF l(1)] obtain ops where r: "crud_view s1 = crud_view s" "db_log s1 = db_log s @ ops" "list_all own_op ops"
    by blast
  show ?thesis by (rule crud_own [OF _ _ r(3)]) (use r l(2) in \<open>simp_all add: crud_view_def\<close>)
qed

text \<open>Every message the loop can process.\<close>

lemma Handle_crud:
  "HandleCRUDOperationCU mgr d s = Some (err, s') \<Longrightarrow> crud s s'"
  "HandleCRUDOperationD mgr d s = Some (err, s') \<Longrightarrow> crud s s'"
  using SysParms_crud PodNodeMap_crud Overlay_crud IPAMPool_crud NetworkNode_crud NetworkService_crud
  by (auto simp: HandleCRUDOperationCU_def HandleCRUDOperationD_def split: manager.splits msg_data.splits if_splits
    dest!: sym [of _ "(err, s')"]) (metis snd_conv)+

lemma processMsg_crud: "processMsg msg ls = Some ls' \<Longrightarrow> crud (ls_plugin ls) (ls_plugin ls')"
  by (auto simp: processMsg_def split: opcode.splits Option.bind_splits dest: Handle_crud Sync_crud)

section \<open>The state between two messages\<close>

definition plugin_ok :: "Plugin \<Rightarrow> bool" where
  "plugin_ok s \<longleftrightarrow> entries_ok (rc_VppEntries s) \<and> \<not> configLocked s
    \<and> distinct (gkeys (networkNodeCache s)) \<and> distinct (gkeys (networkServiceCache s))"

text \<open>Etcd holds what is cached.  Bridge domains are excepted: see \<open>storeNodeL2BD\<close>.\<close>

definition in_sync :: "Plugin \<Rightarrow> bool" where
  "in_sync s \<longleftrightarrow> (\<forall>k kv. map_of (rc_VppEntries s) k = Some kv \<longrightarrow> VppEntryType kv \<noteq> VppEntryTypeL2BD
    \<longrightarrow> store_of (db_log s) k = Some (DVpp (the (payload kv))))"

text \<open>Every cached entry is listed in the status of a node or a service.\<close>

definition accounted :: "Plugin \<Rightarrow> bool" where
  "accounted s \<longleftrightarrow> dom (map_of (rc_VppEntries s)) \<subseteq> node_records UNIV s \<union> service_records UNIV s"

lemma in_syncD: "in_sync s \<Longrightarrow> map_of (rc_VppEntries s) k = Some kv \<Longrightarrow> VppEntryType kv \<noteq> VppEntryTypeL2BD
    \<Longrightarrow> store_of (db_log s) k = Some (DVpp (the (payload kv)))"
  by (simp add: in_sync_def)

lemma crud_ok:
  assumes "crud s s'" "plugin_ok s"
  shows "plugin_ok s'" and "in_sync s \<Longrightarrow> in_sync s'"
proof -
  obtain K where K: "\<And>k. map_of (rc_VppEntries s') k = (if k \<in> K then None else map_of (rc_VppEntries s) k)"
    "\<And>k. agent_key k \<Longrightarrow> store_of (db_log s') k = (if k \<in> K then None else store_of (db_log s) k)"
    using assms(1) unfolding crud_def by blast
  have ok: "entries_ok (rc_VppEntries s)" using assms(2) by (simp add: plugin_ok_def)
  have sub: "k \<notin> K \<and> map_of (rc_VppEntries s) k = Some kv \<and> agent_key k \<and> VppKey kv = k \<and> kv_wf kv"
    if "map_of (rc_VppEntries s') k = Some kv" for k kv
    using that K(1) [of k] entries_okD [OF ok] by (auto simp: kv_wf_def split: if_splits)
  have "distinct (gkeys (rc_VppEntries s'))" using assms by (simp add: crud_def plugin_ok_def entries_ok_def)
  then have "entries_ok (rc_VppEntries s')" by (rule entries_okI) (use sub in blast)
  then show "plugin_ok s'" using assms by (simp add: plugin_ok_def crud_def)
  show "in_sync s'" if "in_sync s"
    unfolding in_sync_def by (auto dest!: sub simp: K(2) in_syncD [OF that])
qed

section \<open>A rendering transaction\<close>

lemma node_records_mono: "node_records N s \<subseteq> node_records UNIV s"
  by (auto simp: node_records_def)

lemma service_records_mono: "service_records N s \<subseteq> service_records UNIV s"
  unfolding service_records_def by blast

lemma Plugin_RenderAll_facts:
  assumes "Plugin_RenderAll s = Some s'" "txn_idle s" "done_keys s = {}"
    and "distinct (gkeys (networkNodeCache s))" "distinct (gkeys (networkServiceCache s))"
  shows "txn_idle s' \<and> done_keys s' \<subseteq> node_records UNIV s' \<union> service_records UNIV s' \<and> txn_frame s s'"
proof -
  obtain s1 where s1: "foldM node_step (networkNodeCache s) s = Some s1"
    "foldM service_step (networkServiceCache s1) s1 = Some s'"
    using assms(1) by (auto simp: Plugin_RenderAll_def NetworkNode_RenderAll_def NetworkService_RenderAll_def
      node_step_def service_step_def split: Option.bind_splits)
  note N = NetworkNode_RenderAll_loop [OF s1(1) assms(4), of "{}"]
  have n: "txn_idle s1" "done_keys s1 \<subseteq> node_records UNIV s1" "networkServiceCache s1 = networkServiceCache s" "txn_frame s s1"
    using N assms(2,3) node_records_mono [of "set (gkeys (networkNodeCache s))" s1] by (simp_all; blast)+
  note S = NetworkService_RenderAll_loop [OF s1(2), of "{}" "node_records UNIV s1"]
  have "txn_idle s' \<and> done_keys s' \<subseteq> node_records UNIV s1 \<union> service_records (set (gkeys (networkServiceCache s1))) s'
    \<and> node_status s' = node_status s1 \<and> txn_frame s1 s'"
    using S n assms(5) by auto
  moreover from this have "node_records UNIV s' = node_records UNIV s1" by (simp add: node_records_def)
  ultimately show ?thesis using n(4) service_records_mono [of _ s'] txn_frame_trans by fast
qed

lemma in_sync_frame:
  assumes "in_sync s" "txn_frame s s'" "entries_ok (rc_VppEntries s)"
  shows "in_sync s'"
proof -
  obtain ops where ops: "db_log s' = db_log s @ ops" "list_all own_op ops" using assms(2) by (auto simp: txn_frame_def)
  show ?thesis
    unfolding in_sync_def
  proof (intro allI impI)
    fix k kv' assume kv': "map_of (rc_VppEntries s') k = Some kv'" "VppEntryType kv' \<noteq> VppEntryTypeL2BD"
    then obtain kv where kv: "map_of (rc_VppEntries s) k = Some kv" "VppEntryType kv = VppEntryType kv'" "payload kv = payload kv'"
      using assms(2) unfolding txn_frame_def same_but_bds_def by blast
    then have "agent_key k" using entries_okD [OF assms(3)] by (auto simp: kv_wf_def)
    then show "store_of (db_log s') k = Some (DVpp (the (payload kv')))"
      using store_own [OF _ ops(2)] ops(1) in_syncD [OF assms(1) kv(1)] kv kv'(2) by simp
  qed
qed

lemma RenderTxnConfigEnd_sync:
  assumes ready: "txn_ready s" and sync: "in_sync s" and run: "RenderTxnConfigEnd s = Some (None, s')"
  shows "in_sync s'"
  unfolding in_sync_def
proof (intro allI impI)
  fix k kv assume kv: "map_of (rc_VppEntries s') k = Some kv" "VppEntryType kv \<noteq> VppEntryTypeL2BD"
  define bs as where "bs = levelGet (beforeMap s) 0" and "as = levelGet (afterMap s) 0"
  have b: "map_of bs = map_of (rc_VppEntries s)" using ready by (simp add: txn_ready_def bs_def)
  show "store_of (db_log s') k = Some (DVpp (the (payload kv)))"
    using kv in_syncD [OF sync, of k kv] unchanged_cached [of bs as k]
    unfolding RenderTxnConfigEnd_store_at [OF ready run bs_def as_def]
      RenderTxnConfigEnd_success(2) [OF ready run bs_def as_def] b
    by (auto split: option.splits if_splits)
qed

lemma RenderTxnConfigStart_idle:
  assumes "entries_ok (rc_VppEntries s)" "\<not> configLocked s"
  obtains s1 where "RenderTxnConfigStart s = Some s1" "txn_idle s1" "done_keys s1 = {}" "rc_VppEntries s1 = rc_VppEntries s"
    "networkNodeCache s1 = networkNodeCache s" "networkServiceCache s1 = networkServiceCache s" "db_env s1 = db_env s"
    "db_log s1 = db_log s"
proof -
  obtain bm where bm: "RenderTxnConfigStart s
      = Some (s\<lparr>configLocked := True, beforeMap := bm, afterMap := [(0, [])], txnLevel := 0\<rparr>)"
    "entries_ok (levelGet bm 0)" "map_of (levelGet bm 0) = map_of (rc_VppEntries s)"
    using RenderTxnConfigStart_ok [OF assms] by blast
  have "distinct (gkeys (rc_VppEntries s))" using assms(1) by (simp add: entries_ok_def)
  then show ?thesis
    using that [OF bm(1)] bm(2,3) by (simp add: txn_idle_def txn_base_def txn_ready_def levelGet_def entries_ok_def)
qed

text \<open>A rendering transaction that returns leaves the plugin as it found it for the next message, every
  entry it keeps is listed by a status, and it keeps etcd and the cache in step when no put fails.\<close>

lemma renderTxn_facts:
  assumes ok: "plugin_ok s" and run: "renderTxn s = Some s'"
  shows "plugin_ok s' \<and> accounted s' \<and> db_env s' = db_env s
    \<and> (in_sync s \<and> (\<forall>l. env_put (db_env s) l = None) \<longrightarrow> in_sync s')"
proof -
  have p: "entries_ok (rc_VppEntries s)" "\<not> configLocked s" "distinct (gkeys (networkNodeCache s))"
    "distinct (gkeys (networkServiceCache s))" using ok by (simp_all add: plugin_ok_def)
  obtain s1 where s1: "RenderTxnConfigStart s = Some s1" "txn_idle s1" "done_keys s1 = {}" "rc_VppEntries s1 = rc_VppEntries s"
    "networkNodeCache s1 = networkNodeCache s" "networkServiceCache s1 = networkServiceCache s" "db_env s1 = db_env s"
    "db_log s1 = db_log s" by (rule RenderTxnConfigStart_idle [OF p(1,2)])
  obtain s2 err where s2: "Plugin_RenderAll s1 = Some s2" "RenderTxnConfigEnd s2 = Some (err, s')"
    using run s1(1) by (auto simp: renderTxn_def split: Option.bind_splits)
  have R: "txn_idle s2" "done_keys s2 \<subseteq> node_records UNIV s2 \<union> service_records UNIV s2" "txn_frame s1 s2"
    using Plugin_RenderAll_facts [OF s2(1) s1(2,3)] p(3,4) s1(5,6) by auto
  have ready: "txn_ready s2" using R(1) by (simp add: txn_idle_def txn_base_def)
  note E = RenderTxnConfigEnd_result [OF ready s2(2)]
  have o: "networkNodeCache s' = networkNodeCache s2" "networkServiceCache s' = networkServiceCache s2" "db_env s' = db_env s2"
    using RenderTxnConfigEnd_other [OF s2(2)] by (simp_all add: other_view_def)
  have f: "db_env s2 = db_env s" "distinct (gkeys (networkNodeCache s2))" "distinct (gkeys (networkServiceCache s2))"
    using R(3) p(3,4) s1 by (simp_all add: txn_frame_def)
  have "plugin_ok s'"
    using RenderTxnConfigEnd_entries_ok [OF ready s2(2)] E(1) f o by (simp add: plugin_ok_def)
  moreover have "accounted s'"
    using E(2) R(2) by (simp add: accounted_def node_records_def service_records_def node_status_def o)
  moreover have "in_sync s'" if "in_sync s" "\<forall>l. env_put (db_env s) l = None"
  proof -
    have "in_sync s1" using that(1) s1(4,8) by (simp add: in_sync_def)
    then have "in_sync s2" by (rule in_sync_frame [OF _ R(3)]) (use p(1) s1(4) in simp)
    moreover have "err = None" using E(3) that(2) f(1) by fastforce
    ultimately show ?thesis using RenderTxnConfigEnd_sync [OF ready] s2(2) by blast
  qed
  ultimately show ?thesis using o(3) f(1) by simp
qed

section \<open>The message loop\<close>

text \<open>The states the loop can be in between two messages, whatever the messages and the clock are.\<close>

inductive loop_reachable :: "Plugin \<Rightarrow> loop_state \<Rightarrow> bool" for s0 where
  start: "loop_reachable s0 \<lparr>isRenderingEnabled = False, isRenderingPending = False, ls_plugin = s0\<rparr>"
| step: "loop_reachable s0 ls \<Longrightarrow> loop_step elapsed msg ls = Some ls' \<Longrightarrow> loop_reachable s0 ls'"

lemma loop_reachable_messages: "ProcessOperationalMessages msgs s0 = Some ls \<Longrightarrow> loop_reachable s0 ls"
  unfolding ProcessOperationalMessages_def
  by (erule foldM_invariant [where P = "loop_reachable s0"]) (auto intro: loop_reachable.intros)

lemma renderIfPending_cases:
  assumes "renderIfPending elapsed ls = Some ls'"
  obtains (idle) "ls' = ls" "\<not> (isRenderingEnabled ls \<and> isRenderingPending ls)"
  | (render) s where "isRenderingEnabled ls" "renderTxn (ls_plugin ls) = Some s"
      "ls' = ls\<lparr>ls_plugin := s, isRenderingPending := False\<rparr>"
proof (cases "isRenderingEnabled ls \<and> isRenderingPending ls")
  case True
  then obtain s where "renderTxn (ls_plugin ls) = Some s" "Some (ls\<lparr>ls_plugin := s, isRenderingPending := False\<rparr>) = Some ls'"
    using assms by (auto simp: renderIfPending_def OperationalMsgChannel_len_def split: Option.bind_splits)
  then show ?thesis using render True by simp
next
  case False
  then have "ls' = ls" using assms unfolding renderIfPending_def if_not_P [OF False] by simp
  then show ?thesis by (rule idle [OF _ False])
qed

lemma accounted_view:
  "rc_VppEntries s' = rc_VppEntries s \<Longrightarrow> networkNodeCache s' = networkNodeCache s
    \<Longrightarrow> networkServiceCache s' = networkServiceCache s \<Longrightarrow> accounted s' = accounted s"
  by (simp add: accounted_def node_records_def service_records_def node_status_def)

lemma Sync_accounted: "SyncNetworkPodToNodeMap s = Some (changed, s') \<Longrightarrow> accounted s' = accounted s"
  by (rule accounted_view)
    (auto simp: SyncNetworkPodToNodeMap_def PodNodeMap_loadAllFromDatastore_def ReadIterateInto_def Let_def
      split: Option.bind_splits prod.splits)

lemma processMsg_accounted:
  assumes "processMsg msg ls = Some ls'" "\<not> isRenderingPending ls'"
  shows "\<not> isRenderingPending ls \<and> accounted (ls_plugin ls') = accounted (ls_plugin ls)"
  using assms by (auto simp: processMsg_def Sync_accounted split: opcode.splits Option.bind_splits)

definition loop_inv :: "Plugin \<Rightarrow> loop_state \<Rightarrow> bool" where
  "loop_inv s0 ls \<longleftrightarrow> plugin_ok (ls_plugin ls) \<and> db_env (ls_plugin ls) = db_env s0
    \<and> \<not> (isRenderingEnabled ls \<and> isRenderingPending ls)
    \<and> (isRenderingPending ls \<or> accounted (ls_plugin ls))"

lemma loop_step_inv:
  assumes inv: "loop_inv s0 ls" and run: "loop_step elapsed msg ls = Some ls'"
  shows "loop_inv s0 ls'" and "in_sync (ls_plugin ls) \<Longrightarrow> \<forall>l. env_put (db_env s0) l = None \<Longrightarrow> in_sync (ls_plugin ls')"
proof -
  obtain ls1 where l: "processMsg msg ls = Some ls1" "renderIfPending elapsed ls1 = Some ls'"
    using run by (auto simp: loop_step_def split: Option.bind_splits)
  note c = processMsg_crud [OF l(1)]
  have ok: "plugin_ok (ls_plugin ls1)" "in_sync (ls_plugin ls) \<Longrightarrow> in_sync (ls_plugin ls1)"
    using crud_ok [OF c] inv by (simp_all add: loop_inv_def)
  have env: "db_env (ls_plugin ls1) = db_env s0" using c inv by (simp add: loop_inv_def crud_def)
  have "loop_inv s0 ls' \<and> (in_sync (ls_plugin ls) \<and> (\<forall>l. env_put (db_env s0) l = None) \<longrightarrow> in_sync (ls_plugin ls'))"
    using l(2)
  proof (cases rule: renderIfPending_cases)
    case idle
    then show ?thesis using ok env processMsg_accounted [OF l(1)] inv by (auto simp: loop_inv_def)
  next
    case (render s)
    then show ?thesis using renderTxn_facts [OF ok(1) render(2)] ok(2) env by (simp add: loop_inv_def)
  qed
  then show "loop_inv s0 ls'" "in_sync (ls_plugin ls) \<Longrightarrow> \<forall>l. env_put (db_env s0) l = None \<Longrightarrow> in_sync (ls_plugin ls')"
    by simp_all
qed

lemma loop_reachable_inv:
  assumes "loop_reachable s0 ls" "plugin_ok s0" "accounted s0"
  shows "loop_inv s0 ls" and "in_sync s0 \<Longrightarrow> \<forall>l. env_put (db_env s0) l = None \<Longrightarrow> in_sync (ls_plugin ls)"
proof -
  have "loop_inv s0 ls \<and> (in_sync s0 \<and> (\<forall>l. env_put (db_env s0) l = None) \<longrightarrow> in_sync (ls_plugin ls))"
    using assms
  proof (induction rule: loop_reachable.induct)
    case start
    then show ?case by (simp add: loop_inv_def)
  next
    case (step ls elapsed msg ls')
    then show ?case using loop_step_inv [of s0 ls elapsed msg ls'] by simp
  qed
  then show "loop_inv s0 ls" "in_sync s0 \<Longrightarrow> \<forall>l. env_put (db_env s0) l = None \<Longrightarrow> in_sync (ls_plugin ls)" by simp_all
qed

end
