(* ===== verification/HttpApi.thy ===== *)
theory HttpApi
  imports ControllerInv
begin

text \<open>
  What sends messages to the loop: the REST handlers of the six managers, their watchers of etcd, the
  watcher of the contiv map and the end of the plugin's start (\<open>sysparms.go\<close>, \<open>ipampool.go\<close>,
  \<open>networkpodnodemap.go\<close>, \<open>networknodeoverlay.go\<close>, \<open>networknode.go\<close>, \<open>networkservice.go\<close>,
  \<open>plugin_impl_controller.go\<close>).

  A request carries the variable of its URL and its body as \<open>ioutil.ReadAll\<close> and
  \<open>json.Unmarshal\<close> give it: an error of one of the two, or an object.  A handler returns its response,
  if it writes one, and the messages it sends; a panic, which the http server recovers from without a
  response, is \<open>None\<close>.
\<close>

section \<open>Requests\<close>

datatype 'a http_body =
    BError err
  | BText string
  | BObject 'a
  | BArray "'a list"

type_synonym 'a http_result = "((nat \<times> 'a http_body) option \<times> OperationalMsg list) option"

record 'a http_request =
  rq_Method :: string
  rq_Var :: string
  rq_Body :: "err + 'a"

abbreviation StatusOK :: nat where "StatusOK \<equiv> 200"
abbreviation StatusBadRequest :: nat where "StatusBadRequest \<equiv> 400"
abbreviation StatusNotFound :: nat where "StatusNotFound \<equiv> 404"

abbreviation ModelTypeSysParameters :: string where "ModelTypeSysParameters \<equiv> ''system-parameters''"
abbreviation ModelTypeIPAMPool :: string where "ModelTypeIPAMPool \<equiv> ''ipam-pool''"
abbreviation ModelTypeNetworkPodNodeMap :: string where "ModelTypeNetworkPodNodeMap \<equiv> ''network-pod-to-node-map''"
abbreviation ModelTypeNetworkNodeOverlay :: string where "ModelTypeNetworkNodeOverlay \<equiv> ''network-node-overlay''"

text \<open>The message \<open>AddOperationMsgToQueue\<close> sends.\<close>

definition AddOperationMsgToQueue :: "string \<Rightarrow> opcode \<Rightarrow> msg_data \<Rightarrow> OperationalMsg" where
  "AddOperationMsgToQueue model opCode d = \<lparr>om_model = model, om_opCode = opCode, om_data = d\<rparr>"

definition reply :: "nat \<Rightarrow> 'a http_body \<Rightarrow> OperationalMsg list \<Rightarrow> 'a http_result" where
  "reply code body msgs = Some (Some (code, body), msgs)"

definition nameMismatch :: "'a http_result" where
  "nameMismatch = reply StatusBadRequest (BText ''json name does not matach url name'') []"

text \<open>The answer to a GET of one object.\<close>

definition getReply :: "string \<Rightarrow> 'a option \<Rightarrow> 'a http_result" where
  "getReply name found =
    (case found of
       Some x \<Rightarrow> reply StatusOK (BObject x) []
     | None \<Rightarrow> reply StatusNotFound (BText (''not found: '' @ name)) [])"

section \<open>System parameters\<close>

definition SysParms_HandleCRUDOperationR :: "Plugin \<Rightarrow> SystemParameters" where
  "SysParms_HandleCRUDOperationR s = sysParmCache s"

definition systemParametersProcessPost :: "SystemParameters http_request \<Rightarrow> Plugin \<Rightarrow> SystemParameters http_result" where
  "systemParametersProcessPost rq s =
    (case rq_Body rq of
       Inl err \<Rightarrow> reply StatusBadRequest (BError err) []
     | Inr sp \<Rightarrow>
         if SysParms_ConfigEqual (SysParms_HandleCRUDOperationR s) sp then reply StatusOK (BText ''OK'') []
         else case SysParms_validate sp of
           (Some err, _) \<Rightarrow> reply StatusBadRequest (BError err) []
         | (None, sp') \<Rightarrow> reply StatusOK (BText ''OK'')
             [AddOperationMsgToQueue ModelTypeSysParameters OpCodeCreateUpdate (MSysParms sp')])"

definition systemParametersHandler :: "SystemParameters http_request \<Rightarrow> Plugin \<Rightarrow> SystemParameters http_result" where
  "systemParametersHandler rq s =
    (if rq_Method rq = ''GET'' then reply StatusOK (BObject (SysParms_HandleCRUDOperationR s)) []
     else if rq_Method rq = ''POST'' then systemParametersProcessPost rq s
     else Some (None, []))"

section \<open>Address pools\<close>

definition IPAMPool_HandleCRUDOperationR :: "string \<Rightarrow> Plugin \<Rightarrow> IPAMPool option" where
  "IPAMPool_HandleCRUDOperationR name s = map_of (ipamPoolCache s) name"

definition IPAMPool_HandleCRUDOperationGetAll :: "Plugin \<Rightarrow> IPAMPool gomap" where
  "IPAMPool_HandleCRUDOperationGetAll s = ipamPoolCache s"

definition processPost :: "IPAMPool http_request \<Rightarrow> Plugin \<Rightarrow> IPAMPool http_result" where
  "processPost rq s =
    (case rq_Body rq of
       Inl err \<Rightarrow> reply StatusBadRequest (BError err) []
     | Inr ipamPool \<Rightarrow> do {
         md \<leftarrow> ipp_Metadata ipamPool;
         if rq_Var rq \<noteq> md_Name md then nameMismatch
         else if case IPAMPool_HandleCRUDOperationR (rq_Var rq) s of
             Some existing \<Rightarrow> IPAMPool_ConfigEqual existing ipamPool | None \<Rightarrow> False
         then reply StatusOK (BText ''OK'') []
         else case IPAMPool_validate ipamPool of
           Some err \<Rightarrow> reply StatusBadRequest (BError err) []
         | None \<Rightarrow> reply StatusOK (BText ''OK'')
             [AddOperationMsgToQueue ModelTypeIPAMPool OpCodeCreateUpdate (MIPAMPool ipamPool)]
       })"

definition processDelete :: "IPAMPool http_request \<Rightarrow> IPAMPool http_result" where
  "processDelete rq = reply StatusOK (BText ''OK'')
    [AddOperationMsgToQueue ModelTypeIPAMPool OpCodeDelete (MName (rq_Var rq))]"

definition entityHandler :: "IPAMPool http_request \<Rightarrow> Plugin \<Rightarrow> IPAMPool http_result" where
  "entityHandler rq s =
    (if rq_Method rq = ''GET'' then getReply (rq_Var rq) (IPAMPool_HandleCRUDOperationR (rq_Var rq) s)
     else if rq_Method rq = ''POST'' then processPost rq s
     else if rq_Method rq = ''DELETE'' then processDelete rq
     else Some (None, []))"

definition getAllHandler :: "string \<Rightarrow> Plugin \<Rightarrow> IPAMPool http_result" where
  "getAllHandler httpMethod s =
    (if httpMethod = ''GET'' then reply StatusOK (BArray (map snd (IPAMPool_HandleCRUDOperationGetAll s))) []
     else Some (None, []))"

definition IPAMPool_GetAllURL :: string where
  "IPAMPool_GetAllURL = SfcControllerConfigPrefix @ ''ipam-pools''"

section \<open>The pod to node map\<close>

definition PodNodeMap_HandleCRUDOperationGetAll :: "Plugin \<Rightarrow> NetworkPodToNodeMap gomap" where
  "PodNodeMap_HandleCRUDOperationGetAll s = networkPodNodeCache s"

definition networkPodNodeMapProcessPost :: "NetworkPodToNodeMap http_request \<Rightarrow> Plugin \<Rightarrow> NetworkPodToNodeMap http_result" where
  "networkPodNodeMapProcessPost rq s =
    (case rq_Body rq of
       Inl err \<Rightarrow> reply StatusBadRequest (BError err) []
     | Inr p2n \<Rightarrow>
         if rq_Var rq \<noteq> pnm_Pod p2n then nameMismatch
         else if case PodNodeMap_HandleCRUDOperationR (rq_Var rq) s of
             Some existing \<Rightarrow> PodNodeMap_ConfigEqual existing p2n | None \<Rightarrow> False
         then reply StatusOK (BText ''OK'') []
         else case PodNodeMap_validate p2n of
           Some err \<Rightarrow> reply StatusBadRequest (BError err) []
         | None \<Rightarrow> reply StatusOK (BText ''OK'')
             [AddOperationMsgToQueue ModelTypeNetworkPodNodeMap OpCodeCreateUpdate (MPodMap p2n)])"

definition networkPodNodeMapProcessDelete :: "NetworkPodToNodeMap http_request \<Rightarrow> NetworkPodToNodeMap http_result" where
  "networkPodNodeMapProcessDelete rq = reply StatusOK (BText ''OK'')
    [AddOperationMsgToQueue ModelTypeNetworkPodNodeMap OpCodeDelete (MName (rq_Var rq))]"

definition networkPodNodeMapHandler :: "NetworkPodToNodeMap http_request \<Rightarrow> Plugin \<Rightarrow> NetworkPodToNodeMap http_result" where
  "networkPodNodeMapHandler rq s =
    (if rq_Method rq = ''GET'' then getReply (rq_Var rq) (PodNodeMap_HandleCRUDOperationR (rq_Var rq) s)
     else if rq_Method rq = ''POST'' then networkPodNodeMapProcessPost rq s
     else if rq_Method rq = ''DELETE'' then networkPodNodeMapProcessDelete rq
     else Some (None, []))"

definition networkPodNodeMapGetAllHandler :: "string \<Rightarrow> Plugin \<Rightarrow> NetworkPodToNodeMap http_result" where
  "networkPodNodeMapGetAllHandler httpMethod s =
    (if httpMethod = ''GET'' then reply StatusOK (BArray (map snd (PodNodeMap_HandleCRUDOperationGetAll s))) []
     else Some (None, []))"

definition PodNodeMap_GetAllURL :: string where
  "PodNodeMap_GetAllURL = SfcControllerConfigPrefix @ ''network-pod-to-node-map''"

section \<open>Node overlays\<close>

definition Overlay_HandleCRUDOperationGetAll :: "Plugin \<Rightarrow> NetworkNodeOverlay gomap" where
  "Overlay_HandleCRUDOperationGetAll s = networkNodeOverlayCache s"

definition networkNodeOverlayProcessPost :: "NetworkNodeOverlay http_request \<Rightarrow> Plugin \<Rightarrow> NetworkNodeOverlay http_result" where
  "networkNodeOverlayProcessPost rq s =
    (case rq_Body rq of
       Inl err \<Rightarrow> reply StatusBadRequest (BError err) []
     | Inr nno \<Rightarrow> do {
         md \<leftarrow> nno_Metadata nno;
         if rq_Var rq \<noteq> md_Name md then nameMismatch
         else if case Overlay_HandleCRUDOperationR (rq_Var rq) s of
             Some existing \<Rightarrow> Overlay_ConfigEqual existing nno | None \<Rightarrow> False
         then reply StatusOK (BText ''OK'') []
         else do {
           err \<leftarrow> Overlay_validate nno;
           (case err of
              Some e \<Rightarrow> reply StatusBadRequest (BError e) []
            | None \<Rightarrow> reply StatusOK (BText ''OK'')
                [AddOperationMsgToQueue ModelTypeNetworkNodeOverlay OpCodeCreateUpdate (MOverlay nno)])
         }
       })"

definition networkNodeOverlayProcessDelete :: "NetworkNodeOverlay http_request \<Rightarrow> NetworkNodeOverlay http_result" where
  "networkNodeOverlayProcessDelete rq = reply StatusOK (BText ''OK'')
    [AddOperationMsgToQueue ModelTypeNetworkNodeOverlay OpCodeDelete (MName (rq_Var rq))]"

definition networkNodeOverlayHandler :: "NetworkNodeOverlay http_request \<Rightarrow> Plugin \<Rightarrow> NetworkNodeOverlay http_result" where
  "networkNodeOverlayHandler rq s =
    (if rq_Method rq = ''GET'' then getReply (rq_Var rq) (Overlay_HandleCRUDOperationR (rq_Var rq) s)
     else if rq_Method rq = ''POST'' then networkNodeOverlayProcessPost rq s
     else if rq_Method rq = ''DELETE'' then networkNodeOverlayProcessDelete rq
     else Some (None, []))"

definition networkNodeOverlayGetAllHandler :: "string \<Rightarrow> Plugin \<Rightarrow> NetworkNodeOverlay http_result" where
  "networkNodeOverlayGetAllHandler httpMethod s =
    (if httpMethod = ''GET'' then reply StatusOK (BArray (map snd (Overlay_HandleCRUDOperationGetAll s))) []
     else Some (None, []))"

definition Overlay_GetAllURL :: string where
  "Overlay_GetAllURL = SfcControllerConfigPrefix @ ''network-node-overlays''"

section \<open>Nodes\<close>

definition NetworkNode_HandleCRUDOperationGetAll :: "Plugin \<Rightarrow> NetworkNode gomap" where
  "NetworkNode_HandleCRUDOperationGetAll s = networkNodeCache s"

text \<open>Validation names the parents of the interfaces in the posted node, and an unchanged node is
  recognised after that; the message carries the node as both validations leave it.\<close>

definition httpNetworkNodeProcessPost :: "NetworkNode http_request \<Rightarrow> Plugin \<Rightarrow> NetworkNode http_result" where
  "httpNetworkNodeProcessPost rq s =
    (case rq_Body rq of
       Inl err \<Rightarrow> reply StatusBadRequest (BError err) []
     | Inr nn \<Rightarrow> do {
         md \<leftarrow> nn_Metadata nn;
         if rq_Var rq \<noteq> md_Name md then nameMismatch
         else do {
           (same, nn1) \<leftarrow>
             (case NetworkNode_HandleCRUDOperationR (rq_Var rq) s of
                None \<Rightarrow> Some (False, nn)
              | Some existing \<Rightarrow> do {
                  (err, nn1) \<leftarrow> NetworkNode_validate nn s;
                  Some (err = None \<and> NetworkNode_ConfigEqual existing nn1, nn1)
                });
           if same then reply StatusOK (BText ''OK'') []
           else do {
             (err, nn2) \<leftarrow> NetworkNode_validate nn1 s;
             (case err of
                Some e \<Rightarrow> reply StatusBadRequest (BError e) []
              | None \<Rightarrow> reply StatusOK (BText ''OK'')
                  [AddOperationMsgToQueue ModelTypeNetworkNode OpCodeCreateUpdate (MNode nn2)])
           }
         }
       })"

definition httpNetworkNodeProcessDelete :: "NetworkNode http_request \<Rightarrow> NetworkNode http_result" where
  "httpNetworkNodeProcessDelete rq = reply StatusOK (BText ''OK'')
    [AddOperationMsgToQueue ModelTypeNetworkNode OpCodeDelete (MName (rq_Var rq))]"

definition httpNetworkNodeHandler :: "NetworkNode http_request \<Rightarrow> Plugin \<Rightarrow> NetworkNode http_result" where
  "httpNetworkNodeHandler rq s =
    (if rq_Method rq = ''GET'' then getReply (rq_Var rq) (NetworkNode_HandleCRUDOperationR (rq_Var rq) s)
     else if rq_Method rq = ''POST'' then httpNetworkNodeProcessPost rq s
     else if rq_Method rq = ''DELETE'' then httpNetworkNodeProcessDelete rq
     else Some (None, []))"

definition httpNetworkNodeGetAllHandler :: "string \<Rightarrow> Plugin \<Rightarrow> NetworkNode http_result" where
  "httpNetworkNodeGetAllHandler httpMethod s =
    (if httpMethod = ''GET'' then reply StatusOK (BArray (map snd (NetworkNode_HandleCRUDOperationGetAll s))) []
     else Some (None, []))"

definition NetworkNode_GetAllURL :: string where
  "NetworkNode_GetAllURL = SfcControllerConfigPrefix @ ''network-nodes''"

section \<open>Services\<close>

definition NetworkService_HandleCRUDOperationGetAll :: "Plugin \<Rightarrow> NetworkService gomap" where
  "NetworkService_HandleCRUDOperationGetAll s = networkServiceCache s"

definition networkServiceProcessPost :: "NetworkService http_request \<Rightarrow> Plugin \<Rightarrow> NetworkService http_result" where
  "networkServiceProcessPost rq s =
    (case rq_Body rq of
       Inl err \<Rightarrow> reply StatusBadRequest (BError err) []
     | Inr ns \<Rightarrow> do {
         md \<leftarrow> ns_Metadata ns;
         if rq_Var rq \<noteq> md_Name md then nameMismatch
         else if case NetworkService_HandleCRUDOperationR (rq_Var rq) s of
             Some existing \<Rightarrow> NetworkService_ConfigEqual existing ns | None \<Rightarrow> False
         then reply StatusOK (BText ''OK'') []
         else do {
           err \<leftarrow> NetworkService_validate ns s;
           (case err of
              Some e \<Rightarrow> reply StatusBadRequest (BError e) []
            | None \<Rightarrow> reply StatusOK (BText ''OK'')
                [AddOperationMsgToQueue ModelTypeNetworkService OpCodeCreateUpdate (MService ns)])
         }
       })"

definition networkServiceProcessDelete :: "NetworkService http_request \<Rightarrow> NetworkService http_result" where
  "networkServiceProcessDelete rq = reply StatusOK (BText ''OK'')
    [AddOperationMsgToQueue ModelTypeNetworkService OpCodeDelete (MName (rq_Var rq))]"

definition networkServiceHandler :: "NetworkService http_request \<Rightarrow> Plugin \<Rightarrow> NetworkService http_result" where
  "networkServiceHandler rq s =
    (if rq_Method rq = ''GET'' then getReply (rq_Var rq) (NetworkService_HandleCRUDOperationR (rq_Var rq) s)
     else if rq_Method rq = ''POST'' then networkServiceProcessPost rq s
     else if rq_Method rq = ''DELETE'' then networkServiceProcessDelete rq
     else Some (None, []))"

definition networkServiceGetAllHandler :: "string \<Rightarrow> Plugin \<Rightarrow> NetworkService http_result" where
  "networkServiceGetAllHandler httpMethod s =
    (if httpMethod = ''GET'' then reply StatusOK (BArray (map snd (NetworkService_HandleCRUDOperationGetAll s))) []
     else Some (None, []))"

definition NetworkService_GetAllURL :: string where
  "NetworkService_GetAllURL = SfcControllerConfigPrefix @ ''network-services''"

section \<open>Watchers\<close>

text \<open>A change etcd reports.  The watcher is given the prefix of its keys and etcd's client removes it
  from the keys it reports: the key of a deleted object is its name.\<close>

datatype change_type = Put | Delete

record watch_resp =
  wr_ChangeType :: change_type
  wr_Key :: string

definition InitAndRunWatcher :: "string \<Rightarrow> watch_resp \<Rightarrow> OperationalMsg list" where
  "InitAndRunWatcher model resp =
    (case wr_ChangeType resp of
       Delete \<Rightarrow> [AddOperationMsgToQueue model OpCodeDelete (MName (wr_Key resp))]
     | Put \<Rightarrow> [])"

definition SysParms_InitAndRunWatcher :: "watch_resp \<Rightarrow> OperationalMsg list" where
  "SysParms_InitAndRunWatcher resp = InitAndRunWatcher ModelTypeSysParameters resp"

definition IPAMPool_InitAndRunWatcher :: "watch_resp \<Rightarrow> OperationalMsg list" where
  "IPAMPool_InitAndRunWatcher resp = InitAndRunWatcher ModelTypeIPAMPool resp"

definition PodNodeMap_InitAndRunWatcher :: "watch_resp \<Rightarrow> OperationalMsg list" where
  "PodNodeMap_InitAndRunWatcher resp = InitAndRunWatcher ModelTypeNetworkPodNodeMap resp"

definition Overlay_InitAndRunWatcher :: "watch_resp \<Rightarrow> OperationalMsg list" where
  "Overlay_InitAndRunWatcher resp = InitAndRunWatcher ModelTypeNetworkNodeOverlay resp"

definition NetworkNode_InitAndRunWatcher :: "watch_resp \<Rightarrow> OperationalMsg list" where
  "NetworkNode_InitAndRunWatcher resp = InitAndRunWatcher ModelTypeNetworkNode resp"

definition NetworkService_InitAndRunWatcher :: "watch_resp \<Rightarrow> OperationalMsg list" where
  "NetworkService_InitAndRunWatcher resp = InitAndRunWatcher ModelTypeNetworkService resp"

text \<open>The watcher of the contiv map and its timer: an event is a change or, \<open>None\<close>, a tick.\<close>

definition RunContivKSRNetworkPodToNodeMappingWatcher :: "watch_resp option \<Rightarrow> OperationalMsg list" where
  "RunContivKSRNetworkPodToNodeMappingWatcher event =
    (case event of
       None \<Rightarrow> [AddOperationMsgToQueue '''' OpCodeResyncContivNetworkPodMap MNil]
     | Some resp \<Rightarrow>
         (case wr_ChangeType resp of
            Put \<Rightarrow> [AddOperationMsgToQueue '''' OpCodeResyncContivNetworkPodMap MNil]
          | Delete \<Rightarrow> [AddOperationMsgToQueue '''' OpCodeResyncContivNetworkPodMap MNil]))"

text \<open>The messages the start of the plugin ends with.\<close>

definition Plugin_AfterInit :: "OperationalMsg list" where
  "Plugin_AfterInit =
    [AddOperationMsgToQueue '''' OpCodeEnableRenderer MNil,
     AddOperationMsgToQueue '''' OpCodeResyncContivNetworkPodMap MNil,
     AddOperationMsgToQueue '''' OpCodeRender MNil]"

section \<open>A REST resource\<close>

text \<open>The contract of a resource: a POST sends a message only for an object that validation accepts,
  which has the name of the URL and differs from what is stored; handling the message stores an object
  that compares equal; a POST of an object that compares equal to the stored one sends nothing;
  deleting removes.  The clients of the contract are the lemmas below it.\<close>

locale rest_resource =
  fixes post :: "'a http_request \<Rightarrow> Plugin \<Rightarrow> 'a http_result"
    and create :: "'a \<Rightarrow> Plugin \<Rightarrow> (err option \<times> Plugin) option"
    and remove :: "string \<Rightarrow> Plugin \<Rightarrow> (err option \<times> Plugin) option"
    and lookup :: "string \<Rightarrow> Plugin \<Rightarrow> 'a option"
    and name_of :: "'a \<Rightarrow> string option"
    and same :: "'a \<Rightarrow> 'a \<Rightarrow> bool"
    and norm :: "'a \<Rightarrow> 'a"
    and accepts :: "'a \<Rightarrow> Plugin \<Rightarrow> bool"
    and model :: string
    and wrap :: "'a \<Rightarrow> msg_data"
  assumes post_message: "post rq s = Some (resp, msgs) \<Longrightarrow> msgs \<noteq> [] \<Longrightarrow>
      \<exists>x y. resp = Some (StatusOK, BText ''OK'') \<and> msgs = [AddOperationMsgToQueue model OpCodeCreateUpdate (wrap x)]
        \<and> rq_Body rq = Inr y \<and> x = norm y \<and> name_of x = Some (rq_Var rq) \<and> accepts x s \<and> \<not> (\<exists>e. lookup (rq_Var rq) s = Some e \<and> same e x)"
    and post_same: "rq_Body rq = Inr y \<Longrightarrow> x = norm y \<Longrightarrow> name_of x = Some (rq_Var rq) \<Longrightarrow> lookup (rq_Var rq) s = Some e \<Longrightarrow> same e x
      \<Longrightarrow> accepts x s \<Longrightarrow> post rq s = reply StatusOK (BText ''OK'') []"
    and create_lookup: "accepts x s \<Longrightarrow> name_of x = Some n \<Longrightarrow> create x s = Some (err, s')
      \<Longrightarrow> (\<exists>e. lookup n s' = Some e \<and> same e x) \<and> accepts x s'"
    and remove_lookup: "remove n s = Some (err, s') \<Longrightarrow> lookup n s' = None"
    and dispatch: "\<exists>mgr. findModelManager model RegisteredManagers = Some mgr
      \<and> HandleCRUDOperationCU mgr (wrap x) s = create x s \<and> HandleCRUDOperationD mgr (MName n) s = remove n s"
begin

lemma post_then_read:
  assumes "post rq (ls_plugin ls) = Some (resp, msgs)" "m \<in> set msgs" "processMsg m ls = Some ls'"
  shows "\<exists>x e. m = AddOperationMsgToQueue model OpCodeCreateUpdate (wrap x) \<and> lookup (rq_Var rq) (ls_plugin ls') = Some e
    \<and> same e x \<and> isRenderingPending ls' \<and> post rq (ls_plugin ls') = reply StatusOK (BText ''OK'') []"
proof -
  have "msgs \<noteq> []" using assms(2) by auto
  then obtain x y where x: "msgs = [AddOperationMsgToQueue model OpCodeCreateUpdate (wrap x)]" "name_of x = Some (rq_Var rq)"
    "accepts x (ls_plugin ls)" "rq_Body rq = Inr y" "x = norm y" using post_message [OF assms(1)] by blast
  then have m: "m = AddOperationMsgToQueue model OpCodeCreateUpdate (wrap x)" using assms(2) by simp
  obtain err s' where h: "create x (ls_plugin ls) = Some (err, s')" "ls' = ls\<lparr>isRenderingPending := True, ls_plugin := s'\<rparr>"
    using assms(3) dispatch [of x "ls_plugin ls"] unfolding m
    by (auto simp: processMsg_def AddOperationMsgToQueue_def split: Option.bind_splits)
  from create_lookup [OF x(3,2) h(1)] obtain e where e: "lookup (rq_Var rq) s' = Some e" "same e x" "accepts x s'" by blast
  from post_same [OF x(4,5,2) e] e h(2) m show ?thesis by auto
qed

lemma delete_then_read:
  assumes "processMsg (AddOperationMsgToQueue model OpCodeDelete (MName n)) ls = Some ls'"
  shows "lookup n (ls_plugin ls') = None"
  using assms dispatch [of undefined "ls_plugin ls" n] remove_lookup [of n "ls_plugin ls"]
  by (auto simp: processMsg_def AddOperationMsgToQueue_def split: Option.bind_splits)

end

section \<open>The managers as resources\<close>

lemma metadataEqual_refl [simp]: "metadataEqual md md"
  by (simp add: metadataEqual_def split: option.splits)

lemma EntityCreate_fields:
  assumes "EntityCreate n scope s = Some s'"
  shows "sysParmCache s' = sysParmCache s \<and> ipamPoolCache s' = ipamPoolCache s \<and> networkNodeCache s' = networkNodeCache s
    \<and> networkServiceCache s' = networkServiceCache s"
  using assms unfolding EntityCreate_def
  by (rule foldM_invariant [where P = "\<lambda>s'. sysParmCache s' = sysParmCache s \<and> ipamPoolCache s' = ipamPoolCache s
      \<and> networkNodeCache s' = networkNodeCache s \<and> networkServiceCache s' = networkServiceCache s"])
    (auto simp: entityCreateStep_def Let_def split: Option.bind_splits sum.splits if_splits)

lemma EntityDelete_fields:
  assumes "EntityDelete n scope s = Some s'"
  shows "networkNodeCache s' = networkNodeCache s \<and> networkServiceCache s' = networkServiceCache s
    \<and> gkeys (ipamPoolCache s') = gkeys (ipamPoolCache s)"
  using assms unfolding EntityDelete_def
  by (rule foldM_invariant [where P = "\<lambda>s'. networkNodeCache s' = networkNodeCache s
      \<and> networkServiceCache s' = networkServiceCache s \<and> gkeys (ipamPoolCache s') = gkeys (ipamPoolCache s)"])
    (auto simp: entityDeleteStep_def Let_def gkeys_gput split: Option.bind_splits sum.splits option.splits prod.splits if_splits)

lemmas post_defs = reply_def nameMismatch_def findModelManager.simps RegisteredManagers_def HandleCRUDOperationCU_def
  HandleCRUDOperationD_def

interpretation podmap_rest: rest_resource networkPodNodeMapProcessPost "\<lambda>x s. Some (PodNodeMap_HandleCRUDOperationCU x s)"
  "\<lambda>n s. Some (PodNodeMap_HandleCRUDOperationD n s)" PodNodeMap_HandleCRUDOperationR "\<lambda>x. Some (pnm_Pod x)"
  PodNodeMap_ConfigEqual "\<lambda>x. x" "\<lambda>x s. True" ModelTypeNetworkPodNodeMap MPodMap
  by unfold_locales
    (auto simp: networkPodNodeMapProcessPost_def PodNodeMap_validate_def PodNodeMap_HandleCRUDOperationCU_def
      PodNodeMap_HandleCRUDOperationD_def PodNodeMap_HandleCRUDOperationR_def PodNodeMap_writeToDatastore_def
      WriteToDatastore_def DeleteFromDatastore_def PodNodeMap_ConfigEqual_def Let_def post_defs
      split: sum.splits if_splits option.splits)

interpretation overlay_rest: rest_resource networkNodeOverlayProcessPost Overlay_HandleCRUDOperationCU
  "\<lambda>n s. Some (Overlay_HandleCRUDOperationD n s)" Overlay_HandleCRUDOperationR "\<lambda>x. map_option md_Name (nno_Metadata x)"
  Overlay_ConfigEqual "\<lambda>x. x" "\<lambda>x s. Overlay_validate x = Some None" ModelTypeNetworkNodeOverlay MOverlay
proof unfold_locales
  fix x s n err s'
  assume x: "Overlay_validate x = Some None" "map_option md_Name (nno_Metadata x) = Some n"
    "Overlay_HandleCRUDOperationCU x s = Some (err, s')"
  then have "Overlay_validate (x\<lparr>nno_Status := None\<rparr>) = Some None" by (simp add: Overlay_validate_def)
  then have "Overlay_HandleCRUDOperationR n s' = Some (x\<lparr>nno_Status := None\<rparr>)"
    using x(2,3) by (auto simp: Overlay_HandleCRUDOperationCU_def Overlay_writeToDatastore_def WriteToDatastore_def
      Overlay_HandleCRUDOperationR_def Let_def split: Option.bind_splits option.splits if_splits)
  then show "(\<exists>e. Overlay_HandleCRUDOperationR n s' = Some e \<and> Overlay_ConfigEqual e x) \<and> Overlay_validate x = Some None"
    using x(1) by (simp add: Overlay_ConfigEqual_def)
qed (auto simp: networkNodeOverlayProcessPost_def Overlay_HandleCRUDOperationD_def Overlay_HandleCRUDOperationR_def
      DeleteFromDatastore_def post_defs split: sum.splits if_splits option.splits Option.bind_splits)

interpretation pool_rest: rest_resource processPost IPAMPool_HandleCRUDOperationCU IPAMPool_HandleCRUDOperationD
  IPAMPool_HandleCRUDOperationR "\<lambda>x. map_option md_Name (ipp_Metadata x)" IPAMPool_ConfigEqual
  "\<lambda>x. x" "\<lambda>x s. IPAMPool_validate x = None" ModelTypeIPAMPool MIPAMPool
proof unfold_locales
  fix x s n err s'
  assume x: "IPAMPool_validate x = None" "map_option md_Name (ipp_Metadata x) = Some n"
    "IPAMPool_HandleCRUDOperationCU x s = Some (err, s')"
  then obtain s2 pool where "IPAMPool_writeToDatastore pool (s2\<lparr>ipamPoolCache := gput n pool (ipamPoolCache s2)\<rparr>) = Some (err, s')"
    "IPAMPool_ConfigEqual pool x"
    by (auto simp: IPAMPool_HandleCRUDOperationCU_def IPAMPool_ConfigEqual_def Let_def split: Option.bind_splits)
  then have "IPAMPool_HandleCRUDOperationR n s' = Some pool" "IPAMPool_ConfigEqual pool x"
    by (auto simp: IPAMPool_writeToDatastore_def WriteToDatastore_def IPAMPool_HandleCRUDOperationR_def Let_def
      split: Option.bind_splits)
  then show "(\<exists>e. IPAMPool_HandleCRUDOperationR n s' = Some e \<and> IPAMPool_ConfigEqual e x) \<and> IPAMPool_validate x = None"
    using x(1) by simp
next
  fix n s err s'
  assume "IPAMPool_HandleCRUDOperationD n s = Some (err, s')"
  then have "ipamPoolCache s' = ipamPoolCache s \<and> map_of (ipamPoolCache s) n = None
      \<or> gkeys (ipamPoolCache s') = gkeys (gdel n (ipamPoolCache s))"
    by (auto simp: IPAMPool_HandleCRUDOperationD_def DeleteFromDatastore_def Let_def
      split: option.splits Option.bind_splits dest!: EntityDelete_fields)
  moreover have "map_of (ipamPoolCache s') n = None" if "gkeys (ipamPoolCache s') = gkeys (gdel n (ipamPoolCache s))"
  proof -
    have "n \<notin> fst ` set (gdel n (ipamPoolCache s))" by (simp flip: map_of_eq_None_iff)
    then show ?thesis using arg_cong [OF that, of set] by (simp add: map_of_eq_None_iff)
  qed
  ultimately show "IPAMPool_HandleCRUDOperationR n s' = None" unfolding IPAMPool_HandleCRUDOperationR_def by argo
qed (auto simp: processPost_def IPAMPool_HandleCRUDOperationR_def post_defs
    split: sum.splits if_splits option.splits Option.bind_splits)

text \<open>Validation of nodes and services looks at the system parameters only, and validating a node
  twice is validating it once.\<close>

lemma nodeValidateInterfaces_again:
  "nodeValidateInterfaces n is = (err, is') \<Longrightarrow> nodeValidateInterfaces n is' = (err, is')"
proof (induction "is" arbitrary: err is')
  case (Cons i "is")
  let ?i = "i\<lparr>if_Parent := n\<rparr>" and ?bad = "find (\<lambda>ipAddress. ParseCIDR ipAddress = None) (if_IpAddresses i)"
  show ?case
  proof (cases "if_IfType i \<noteq> IfTypeEthernet \<and> if_IfType i \<noteq> IfTypeVxlanTunnel")
    case True
    then have "is' = i # is" using Cons.prems by simp
    then show ?thesis using Cons.prems by simp
  next
    case type: False
    show ?thesis
    proof (cases ?bad)
      case (Some a)
      then have "is' = ?i # is" using Cons.prems type by (simp add: Let_def)
      then show ?thesis using Cons.prems type Some by (auto simp: Let_def)
    next
      case None
      obtain e js where r: "nodeValidateInterfaces n is = (e, js)" by fastforce
      then have "is' = ?i # js" "err = e" using Cons.prems type None by (simp_all add: Let_def)
      then show ?thesis using type None Cons.IH [OF r] by (auto simp: Let_def)
    qed
  qed
qed simp

text \<open>A node as validation leaves it when it accepts it.\<close>

definition namedParents :: "NetworkNode \<Rightarrow> NetworkNode" where
  "namedParents nn =
    (case (nn_Spec nn, nn_Metadata nn) of
       (Some spec, Some md) \<Rightarrow> nn\<lparr>nn_Spec := Some (spec\<lparr>nn_Interfaces :=
         snd (nodeValidateInterfaces (md_Name md) (nn_Interfaces spec))\<rparr>)\<rparr>
     | _ \<Rightarrow> nn)"

lemma NetworkNode_validate_named: "NetworkNode_validate nn s = Some (err, nn') \<Longrightarrow> nn' = namedParents nn"
  by (auto simp: NetworkNode_validate_def namedParents_def Let_def split: Option.bind_splits prod.splits)

lemma NetworkNode_validate_again:
  assumes "NetworkNode_validate nn s = Some (err, nn')"
  shows "NetworkNode_validate nn' s = Some (err, nn')"
proof -
  obtain spec md where nn: "nn_Spec nn = Some spec" "nn_Metadata nn = Some md"
    using assms by (auto simp: NetworkNode_validate_def split: Option.bind_splits)
  obtain e is' where e: "nodeValidateInterfaces (md_Name md) (nn_Interfaces spec) = (e, is')" by fastforce
  then have r: "err = (if e \<noteq> None then e else nodeValidateL2Bds (md_Name md) (nn_L2Bds spec) s)"
    "nn' = nn\<lparr>nn_Spec := Some (spec\<lparr>nn_Interfaces := is'\<rparr>)\<rparr>"
    using assms nn by (simp_all add: NetworkNode_validate_def Let_def)
  show ?thesis unfolding r using nn nodeValidateInterfaces_again [OF e] by (simp add: NetworkNode_validate_def Let_def)
qed

lemma namedParents_accepted:
  assumes "NetworkNode_validate (namedParents nn) s = Some (None, namedParents nn)"
  shows "NetworkNode_validate nn s = Some (None, namedParents nn)"
proof -
  obtain spec md where nn: "nn_Spec nn = Some spec" "nn_Metadata nn = Some md"
    using assms by (auto simp: NetworkNode_validate_def namedParents_def split: Option.bind_splits option.splits)
  obtain e is' where e: "nodeValidateInterfaces (md_Name md) (nn_Interfaces spec) = (e, is')" by fastforce
  show ?thesis
    using assms nn e nodeValidateInterfaces_again [OF e]
    by (auto simp: NetworkNode_validate_def namedParents_def Let_def split: if_splits)
qed

lemma nodeValidateL2Bds_cong: "sysParmCache s' = sysParmCache s \<Longrightarrow> nodeValidateL2Bds n bds s' = nodeValidateL2Bds n bds s"
  by (induction bds) (simp_all add: FindL2BDTemplate_def)

lemma NetworkNode_validate_cong: "sysParmCache s' = sysParmCache s \<Longrightarrow> NetworkNode_validate nn s' = NetworkNode_validate nn s"
  by (simp only: NetworkNode_validate_def nodeValidateL2Bds_cong [of s' s])

lemma NetworkService_validate_cong:
  assumes "sysParmCache s' = sysParmCache s"
  shows "NetworkService_validate ns s' = NetworkService_validate ns s"
proof -
  have "FindL2BDTemplate t s' = FindL2BDTemplate t s" for t using assms by (simp add: FindL2BDTemplate_def)
  then have "validateConnL2Bd n c s' = validateConnL2Bd n c s" for n c by (simp only: validateConnL2Bd_def)
  then have "validateConnType n c s' = validateConnType n c s" for n c by (simp only: validateConnType_def)
  then have "validateConnection n p s' = validateConnection n p s" for n p
    by (intro ext) (simp only: validateConnection_def)
  then show ?thesis by (simp only: NetworkService_validate_def)
qed

lemma NetworkNode_validate_status:
  "NetworkNode_validate (nn\<lparr>nn_Status := st\<rparr>) s = map_option (\<lambda>(err, nn'). (err, nn'\<lparr>nn_Status := st\<rparr>)) (NetworkNode_validate nn s)"
  by (simp add: NetworkNode_validate_def Let_def split: prod.splits Option.bind_splits)

lemma NetworkNode_create_accepted:
  assumes v: "NetworkNode_validate x s = Some (None, x)" and md: "nn_Metadata x = Some md"
    and run: "NetworkNode_HandleCRUDOperationCU x s = Some (err, s')"
  shows "map_of (networkNodeCache s') (md_Name md) = Some (x\<lparr>nn_Status := None\<rparr>) \<and> sysParmCache s' = sysParmCache s"
proof -
  have v': "NetworkNode_validate (x\<lparr>nn_Status := None\<rparr>) s = Some (None, x\<lparr>nn_Status := None\<rparr>)"
    using v by (simp add: NetworkNode_validate_status)
  show ?thesis
    using run md
    by (auto simp: NetworkNode_HandleCRUDOperationCU_def v' NetworkNode_writeToDatastore_def WriteToDatastore_def Let_def
      split: Option.bind_splits if_splits dest!: EntityCreate_fields)
qed

lemma NetworkService_create_accepted:
  assumes v: "NetworkService_validate x s = Some None" and md: "ns_Metadata x = Some md"
    and run: "NetworkService_HandleCRUDOperationCU x s = Some (err, s')"
  shows "map_of (networkServiceCache s') (md_Name md) = Some (x\<lparr>ns_Status := None\<rparr>) \<and> sysParmCache s' = sysParmCache s"
proof -
  have v': "NetworkService_validate (x\<lparr>ns_Status := None\<rparr>) s = Some None"
    using v by (cases "ns_Metadata x") (simp_all add: NetworkService_validate_def split: if_splits)
  show ?thesis
    using run md
    by (auto simp: NetworkService_HandleCRUDOperationCU_def v' NetworkService_writeToDatastore_def WriteToDatastore_def Let_def
      split: Option.bind_splits if_splits dest!: EntityCreate_fields)
qed

text \<open>What a POST of a node that is not answered at once sends.\<close>

lemma node_post_sends:
  assumes "httpNetworkNodeProcessPost rq s = Some (resp, msgs)" "msgs \<noteq> []"
  shows "\<exists>x y. resp = Some (StatusOK, BText ''OK'')
    \<and> msgs = [AddOperationMsgToQueue ModelTypeNetworkNode OpCodeCreateUpdate (MNode x)]
    \<and> rq_Body rq = Inr y \<and> x = namedParents y
    \<and> map_option md_Name (nn_Metadata x) = Some (rq_Var rq) \<and> NetworkNode_validate x s = Some (None, x)
    \<and> \<not> (\<exists>e. NetworkNode_HandleCRUDOperationR (rq_Var rq) s = Some e \<and> NetworkNode_ConfigEqual e x)"
proof -
  obtain nn md nn1 nn2 where b: "rq_Body rq = Inr nn" "nn_Metadata nn = Some md" "rq_Var rq = md_Name md"
    "NetworkNode_validate nn1 s = Some (None, nn2)" "resp = Some (StatusOK, BText ''OK'')"
    "msgs = [AddOperationMsgToQueue ModelTypeNetworkNode OpCodeCreateUpdate (MNode nn2)]"
    and same: "case NetworkNode_HandleCRUDOperationR (rq_Var rq) s of None \<Rightarrow> nn1 = nn
      | Some e \<Rightarrow> \<exists>err. NetworkNode_validate nn s = Some (err, nn1) \<and> \<not> (err = None \<and> NetworkNode_ConfigEqual e nn1)"
    using assms by (auto simp: httpNetworkNodeProcessPost_def post_defs split: sum.splits if_splits option.splits Option.bind_splits)
  have "nn2 = nn1" if "NetworkNode_validate nn s = Some (err, nn1)" for err
    using NetworkNode_validate_again [OF that] b(4) by simp
  moreover have "nn_Metadata nn2 = Some md"
    using NetworkNode_validate_keeps [OF b(4)] same b(2)
    by (auto split: option.splits dest!: NetworkNode_validate_keeps)
  moreover have "err = None" if "NetworkNode_validate nn s = Some (err, nn1)" for err
    using NetworkNode_validate_again [OF that] b(4) by simp
  moreover have "nn2 = namedParents nn"
    using NetworkNode_validate_named [OF b(4)] same \<open>\<And>err. NetworkNode_validate nn s = Some (err, nn1) \<Longrightarrow> nn2 = nn1\<close>
    by (auto split: option.splits dest: NetworkNode_validate_named)
  ultimately show ?thesis
    using b NetworkNode_validate_again [OF b(4)] same by (intro exI [of _ nn2] exI [of _ nn]) auto
qed

interpretation node_rest: rest_resource httpNetworkNodeProcessPost NetworkNode_HandleCRUDOperationCU
  NetworkNode_HandleCRUDOperationD NetworkNode_HandleCRUDOperationR "\<lambda>x. map_option md_Name (nn_Metadata x)"
  NetworkNode_ConfigEqual namedParents "\<lambda>x s. NetworkNode_validate x s = Some (None, x)" ModelTypeNetworkNode MNode
proof unfold_locales
  fix rq s resp msgs
  assume "httpNetworkNodeProcessPost rq s = Some (resp, msgs)" "msgs \<noteq> []"
  then show "\<exists>x y. resp = Some (StatusOK, BText ''OK'')
      \<and> msgs = [AddOperationMsgToQueue ModelTypeNetworkNode OpCodeCreateUpdate (MNode x)]
      \<and> rq_Body rq = Inr y \<and> x = namedParents y
      \<and> map_option md_Name (nn_Metadata x) = Some (rq_Var rq) \<and> NetworkNode_validate x s = Some (None, x)
      \<and> \<not> (\<exists>e. NetworkNode_HandleCRUDOperationR (rq_Var rq) s = Some e \<and> NetworkNode_ConfigEqual e x)" by (rule node_post_sends)
next
  fix x s n err s'
  assume x: "NetworkNode_validate x s = Some (None, x)" "map_option md_Name (nn_Metadata x) = Some n"
    "NetworkNode_HandleCRUDOperationCU x s = Some (err, s')"
  then obtain md where md: "nn_Metadata x = Some md" "n = md_Name md" by auto
  note C = NetworkNode_create_accepted [OF x(1) md(1) x(3)]
  then show "(\<exists>e. NetworkNode_HandleCRUDOperationR n s' = Some e \<and> NetworkNode_ConfigEqual e x)
      \<and> NetworkNode_validate x s' = Some (None, x)"
    using x(1) md NetworkNode_validate_cong [of s' s]
    by (simp add: NetworkNode_HandleCRUDOperationR_def NetworkNode_ConfigEqual_def)
next
  fix n s err s'
  assume "NetworkNode_HandleCRUDOperationD n s = Some (err, s')"
  then show "NetworkNode_HandleCRUDOperationR n s' = None"
    by (auto simp: NetworkNode_HandleCRUDOperationD_def NetworkNode_HandleCRUDOperationR_def DeleteFromDatastore_def Let_def
      split: option.splits Option.bind_splits dest!: EntityDelete_fields)
next
  fix rq :: "NetworkNode http_request" and s e x y
  assume b: "rq_Body rq = Inr y" "x = namedParents y" "map_option md_Name (nn_Metadata x) = Some (rq_Var rq)"
    "NetworkNode_HandleCRUDOperationR (rq_Var rq) s = Some e" "NetworkNode_ConfigEqual e x" "NetworkNode_validate x s = Some (None, x)"
  then have v: "NetworkNode_validate y s = Some (None, x)" by (auto intro: namedParents_accepted)
  with NetworkNode_validate_keeps [OF v] b
  show "httpNetworkNodeProcessPost rq s = reply StatusOK (BText ''OK'') []"
    by (auto simp: httpNetworkNodeProcessPost_def)
qed (auto simp: httpNetworkNodeProcessPost_def post_defs split: sum.splits if_splits option.splits Option.bind_splits)

interpretation service_rest: rest_resource networkServiceProcessPost NetworkService_HandleCRUDOperationCU
  NetworkService_HandleCRUDOperationD NetworkService_HandleCRUDOperationR "\<lambda>x. map_option md_Name (ns_Metadata x)"
  NetworkService_ConfigEqual "\<lambda>x. x" "\<lambda>x s. NetworkService_validate x s = Some None" ModelTypeNetworkService MService
proof unfold_locales
  fix x s n err s'
  assume x: "NetworkService_validate x s = Some None" "map_option md_Name (ns_Metadata x) = Some n"
    "NetworkService_HandleCRUDOperationCU x s = Some (err, s')"
  then obtain md where md: "ns_Metadata x = Some md" "n = md_Name md" by auto
  note C = NetworkService_create_accepted [OF x(1) md(1) x(3)]
  then show "(\<exists>e. NetworkService_HandleCRUDOperationR n s' = Some e \<and> NetworkService_ConfigEqual e x)
      \<and> NetworkService_validate x s' = Some None"
    using x(1) md NetworkService_validate_cong [of s' s]
    by (simp add: NetworkService_HandleCRUDOperationR_def NetworkService_ConfigEqual_def)
next
  fix n s err s'
  assume "NetworkService_HandleCRUDOperationD n s = Some (err, s')"
  then show "NetworkService_HandleCRUDOperationR n s' = None"
    by (auto simp: NetworkService_HandleCRUDOperationD_def NetworkService_HandleCRUDOperationR_def DeleteFromDatastore_def
      Let_def split: option.splits Option.bind_splits dest!: EntityDelete_fields)
qed (auto simp: networkServiceProcessPost_def post_defs split: sum.splits if_splits option.splits Option.bind_splits)

section \<open>An example\<close>

text \<open>A POST of the node of the examples to a controller that has nothing yet.\<close>

definition demo_post :: "NetworkNode http_request" where
  "demo_post = \<lparr>rq_Method = ''POST'', rq_Var = ''n1'', rq_Body = Inr demo_node\<rparr>"

definition demo_message :: OperationalMsg where
  "demo_message = AddOperationMsgToQueue ModelTypeNetworkNode OpCodeCreateUpdate
    (MNode (demo_node\<lparr>nn_Spec := map_option (\<lambda>spec. spec\<lparr>nn_Interfaces := [(demo_interface ''i1'')\<lparr>if_Parent := ''n1''\<rparr>]\<rparr>)
      (nn_Spec demo_node)\<rparr>))"

lemma demo_post_sends:
  "httpNetworkNodeProcessPost demo_post (fresh_plugin good_env) = reply StatusOK (BText ''OK'') [demo_message]"
  by (simp add: httpNetworkNodeProcessPost_def demo_post_def demo_node_def demo_interface_def demo_message_def
    NetworkNode_HandleCRUDOperationR_def fresh_plugin_def NetworkNode_validate_def)

end
