(* ===== verification/WorkQueue.thy ===== *)
theory WorkQueue
  imports GoStd
begin

text \<open>
  The rate limited work queue the custom resource controller puts the keys of changed resources on,
  and takes them from with several workers (\<open>client-go/util/workqueue\<close>: \<open>queue.go\<close>,
  \<open>delaying_queue.go\<close>, \<open>rate_limitting_queue.go\<close>, \<open>default_rate_limiters.go\<close>), and the keys
  themselves (\<open>client-go/tools/cache/store.go\<close>).

  Every operation runs under the lock of the queue and is one function here.  The clock is not
  modelled: whether a delayed key is due is decided by the caller of the two steps of
  \<open>waitingLoop\<close>.  The contract of the queue towards its workers is the locale \<open>work_queue\<close>.
\<close>

section \<open>Keys of resources\<close>

definition MetaNamespaceKeyFunc :: "string \<Rightarrow> string \<Rightarrow> string" where
  "MetaNamespaceKeyFunc namespace name = (if namespace \<noteq> [] then concat [namespace, ''/'', name] else name)"

definition SplitMetaNamespaceKey :: "string \<Rightarrow> err + string \<times> string" where
  "SplitMetaNamespaceKey key =
    (case strSplit (CHR ''/'') key of
       [name] \<Rightarrow> Inr ([], name)
     | [namespace, name] \<Rightarrow> Inr (namespace, name)
     | _ \<Rightarrow> Inl (''unexpected key format: '' @ key))"

text \<open>The names the API server accepts have no slash.\<close>

abbreviation k8s_name :: "string \<Rightarrow> bool" where
  "k8s_name s \<equiv> CHR ''/'' \<notin> set s"

lemma SplitMetaNamespaceKey_MetaNamespaceKeyFunc:
  "k8s_name ns \<Longrightarrow> k8s_name n \<Longrightarrow> SplitMetaNamespaceKey (MetaNamespaceKeyFunc ns n) = Inr (ns, n)"
  by (simp add: SplitMetaNamespaceKey_def MetaNamespaceKeyFunc_def strSplit_no_sep strSplit_sep)

lemma SplitMetaNamespaceKey_name: "k8s_name n \<Longrightarrow> SplitMetaNamespaceKey n = Inr ([], n)"
  by (simp add: SplitMetaNamespaceKey_def strSplit_no_sep)

section \<open>The queue\<close>

record workqueue =
  wq_queue :: "string list"
  wq_dirty :: "string set"
  wq_processing :: "string set"
  wq_shuttingDown :: bool
  wq_waitingForAddCh :: "string list"
  wq_waiting :: "string list"
  wq_failures :: "nat gomap"

definition newQueue :: workqueue where
  "newQueue = \<lparr>wq_queue = [], wq_dirty = {}, wq_processing = {}, wq_shuttingDown = False,
    wq_waitingForAddCh = [], wq_waiting = [], wq_failures = []\<rparr>"

definition wq_Add :: "string \<Rightarrow> workqueue \<Rightarrow> workqueue" where
  "wq_Add item q =
    (if wq_shuttingDown q then q
     else if item \<in> wq_dirty q then q
     else let q1 = q\<lparr>wq_dirty := insert item (wq_dirty q)\<rparr> in
       if item \<in> wq_processing q1 then q1
       else q1\<lparr>wq_queue := wq_queue q1 @ [item]\<rparr>)"

text \<open>\<open>Get\<close> blocks (\<open>None\<close>) on an empty queue until it shuts down, and then gives no item.\<close>

definition wq_Get :: "workqueue \<Rightarrow> (string option \<times> workqueue) option" where
  "wq_Get q =
    (case wq_queue q of
       [] \<Rightarrow> if wq_shuttingDown q then Some (None, q) else None
     | item # rest \<Rightarrow> Some (Some item, q\<lparr>wq_queue := rest,
         wq_processing := insert item (wq_processing q), wq_dirty := wq_dirty q - {item}\<rparr>))"

definition wq_Done :: "string \<Rightarrow> workqueue \<Rightarrow> workqueue" where
  "wq_Done item q =
    (let q1 = q\<lparr>wq_processing := wq_processing q - {item}\<rparr> in
     if item \<in> wq_dirty q1 then q1\<lparr>wq_queue := wq_queue q1 @ [item]\<rparr> else q1)"

definition wq_ShutDown :: "workqueue \<Rightarrow> workqueue" where
  "wq_ShutDown q = q\<lparr>wq_shuttingDown := True\<rparr>"

section \<open>Delays\<close>

definition wq_AddAfter :: "string \<Rightarrow> int \<Rightarrow> workqueue \<Rightarrow> workqueue" where
  "wq_AddAfter item duration q =
    (if wq_shuttingDown q then q
     else if duration \<le> 0 then wq_Add item q
     else q\<lparr>wq_waitingForAddCh := wq_waitingForAddCh q @ [item]\<rparr>)"

text \<open>The insertion of a key that waits already changes at most its time.\<close>

definition wq_insert :: "string \<Rightarrow> workqueue \<Rightarrow> workqueue" where
  "wq_insert item q = (if item \<in> set (wq_waiting q) then q else q\<lparr>wq_waiting := wq_waiting q @ [item]\<rparr>)"

text \<open>The two steps of \<open>waitingLoop\<close>: it receives a delayed key, which may be due by then, and a
  waiting key becomes due.\<close>

definition waitingLoop_receive :: "bool \<Rightarrow> workqueue \<Rightarrow> workqueue" where
  "waitingLoop_receive due q =
    (case wq_waitingForAddCh q of
       [] \<Rightarrow> q
     | item # rest \<Rightarrow>
         let q1 = q\<lparr>wq_waitingForAddCh := rest\<rparr> in if due then wq_Add item q1 else wq_insert item q1)"

definition waitingLoop_due :: "string \<Rightarrow> workqueue \<Rightarrow> workqueue" where
  "waitingLoop_due item q =
    (if item \<in> set (wq_waiting q) then wq_Add item (q\<lparr>wq_waiting := remove1 item (wq_waiting q)\<rparr>) else q)"

text \<open>Durations are in nanoseconds.  The floating point numbers of the source are powers of two times
  five million, which are exact up to the cap.\<close>

definition baseDelay :: int where "baseDelay = 5 * 1000000"
definition maxDelay :: int where "maxDelay = 1000 * 1000000000"

definition failures_of :: "string \<Rightarrow> workqueue \<Rightarrow> nat" where
  "failures_of item q = (case map_of (wq_failures q) item of Some n \<Rightarrow> n | None \<Rightarrow> 0)"

definition ItemExponentialFailure_When :: "string \<Rightarrow> workqueue \<Rightarrow> int \<times> workqueue" where
  "ItemExponentialFailure_When item q =
    (let exp = failures_of item q;
         q1 = q\<lparr>wq_failures := gput item (exp + 1) (wq_failures q)\<rparr>
     in (if baseDelay * 2 ^ exp > maxDelay then maxDelay else baseDelay * 2 ^ exp, q1))"

definition MaxOf_When :: "int \<Rightarrow> string \<Rightarrow> workqueue \<Rightarrow> int \<times> workqueue" where
  "MaxOf_When bucketDelay item q =
    (let (delay, q1) = ItemExponentialFailure_When item q in (max (max 0 delay) bucketDelay, q1))"

definition wq_AddRateLimited :: "int \<Rightarrow> string \<Rightarrow> workqueue \<Rightarrow> workqueue" where
  "wq_AddRateLimited bucketDelay item q =
    (let (duration, q1) = MaxOf_When bucketDelay item q in wq_AddAfter item duration q1)"

definition wq_Forget :: "string \<Rightarrow> workqueue \<Rightarrow> workqueue" where
  "wq_Forget item q = q\<lparr>wq_failures := gdel item (wq_failures q)\<rparr>"

lemma MaxOf_When_positive: "MaxOf_When b item q = (d, q1) \<Longrightarrow> d > 0"
  by (auto simp: MaxOf_When_def ItemExponentialFailure_When_def Let_def baseDelay_def maxDelay_def
    less_max_iff_disj split: if_splits)

lemma AddRateLimited_waits:
  "wq_AddRateLimited b item q =
    (if wq_shuttingDown q then q\<lparr>wq_failures := gput item (failures_of item q + 1) (wq_failures q)\<rparr>
     else q\<lparr>wq_failures := gput item (failures_of item q + 1) (wq_failures q),
       wq_waitingForAddCh := wq_waitingForAddCh q @ [item]\<rparr>)"
proof -
  obtain d q1 where w: "MaxOf_When b item q = (d, q1)" by (cases "MaxOf_When b item q")
  then have "q1 = q\<lparr>wq_failures := gput item (failures_of item q + 1) (wq_failures q)\<rparr>"
    by (auto simp: MaxOf_When_def ItemExponentialFailure_When_def Let_def)
  with w MaxOf_When_positive [OF w] show ?thesis by (simp add: wq_AddRateLimited_def wq_AddAfter_def)
qed

section \<open>The invariant of the queue\<close>

text \<open>The comments on the fields of the queue: it holds, each once, exactly the dirty keys that are not
  being processed.\<close>

definition wq_ok :: "workqueue \<Rightarrow> bool" where
  "wq_ok q \<longleftrightarrow> distinct (wq_queue q) \<and> set (wq_queue q) = wq_dirty q - wq_processing q"

text \<open>The keys that are still on their way to a worker.\<close>

definition wq_pending :: "workqueue \<Rightarrow> string set" where
  "wq_pending q = set (wq_waitingForAddCh q) \<union> set (wq_waiting q) \<union> wq_dirty q"

lemma newQueue_ok [simp]: "wq_ok newQueue" "wq_pending newQueue = {}" "wq_processing newQueue = {}" "\<not> wq_shuttingDown newQueue"
  by (simp_all add: wq_ok_def newQueue_def wq_pending_def)

section \<open>The contract of a work queue\<close>

text \<open>What its clients rely on: adding a key makes it pending and loses none; an idle worker is
  given a pending key that no other worker is busy with, and stays alone with it until it is done; done
  with a key, the key can be pending again.\<close>

locale work_queue =
  fixes add :: "'k \<Rightarrow> 'q \<Rightarrow> 'q"
    and get :: "'q \<Rightarrow> ('k option \<times> 'q) option"
    and finish :: "'k \<Rightarrow> 'q \<Rightarrow> 'q"
    and closed :: "'q \<Rightarrow> bool"
    and pending :: "'q \<Rightarrow> 'k set"
    and busy :: "'q \<Rightarrow> 'k set"
    and ok :: "'q \<Rightarrow> bool"
  assumes add: "ok q \<Longrightarrow> ok (add k q)" "\<not> closed q \<Longrightarrow> pending (add k q) = insert k (pending q)"
      "busy (add k q) = busy q" "closed (add k q) = closed q"
    and get: "ok q \<Longrightarrow> get q = Some (Some k, q') \<Longrightarrow>
      ok q' \<and> k \<in> pending q \<and> k \<notin> busy q \<and> busy q' = insert k (busy q) \<and> pending q \<subseteq> insert k (pending q')
      \<and> closed q' = closed q"
    and finish: "ok q \<Longrightarrow> k \<in> busy q \<Longrightarrow> ok (finish k q) \<and> pending (finish k q) = pending q
      \<and> busy (finish k q) = busy q - {k} \<and> closed (finish k q) = closed q"
begin

text \<open>Workers, each with the key it holds, if it holds one: the keys they hold are the busy ones, and no
  two hold the same.\<close>

definition exclusive :: "(nat \<Rightarrow> 'k option) \<Rightarrow> 'q \<Rightarrow> bool" where
  "exclusive held q \<longleftrightarrow> ok q \<and> busy q = ran held \<and> (\<forall>v w k. held v = Some k \<longrightarrow> held w = Some k \<longrightarrow> v = w)"

lemma exclusive_add: "exclusive held q \<Longrightarrow> exclusive held (add k q)"
  by (simp add: exclusive_def add)

lemma exclusive_get:
  assumes "exclusive held q" "held w = None" "get q = Some (Some k, q')"
  shows "exclusive (held(w \<mapsto> k)) q'"
proof -
  have e: "ok q" "busy q = ran held" "\<forall>v w k. held v = Some k \<longrightarrow> held w = Some k \<longrightarrow> v = w"
    using assms(1) by (simp_all add: exclusive_def)
  have g: "ok q'" "k \<notin> busy q" "busy q' = insert k (busy q)" using get [OF e(1) assms(3)] by simp_all
  then have "held v \<noteq> Some k" for v using assms(1) by (auto simp: exclusive_def ran_def)
  with g assms(1,2) show ?thesis by (auto simp: exclusive_def ran_map_upd)
qed

lemma exclusive_finish:
  assumes "exclusive held q" "held w = Some k"
  shows "exclusive (held(w := None)) (finish k q)"
proof -
  have "k \<in> busy q" using assms by (auto simp: exclusive_def ran_def)
  with assms(1) have f: "ok (finish k q)" "busy (finish k q) = busy q - {k}"
    using finish unfolding exclusive_def by blast+
  from assms(1) have i: "\<forall>u v k. held u = Some k \<longrightarrow> held v = Some k \<longrightarrow> u = v" and b: "busy q = ran held"
    unfolding exclusive_def by blast+
  from i have "\<forall>u v k. (held(w := None)) u = Some k \<longrightarrow> (held(w := None)) v = Some k \<longrightarrow> u = v"
    by (metis fun_upd_apply option.distinct(1))
  moreover have "j \<in> ran (held(w := None)) \<longleftrightarrow> j \<in> ran held - {k}" for j
  proof
    assume "j \<in> ran (held(w := None))"
    then obtain v where "v \<noteq> w" "held v = Some j" by (auto simp: ran_def split: if_splits)
    with i assms(2) show "j \<in> ran held - {k}" by (auto intro: ranI)
  next
    assume "j \<in> ran held - {k}"
    then obtain v where "held v = Some j" "j \<noteq> k" by (auto simp: ran_def)
    with assms(2) have "(held(w := None)) v = Some j" by auto
    then show "j \<in> ran (held(w := None))" by (rule ranI)
  qed
  then have "ran (held(w := None)) = ran held - {k}" by blast
  ultimately show ?thesis using f b unfolding exclusive_def by metis
qed

end

interpretation wq: work_queue wq_Add wq_Get wq_Done wq_shuttingDown wq_pending wq_processing wq_ok
proof unfold_locales
  fix q q' k
  assume ok: "wq_ok q" "wq_Get q = Some (Some k, q')"
  then obtain rest where r: "wq_queue q = k # rest"
    "q' = q\<lparr>wq_queue := rest, wq_processing := insert k (wq_processing q), wq_dirty := wq_dirty q - {k}\<rparr>"
    by (auto simp: wq_Get_def split: list.splits if_splits)
  have "distinct (k # rest)" and d: "insert k (set rest) = wq_dirty q - wq_processing q"
    using ok(1) r(1) by (simp_all add: wq_ok_def)
  then have "k \<in> wq_dirty q" "k \<notin> wq_processing q" "k \<notin> set rest" "distinct rest"
    "set rest = wq_dirty q - {k} - insert k (wq_processing q)" by auto
  with r show "wq_ok q' \<and> k \<in> wq_pending q \<and> k \<notin> wq_processing q \<and> wq_processing q' = insert k (wq_processing q)
      \<and> wq_pending q \<subseteq> insert k (wq_pending q') \<and> wq_shuttingDown q' = wq_shuttingDown q"
    by (simp add: wq_ok_def wq_pending_def) blast
next
  fix q k
  assume "wq_ok q" "k \<in> wq_processing q"
  then have "distinct (wq_queue q)" "set (wq_queue q) = wq_dirty q - wq_processing q" "k \<notin> set (wq_queue q)"
    "wq_dirty q - (wq_processing q - {k}) = (if k \<in> wq_dirty q then insert k (wq_dirty q - wq_processing q) else wq_dirty q - wq_processing q)"
    by (auto simp: wq_ok_def)
  then show "wq_ok (wq_Done k q) \<and> wq_pending (wq_Done k q) = wq_pending q
      \<and> wq_processing (wq_Done k q) = wq_processing q - {k} \<and> wq_shuttingDown (wq_Done k q) = wq_shuttingDown q"
    by (simp add: wq_ok_def wq_pending_def wq_Done_def Let_def)
qed (auto simp: wq_ok_def wq_pending_def wq_Add_def Let_def)

text \<open>The workers keep their keys whatever happens to the delays.\<close>

lemma exclusive_delays [simp]:
  "wq.exclusive h (q\<lparr>wq_waitingForAddCh := x\<rparr>) = wq.exclusive h q"
  "wq.exclusive h (q\<lparr>wq_waiting := x\<rparr>) = wq.exclusive h q"
  "wq.exclusive h (q\<lparr>wq_failures := f\<rparr>) = wq.exclusive h q"
  "wq.exclusive h (q\<lparr>wq_shuttingDown := b\<rparr>) = wq.exclusive h q"
  by (simp_all add: wq.exclusive_def wq_ok_def)

text \<open>The operations other than \<open>Get\<close> and \<open>Done\<close> keep every key that is on its way.\<close>

lemma AddRateLimited_queue:
  "wq.exclusive h q \<Longrightarrow> wq.exclusive h (wq_AddRateLimited b k q)"
  "\<not> wq_shuttingDown q \<Longrightarrow> wq_pending (wq_AddRateLimited b k q) = insert k (wq_pending q)"
  "wq_shuttingDown (wq_AddRateLimited b k q) = wq_shuttingDown q"
  by (simp_all add: AddRateLimited_waits wq_pending_def)

lemma receive_queue:
  "wq.exclusive h q \<Longrightarrow> wq.exclusive h (waitingLoop_receive d q)"
  "\<not> wq_shuttingDown q \<Longrightarrow> wq_pending q \<subseteq> wq_pending (waitingLoop_receive d q)"
  "wq_shuttingDown (waitingLoop_receive d q) = wq_shuttingDown q"
proof -
  show "wq.exclusive h q \<Longrightarrow> wq.exclusive h (waitingLoop_receive d q)"
    by (auto simp: waitingLoop_receive_def wq_insert_def Let_def intro: wq.exclusive_add split: list.splits)
qed (auto simp: waitingLoop_receive_def wq_insert_def wq_Add_def wq_pending_def Let_def split: list.splits)

lemma due_queue:
  "wq.exclusive h q \<Longrightarrow> wq.exclusive h (waitingLoop_due k q)"
  "\<not> wq_shuttingDown q \<Longrightarrow> wq_pending q \<subseteq> wq_pending (waitingLoop_due k q)"
  "wq_shuttingDown (waitingLoop_due k q) = wq_shuttingDown q"
proof -
  have "set xs \<subseteq> insert k (set (remove1 k xs))" for xs by (induction xs) auto
  from this [of "wq_waiting q"] show "\<not> wq_shuttingDown q \<Longrightarrow> wq_pending q \<subseteq> wq_pending (waitingLoop_due k q)"
    by (auto simp: waitingLoop_due_def wq_pending_def wq_Add_def Let_def)
qed (simp_all add: waitingLoop_due_def wq.exclusive_add wq.add)

lemma Forget_queue [simp]:
  "wq_pending (wq_Forget k q) = wq_pending q" "wq_shuttingDown (wq_Forget k q) = wq_shuttingDown q"
  "wq.exclusive h (wq_Forget k q) = wq.exclusive h q"
  by (simp_all add: wq_Forget_def wq_pending_def)

end
