(* ===== verification/K8sCrd.thy ===== *)
theory K8sCrd
  imports HttpApi WorkQueue
begin

text \<open>
  The plugin that feeds the controller from kubernetes custom resources (\<open>plugins/k8scrd\<close>): the
  resources and their conversion, the comparison with the controller's cache and the message it
  sends, the status that is written back, and the controller of the resources with its informer
  caches, work queues and workers (\<open>crd_controller.go\<close>).

  The informer of a kind keeps the objects of the API server in its indexer and tells of additions and
  changes; its objects are values here.  The answers of the API server to an update are a parameter.
  A nil dereference is \<open>None\<close>.
\<close>

section \<open>Resources\<close>

record ObjectMeta =
  obj_Name :: string
  obj_Namespace :: string
  obj_Labels :: "string gomap"

definition objectKey :: "ObjectMeta \<Rightarrow> string" where
  "objectKey om = MetaNamespaceKeyFunc (obj_Namespace om) (obj_Name om)"

datatype lister_error = NotFound string | ListerError err

text \<open>The listers read the indexer of their informer, whose keys are those of \<open>MetaNamespaceKeyFunc\<close>.\<close>

definition namespaceLister_Get :: "'c gomap \<Rightarrow> string \<Rightarrow> string \<Rightarrow> lister_error + 'c" where
  "namespaceLister_Get indexer namespace name =
    (case map_of indexer (concat [namespace, ''/'', name]) of
       None \<Rightarrow> Inl (NotFound name)
     | Some c \<Rightarrow> Inr c)"

text \<open>What the status update uses of the controller of the resources: a lister, and the answer of the
  API server to an update.\<close>

record 'c crd_client =
  cl_Get :: "string \<Rightarrow> string \<Rightarrow> lister_error + 'c"
  cl_Update :: "'c \<Rightarrow> err option"

definition listerErr :: "lister_error \<Rightarrow> err" where
  "listerErr e = (case e of NotFound name \<Rightarrow> name @ '' not found'' | ListerError err \<Rightarrow> err)"

text \<open>The body the four \<open>updateStatus\<close> share: the resource the name stands for, and the copy with the
  new status that is sent to the API server; the result has the error and the updates sent.\<close>

definition updateStatusOf ::
  "'c crd_client option \<Rightarrow> string \<Rightarrow> 't option \<Rightarrow> ('t \<Rightarrow> 'c \<Rightarrow> 'c) \<Rightarrow> (err option \<times> 'c list) option" where
  "updateStatusOf ctlr key status setStatus =
    (case SplitMetaNamespaceKey key of
       Inl _ \<Rightarrow> Some (None, [])
     | Inr (namespace, name) \<Rightarrow> do {
         cl \<leftarrow> ctlr;
         (case cl_Get cl (if namespace = '''' then ''default'' else namespace) name of
            Inl errGet \<Rightarrow> Some (Some (listerErr errGet), [])
          | Inr c \<Rightarrow>
              (case status of
                 None \<Rightarrow> Some (None, [])
               | Some st \<Rightarrow> let copy = setStatus st c in Some (cl_Update cl copy, [copy])))
       })"

text \<open>A change a watcher of the controller's own keys reports, with the object if it decodes.\<close>

datatype 'a crd_event = CrdPut "'a option" | CrdDelete string

definition crdWatch :: "('a \<Rightarrow> (err option \<times> 'c list) option) \<Rightarrow> 'a crd_event \<Rightarrow> 'c list option" where
  "crdWatch update event =
    (case event of
       CrdPut (Some dbEntry) \<Rightarrow> map_option snd (update dbEntry)
     | CrdPut None \<Rightarrow> Some []
     | CrdDelete _ \<Rightarrow> Some [])"

text \<open>The body the four sync handlers share: the error, and the resource that is handed to
  \<open>HandleCRDSync\<close>.\<close>

definition syncHandler :: "(string \<Rightarrow> string \<Rightarrow> lister_error + 'c) \<Rightarrow> string \<Rightarrow> err option \<times> 'c option" where
  "syncHandler get key =
    (case SplitMetaNamespaceKey key of
       Inl _ \<Rightarrow> (None, None)
     | Inr (namespace, name) \<Rightarrow>
         (case get namespace name of
            Inl (NotFound _) \<Rightarrow> (None, None)
          | Inl (ListerError err) \<Rightarrow> (Some err, None)
          | Inr c \<Rightarrow> (None, Some c)))"

section \<open>Address pools\<close>

record CrdIpamPool =
  cip_ObjectMeta :: ObjectMeta
  cip_Spec :: IPAMPoolSpec
  cip_Status :: IPAMPoolStatus

definition CrdToSfcIpamPool :: "CrdIpamPool \<Rightarrow> err + IPAMPool" where
  "CrdToSfcIpamPool crd = Inr
    \<lparr>ipp_Metadata = Some \<lparr>md_Name = obj_Name (cip_ObjectMeta crd), md_Labels = obj_Labels (cip_ObjectMeta crd)\<rparr>,
     ipp_Spec = Some (cip_Spec crd), ipp_Status = Some (cip_Status crd)\<rparr>"

definition IpamPool_HandleCRDSync :: "CrdIpamPool \<Rightarrow> Plugin \<Rightarrow> OperationalMsg list" where
  "IpamPool_HandleCRDSync crd s =
    (case CrdToSfcIpamPool crd of
       Inl _ \<Rightarrow> []
     | Inr x \<Rightarrow>
         if case IPAMPool_HandleCRUDOperationR (obj_Name (cip_ObjectMeta crd)) s of
             Some existing \<Rightarrow> IPAMPool_ConfigEqual existing x | None \<Rightarrow> False
         then []
         else [AddOperationMsgToQueue ModelTypeIPAMPool OpCodeCreateUpdate (MIPAMPool x)])"

definition ipamPoolLister_Get :: "CrdIpamPool gomap \<Rightarrow> string \<Rightarrow> string \<Rightarrow> lister_error + CrdIpamPool" where
  "ipamPoolLister_Get indexer namespace name = namespaceLister_Get indexer namespace name"

definition syncHandlerIpamPool :: "CrdIpamPool gomap \<Rightarrow> string \<Rightarrow> Plugin \<Rightarrow> err option \<times> OperationalMsg list" where
  "syncHandlerIpamPool indexer key s =
    (case syncHandler (ipamPoolLister_Get indexer) key of
       (err, Some crd) \<Rightarrow> (err, IpamPool_HandleCRDSync crd s)
     | (err, None) \<Rightarrow> (err, []))"

definition enqueueIpamPool :: "int \<Rightarrow> CrdIpamPool \<Rightarrow> workqueue \<Rightarrow> workqueue" where
  "enqueueIpamPool bucketDelay obj q = wq_AddRateLimited bucketDelay (objectKey (cip_ObjectMeta obj)) q"

definition IpamPool_updateStatus ::
  "CrdIpamPool crd_client option \<Rightarrow> IPAMPool \<Rightarrow> (err option \<times> CrdIpamPool list) option" where
  "IpamPool_updateStatus ctlr x =
    do {
      md \<leftarrow> ipp_Metadata x;
      updateStatusOf ctlr (md_Name md) (ipp_Status x) (\<lambda>st crd. crd\<lparr>cip_Status := st\<rparr>)
    }"

definition CrdIpamPool_InitAndRunWatcher ::
  "CrdIpamPool crd_client option \<Rightarrow> IPAMPool crd_event \<Rightarrow> CrdIpamPool list option" where
  "CrdIpamPool_InitAndRunWatcher ctlr event = crdWatch (IpamPool_updateStatus ctlr) event"

section \<open>Nodes\<close>

record CrdNetworkNode =
  cnn_ObjectMeta :: ObjectMeta
  cnn_Spec :: NetworkNodeSpec
  cnn_Status :: NetworkNodeStatus

definition CrdToSfcNetworkNode :: "CrdNetworkNode \<Rightarrow> err + NetworkNode" where
  "CrdToSfcNetworkNode crd = Inr
    \<lparr>nn_Metadata = Some \<lparr>md_Name = obj_Name (cnn_ObjectMeta crd), md_Labels = obj_Labels (cnn_ObjectMeta crd)\<rparr>,
     nn_Spec = Some (cnn_Spec crd), nn_Status = Some (cnn_Status crd)\<rparr>"

definition NetworkNode_HandleCRDSync :: "CrdNetworkNode \<Rightarrow> Plugin \<Rightarrow> OperationalMsg list" where
  "NetworkNode_HandleCRDSync crd s =
    (case CrdToSfcNetworkNode crd of
       Inl _ \<Rightarrow> []
     | Inr x \<Rightarrow>
         if case NetworkNode_HandleCRUDOperationR (obj_Name (cnn_ObjectMeta crd)) s of
             Some existing \<Rightarrow> NetworkNode_ConfigEqual existing x | None \<Rightarrow> False
         then []
         else [AddOperationMsgToQueue ModelTypeNetworkNode OpCodeCreateUpdate (MNode x)])"

definition networkNodeLister_Get :: "CrdNetworkNode gomap \<Rightarrow> string \<Rightarrow> string \<Rightarrow> lister_error + CrdNetworkNode" where
  "networkNodeLister_Get indexer namespace name = namespaceLister_Get indexer namespace name"

definition syncHandlerNetworkNode :: "CrdNetworkNode gomap \<Rightarrow> string \<Rightarrow> Plugin \<Rightarrow> err option \<times> OperationalMsg list" where
  "syncHandlerNetworkNode indexer key s =
    (case syncHandler (networkNodeLister_Get indexer) key of
       (err, Some crd) \<Rightarrow> (err, NetworkNode_HandleCRDSync crd s)
     | (err, None) \<Rightarrow> (err, []))"

definition enqueueNetworkNode :: "int \<Rightarrow> CrdNetworkNode \<Rightarrow> workqueue \<Rightarrow> workqueue" where
  "enqueueNetworkNode bucketDelay obj q = wq_AddRateLimited bucketDelay (objectKey (cnn_ObjectMeta obj)) q"

definition NetworkNode_updateStatus ::
  "CrdNetworkNode crd_client option \<Rightarrow> NetworkNode \<Rightarrow> (err option \<times> CrdNetworkNode list) option" where
  "NetworkNode_updateStatus ctlr x =
    do {
      md \<leftarrow> nn_Metadata x;
      updateStatusOf ctlr (md_Name md) (nn_Status x) (\<lambda>st crd. crd\<lparr>cnn_Status := st\<rparr>)
    }"

definition CrdNetworkNode_InitAndRunWatcher ::
  "CrdNetworkNode crd_client option \<Rightarrow> NetworkNode crd_event \<Rightarrow> CrdNetworkNode list option" where
  "CrdNetworkNode_InitAndRunWatcher ctlr event = crdWatch (NetworkNode_updateStatus ctlr) event"

section \<open>Overlays\<close>

record CrdNetworkNodeOverlay =
  cno_ObjectMeta :: ObjectMeta
  cno_Spec :: NetworkNodeOverlaySpec
  cno_Status :: NetworkNodeOverlayStatus

definition CrdToSfcNetworkNodeOverlay :: "CrdNetworkNodeOverlay \<Rightarrow> err + NetworkNodeOverlay" where
  "CrdToSfcNetworkNodeOverlay crd = Inr
    \<lparr>nno_Metadata = Some \<lparr>md_Name = obj_Name (cno_ObjectMeta crd), md_Labels = obj_Labels (cno_ObjectMeta crd)\<rparr>,
     nno_Spec = Some (cno_Spec crd), nno_Status = Some (cno_Status crd)\<rparr>"

definition NetworkNodeOverlay_HandleCRDSync :: "CrdNetworkNodeOverlay \<Rightarrow> Plugin \<Rightarrow> OperationalMsg list" where
  "NetworkNodeOverlay_HandleCRDSync crd s =
    (case CrdToSfcNetworkNodeOverlay crd of
       Inl _ \<Rightarrow> []
     | Inr x \<Rightarrow>
         if case Overlay_HandleCRUDOperationR (obj_Name (cno_ObjectMeta crd)) s of
             Some existing \<Rightarrow> Overlay_ConfigEqual existing x | None \<Rightarrow> False
         then []
         else [AddOperationMsgToQueue ModelTypeNetworkNodeOverlay OpCodeCreateUpdate (MOverlay x)])"

definition networkNodeOverlayLister_Get :: "CrdNetworkNodeOverlay gomap \<Rightarrow> string \<Rightarrow> string \<Rightarrow> lister_error + CrdNetworkNodeOverlay" where
  "networkNodeOverlayLister_Get indexer namespace name = namespaceLister_Get indexer namespace name"

definition syncHandlerNetworkNodeOverlay :: "CrdNetworkNodeOverlay gomap \<Rightarrow> string \<Rightarrow> Plugin \<Rightarrow> err option \<times> OperationalMsg list" where
  "syncHandlerNetworkNodeOverlay indexer key s =
    (case syncHandler (networkNodeOverlayLister_Get indexer) key of
       (err, Some crd) \<Rightarrow> (err, NetworkNodeOverlay_HandleCRDSync crd s)
     | (err, None) \<Rightarrow> (err, []))"

definition enqueueNetworkNodeOverlay :: "int \<Rightarrow> CrdNetworkNodeOverlay \<Rightarrow> workqueue \<Rightarrow> workqueue" where
  "enqueueNetworkNodeOverlay bucketDelay obj q = wq_AddRateLimited bucketDelay (objectKey (cno_ObjectMeta obj)) q"

definition NetworkNodeOverlay_updateStatus ::
  "CrdNetworkNodeOverlay crd_client option \<Rightarrow> NetworkNodeOverlay \<Rightarrow> (err option \<times> CrdNetworkNodeOverlay list) option" where
  "NetworkNodeOverlay_updateStatus ctlr x =
    do {
      md \<leftarrow> nno_Metadata x;
      updateStatusOf ctlr (md_Name md) (nno_Status x) (\<lambda>st crd. crd\<lparr>cno_Status := st\<rparr>)
    }"

definition CrdNetworkNodeOverlay_InitAndRunWatcher ::
  "CrdNetworkNodeOverlay crd_client option \<Rightarrow> NetworkNodeOverlay crd_event \<Rightarrow> CrdNetworkNodeOverlay list option" where
  "CrdNetworkNodeOverlay_InitAndRunWatcher ctlr event = crdWatch (NetworkNodeOverlay_updateStatus ctlr) event"

section \<open>Services\<close>

record CrdNetworkService =
  cns_ObjectMeta :: ObjectMeta
  cns_Spec :: NetworkServiceSpec
  cns_Status :: NetworkServiceStatus

definition CrdToSfcNetworkService :: "CrdNetworkService \<Rightarrow> err + NetworkService" where
  "CrdToSfcNetworkService crd = Inr
    \<lparr>ns_Metadata = Some \<lparr>md_Name = obj_Name (cns_ObjectMeta crd), md_Labels = obj_Labels (cns_ObjectMeta crd)\<rparr>,
     ns_Spec = Some (cns_Spec crd), ns_Status = Some (cns_Status crd)\<rparr>"

definition NetworkService_HandleCRDSync :: "CrdNetworkService \<Rightarrow> Plugin \<Rightarrow> OperationalMsg list" where
  "NetworkService_HandleCRDSync crd s =
    (case CrdToSfcNetworkService crd of
       Inl _ \<Rightarrow> []
     | Inr x \<Rightarrow>
         if case NetworkService_HandleCRUDOperationR (obj_Name (cns_ObjectMeta crd)) s of
             Some existing \<Rightarrow> NetworkService_ConfigEqual existing x | None \<Rightarrow> False
         then []
         else [AddOperationMsgToQueue ModelTypeNetworkService OpCodeCreateUpdate (MService x)])"

definition networkServiceLister_Get :: "CrdNetworkService gomap \<Rightarrow> string \<Rightarrow> string \<Rightarrow> lister_error + CrdNetworkService" where
  "networkServiceLister_Get indexer namespace name = namespaceLister_Get indexer namespace name"

definition syncHandlerNetworkService :: "CrdNetworkService gomap \<Rightarrow> string \<Rightarrow> Plugin \<Rightarrow> err option \<times> OperationalMsg list" where
  "syncHandlerNetworkService indexer key s =
    (case syncHandler (networkServiceLister_Get indexer) key of
       (err, Some crd) \<Rightarrow> (err, NetworkService_HandleCRDSync crd s)
     | (err, None) \<Rightarrow> (err, []))"

definition enqueueNetworkService :: "int \<Rightarrow> CrdNetworkService \<Rightarrow> workqueue \<Rightarrow> workqueue" where
  "enqueueNetworkService bucketDelay obj q = wq_AddRateLimited bucketDelay (objectKey (cns_ObjectMeta obj)) q"

definition NetworkService_updateStatus ::
  "CrdNetworkService crd_client option \<Rightarrow> NetworkService \<Rightarrow> (err option \<times> CrdNetworkService list) option" where
  "NetworkService_updateStatus ctlr x =
    do {
      md \<leftarrow> ns_Metadata x;
      updateStatusOf ctlr (md_Name md) (ns_Status x) (\<lambda>st crd. crd\<lparr>cns_Status := st\<rparr>)
    }"

definition CrdNetworkService_InitAndRunWatcher ::
  "CrdNetworkService crd_client option \<Rightarrow> NetworkService crd_event \<Rightarrow> CrdNetworkService list option" where
  "CrdNetworkService_InitAndRunWatcher ctlr event = crdWatch (NetworkService_updateStatus ctlr) event"

section \<open>What is sent to the loop\<close>

text \<open>The messages of all producers, in a state of the plugin: the REST handlers, the watchers, the
  start of the plugin and the controller of the custom resources.\<close>

inductive sent :: "Plugin \<Rightarrow> OperationalMsg \<Rightarrow> bool" for s where
  sysparms: "systemParametersHandler rq s = Some (resp, msgs) \<Longrightarrow> m \<in> set msgs \<Longrightarrow> sent s m"
| pool: "entityHandler rq s = Some (resp, msgs) \<Longrightarrow> m \<in> set msgs \<Longrightarrow> sent s m"
| podmap: "networkPodNodeMapHandler rq s = Some (resp, msgs) \<Longrightarrow> m \<in> set msgs \<Longrightarrow> sent s m"
| overlay: "networkNodeOverlayHandler rq s = Some (resp, msgs) \<Longrightarrow> m \<in> set msgs \<Longrightarrow> sent s m"
| node: "httpNetworkNodeHandler rq s = Some (resp, msgs) \<Longrightarrow> m \<in> set msgs \<Longrightarrow> sent s m"
| service: "networkServiceHandler rq s = Some (resp, msgs) \<Longrightarrow> m \<in> set msgs \<Longrightarrow> sent s m"
| watcher: "m \<in> set (SysParms_InitAndRunWatcher resp @ IPAMPool_InitAndRunWatcher resp @ PodNodeMap_InitAndRunWatcher resp
    @ Overlay_InitAndRunWatcher resp @ NetworkNode_InitAndRunWatcher resp @ NetworkService_InitAndRunWatcher resp)
    \<Longrightarrow> sent s m"
| contiv: "m \<in> set (RunContivKSRNetworkPodToNodeMappingWatcher event) \<Longrightarrow> sent s m"
| crd_pool: "m \<in> set (snd (syncHandlerIpamPool pools key s)) \<Longrightarrow> sent s m"
| crd_node: "m \<in> set (snd (syncHandlerNetworkNode nodes key s)) \<Longrightarrow> sent s m"
| crd_overlay: "m \<in> set (snd (syncHandlerNetworkNodeOverlay overlays key s)) \<Longrightarrow> sent s m"
| crd_service: "m \<in> set (snd (syncHandlerNetworkService services key s)) \<Longrightarrow> sent s m"
| start: "m \<in> set Plugin_AfterInit \<Longrightarrow> sent s m"

text \<open>The dynamic type of a message's data is the one the handler of its manager asserts.\<close>

definition well_typed :: "OperationalMsg \<Rightarrow> bool" where
  "well_typed m \<longleftrightarrow>
    (case om_opCode m of
       OpCodeCreateUpdate \<Rightarrow>
         (case (findModelManager (om_model m) RegisteredManagers, om_data m) of
            (Some SysParametersMgr, MSysParms _) \<Rightarrow> True
          | (Some IpamPoolMgr, MIPAMPool _) \<Rightarrow> True
          | (Some NetworkPodNodeMapMgr, MPodMap _) \<Rightarrow> True
          | (Some NetworkNodeOverlayMgr, MOverlay _) \<Rightarrow> True
          | (Some NetworkNodeMgr, MNode _) \<Rightarrow> True
          | (Some NetworkServiceMgr, MService _) \<Rightarrow> True
          | _ \<Rightarrow> False)
     | OpCodeDelete \<Rightarrow> findModelManager (om_model m) RegisteredManagers \<noteq> None \<and> (\<exists>n. om_data m = MName n)
     | _ \<Rightarrow> True)"

lemmas handler_defs = systemParametersHandler_def systemParametersProcessPost_def entityHandler_def processPost_def
  processDelete_def networkPodNodeMapHandler_def networkPodNodeMapProcessPost_def networkPodNodeMapProcessDelete_def
  networkNodeOverlayHandler_def networkNodeOverlayProcessPost_def networkNodeOverlayProcessDelete_def
  httpNetworkNodeHandler_def httpNetworkNodeProcessPost_def httpNetworkNodeProcessDelete_def
  networkServiceHandler_def networkServiceProcessPost_def networkServiceProcessDelete_def getReply_def
  reply_def nameMismatch_def AddOperationMsgToQueue_def

lemmas watcher_defs = InitAndRunWatcher_def SysParms_InitAndRunWatcher_def IPAMPool_InitAndRunWatcher_def
  PodNodeMap_InitAndRunWatcher_def Overlay_InitAndRunWatcher_def NetworkNode_InitAndRunWatcher_def
  NetworkService_InitAndRunWatcher_def RunContivKSRNetworkPodToNodeMappingWatcher_def Plugin_AfterInit_def

lemmas crd_sync_defs = syncHandlerIpamPool_def IpamPool_HandleCRDSync_def CrdToSfcIpamPool_def
  syncHandlerNetworkNode_def NetworkNode_HandleCRDSync_def CrdToSfcNetworkNode_def
  syncHandlerNetworkNodeOverlay_def NetworkNodeOverlay_HandleCRDSync_def CrdToSfcNetworkNodeOverlay_def
  syncHandlerNetworkService_def NetworkService_HandleCRDSync_def CrdToSfcNetworkService_def

text \<open>C15. Every message that is sent to the loop is well-typed: whatever is posted, deleted, reported by
  etcd or synced from a custom resource, the message names a registered manager, and its data has the type the handler of
  that manager asserts, so no message makes the loop panic on its type.\<close>

theorem sent_messages_typed: "sent s m \<Longrightarrow> well_typed m"
proof (induction rule: sent.induct)
  case (watcher m resp)
  then show ?case
    by (cases "wr_ChangeType resp")
      (auto simp: watcher_defs AddOperationMsgToQueue_def well_typed_def RegisteredManagers_def)
next
  case (contiv m event)
  then show ?case
    by (auto simp: watcher_defs AddOperationMsgToQueue_def well_typed_def split: option.splits change_type.splits)
next
  case (start m)
  then show ?case by (auto simp: watcher_defs AddOperationMsgToQueue_def well_typed_def)
qed (auto simp: handler_defs crd_sync_defs well_typed_def RegisteredManagers_def
    split: if_splits sum.splits option.splits Option.bind_splits prod.splits)

theorem sent_messages_typed_witness: "well_typed demo_message"
  by (rule sent_messages_typed [of "fresh_plugin good_env", OF sent.node [where rq = demo_post and msgs = "[demo_message]"]])
    (use demo_post_sends in \<open>simp_all add: httpNetworkNodeHandler_def reply_def demo_post_def\<close>)

section \<open>The controller of the resources\<close>

text \<open>A worker waits for a key, holds one it has not synced, or holds one it has synced, with the error.\<close>

datatype worker = Idle | Got string | Synced string "err option"

fun held_by :: "worker \<Rightarrow> string option" where
  "held_by Idle = None"
| "held_by (Got k) = Some k"
| "held_by (Synced k err) = Some k"

text \<open>The state of the controller for one kind of resource: the indexer of the informer, the
  notifications it has not delivered, the work queue, the workers, and the resources handed to
  \<open>HandleCRDSync\<close> with the keys they were synced for, the latest first.\<close>

record 'c crd_state =
  cs_indexer :: "'c gomap"
  cs_events :: "'c list"
  cs_queue :: workqueue
  cs_workers :: "nat \<Rightarrow> worker"
  cs_calls :: "'c gomap"

definition crd_start :: "'c crd_state" where
  "crd_start = \<lparr>cs_indexer = [], cs_events = [], cs_queue = newQueue, cs_workers = (\<lambda>_. Idle), cs_calls = []\<rparr>"

text \<open>The three parts of \<open>processNextWorkItem\<close> of worker \<open>w\<close>, between which other workers, the informer
  and the delays of the queue can run: taking a key (\<open>False\<close> tells the worker to end), the sync
  handler, and \<open>Forget\<close> and \<open>Done\<close>.  After an error only \<open>Done\<close> is called.\<close>

definition worker_get :: "nat \<Rightarrow> 'c crd_state \<Rightarrow> (bool \<times> 'c crd_state) option" where
  "worker_get w s =
    (case wq_Get (cs_queue s) of
       None \<Rightarrow> None
     | Some (None, q) \<Rightarrow> Some (False, s\<lparr>cs_queue := q\<rparr>)
     | Some (Some key, q) \<Rightarrow> Some (True, s\<lparr>cs_queue := q, cs_workers := (cs_workers s)(w := Got key)\<rparr>))"

definition worker_sync :: "nat \<Rightarrow> string \<Rightarrow> 'c crd_state \<Rightarrow> 'c crd_state" where
  "worker_sync w key s =
    (case syncHandler (namespaceLister_Get (cs_indexer s)) key of
       (err, called) \<Rightarrow> s\<lparr>cs_workers := (cs_workers s)(w := Synced key err),
         cs_calls := (case called of Some c \<Rightarrow> (key, c) # cs_calls s | None \<Rightarrow> cs_calls s)\<rparr>)"

definition worker_finish :: "nat \<Rightarrow> string \<Rightarrow> err option \<Rightarrow> 'c crd_state \<Rightarrow> 'c crd_state" where
  "worker_finish w key err s =
    s\<lparr>cs_workers := (cs_workers s)(w := Idle),
      cs_queue := wq_Done key (if err = None then wq_Forget key (cs_queue s) else cs_queue s)\<rparr>"

definition processNextWorkItem :: "nat \<Rightarrow> 'c crd_state \<Rightarrow> (bool \<times> 'c crd_state) option" where
  "processNextWorkItem w s =
    (case worker_get w s of
       None \<Rightarrow> None
     | Some (False, s1) \<Rightarrow> Some (False, s1)
     | Some (True, s1) \<Rightarrow>
         (case cs_workers s1 w of
            Got key \<Rightarrow>
              let s2 = worker_sync w key s1 in
              (case cs_workers s2 w of Synced _ err \<Rightarrow> Some (True, worker_finish w key err s2) | _ \<Rightarrow> None)
          | _ \<Rightarrow> None))"

text \<open>The steps of the controller.  The informer stores an object and notes that it has to tell of it,
  or removes one, for which no handler is registered; it tells of the oldest change, and the handler
  enqueues its key; the queue handles its delays and is shut down; the workers run.  The function
  \<open>meta\<close> is the metadata of a resource of the kind.\<close>

definition well_named :: "ObjectMeta \<Rightarrow> bool" where
  "well_named om \<longleftrightarrow> k8s_name (obj_Namespace om) \<and> k8s_name (obj_Name om) \<and> obj_Namespace om \<noteq> ''''"

inductive crd_step :: "('c \<Rightarrow> ObjectMeta) \<Rightarrow> 'c crd_state \<Rightarrow> 'c crd_state \<Rightarrow> bool" for meta where
  store: "well_named (meta c) \<Longrightarrow>
    crd_step meta s (s\<lparr>cs_indexer := gput (objectKey (meta c)) c (cs_indexer s), cs_events := cs_events s @ [c]\<rparr>)"
| remove: "crd_step meta s (s\<lparr>cs_indexer := gdel k (cs_indexer s)\<rparr>)"
| notify: "cs_events s = c # rest \<Longrightarrow>
    crd_step meta s (s\<lparr>cs_events := rest, cs_queue := wq_AddRateLimited bucketDelay (objectKey (meta c)) (cs_queue s)\<rparr>)"
| receive: "crd_step meta s (s\<lparr>cs_queue := waitingLoop_receive due (cs_queue s)\<rparr>)"
| due: "crd_step meta s (s\<lparr>cs_queue := waitingLoop_due k (cs_queue s)\<rparr>)"
| shutdown: "crd_step meta s (s\<lparr>cs_queue := wq_ShutDown (cs_queue s)\<rparr>)"
| get: "cs_workers s w = Idle \<Longrightarrow> worker_get w s = Some (run, s') \<Longrightarrow> crd_step meta s s'"
| sync: "cs_workers s w = Got key \<Longrightarrow> crd_step meta s (worker_sync w key s)"
| finish: "cs_workers s w = Synced key err \<Longrightarrow> crd_step meta s (worker_finish w key err s)"

definition crd_reachable :: "('c \<Rightarrow> ObjectMeta) \<Rightarrow> 'c crd_state \<Rightarrow> bool" where
  "crd_reachable meta = (crd_step meta)\<^sup>*\<^sup>* crd_start"

text \<open>A worker that runs \<open>processNextWorkItem\<close> undisturbed takes steps of the controller.\<close>

lemma processNextWorkItem_steps:
  assumes "cs_workers s w = Idle" "processNextWorkItem w s = Some (run, s')"
  shows "(crd_step meta)\<^sup>*\<^sup>* s s'"
proof -
  obtain m s1 where g: "worker_get w s = Some (m, s1)"
    using assms(2) by (auto simp: processNextWorkItem_def split: option.splits)
  then have 1: "crd_step meta s s1" using assms(1) by (rule crd_step.get [rotated])
  show ?thesis
  proof (cases m)
    case True
    then obtain key where k: "cs_workers s1 w = Got key"
      using g by (auto simp: worker_get_def split: option.splits)
    then have 2: "crd_step meta s1 (worker_sync w key s1)" by (rule crd_step.sync)
    obtain err called where h: "syncHandler (namespaceLister_Get (cs_indexer s1)) key = (err, called)"
      by (cases "syncHandler (namespaceLister_Get (cs_indexer s1)) key")
    then have "cs_workers (worker_sync w key s1) w = Synced key err" by (simp add: worker_sync_def)
    then have "crd_step meta (worker_sync w key s1) (worker_finish w key err (worker_sync w key s1))"
      and "s' = worker_finish w key err (worker_sync w key s1)"
      using assms(2) g True k by (auto simp: processNextWorkItem_def intro: crd_step.finish)
    with 1 2 show ?thesis by (auto intro: converse_rtranclp_into_rtranclp)
  next
    case False
    with 1 g assms(2) show ?thesis by (auto simp: processNextWorkItem_def)
  qed
qed

section \<open>The invariant of the controller\<close>

definition key_holders :: "'c crd_state \<Rightarrow> nat \<Rightarrow> string option" where
  "key_holders s = (\<lambda>w. held_by (cs_workers s w))"

text \<open>The keys for which a sync is still under way.\<close>

definition under_way :: "('c \<Rightarrow> ObjectMeta) \<Rightarrow> 'c crd_state \<Rightarrow> string set" where
  "under_way meta s = (\<lambda>c. objectKey (meta c)) ` set (cs_events s) \<union> wq_pending (cs_queue s) \<union> {k. \<exists>w. cs_workers s w = Got k}"

definition crd_inv :: "('c \<Rightarrow> ObjectMeta) \<Rightarrow> 'c crd_state \<Rightarrow> bool" where
  "crd_inv meta s \<longleftrightarrow> wq.exclusive (key_holders s) (cs_queue s)
    \<and> (\<forall>k c. map_of (cs_indexer s) k = Some c \<longrightarrow> well_named (meta c) \<and> k = objectKey (meta c))
    \<and> (wq_shuttingDown (cs_queue s) \<or>
        (\<forall>k c. map_of (cs_indexer s) k = Some c \<longrightarrow> k \<in> under_way meta s \<or> map_of (cs_calls s) k = Some c))"

lemma syncHandler_reads:
  assumes "well_named om" "map_of ix (objectKey om) = Some c"
  shows "syncHandler (namespaceLister_Get ix) (objectKey om) = (None, Some c)"
  using assms SplitMetaNamespaceKey_MetaNamespaceKeyFunc [of "obj_Namespace om" "obj_Name om"]
  by (simp add: syncHandler_def namespaceLister_Get_def objectKey_def well_named_def MetaNamespaceKeyFunc_def)

lemma crd_start_inv: "crd_inv meta crd_start"
  by (auto simp: crd_inv_def crd_start_def wq.exclusive_def key_holders_def ran_def)

lemma crd_inv_mono:
  assumes "crd_inv meta s" "wq.exclusive (key_holders s') (cs_queue s')" "cs_indexer s' = cs_indexer s" "cs_calls s' = cs_calls s"
    and "wq_shuttingDown (cs_queue s') = wq_shuttingDown (cs_queue s)"
    and "\<not> wq_shuttingDown (cs_queue s) \<Longrightarrow> under_way meta s \<subseteq> under_way meta s'"
  shows "crd_inv meta s'"
proof -
  have "wq_shuttingDown (cs_queue s)
      \<or> (\<forall>k c. map_of (cs_indexer s) k = Some c \<longrightarrow> k \<in> under_way meta s' \<or> map_of (cs_calls s) k = Some c)"
    using assms(1,6) unfolding crd_inv_def by blast
  moreover have "\<forall>k c. map_of (cs_indexer s) k = Some c \<longrightarrow> well_named (meta c) \<and> k = objectKey (meta c)"
    using assms(1) unfolding crd_inv_def by blast
  ultimately show ?thesis using assms(2) unfolding crd_inv_def assms(3-5) by blast
qed

lemma Got_other:
  assumes "\<And>k. cs_workers s w \<noteq> Got k"
  shows "{k. \<exists>v. cs_workers s v = Got k} \<subseteq> {k. \<exists>v. ((cs_workers s)(w := x)) v = Got k}"
proof
  fix k assume "k \<in> {k. \<exists>v. cs_workers s v = Got k}"
  then obtain v where v: "cs_workers s v = Got k" by blast
  with assms have "v \<noteq> w" by auto
  with v have "((cs_workers s)(w := x)) v = Got k" by simp
  then show "k \<in> {k. \<exists>v. ((cs_workers s)(w := x)) v = Got k}" by blast
qed

lemma crd_inv_get:
  assumes "cs_workers s w = Idle" "worker_get w s = Some (run, s')" "crd_inv meta s"
  shows "crd_inv meta s'"
proof (cases run)
  case False
  with assms(2) have "s' = s" by (auto simp: worker_get_def wq_Get_def split: option.splits list.splits if_splits)
  with assms(3) show ?thesis by simp
next
  case True
  with assms(2) obtain k q where k: "wq_Get (cs_queue s) = Some (Some k, q)"
    "s' = s\<lparr>cs_queue := q, cs_workers := (cs_workers s)(w := Got k)\<rparr>"
    by (auto simp: worker_get_def split: option.splits)
  have ex: "wq.exclusive (key_holders s) (cs_queue s)" using assms(3) by (simp add: crd_inv_def)
  then have g: "wq_pending (cs_queue s) \<subseteq> insert k (wq_pending q)" "wq_shuttingDown q = wq_shuttingDown (cs_queue s)"
    using wq.get [OF _ k(1)] by (simp_all add: wq.exclusive_def)
  have "key_holders s w = None" using assms(1) by (simp add: key_holders_def)
  from wq.exclusive_get [OF ex this k(1)] have "wq.exclusive (key_holders s') (cs_queue s')"
    by (simp add: k(2) key_holders_def fun_upd_def if_distrib cong: if_cong)
  moreover have "under_way meta s \<subseteq> under_way meta s'"
  proof -
    have "k \<in> under_way meta s'" by (auto simp: under_way_def k(2))
    moreover have "{k. \<exists>v. cs_workers s v = Got k} \<subseteq> {k. \<exists>v. cs_workers s' v = Got k}"
      using Got_other [of s w "Got k"] assms(1) by (simp add: k(2) del: fun_upd_apply)
    moreover have e: "cs_events s' = cs_events s" "cs_queue s' = q" by (simp_all add: k(2))
    ultimately show ?thesis using g(1) unfolding under_way_def e by blast
  qed
  ultimately show ?thesis using g(2) by (intro crd_inv_mono [OF assms(3)]) (simp_all add: k(2))
qed

lemma crd_inv_sync:
  assumes "cs_workers s w = Got key" "crd_inv meta s"
  shows "crd_inv meta (worker_sync w key s)"
proof -
  obtain err called where h: "syncHandler (namespaceLister_Get (cs_indexer s)) key = (err, called)"
    by (cases "syncHandler (namespaceLister_Get (cs_indexer s)) key")
  let ?s = "worker_sync w key s"
  have s: "?s = s\<lparr>cs_workers := (cs_workers s)(w := Synced key err),
      cs_calls := (case called of Some c \<Rightarrow> (key, c) # cs_calls s | None \<Rightarrow> cs_calls s)\<rparr>"
    by (simp add: worker_sync_def h)
  have "key_holders ?s = key_holders s" using assms(1) by (auto simp: s key_holders_def)
  moreover have "called = Some c" if "map_of (cs_indexer s) key = Some c" for c
    using that assms(2) h syncHandler_reads [of "meta c" "cs_indexer s" c] by (auto simp: crd_inv_def)
  moreover have "under_way meta s \<subseteq> insert key (under_way meta ?s)"
    using assms(1) by (auto simp: under_way_def s) (metis worker.inject(1))
  ultimately show ?thesis using assms(2)
    by (fastforce simp: crd_inv_def s split: option.splits)
qed

lemma crd_inv_finish:
  assumes "cs_workers s w = Synced key err" "crd_inv meta s"
  shows "crd_inv meta (worker_finish w key err s)"
proof -
  let ?q = "if err = None then wq_Forget key (cs_queue s) else cs_queue s"
  let ?s = "worker_finish w key err s"
  have q: "wq.exclusive (key_holders s) ?q" "wq_pending ?q = wq_pending (cs_queue s)"
    "wq_shuttingDown ?q = wq_shuttingDown (cs_queue s)" using assms(2) by (simp_all add: crd_inv_def)
  have k: "key_holders s w = Some key" using assms(1) by (simp add: key_holders_def)
  then have "wq_ok ?q" "key \<in> wq_processing ?q"
    using q(1) k unfolding wq.exclusive_def by (auto intro: ranI)
  note f = wq.finish [OF this]
  from wq.exclusive_finish [OF q(1) k] have "wq.exclusive (key_holders ?s) (cs_queue ?s)"
    by (simp add: worker_finish_def key_holders_def fun_upd_def if_distrib cong: if_cong)
  moreover have "under_way meta s \<subseteq> under_way meta ?s"
    using f q(2) Got_other [of s w Idle] assms(1) unfolding under_way_def worker_finish_def
    by (auto simp del: fun_upd_apply)
  ultimately show ?thesis using f q(3) by (intro crd_inv_mono [OF assms(2)]) (simp_all add: worker_finish_def)
qed

lemma crd_step_inv:
  assumes "crd_step meta s s'" "crd_inv meta s"
  shows "crd_inv meta s'"
  using assms
proof (induction rule: crd_step.induct)
  case (notify s c rest b)
  then show ?case
    by (intro crd_inv_mono [OF notify(2)]) (auto simp: crd_inv_def under_way_def key_holders_def AddRateLimited_queue)
next
  case get
  then show ?case by (rule crd_inv_get)
next
  case sync
  then show ?case by (rule crd_inv_sync)
next
  case finish
  then show ?case by (rule crd_inv_finish)
next
  case (receive s d)
  then show ?case by (intro crd_inv_mono [OF receive])
    (auto simp: crd_inv_def under_way_def key_holders_def receive_queue dest: subsetD [OF receive_queue(2)])
next
  case (due s k)
  then show ?case by (intro crd_inv_mono [OF due])
    (auto simp: crd_inv_def under_way_def key_holders_def due_queue dest: subsetD [OF due_queue(2)])
qed (auto simp: crd_inv_def under_way_def key_holders_def wq_ShutDown_def)

lemma crd_reachable_inv: "crd_reachable meta s \<Longrightarrow> crd_inv meta s"
  unfolding crd_reachable_def by (induction rule: rtranclp_induct) (auto intro: crd_start_inv crd_step_inv)

section \<open>Properties of the controller of the resources\<close>

text \<open>A node of the examples as a resource, and a run of the controller in which a worker syncs it.\<close>

definition demo_crd_node :: CrdNetworkNode where
  "demo_crd_node = \<lparr>cnn_ObjectMeta = \<lparr>obj_Name = ''n1'', obj_Namespace = ''default'', obj_Labels = []\<rparr>,
    cnn_Spec = \<lparr>nn_K8SNodeName = '''', nn_NodeType = '''', nn_Interfaces = [demo_interface ''i1''], nn_L2Bds = []\<rparr>,
    cnn_Status = emptyNodeStatus\<rparr>"

definition demo_crd_queued :: "CrdNetworkNode crd_state" where
  "demo_crd_queued = crd_start\<lparr>cs_indexer := [(''default/n1'', demo_crd_node)],
    cs_queue := waitingLoop_receive True (enqueueNetworkNode 0 demo_crd_node newQueue)\<rparr>"

definition demo_crd_synced :: "CrdNetworkNode crd_state" where
  "demo_crd_synced = snd (the (processNextWorkItem 0 demo_crd_queued))"

lemma demo_crd_reachable: "crd_reachable cnn_ObjectMeta demo_crd_queued" "crd_reachable cnn_ObjectMeta demo_crd_synced"
proof -
  let ?s1 = "crd_start\<lparr>cs_indexer := gput (objectKey (cnn_ObjectMeta demo_crd_node)) demo_crd_node (cs_indexer crd_start),
    cs_events := cs_events crd_start @ [demo_crd_node]\<rparr>"
  have 1: "crd_step cnn_ObjectMeta crd_start ?s1" by (rule crd_step.store) (simp add: well_named_def demo_crd_node_def)
  let ?s2 = "?s1\<lparr>cs_events := [], cs_queue := wq_AddRateLimited 0 (objectKey (cnn_ObjectMeta demo_crd_node)) (cs_queue ?s1)\<rparr>"
  have 2: "crd_step cnn_ObjectMeta ?s1 ?s2" by (rule crd_step.notify) (simp add: crd_start_def)
  let ?s3 = "?s2\<lparr>cs_queue := waitingLoop_receive True (cs_queue ?s2)\<rparr>"
  have 3: "crd_step cnn_ObjectMeta ?s2 ?s3" by (rule crd_step.receive)
  have "?s3 = demo_crd_queued"
    by (simp add: demo_crd_queued_def crd_start_def enqueueNetworkNode_def demo_crd_node_def objectKey_def MetaNamespaceKeyFunc_def)
  with 3 have "crd_step cnn_ObjectMeta ?s2 demo_crd_queued" by simp
  with 1 2 show q: "crd_reachable cnn_ObjectMeta demo_crd_queued"
    unfolding crd_reachable_def by (blast intro: rtranclp.rtrancl_into_rtrancl)
  have "cs_workers demo_crd_queued 0 = Idle" "processNextWorkItem 0 demo_crd_queued \<noteq> None"
    by (simp add: demo_crd_queued_def crd_start_def) code_simp
  then have "(crd_step cnn_ObjectMeta)\<^sup>*\<^sup>* demo_crd_queued demo_crd_synced"
    unfolding demo_crd_synced_def by (cases "processNextWorkItem 0 demo_crd_queued") (auto intro: processNextWorkItem_steps)
  with q show "crd_reachable cnn_ObjectMeta demo_crd_synced"
    unfolding crd_reachable_def by (rule rtranclp_trans)
qed

text \<open>C16. No change of a resource is lost on its way to the controller: in whatever order the informer,
  the delays of the work queue and any number of workers run, until the queue is shut down, a resource
  the informer holds either has a sync under way (a notification that is not delivered, its key
  delayed or in the queue, or a worker that holds its key), or the last call of \<open>HandleCRDSync\<close> for its
  key was given the resource as the informer holds it now.\<close>

theorem crd_sync_current:
  assumes "crd_reachable meta s" "\<not> wq_shuttingDown (cs_queue s)" "map_of (cs_indexer s) k = Some c"
    and "k \<notin> (\<lambda>c. objectKey (meta c)) ` set (cs_events s)"
    and "k \<notin> set (wq_waitingForAddCh (cs_queue s) @ wq_waiting (cs_queue s) @ wq_queue (cs_queue s))"
    and "\<And>w. held_by (cs_workers s w) \<noteq> Some k"
  shows "map_of (cs_calls s) k = Some c"
proof -
  have inv: "crd_inv meta s" by (rule crd_reachable_inv [OF assms(1)])
  then have "k \<in> under_way meta s \<or> map_of (cs_calls s) k = Some c"
    using assms(2,3) unfolding crd_inv_def by blast
  moreover have "cs_workers s w \<noteq> Got k" for w using assms(6) [of w] by auto
  moreover have "k \<notin> wq_processing (cs_queue s)"
    using inv assms(6) unfolding crd_inv_def wq.exclusive_def key_holders_def ran_def by blast
  then have "k \<notin> wq_dirty (cs_queue s)"
    using inv assms(5) unfolding crd_inv_def wq.exclusive_def wq_ok_def by auto
  ultimately show ?thesis using assms(4,5) unfolding under_way_def wq_pending_def by auto
qed

theorem crd_sync_current_witness:
  "map_of (cs_indexer demo_crd_synced) ''default/n1'' = Some demo_crd_node
    \<and> map_of (cs_calls demo_crd_synced) ''default/n1'' = Some demo_crd_node"
proof -
  have ix: "map_of (cs_indexer demo_crd_synced) ''default/n1'' = Some demo_crd_node"
    and nc: "\<not> wq_shuttingDown (cs_queue demo_crd_synced)" "cs_events demo_crd_synced = []"
    "''default/n1'' \<notin> set (wq_waitingForAddCh (cs_queue demo_crd_synced) @ wq_waiting (cs_queue demo_crd_synced)
      @ wq_queue (cs_queue demo_crd_synced))" by code_simp+
  have "held_by (cs_workers demo_crd_synced w) \<noteq> Some ''default/n1''" for w
  proof
    assume w: "held_by (cs_workers demo_crd_synced w) = Some ''default/n1''"
    have "wq_processing (cs_queue demo_crd_synced) = {}" by code_simp
    moreover have "ran (key_holders demo_crd_synced) = wq_processing (cs_queue demo_crd_synced)"
      using crd_reachable_inv [OF demo_crd_reachable(2)] by (simp add: crd_inv_def wq.exclusive_def)
    moreover have "key_holders demo_crd_synced w = Some ''default/n1''" using w by (simp add: key_holders_def)
    ultimately show False by (auto simp: ran_def)
  qed
  with crd_sync_current [OF demo_crd_reachable(2) nc(1) ix] nc ix show ?thesis by simp
qed

text \<open>C17. No two workers hold the same key at the same time, so that one resource is never synced by two
  of them at once, and a key a worker holds is not in the queue: a change that arrives while the
  resource is being synced waits until that sync is done.\<close>

theorem crd_workers_exclusive:
  assumes "crd_reachable meta s" "held_by (cs_workers s v) = Some k"
  shows "(held_by (cs_workers s w) = Some k \<longrightarrow> v = w) \<and> k \<notin> set (wq_queue (cs_queue s))"
proof -
  have ex: "wq.exclusive (key_holders s) (cs_queue s)" using crd_reachable_inv [OF assms(1)] by (simp add: crd_inv_def)
  then have "k \<in> wq_processing (cs_queue s)" using assms(2) by (auto simp: wq.exclusive_def key_holders_def ran_def)
  with ex assms(2) show ?thesis unfolding wq.exclusive_def wq_ok_def key_holders_def by blast
qed

text \<open>The state in which a worker has taken the key.\<close>

definition demo_crd_taken :: "CrdNetworkNode crd_state" where
  "demo_crd_taken = snd (the (worker_get 0 demo_crd_queued))"

theorem crd_workers_exclusive_witness:
  "held_by (cs_workers demo_crd_taken 0) = Some ''default/n1'' \<and> held_by (cs_workers demo_crd_taken 1) \<noteq> Some ''default/n1''
    \<and> ''default/n1'' \<notin> set (wq_queue (cs_queue demo_crd_taken))"
proof -
  have "worker_get 0 demo_crd_queued \<noteq> None" by code_simp
  then obtain run where "worker_get 0 demo_crd_queued = Some (run, demo_crd_taken)"
    unfolding demo_crd_taken_def by (metis option.collapse prod.collapse)
  then have "crd_step cnn_ObjectMeta demo_crd_queued demo_crd_taken"
    by (rule crd_step.get [rotated]) (simp add: demo_crd_queued_def crd_start_def)
  with demo_crd_reachable(1) have r: "crd_reachable cnn_ObjectMeta demo_crd_taken"
    unfolding crd_reachable_def by (rule rtranclp.rtrancl_into_rtrancl)
  have h: "held_by (cs_workers demo_crd_taken 0) = Some ''default/n1''" by code_simp
  show ?thesis using crd_workers_exclusive [OF r h, of 1] h by auto
qed

section \<open>What the conversion and the status update lose\<close>

text \<open>A service resource with a connection of a type there is not.\<close>

definition demo_bad_crd :: CrdNetworkService where
  "demo_bad_crd = \<lparr>cns_ObjectMeta = \<lparr>obj_Name = ''s1'', obj_Namespace = ''default'', obj_Labels = []\<rparr>,
    cns_Spec = \<lparr>nsp_NetworkPods = [], nsp_Connections = [\<lparr>conn_Name = '''', conn_ConnType = ''l4'', conn_NetworkNodeOverlayName = '''',
        conn_PodInterfaces = [], conn_NodeInterfaces = [], conn_NodeInterfaceLabels = [],
        conn_UseNodeL2Bd = '''', conn_L2Bd = None, conn_VrfId = 0, conn_ConnMethod = ''''\<rparr>]\<rparr>,
    cns_Status = emptyServiceStatus\<rparr>"

text \<open>C19. An invalid service resource stops the controller: the sync of a custom resource does not
  validate it, as a POST does, and the message loop panics on the service the message carries, because
  the error of the validation is appended to a status that was dropped.\<close>

theorem crd_invalid_service_panics:
  assumes "m \<in> set (NetworkService_HandleCRDSync crd (ls_plugin ls))"
    and "CrdToSfcNetworkService crd = Inr ns" "NetworkService_validate (ns\<lparr>ns_Status := None\<rparr>) (ls_plugin ls) = Some (Some e)"
  shows "processMsg m ls = None"
  using assms
  by (auto simp: NetworkService_HandleCRDSync_def processMsg_def AddOperationMsgToQueue_def post_defs
    NetworkService_HandleCRUDOperationCU_def NetworkService_AppendStatusMsg_def split: if_splits)

theorem crd_invalid_service_panics_witness:
  "\<exists>m. NetworkService_HandleCRDSync demo_bad_crd (fresh_plugin good_env) = [m]
    \<and> processMsg m \<lparr>isRenderingEnabled = True, isRenderingPending = False, ls_plugin = fresh_plugin good_env\<rparr> = None"
proof -
  let ?ls = "\<lparr>isRenderingEnabled = True, isRenderingPending = False, ls_plugin = fresh_plugin good_env\<rparr>"
  obtain ns where ns: "CrdToSfcNetworkService demo_bad_crd = Inr ns" by (simp add: CrdToSfcNetworkService_def)
  then have m: "NetworkService_HandleCRDSync demo_bad_crd (ls_plugin ?ls)
      = [AddOperationMsgToQueue ModelTypeNetworkService OpCodeCreateUpdate (MService ns)]"
    by (simp add: NetworkService_HandleCRDSync_def NetworkService_HandleCRUDOperationR_def fresh_plugin_def)
  have "\<exists>e. NetworkService_validate (ns\<lparr>ns_Status := None\<rparr>) (ls_plugin ?ls) = Some (Some e)"
    using ns by (auto simp: CrdToSfcNetworkService_def demo_bad_crd_def NetworkService_validate_def validateConnection_def
      validateConnType_def)
  with m crd_invalid_service_panics [of _ demo_bad_crd ?ls, OF _ ns] show ?thesis by auto
qed

text \<open>The namespace of a resource is not kept by the conversion, and the status of what came from it is
  written to the resource of that name in the namespace \<open>default\<close>, if there is one.\<close>

lemma crd_status_default_namespace:
  assumes "k8s_name (obj_Name (cnn_ObjectMeta crd))" "CrdToSfcNetworkNode crd = Inr nn"
    and "nn_Metadata stored = nn_Metadata nn" "nn_Status stored = Some st" "cl_Get cl = networkNodeLister_Get indexer"
  shows "NetworkNode_updateStatus (Some cl) stored =
    (case map_of indexer (''default/'' @ obj_Name (cnn_ObjectMeta crd)) of
       None \<Rightarrow> Some (Some (obj_Name (cnn_ObjectMeta crd) @ '' not found''), [])
     | Some c \<Rightarrow> Some (cl_Update cl (c\<lparr>cnn_Status := st\<rparr>), [c\<lparr>cnn_Status := st\<rparr>]))"
  using assms
  by (auto simp: NetworkNode_updateStatus_def CrdToSfcNetworkNode_def updateStatusOf_def SplitMetaNamespaceKey_name
    networkNodeLister_Get_def namespaceLister_Get_def listerErr_def Let_def split: option.splits)

text \<open>Without a kubeconfig there is no controller of the resources, but its watchers run: the first
  node that is stored makes the status update dereference nil.\<close>

lemma crd_status_without_controller:
  "nn_Metadata nn = Some md \<Longrightarrow> k8s_name (md_Name md) \<Longrightarrow> CrdNetworkNode_InitAndRunWatcher None (CrdPut (Some nn)) = None"
  by (simp add: CrdNetworkNode_InitAndRunWatcher_def crdWatch_def NetworkNode_updateStatus_def updateStatusOf_def
    SplitMetaNamespaceKey_name)



end
