(* ===== verification/Deletion.thy ===== *)
theory Deletion
  imports HttpApi
begin

text \<open>
  What deleting a service leaves behind (\<open>networkservice.go\<close>, \<open>rendertxn.go\<close>, \<open>interfaces.go\<close>): the
  entries its status lists are gone from the entry cache and from etcd, everything else about entries of
  agents is as it was, and the entries that are left are accounted for by the objects that are left.
\<close>

section \<open>Exactly which entries are dropped\<close>

definition drops :: "string set \<Rightarrow> Plugin \<Rightarrow> Plugin \<Rightarrow> bool" where
  "drops K s s' \<longleftrightarrow> (\<forall>k. map_of (rc_VppEntries s') k = (if k \<in> K then None else map_of (rc_VppEntries s) k))
    \<and> (\<forall>k. agent_key k \<longrightarrow> store_of (db_log s') k = (if k \<in> K then None else store_of (db_log s) k))"

lemma drops_trans: "drops K s s' \<Longrightarrow> drops K' s' s'' \<Longrightarrow> drops (K \<union> K') s s''"
  by (auto simp: drops_def)

lemma drops_quiet:
  "rc_VppEntries s' = rc_VppEntries s \<Longrightarrow> db_log s' = db_log s @ ops \<Longrightarrow> list_all own_op ops \<Longrightarrow> drops {} s s'"
  by (simp add: drops_def store_own)

lemma drops_then_quiet:
  "drops K s s' \<Longrightarrow> rc_VppEntries s'' = rc_VppEntries s' \<Longrightarrow> db_log s'' = db_log s' @ ops \<Longrightarrow> list_all own_op ops \<Longrightarrow> drops K s s''"
  using drops_trans [OF _ drops_quiet] by fastforce

lemma DeleteRenderedVppAgentEntries_drops:
  "drops ((\<lambda>(_, e). rve_VppAgentKey e) ` set es) s (DeleteRenderedVppAgentEntries es s)"
proof (induction es s rule: DeleteRenderedVppAgentEntries.induct)
  case (2 k e es s)
  have "drops {rve_VppAgentKey e} s
      (DeleteFromDatastore (rve_VppAgentKey e) (s\<lparr>rc_VppEntries := gdel (rve_VppAgentKey e) (rc_VppEntries s)\<rparr>))"
    by (simp add: drops_def DeleteFromDatastore_def)
  from drops_trans [OF this 2] show ?case by simp
qed (simp add: drops_def)

text \<open>What the deletion of entries and interfaces leaves alone.\<close>

lemma DeleteRenderedVppAgentEntries_caches:
  "networkServiceCache (DeleteRenderedVppAgentEntries es s) = networkServiceCache s
    \<and> networkNodeCache (DeleteRenderedVppAgentEntries es s) = networkNodeCache s"
  by (induction es s rule: DeleteRenderedVppAgentEntries.induct) (simp_all add: DeleteFromDatastore_def)

lemma DeleteInterfaceEntries_quiet:
  "\<exists>ops. list_all own_op ops \<and> db_log (snd (DeleteInterfaceEntries interfaces s)) = db_log s @ ops
    \<and> rc_VppEntries (snd (DeleteInterfaceEntries interfaces s)) = rc_VppEntries s
    \<and> networkServiceCache (snd (DeleteInterfaceEntries interfaces s)) = networkServiceCache s
    \<and> networkNodeCache (snd (DeleteInterfaceEntries interfaces s)) = networkNodeCache s"
proof -
  let ?f = "\<lambda>(_ :: string, ifStatus) (m, s).
        RemoveInterfaceStatus m (ConnPodName (ist_Name ifStatus)) (ConnInterfaceName (ist_Name ifStatus)) s"
  let ?P = "\<lambda>s'. \<exists>ops. list_all own_op ops \<and> db_log s' = db_log s @ ops \<and> rc_VppEntries s' = rc_VppEntries s
    \<and> networkServiceCache s' = networkServiceCache s \<and> networkNodeCache s' = networkNodeCache s"
  have "?P (snd (fold ?f es (m, s1)))" if "?P s1" for es m s1
    using that
  proof (induction es arbitrary: m s1)
    case (Cons e es)
    obtain k st where e: "e = (k, st)" by (cases e)
    obtain m2 s2 where r: "RemoveInterfaceStatus m (ConnPodName (ist_Name st)) (ConnInterfaceName (ist_Name st)) s1 = (m2, s2)"
      by fastforce
    obtain ops where ops: "list_all own_op ops" "db_log s1 = db_log s @ ops" "rc_VppEntries s1 = rc_VppEntries s"
      "networkServiceCache s1 = networkServiceCache s" "networkNodeCache s1 = networkNodeCache s" using Cons.prems by blast
    have "?P s2" using r ops
      by (auto simp: RemoveInterfaceStatus_def DeleteFromDatastore_def Let_def InterfaceStatusKeyPrefix_def)
    from Cons.IH [OF this] show ?case by (simp add: e r)
  qed simp
  from this [of s "case interfaces of Some m \<Rightarrow> m | None \<Rightarrow> []" interfaces]
  show ?thesis unfolding DeleteInterfaceEntries_def by fastforce
qed

lemma EntityDelete_quiet:
  assumes "EntityDelete n scope s = Some s'"
  shows "db_log s' = db_log s \<and> rc_VppEntries s' = rc_VppEntries s"
  using assms unfolding EntityDelete_def
  by (rule foldM_invariant [where P = "\<lambda>s'. db_log s' = db_log s \<and> rc_VppEntries s' = rc_VppEntries s"])
    (auto simp: entityDeleteStep_def Let_def split: Option.bind_splits sum.splits option.splits prod.splits if_splits)

section \<open>Deleting a service\<close>

text \<open>The entries a status lists, each under its own key, as rendering leaves them.\<close>

definition listed_ok :: "RenderedVppAgentEntry gomap \<Rightarrow> bool" where
  "listed_ok m \<longleftrightarrow> (\<forall>(k, e) \<in> set m. rve_VppAgentKey e = k)"

lemma listed_ok_keys: "listed_ok m \<Longrightarrow> (\<lambda>(_, e). rve_VppAgentKey e) ` set m = dom (map_of m)"
  unfolding listed_ok_def dom_map_of_conv_image_fst by (force simp: image_iff)

lemma service_delete_state:
  assumes "map_of (networkServiceCache s) name = Some ns" "ns_Status ns = Some st" "nss_RenderedVppAgentEntries st = Some m"
    and "listed_ok m" "NetworkService_HandleCRUDOperationD name s = Some (err, s')"
  shows "err = None" "networkServiceCache s' = gdel name (networkServiceCache s)" "networkNodeCache s' = networkNodeCache s"
    "drops (dom (map_of m)) s s'" "store_of (db_log s') (NetworkService_NameKey name) = None"
proof -
  let ?s1 = "DeleteRenderedVppAgentEntries m s"
  let ?s2 = "snd (DeleteInterfaceEntries (nss_Interfaces st) ?s1)"
  let ?s3 = "DeleteFromDatastore (NetworkService_NameKey name) (?s2\<lparr>networkServiceCache := gdel name (networkServiceCache ?s2)\<rparr>)"
  have d: "err = None" "EntityDelete name IPAMPoolScopeNetworkService ?s3 = Some s'"
    using assms by (auto simp: NetworkService_HandleCRUDOperationD_def NetworkService_renderDelete_def Let_def split: Option.bind_splits)
  obtain ops where ops: "list_all own_op ops" "db_log ?s2 = db_log ?s1 @ ops" "rc_VppEntries ?s2 = rc_VppEntries ?s1"
    "networkServiceCache ?s2 = networkServiceCache ?s1" "networkNodeCache ?s2 = networkNodeCache ?s1"
    using DeleteInterfaceEntries_quiet by metis
  have own: "own_key (NetworkService_NameKey name)" by (simp add: NetworkService_NameKey_def NetworkService_KeyPrefix_def)
  note q = EntityDelete_quiet [OF d(2)] EntityDelete_fields [OF d(2)] DeleteRenderedVppAgentEntries_caches [of m s]
  show "err = None" by (rule d(1))
  show "networkServiceCache s' = gdel name (networkServiceCache s)" "networkNodeCache s' = networkNodeCache s"
    using q ops by (simp_all add: DeleteFromDatastore_def)
  show "store_of (db_log s') (NetworkService_NameKey name) = None" using q by (simp add: DeleteFromDatastore_def)
  have "drops (dom (map_of m)) s ?s1"
    using DeleteRenderedVppAgentEntries_drops [of m s] listed_ok_keys [OF assms(4)] by simp
  then show "drops (dom (map_of m)) s s'"
    by (rule drops_then_quiet [where ops = "ops @ [DbDelete (NetworkService_NameKey name)]"])
      (use q ops own in \<open>simp_all add: DeleteFromDatastore_def\<close>)
qed

lemma service_delete_accounted:
  assumes "accounted s" "map_of (networkServiceCache s) name = Some ns" "ns_Status ns = Some st"
    and "nss_RenderedVppAgentEntries st = Some m" "networkServiceCache s' = gdel name (networkServiceCache s)"
    and "networkNodeCache s' = networkNodeCache s" "drops (dom (map_of m)) s s'"
  shows "accounted s'"
proof -
  have n: "node_records UNIV s' = node_records UNIV s" using assms(6) by (simp add: node_records_def node_status_def)
  have "service_records UNIV s \<subseteq> dom (map_of m) \<union> service_records UNIV s'"
  proof
    fix k assume "k \<in> service_records UNIV s"
    then obtain n ns1 st1 m1 where k: "map_of (networkServiceCache s) n = Some ns1" "ns_Status ns1 = Some st1"
      "nss_RenderedVppAgentEntries st1 = Some m1" "k \<in> dom (map_of m1)" unfolding service_records_def by blast
    show "k \<in> dom (map_of m) \<union> service_records UNIV s'"
    proof (cases "n = name")
      case True
      then show ?thesis using k assms(2-4) by simp
    next
      case False
      then have "map_of (networkServiceCache s') n = Some ns1" using k(1) assms(5) by simp
      then show ?thesis using k(2-4) unfolding service_records_def by blast
    qed
  qed
  moreover have "dom (map_of (rc_VppEntries s')) \<subseteq> dom (map_of (rc_VppEntries s)) - dom (map_of m)"
  proof
    fix k assume "k \<in> dom (map_of (rc_VppEntries s'))"
    moreover have "map_of (rc_VppEntries s') k = (if k \<in> dom (map_of m) then None else map_of (rc_VppEntries s) k)"
      using assms(7) unfolding drops_def by blast
    ultimately show "k \<in> dom (map_of (rc_VppEntries s)) - dom (map_of m)" by (auto split: if_splits)
  qed
  ultimately show ?thesis using assms(1) n unfolding accounted_def by blast
qed

text \<open>A controller that has rendered the node and the service of the examples.\<close>

definition demo_service_messages :: "(bool \<times> OperationalMsg) list" where
  "demo_service_messages =
    [(False, AddOperationMsgToQueue '''' OpCodeEnableRenderer MNil),
     (False, AddOperationMsgToQueue ModelTypeNetworkPodNodeMap OpCodeCreateUpdate (MPodMap \<lparr>pnm_Pod = ''vnf1'', pnm_Node = ''n1''\<rparr>)),
     (False, AddOperationMsgToQueue ModelTypeNetworkNode OpCodeCreateUpdate (MNode demo_node)),
     (False, AddOperationMsgToQueue ModelTypeNetworkService OpCodeCreateUpdate (MService demo_service))]"

definition demo_rendered :: Plugin where
  "demo_rendered = ls_plugin (the (ProcessOperationalMessages demo_service_messages (fresh_plugin good_env)))"

lemma demo_rendered_service:
  obtains ns st m err s' where "map_of (networkServiceCache demo_rendered) ''s1'' = Some ns" "ns_Status ns = Some st"
    "nss_RenderedVppAgentEntries st = Some m" "listed_ok m" "m \<noteq> []"
    "NetworkService_HandleCRUDOperationD ''s1'' demo_rendered = Some (err, s')"
proof -
  have "(case map_of (networkServiceCache demo_rendered) ''s1'' of
      Some ns \<Rightarrow> (case ns_Status ns of
        Some st \<Rightarrow> (case nss_RenderedVppAgentEntries st of Some m \<Rightarrow> listed_ok m \<and> m \<noteq> [] | None \<Rightarrow> False)
      | None \<Rightarrow> False)
    | None \<Rightarrow> False) \<and> NetworkService_HandleCRUDOperationD ''s1'' demo_rendered \<noteq> None" by code_simp
  then show ?thesis using that by (auto split: option.splits)
qed

text \<open>C12. Deleting a rendered service takes back exactly what it has contributed: when the deletion
  returns, the service is gone from the cache of services and from etcd; the entries its status lists
  are gone from the entry cache and from etcd; every other cached entry and every other key of an
  agent in etcd is as it was; nodes are not touched; and if before every cached entry was listed
  by a node or a service, every entry that is left is listed by one that is left.\<close>

theorem service_delete_takes_back:
  assumes "map_of (networkServiceCache s) name = Some ns" "ns_Status ns = Some st" "nss_RenderedVppAgentEntries st = Some m"
    and "listed_ok m" "NetworkService_HandleCRUDOperationD name s = Some (err, s')"
  shows "err = None \<and> map_of (networkServiceCache s') = (map_of (networkServiceCache s))(name := None)
    \<and> networkNodeCache s' = networkNodeCache s \<and> store_of (db_log s') (NetworkService_NameKey name) = None
    \<and> (\<forall>k. map_of (rc_VppEntries s') k = (if k \<in> dom (map_of m) then None else map_of (rc_VppEntries s) k))
    \<and> (\<forall>k. agent_key k \<longrightarrow> store_of (db_log s') k = (if k \<in> dom (map_of m) then None else store_of (db_log s) k))
    \<and> (accounted s \<longrightarrow> accounted s')"
  using service_delete_state [OF assms] service_delete_accounted [OF _ assms(1-3)] by (simp add: drops_def)

theorem service_delete_takes_back_witness:
  "\<exists>s' (st :: NetworkServiceStatus) m. nss_RenderedVppAgentEntries st = Some m \<and> m \<noteq> [] \<and> NetworkService_HandleCRUDOperationD ''s1'' demo_rendered = Some (None, s')
    \<and> (\<forall>k \<in> dom (map_of m). map_of (rc_VppEntries s') k = None)"
proof -
  obtain ns st m err s' where d: "map_of (networkServiceCache demo_rendered) ''s1'' = Some ns" "ns_Status ns = Some st"
    "nss_RenderedVppAgentEntries st = Some m" "listed_ok m" "m \<noteq> []"
    "NetworkService_HandleCRUDOperationD ''s1'' demo_rendered = Some (err, s')" by (rule demo_rendered_service)
  note T = service_delete_takes_back [OF d(1-4,6)]
  from T have D: "NetworkService_HandleCRUDOperationD ''s1'' demo_rendered = Some (None, s')" using d(6) by blast
  from T have K: "\<forall>k. map_of (rc_VppEntries s') k
      = (if k \<in> dom (map_of m) then None else map_of (rc_VppEntries demo_rendered) k)" by blast
  have "map_of (rc_VppEntries s') k = None" if "k \<in> dom (map_of m)" for k
    using K [rule_format, of k] unfolding if_P [OF that] .
  then show ?thesis by (intro exI [of _ s'] exI [of _ st] exI [of _ m] conjI ballI d(3,5) D)
qed

end
