(* ===== verification/Restart.thy ===== *)
theory Restart
  imports Deletion
begin

text \<open>
  What a start loads (\<open>Init\<close> and \<open>PostProcessLoadedDatastore\<close> in \<open>plugin_impl_controller.go\<close>,
  \<open>LoadVppAgentEntriesFromRenderedVppAgentEntries\<close> in \<open>rendertxn.go\<close>): the managers read their objects
  from etcd, and the entries the loaded nodes and services list in their statuses are read into the entry
  cache.  The state a start leaves is one the invariants of the message loop can begin with, and, when
  etcd answers reads from what it holds, the cache is exactly the part of etcd that the loaded
  objects account for.
\<close>

section \<open>What etcd answers\<close>

text \<open>An object of the controller as rendering writes it: every entry it lists is listed under its own key,
  which is the key of an agent.\<close>

definition rendered_ok :: "RenderedVppAgentEntry gomap option \<Rightarrow> bool" where
  "rendered_ok rendered = (case rendered of None \<Rightarrow> True
    | Some m \<Rightarrow> list_all (\<lambda>(k, e). rve_VppAgentKey e = k \<and> agent_key k) m)"

fun stored_ok :: "dbval \<Rightarrow> bool" where
  "stored_ok (DNode nn) = (case nn_Status nn of None \<Rightarrow> True | Some st \<Rightarrow> rendered_ok (nst_RenderedVppAgentEntries st))"
| "stored_ok (DService ns) = (case ns_Status ns of None \<Rightarrow> True | Some st \<Rightarrow> rendered_ok (nss_RenderedVppAgentEntries st))"
| "stored_ok _ = True"

text \<open>What etcd lists while the controller only reads.\<close>

fun read_op :: "db_op \<Rightarrow> bool" where
  "read_op (DbGet k) = True"
| "read_op (DbList k) = True"
| "read_op _ = False"

definition reads :: "Plugin \<Rightarrow> Plugin \<Rightarrow> bool" where
  "reads s s' \<longleftrightarrow> db_env s' = db_env s \<and> (\<exists>ops. list_all read_op ops \<and> db_log s' = db_log s @ ops)"

definition lists_ok :: "Plugin \<Rightarrow> bool" where
  "lists_ok s \<longleftrightarrow> (\<forall>ops vs. list_all read_op ops \<longrightarrow> env_list (db_env s) (db_log s @ ops) = Some vs \<longrightarrow> list_all stored_ok vs)"

lemma reads_refl [simp]: "reads s s"
  by (auto simp: reads_def intro!: exI [of _ "[]"])

lemma reads_same [intro]: "db_env s' = db_env s \<Longrightarrow> db_log s' = db_log s \<Longrightarrow> reads s s'"
  by (auto simp: reads_def intro!: exI [of _ "[]"])

lemma reads_log: "db_env s' = db_env s \<Longrightarrow> db_log s' = db_log s @ ops \<Longrightarrow> list_all read_op ops \<Longrightarrow> reads s s'"
  by (auto simp: reads_def)

lemma reads_trans: "reads s s' \<Longrightarrow> reads s' s'' \<Longrightarrow> reads s s''"
  unfolding reads_def by (metis append_assoc list_all_append)

lemma lists_ok_reads: "lists_ok s \<Longrightarrow> reads s s' \<Longrightarrow> lists_ok s'"
  unfolding lists_ok_def reads_def by (metis append_assoc list_all_append)

lemma store_of_reads:
  assumes "list_all read_op ops"
  shows "store_of (l @ ops) = store_of l"
  using assms
proof (induction ops rule: rev_induct)
  case (snoc op ops)
  have "store_of (l @ ops @ [op]) = apply_op op (store_of (l @ ops))" by (simp flip: append_assoc)
  then show ?case using snoc by (cases op) simp_all
qed simp

lemma reads_store: "reads s s' \<Longrightarrow> store_of (db_log s') = store_of (db_log s)"
  by (auto simp: reads_def store_of_reads)

text \<open>Etcd answers a get with what the operations before it have left under the key.\<close>

definition honest_gets :: "db_env \<Rightarrow> bool" where
  "honest_gets env \<longleftrightarrow> (\<forall>l k. env_get env (l @ [DbGet k]) = (store_of l k, None))"

section \<open>The managers' start\<close>

definition start_view where
  "start_view s = (rc_VppEntries s, configLocked s)"

definition caches_ok :: "Plugin \<Rightarrow> bool" where
  "caches_ok s \<longleftrightarrow> distinct (gkeys (networkNodeCache s)) \<and> distinct (gkeys (networkServiceCache s))
    \<and> (\<forall>(_, nn) \<in> set (networkNodeCache s). stored_ok (DNode nn))
    \<and> (\<forall>(_, ns) \<in> set (networkServiceCache s). stored_ok (DService ns))"

definition starts :: "Plugin \<Rightarrow> Plugin \<Rightarrow> bool" where
  "starts s s' \<longleftrightarrow> reads s s' \<and> start_view s' = start_view s \<and> (caches_ok s \<longrightarrow> caches_ok s')"

lemma starts_refl [simp]: "starts s s"
  by (simp add: starts_def)

lemma starts_trans: "starts s s' \<Longrightarrow> starts s' s'' \<Longrightarrow> starts s s''"
  unfolding starts_def using reads_trans by auto

lemma starts_same:
  "reads s s' \<Longrightarrow> start_view s' = start_view s \<Longrightarrow> networkNodeCache s' = networkNodeCache s
    \<Longrightarrow> networkServiceCache s' = networkServiceCache s \<Longrightarrow> starts s s'"
  by (simp add: starts_def caches_ok_def)

lemma ReadIterate_starts:
  assumes "ReadIterate p f s = Some s'" "lists_ok s"
    and "\<And>v s s'. stored_ok v \<Longrightarrow> f v s = Some s' \<Longrightarrow> starts s s'"
  shows "starts s s'"
proof -
  let ?s = "s\<lparr>db_log := db_log s @ [DbList p]\<rparr>"
  obtain vs where vs: "env_list (db_env s) (db_log ?s) = Some vs" "foldM f vs ?s = Some s'"
    using assms(1) by (auto simp: ReadIterate_def Let_def split: Option.bind_splits)
  have "list_all read_op [DbList p]" "db_log ?s = db_log s @ [DbList p]" by simp_all
  then have "list_all stored_ok vs" using assms(2) vs(1) unfolding lists_ok_def by metis
  then have "starts ?s s'"
    by (intro foldM_invariant [OF vs(2), of "starts ?s"]) (auto simp: list_all_iff intro: starts_trans assms(3))
  moreover have "starts s ?s" by (rule starts_same [OF reads_log [of _ _ "[DbList p]"]]) (simp_all add: start_view_def)
  ultimately show ?thesis using starts_trans by blast
qed

lemma node_load_starts: "stored_ok (DNode nn) \<Longrightarrow> starts s (s\<lparr>networkNodeCache := gput n nn (networkNodeCache s)\<rparr>)"
  by (fastforce simp: starts_def start_view_def caches_ok_def distinct_update simp del: stored_ok.simps dest: set_gput)

lemma service_load_starts:
  "stored_ok (DService ns) \<Longrightarrow> starts s (s\<lparr>networkServiceCache := gput n ns (networkServiceCache s)\<rparr>)"
  by (fastforce simp: starts_def start_view_def caches_ok_def distinct_update simp del: stored_ok.simps dest: set_gput)

lemma PodNodeMap_load_starts: "PodNodeMap_loadAllFromDatastore p m s = Some (m', s') \<Longrightarrow> starts s s'"
  by (rule starts_same [OF reads_log [of _ _ "[DbList p]"]])
    (auto simp: PodNodeMap_loadAllFromDatastore_def ReadIterateInto_def start_view_def Let_def split: Option.bind_splits)

text \<open>What a manager's start does to its own cache beyond that: nodes and services begin empty.\<close>

lemma clear_starts:
  "starts s (NetworkNode_InitRAMCache s)" "starts s (NetworkService_InitRAMCache s)" "starts s (Overlay_InitRAMCache s)"
  "starts s (IPAMPool_InitRAMCache s)" "starts s (PodNodeMap_InitRAMCache s)" "starts s (SysParms_InitRAMCache s)"
  by (auto simp: starts_def start_view_def caches_ok_def NetworkNode_InitRAMCache_def NetworkService_InitRAMCache_def
    Overlay_InitRAMCache_def IPAMPool_InitRAMCache_def PodNodeMap_InitRAMCache_def SysParms_InitRAMCache_def)

lemma load_starts:
  assumes "starts s s1" "lists_ok s" "ReadIterate p f s1 = Some s'"
    and "\<And>v s s'. stored_ok v \<Longrightarrow> f v s = Some s' \<Longrightarrow> starts s s'"
  shows "starts s s'"
proof -
  have "lists_ok s1" using assms(1,2) lists_ok_reads unfolding starts_def by blast
  from ReadIterate_starts [OF assms(3) this] assms(4) have "starts s1 s'" by blast
  then show ?thesis by (rule starts_trans [OF assms(1)])
qed

lemma PodNodeMap_Init_starts:
  assumes "PodNodeMap_Init s = Some s'"
  shows "starts s s'"
proof -
  let ?s0 = "PodNodeMap_InitRAMCache s"
  obtain m1 s1 m2 s2 where l: "PodNodeMap_loadAllFromDatastore PodNodeMap_KeyPrefix (rc_NetworkPodToNodeMap ?s0) ?s0 = Some (m1, s1)"
    "PodNodeMap_loadAllFromDatastore PodNodeMap_KeyPrefix (networkPodNodeCache (s1\<lparr>rc_NetworkPodToNodeMap := m1\<rparr>))
      (s1\<lparr>rc_NetworkPodToNodeMap := m1\<rparr>) = Some (m2, s2)" "s' = s2\<lparr>networkPodNodeCache := m2\<rparr>"
    using assms by (auto simp: PodNodeMap_Init_def PodNodeMap_LoadAllFromDatastoreIntoCache_def split: Option.bind_splits)
  have "starts s1 (s1\<lparr>rc_NetworkPodToNodeMap := m1\<rparr>)" "starts s2 s'"
    unfolding l(3) by (rule starts_same [OF reads_same]; simp add: start_view_def)+
  then show ?thesis
    using clear_starts(5) PodNodeMap_load_starts [OF l(1)] PodNodeMap_load_starts [OF l(2)] starts_trans by meson
qed

lemma mgr_Init_starts:
  assumes "mgr_Init mgr s = Some s'" "lists_ok s"
  shows "starts s s'"
proof (cases mgr)
  case SysParametersMgr
  then have s': "s' = SysParms_Init s" using assms(1) by simp
  have "starts (SysParms_InitRAMCache s) s'"
    unfolding s' by (rule starts_same [OF reads_log [of _ _ "[DbGet SysParms_KeyPrefix]"]]) (auto simp: SysParms_Init_def SysParms_LoadAllFromDatastoreIntoCache_def
      ReadFromDatastore_def db_GetValue_def start_view_def Let_def split: prod.splits option.splits dbval.splits)
  then show ?thesis using starts_trans clear_starts(6) by blast
next
  case NetworkPodNodeMapMgr
  then show ?thesis using assms(1) PodNodeMap_Init_starts by simp
next
  case IpamPoolMgr
  then have "IPAMPool_loadAllFromDatastore (IPAMPool_InitRAMCache s) = Some s'"
    using assms(1) by (simp add: IPAMPool_Init_def)
  then show ?thesis
    unfolding IPAMPool_loadAllFromDatastore_def
    by (rule load_starts [OF clear_starts(4) assms(2)])
      (auto simp: start_view_def split: dbval.splits Option.bind_splits intro!: starts_same [OF reads_same])
next
  case NetworkNodeOverlayMgr
  then have "Overlay_loadAllFromDatastore (Overlay_InitRAMCache s) = Some s'" using assms(1) by (simp add: Overlay_Init_def)
  then show ?thesis
    unfolding Overlay_loadAllFromDatastore_def
    by (rule load_starts [OF clear_starts(3) assms(2)])
      (auto simp: start_view_def split: dbval.splits Option.bind_splits intro!: starts_same [OF reads_same])
next
  case NetworkNodeMgr
  then have "NetworkNode_loadAllFromDatastore (NetworkNode_InitRAMCache s) = Some s'"
    using assms(1) by (simp add: NetworkNode_Init_def)
  then show ?thesis
    unfolding NetworkNode_loadAllFromDatastore_def
    by (rule load_starts [OF clear_starts(1) assms(2)])
      (auto simp del: stored_ok.simps split: dbval.splits Option.bind_splits intro!: node_load_starts)
next
  case NetworkServiceMgr
  then have "NetworkService_loadAllFromDatastore (NetworkService_InitRAMCache s) = Some s'"
    using assms(1) by (simp add: NetworkService_Init_def)
  then show ?thesis
    unfolding NetworkService_loadAllFromDatastore_def
    by (rule load_starts [OF clear_starts(2) assms(2)])
      (auto simp del: stored_ok.simps split: dbval.splits Option.bind_splits intro!: service_load_starts)
qed

lemma initMgrs_starts:
  assumes "initMgrs s = Some s'" "lists_ok s"
  shows "starts s s'"
proof -
  have "starts s s' \<and> lists_ok s'"
  proof (rule foldM_invariant [OF assms(1) [unfolded initMgrs_def]])
    fix x s1 s2 assume a: "starts s s1 \<and> lists_ok s1" "(\<lambda>(_, mgr). mgr_Init mgr) x s1 = Some s2"
    then have "starts s1 s2" using mgr_Init_starts by (cases x) auto
    then show "starts s s2 \<and> lists_ok s2" using a(1) starts_trans lists_ok_reads unfolding starts_def by blast
  qed (use assms(2) in simp)
  then show ?thesis by blast
qed

section \<open>Loading the entries\<close>

text \<open>A load in progress: the entries of the keys \<open>L\<close> have been asked for since state \<open>s0\<close>.\<close>

definition loaded :: "Plugin \<Rightarrow> string set \<Rightarrow> Plugin \<Rightarrow> bool" where
  "loaded s0 L s \<longleftrightarrow> entries_ok (rc_VppEntries s) \<and> configLocked s = configLocked s0 \<and> db_env s = db_env s0
    \<and> networkNodeCache s = networkNodeCache s0 \<and> networkServiceCache s = networkServiceCache s0
    \<and> store_of (db_log s) = store_of (db_log s0) \<and> dom (map_of (rc_VppEntries s)) \<subseteq> L
    \<and> (honest_gets (db_env s0) \<longrightarrow> dom (map_of (rc_VppEntries s)) = L \<inter> dom (store_of (db_log s0))
        \<and> (\<forall>k kv. map_of (rc_VppEntries s) k = Some kv \<longrightarrow> store_of (db_log s0) k = Some (DVpp (the (payload kv)))))"

definition load_view where
  "load_view s = (rc_VppEntries s, configLocked s, db_env s, networkNodeCache s, networkServiceCache s, store_of (db_log s))"

lemma loaded_quiet: "load_view s' = load_view s \<Longrightarrow> loaded s0 L s' = loaded s0 L s"
  by (simp add: loaded_def load_view_def)

lemma setPayload_wf:
  "setPayload kv x = Some kv' \<Longrightarrow> kv_typed kv' \<and> VppKey kv' = VppKey kv \<and> DVpp (the (payload kv')) = x"
  by (cases "(kv, x)" rule: setPayload.cases) (auto simp: kv_typed_def payload_def split: if_splits)

lemma ReadFromEtcd_found:
  assumes "ReadFromEtcd (NewKVEntry k t) s = ((found, None, kv), s')"
  shows "load_view s' = load_view s" "found \<Longrightarrow> kv_typed kv \<and> VppKey kv = k"
    "honest_gets (db_env s) \<Longrightarrow> found \<longleftrightarrow> k \<in> dom (store_of (db_log s))"
    "honest_gets (db_env s) \<Longrightarrow> found \<Longrightarrow> store_of (db_log s) k = Some (DVpp (the (payload kv)))"
  using assms setPayload_wf [of "NewKVEntry k t"]
  by (auto simp: ReadFromEtcd_def db_GetValue_def load_view_def honest_gets_def NewKVEntry_def Let_def
    split: if_splits option.splits prod.splits)

lemma load_entry:
  assumes "loaded s0 L s" "ReadFromEtcd (NewKVEntry k t) s = ((found, None, kv), s1)" "agent_key k"
  shows "loaded s0 (insert k L) (if found then s1\<lparr>rc_VppEntries := gput (VppKey kv) kv (rc_VppEntries s1)\<rparr> else s1)"
proof (cases found)
  case False
  then show ?thesis
    using assms(1) loaded_quiet [OF ReadFromEtcd_found(1) [OF assms(2)], of s0 L] ReadFromEtcd_found(3) [OF assms(2)]
    by (auto simp: loaded_def)
next
  case True
  note r = ReadFromEtcd_found [OF assms(2)]
  let ?V = "rc_VppEntries s"
  have v: "rc_VppEntries s1 = ?V" "store_of (db_log s1) = store_of (db_log s)" "db_env s1 = db_env s"
    using r(1) by (simp_all add: load_view_def)
  have wf: "VppKey kv = k" "kv_wf kv" using r(2) [OF True] assms(3) by (simp_all add: kv_wf_def)
  have ok: "entries_ok ?V" using assms(1) by (simp add: loaded_def)
  have "entries_ok (gput k kv ?V)"
    by (rule entries_okI) (use ok wf entries_okD [OF ok] in \<open>auto simp: entries_ok_def distinct_update split: if_splits\<close>)
  then show ?thesis
    using assms(1) r(1,3,4) True by (auto simp: loaded_def load_view_def wf v split: if_splits)
qed

lemma LoadEntries_loaded:
  assumes "loaded s0 L s" "LoadVppAgentEntriesFromRenderedVppAgentEntries es s = (None, s')" "rendered_ok (Some es)"
  shows "loaded s0 (L \<union> dom (map_of es)) s'"
  using assms
proof (induction es arbitrary: s L)
  case (Cons x es)
  obtain key e where x: "x = (key, e)" by (cases x)
  obtain found kv s1 where r: "ReadFromEtcd (NewKVEntry (rve_VppAgentKey e) (rve_VppAgentType e)) s = ((found, None, kv), s1)"
    using Cons.prems(2) x by (auto simp: Let_def split: prod.splits if_splits)
  have k: "rve_VppAgentKey e = key" "agent_key key" "rendered_ok (Some es)" using Cons.prems(3) x by (auto simp: rendered_ok_def)
  have "loaded s0 (insert key L \<union> dom (map_of es)) s'"
    by (rule Cons.IH [OF load_entry [OF Cons.prems(1) r] _ k(3), unfolded k(1)]) (use Cons.prems(2) x r k in simp_all)
  moreover have "insert key L \<union> dom (map_of es) = L \<union> dom (map_of (x # es))"
    unfolding dom_map_of_conv_image_fst by (simp add: x)
  ultimately show ?case by metis
qed simp

text \<open>An entity: its allocators, its entries, its interfaces.\<close>

lemma same_but_ipam_load: "same_but_ipam s s' \<Longrightarrow> load_view s' = load_view s"
  by (auto simp: same_but_ipam_def load_view_def)

lemma setPoolNums_load: "setPoolNums node entityName nums s = Some (err, s') \<Longrightarrow> load_view s' = load_view s"
proof (induction nums arbitrary: s)
  case (Cons x nums)
  then show ?case
    by (cases x) (auto split: Option.bind_splits if_splits dest!: Mgr_SetAddress_frame same_but_ipam_load)
qed simp

lemma loadInterfaceStatus_load:
  assumes "loadInterfaceStatus n x s = Some s'"
  shows "load_view s' = load_view s"
proof -
  obtain err s1 st where u: "UpdateRamCacheAllocatorsForInterfaceStatus st n s1 = Some (err, s')" "load_view s1 = load_view s"
    using assms by (cases x) (auto simp: loadInterfaceStatus_def load_view_def Let_def split: Option.bind_splits if_splits)
  have "load_view s' = load_view s1"
    using u(1) by (auto simp: UpdateRamCacheAllocatorsForInterfaceStatus_def split: Option.bind_splits if_splits
      dest!: setPoolNums_load setAddresses_frame same_but_ipam_load)
  then show ?thesis using u(2) by simp
qed

lemma EntityCreate_load:
  assumes "EntityCreate n scope s = Some s'"
  shows "load_view s' = load_view s"
  using assms unfolding EntityCreate_def
  by (rule foldM_invariant [where P = "\<lambda>s'. load_view s' = load_view s"])
    (auto simp: entityCreateStep_def load_view_def Let_def split: Option.bind_splits sum.splits if_splits)

definition status_keys :: "(RenderedVppAgentEntry gomap option \<times> 'a) option \<Rightarrow> string set" where
  "status_keys status = (case status of Some (Some m, _) \<Rightarrow> dom (map_of m) | _ \<Rightarrow> {})"

lemma postProcessEntity_loaded:
  assumes "postProcessEntity name scope status s = Some (None, s')" "loaded s0 L s"
    and "\<And>rendered i. status = Some (rendered, i) \<Longrightarrow> rendered_ok rendered"
  shows "loaded s0 (L \<union> status_keys status) s'"
proof -
  obtain s1 where s1: "EntityCreate name scope s = Some s1"
    using assms(1) by (auto simp: postProcessEntity_def split: Option.bind_splits)
  have l1: "loaded s0 L s1" using loaded_quiet [OF EntityCreate_load [OF s1]] assms(2) by simp
  show ?thesis
  proof (cases status)
    case None
    then show ?thesis using assms(1) s1 l1 by (simp add: postProcessEntity_def status_keys_def)
  next
    case (Some st)
    obtain rendered interfaces where st: "st = (rendered, interfaces)" by (cases st)
    let ?m = "case rendered of Some m \<Rightarrow> m | None \<Rightarrow> []"
    obtain s2 where s2: "LoadVppAgentEntriesFromRenderedVppAgentEntries ?m s1 = (None, s2)"
      "foldM (loadInterfaceStatus name) (case interfaces of Some m \<Rightarrow> m | None \<Rightarrow> []) s2 = Some s'"
      using assms(1) s1 Some st
      by (auto simp: postProcessEntity_def split: Option.bind_splits prod.splits option.splits)
    have "rendered_ok (Some ?m)" using assms(3) Some st by (auto simp: rendered_ok_def split: option.splits)
    from LoadEntries_loaded [OF l1 s2(1) this] have "loaded s0 (L \<union> status_keys status) s2"
      by (simp add: Some st status_keys_def split: option.splits)
    moreover have "load_view s' = load_view s2"
      by (rule foldM_invariant [OF s2(2)]) (auto dest: loadInterfaceStatus_load)
    ultimately show ?thesis using loaded_quiet by blast
  qed
qed

section \<open>Starting\<close>

definition node_listed :: "NetworkNode \<Rightarrow> string set" where
  "node_listed nn = status_keys (map_option (\<lambda>st. (nst_RenderedVppAgentEntries st, nst_Interfaces st)) (nn_Status nn))"

definition service_listed :: "NetworkService \<Rightarrow> string set" where
  "service_listed ns = status_keys (map_option (\<lambda>st. (nss_RenderedVppAgentEntries st, nss_Interfaces st)) (ns_Status ns))"

lemma postProcessNode_loaded:
  assumes "postProcessNode (n, nn) s = Some (None, s')" "loaded s0 L s" "stored_ok (DNode nn)"
  shows "loaded s0 (L \<union> node_listed nn) s'"
proof -
  obtain md where "nn_Metadata nn = Some md" using assms(1) by (auto simp: postProcessNode_def split: Option.bind_splits)
  then show ?thesis
    using assms unfolding node_listed_def
    by (intro postProcessEntity_loaded [of "md_Name md" IPAMPoolScopeNode]) (auto simp: postProcessNode_def)
qed

lemma postProcessService_loaded:
  assumes "postProcessService (n, ns) s = Some (None, s')" "loaded s0 L s" "stored_ok (DService ns)"
  shows "loaded s0 (L \<union> service_listed ns) s'"
proof -
  obtain md where "ns_Metadata ns = Some md" using assms(1) by (auto simp: postProcessService_def split: Option.bind_splits)
  then show ?thesis
    using assms unfolding service_listed_def
    by (intro postProcessEntity_loaded [of "md_Name md" IPAMPoolScopeNetworkService]) (auto simp: postProcessService_def)
qed

text \<open>A walk over a cache, the same for nodes and services.\<close>

lemma postProcessAll_loaded:
  assumes "postProcessAll (map f xs) s = Some (None, s')" "loaded s0 L s"
    and "\<And>x s s' L. x \<in> set xs \<Longrightarrow> f x s = Some (None, s') \<Longrightarrow> loaded s0 L s \<Longrightarrow> loaded s0 (L \<union> g x) s'"
  shows "loaded s0 (L \<union> (\<Union>x \<in> set xs. g x)) s'"
  using assms
proof (induction xs arbitrary: s L)
  case (Cons x xs)
  obtain s1 where s1: "f x s = Some (None, s1)" "postProcessAll (map f xs) s1 = Some (None, s')"
    using Cons.prems(1) by (auto split: Option.bind_splits if_splits)
  have "loaded s0 ((L \<union> g x) \<union> (\<Union>x \<in> set xs. g x)) s'"
    by (rule Cons.IH [OF s1(2)]) (use Cons.prems s1(1) in auto)
  then show ?case by (simp add: Un_assoc)
qed simp

lemma Union_gomap: "distinct (gkeys m) \<Longrightarrow> (\<Union>(n, x) \<in> set m. g x) = {k. \<exists>n x. map_of m n = Some x \<and> k \<in> g x}"
  by (auto simp: map_of_eq_Some_iff)

lemma node_listed_iff:
  "k \<in> node_listed nn \<longleftrightarrow> (\<exists>st m. nn_Status nn = Some st \<and> nst_RenderedVppAgentEntries st = Some m \<and> k \<in> dom (map_of m))"
  by (auto simp: node_listed_def status_keys_def split: option.splits)

lemma service_listed_iff:
  "k \<in> service_listed ns \<longleftrightarrow> (\<exists>st m. ns_Status ns = Some st \<and> nss_RenderedVppAgentEntries st = Some m \<and> k \<in> dom (map_of m))"
  by (auto simp: service_listed_def status_keys_def split: option.splits)

lemma node_listed_records:
  assumes "distinct (gkeys (networkNodeCache s))"
  shows "(\<Union>(n, nn) \<in> set (networkNodeCache s). node_listed nn) = node_records UNIV s"
  unfolding Union_gomap [OF assms] node_listed_iff node_records_def node_status_def map_option_eq_Some by (rule Collect_cong) blast

lemma service_listed_records:
  assumes "distinct (gkeys (networkServiceCache s))"
  shows "(\<Union>(n, ns) \<in> set (networkServiceCache s). service_listed ns) = service_records UNIV s"
  unfolding Union_gomap [OF assms] service_listed_iff service_records_def by (rule Collect_cong) blast

lemma PostProcess_loaded:
  assumes "PostProcessLoadedDatastore s = Some (None, s')" "rc_VppEntries s = []" "caches_ok s"
  shows "loaded s (node_records UNIV s \<union> service_records UNIV s) s'"
proof -
  have c: "distinct (gkeys (networkNodeCache s))" "distinct (gkeys (networkServiceCache s))"
    "\<And>n nn. (n, nn) \<in> set (networkNodeCache s) \<Longrightarrow> stored_ok (DNode nn)"
    "\<And>n ns. (n, ns) \<in> set (networkServiceCache s) \<Longrightarrow> stored_ok (DService ns)"
    using assms(3) by (auto simp: caches_ok_def simp del: stored_ok.simps)
  let ?s1 = "s\<lparr>ipamPoolCache := map (\<lambda>(k, ip). (k, withPoolStatus ip)) (ipamPoolCache s)\<rparr>"
  obtain s2 s3 where p: "EntityCreate '''' IPAMPoolScopeSystem ?s1 = Some s2"
    "postProcessAll (map postProcessNode (networkNodeCache s2)) s2 = Some (None, s3)"
    "postProcessAll (map postProcessService (networkServiceCache s3)) s3 = Some (None, s')"
    using assms(1) by (auto simp: PostProcessLoadedDatastore_def Let_def split: Option.bind_splits if_splits)
  have v: "load_view s2 = load_view s" using EntityCreate_load [OF p(1)] by (simp add: load_view_def)
  have "loaded s {} s" using assms(2) by (auto simp: loaded_def entries_ok_def)
  then have "loaded s {} s2" using loaded_quiet [OF v] by blast
  from postProcessAll_loaded [OF p(2) this, of "\<lambda>(n, nn). node_listed nn"] v c(3)
  have l3: "loaded s (\<Union>(n, nn) \<in> set (networkNodeCache s). node_listed nn) s3"
    by (auto simp: load_view_def simp del: stored_ok.simps intro: postProcessNode_loaded)
  from postProcessAll_loaded [OF p(3) this, of "\<lambda>(n, ns). service_listed ns"] l3 c(4)
  have "loaded s ((\<Union>(n, nn) \<in> set (networkNodeCache s). node_listed nn)
      \<union> (\<Union>(n, ns) \<in> set (networkServiceCache s). service_listed ns)) s'"
    by (auto simp: loaded_def [of s _ s3] simp del: stored_ok.simps intro: postProcessService_loaded)
  then show ?thesis using node_listed_records [OF c(1)] service_listed_records [OF c(2)] by simp
qed

lemma InitRAMCache_fields:
  "rc_VppEntries (Plugin_InitRAMCache s) = []" "networkNodeCache (Plugin_InitRAMCache s) = []"
  "networkServiceCache (Plugin_InitRAMCache s) = []" "configLocked (Plugin_InitRAMCache s) = configLocked s"
  "db_env (Plugin_InitRAMCache s) = db_env s" "db_log (Plugin_InitRAMCache s) = db_log s"
  by (simp_all add: Plugin_InitRAMCache_def RegisteredManagers_def SysParms_InitRAMCache_def IPAMPool_InitRAMCache_def
    PodNodeMap_InitRAMCache_def Overlay_InitRAMCache_def NetworkNode_InitRAMCache_def NetworkService_InitRAMCache_def Let_def)

lemma loaded_records: "loaded s0 L s \<Longrightarrow> node_records UNIV s = node_records UNIV s0 \<and> service_records UNIV s = service_records UNIV s0"
  by (simp add: loaded_def node_records_def service_records_def node_status_def)

text \<open>The objects and entries a start reads, before the cleaning and the start-up file.\<close>

lemma start_loads:
  assumes "initMgrs (Plugin_InitRAMCache s) = Some s2" "PostProcessLoadedDatastore s2 = Some (None, s3)"
    and "lists_ok s"
  shows "loaded s2 (node_records UNIV s3 \<union> service_records UNIV s3) s3" "store_of (db_log s2) = store_of (db_log s)"
    "configLocked s2 = configLocked s" "db_env s2 = db_env s" "caches_ok s2"
proof -
  have i: "starts (Plugin_InitRAMCache s) s2" by (rule initMgrs_starts [OF assms(1)]) (use assms(3) InitRAMCache_fields in \<open>simp add: lists_ok_def\<close>)
  show c: "caches_ok s2" using i by (simp add: starts_def caches_ok_def InitRAMCache_fields)
  show "store_of (db_log s2) = store_of (db_log s)" "configLocked s2 = configLocked s" "db_env s2 = db_env s"
    using i reads_store [of "Plugin_InitRAMCache s" s2] by (simp_all add: starts_def start_view_def reads_def InitRAMCache_fields)
  have "rc_VppEntries s2 = []" using i by (simp add: starts_def start_view_def InitRAMCache_fields)
  from PostProcess_loaded [OF assms(2) this c] show "loaded s2 (node_records UNIV s3 \<union> service_records UNIV s3) s3"
    using loaded_records by metis
qed

lemma Clean_fields:
  "configLocked (CleanVppAgentEntriesFromEtcd s) = configLocked s \<and> db_env (CleanVppAgentEntriesFromEtcd s) = db_env s"
proof -
  have "configLocked (fold (\<lambda>(_, kv). DeleteFromDatastore (VppKey kv)) es s) = configLocked s
    \<and> db_env (fold (\<lambda>(_, kv). DeleteFromDatastore (VppKey kv)) es s) = db_env s" for es
  proof (induction es arbitrary: s)
    case (Cons x es)
    then show ?case by (cases x) (simp add: DeleteFromDatastore_def)
  qed simp
  then show ?thesis by (simp add: CleanVppAgentEntriesFromEtcd_def)
qed

text \<open>The start-up file goes through the handlers of the managers.\<close>

lemma postProcessAll_crud:
  assumes "postProcessAll fs s = Some (err, s')" "\<And>f s err s'. f \<in> set fs \<Longrightarrow> f s = Some (err, s') \<Longrightarrow> crud s s'"
  shows "crud s s'"
  using assms
proof (induction fs arbitrary: s)
  case (Cons f fs)
  obtain e s1 where f: "f s = Some (e, s1)" using Cons.prems(1) by (auto split: Option.bind_splits)
  have s1: "crud s s1" by (rule Cons.prems(2) [of f, OF _ f]) simp
  show ?case
  proof (cases e)
    case None
    then have "crud s1 s'" using Cons.prems f by (intro Cons.IH) auto
    then show ?thesis by (rule crud_trans [OF s1])
  qed (use Cons.prems(1) f s1 in simp)
qed simp

lemma processEach_crud:
  assumes "processEach f xs s = Some (err, s')" "\<And>x s err s'. f x s = Some (err, s') \<Longrightarrow> crud s s'"
  shows "crud s s'"
proof -
  have "processEach f xs s = postProcessAll (map f xs) s" for s
  proof (induction xs arbitrary: s)
    case (Cons x xs)
    then have "processEach f xs = postProcessAll (map f xs)" by blast
    then show ?case unfolding processEach.simps list.map postProcessAll.simps by (rule ssubst) (rule refl)
  qed simp
  then have "postProcessAll (map f xs) s = Some (err, s')" using assms(1) by metis
  then show ?thesis by (rule postProcessAll_crud) (use assms(2) in auto)
qed

lemma SfcConfigYaml_crud:
  assumes "SfcConfigYamlProcessConfig y s = Some (err, s')"
  shows "crud s s'"
proof (cases "y_Version y = sfcYamlVersion")
  case True
  have sp: "crud s s'" if "(case y_SysParms y of None \<Rightarrow> (None, s) | Some sp \<Rightarrow> SysParms_HandleCRUDOperationCU sp s)
      = (err, s')" for err s s'
    using that SysParms_crud(1) [of s] by (auto split: option.splits) (metis snd_conv)
  have pm: "crud s s'" if "PodNodeMap_HandleCRUDOperationCU p2n s = (err, s')" for p2n err s s'
    using PodNodeMap_crud(1) [of s p2n] that by simp
  show ?thesis
  proof (rule postProcessAll_crud)
    show "postProcessAll
       [\<lambda>s. Some (case y_SysParms y of None \<Rightarrow> (None, s) | Some sp \<Rightarrow> SysParms_HandleCRUDOperationCU sp s),
        processEach IPAMPool_HandleCRUDOperationCU (y_IPAMPools y),
        processEach NetworkNode_HandleCRUDOperationCU (y_NetworkNodes y),
        processEach NetworkService_HandleCRUDOperationCU (y_NetworkServices y),
        processEach (\<lambda>p2n s. Some (PodNodeMap_HandleCRUDOperationCU p2n s)) (y_NetworkPodToNodeMap y),
        processEach Overlay_HandleCRUDOperationCU (y_NetworkNodeOverlays y)] s = Some (err, s')"
      using assms True by (simp add: SfcConfigYamlProcessConfig_def del: postProcessAll.simps)
  qed (auto elim!: processEach_crud intro: sp pm IPAMPool_crud NetworkNode_crud NetworkService_crud Overlay_crud)
qed (use assms in \<open>simp add: SfcConfigYamlProcessConfig_def\<close>)

section \<open>The state a start leaves\<close>

lemma loaded_start:
  assumes "loaded s0 (node_records UNIV s \<union> service_records UNIV s) s" "\<not> configLocked s0" "caches_ok s0"
  shows "plugin_ok s" "accounted s" "honest_gets (db_env s0) \<Longrightarrow> in_sync s"
  using assms by (auto simp: loaded_def plugin_ok_def accounted_def in_sync_def caches_ok_def)

lemma Plugin_Init_cases:
  assumes "Plugin_Init clean yaml s = Some s'"
  obtains s2 s3 s4 where "initMgrs (Plugin_InitRAMCache s) = Some s2" "PostProcessLoadedDatastore s2 = Some (None, s3)"
    "s4 = (if clean then Plugin_InitRAMCache (CleanVppAgentEntriesFromEtcd (CleanDatastore SfcControllerConfigPrefix s3)) else s3)"
    "yaml = None \<and> s' = s4 \<or> (\<exists>y. yaml = Some (Inr y) \<and> SfcConfigYamlProcessConfig y s4 = Some (None, s'))"
proof -
  obtain s2 err s3 where r: "initMgrs (Plugin_InitRAMCache s) = Some s2" "PostProcessLoadedDatastore s2 = Some (err, s3)"
    using assms by (auto simp: Plugin_Init_def Let_def split: Option.bind_splits)
  then have "err = None" using assms by (auto simp: Plugin_Init_def Let_def split: if_splits)
  then show ?thesis using that r assms
    by (auto simp: Plugin_Init_def Let_def split: Option.bind_splits option.splits sum.splits if_splits)
qed

lemma Plugin_Init_ok:
  assumes run: "Plugin_Init clean yaml s = Some s'" and l: "lists_ok s" and free: "\<not> configLocked s"
  shows "plugin_ok s' \<and> db_env s' = db_env s \<and> (yaml = None \<longrightarrow> accounted s') \<and> (clean \<longrightarrow> rc_VppEntries s' = [])
    \<and> (honest_gets (db_env s) \<longrightarrow> in_sync s')"
proof -
  obtain s2 s3 s4 where i: "initMgrs (Plugin_InitRAMCache s) = Some s2" "PostProcessLoadedDatastore s2 = Some (None, s3)"
    "s4 = (if clean then Plugin_InitRAMCache (CleanVppAgentEntriesFromEtcd (CleanDatastore SfcControllerConfigPrefix s3)) else s3)"
    "yaml = None \<and> s' = s4 \<or> (\<exists>y. yaml = Some (Inr y) \<and> SfcConfigYamlProcessConfig y s4 = Some (None, s'))"
    by (rule Plugin_Init_cases [OF run])
  note L = start_loads [OF i(1,2) l]
  have s3: "db_env s3 = db_env s" "\<not> configLocked s3" using L free by (simp_all add: loaded_def)
  have s4: "plugin_ok s4 \<and> accounted s4 \<and> db_env s4 = db_env s \<and> (clean \<longrightarrow> rc_VppEntries s4 = [])
    \<and> (honest_gets (db_env s) \<longrightarrow> in_sync s4)"
  proof (cases clean)
    case True
    then show ?thesis using i(3) s3
      by (simp add: plugin_ok_def accounted_def in_sync_def entries_ok_def InitRAMCache_fields Clean_fields CleanDatastore_def)
  next
    case False
    then show ?thesis using loaded_start [OF L(1)] L(3-5) free s3 i(3) by simp
  qed
  show ?thesis
  proof (cases yaml)
    case None
    then show ?thesis using i(4) s4 by simp
  next
    case (Some y)
    then have c: "crud s4 s'" using i(4) SfcConfigYaml_crud by blast
    have "rc_VppEntries s' = []" if "rc_VppEntries s4 = []"
    proof -
      obtain K where "\<forall>k. map_of (rc_VppEntries s') k = (if k \<in> K then None else map_of (rc_VppEntries s4) k)"
        using c unfolding crud_def by blast
      then have "map_of (rc_VppEntries s') = Map.empty" using that by (intro ext) simp
      then show ?thesis by simp
    qed
    then show ?thesis using crud_ok [OF c] s4 c Some by (simp add: crud_def)
  qed
qed

section \<open>An etcd that keeps what is put\<close>

fun put_key :: "db_op \<Rightarrow> string list" where
  "put_key (DbPut k v) = [k]"
| "put_key _ = []"

definition kv_env :: db_env where
  "kv_env = \<lparr>env_put = (\<lambda>_. None),
    env_get = (\<lambda>l. case rev l of DbGet k # ops \<Rightarrow> (store_of (rev ops) k, None) | _ \<Rightarrow> (None, None)),
    env_list = (\<lambda>l. case rev l of
        DbList p # ops \<Rightarrow> Some (map (\<lambda>k. the (store_of (rev ops) k))
          (filter (\<lambda>k. take (length p) k = p \<and> store_of (rev ops) k \<noteq> None) (remdups (concat (map put_key (rev ops))))))
      | _ \<Rightarrow> Some [])\<rparr>"

lemma kv_env_honest: "honest_gets kv_env"
  by (simp add: honest_gets_def kv_env_def)

definition puts_ok :: "db_op list \<Rightarrow> bool" where
  "puts_ok l = list_all (\<lambda>op. case op of DbPut k v \<Rightarrow> stored_ok v | _ \<Rightarrow> True) l"

lemma puts_ok_store:
  assumes "puts_ok l" "store_of l k = Some v"
  shows "stored_ok v"
  using assms
proof (induction l arbitrary: v rule: rev_induct)
  case (snoc op l)
  then show ?case by (cases op) (auto simp: puts_ok_def split: if_splits)
qed simp

lemma kv_env_lists:
  assumes "puts_ok (db_log s)" "db_env s = kv_env"
  shows "lists_ok s"
  unfolding lists_ok_def
proof (intro allI impI)
  fix ops vs assume r: "list_all read_op ops" "env_list (db_env s) (db_log s @ ops) = Some vs"
  show "list_all stored_ok vs"
  proof (cases ops rule: rev_cases)
    case (snoc ops' op)
    have "store_of (db_log s @ ops') = store_of (db_log s)" using r(1) snoc by (simp add: store_of_reads)
    then show ?thesis
      using r snoc puts_ok_store [OF assms(1)] assms(2)
      by (cases op) (auto simp: kv_env_def list_all_iff)
  next
    case Nil
    then show ?thesis
      using r assms puts_ok_store [of "butlast (db_log s)"]
      by (cases "db_log s" rule: rev_cases) (auto simp: kv_env_def list_all_iff puts_ok_def split: db_op.splits)
  qed
qed

text \<open>A controller that has rendered a node and a service, and the state of the one started after it: only
  etcd has survived.\<close>

definition crashed :: "Plugin \<Rightarrow> Plugin" where
  "crashed s = (fresh_plugin kv_env)\<lparr>db_log := db_log s\<rparr>"

definition demo_before :: Plugin where
  "demo_before = ls_plugin (the (ProcessOperationalMessages demo_service_messages (fresh_plugin kv_env)))"

definition recovers :: "Plugin \<Rightarrow> bool" where
  "recovers s = (puts_ok (db_log s) \<and> rc_VppEntries s \<noteq> [] \<and>
    (case Plugin_Init False None (crashed s) of
       Some s' \<Rightarrow> list_all (\<lambda>k. k \<in> set (gkeys (rc_VppEntries s'))) (gkeys (rc_VppEntries s))
     | None \<Rightarrow> False))"

lemma demo_recovers: "recovers demo_before"
  by code_simp

lemma demo_restart:
  obtains s' where "lists_ok (crashed demo_before)" "\<not> configLocked (crashed demo_before)"
    "honest_gets (db_env (crashed demo_before))" "Plugin_Init False None (crashed demo_before) = Some s'"
    "rc_VppEntries s' \<noteq> []" "set (gkeys (rc_VppEntries demo_before)) \<subseteq> set (gkeys (rc_VppEntries s'))"
proof -
  have c: "\<not> configLocked (crashed s)" "db_env (crashed s) = kv_env" "db_log (crashed s) = db_log s" for s
    by (simp_all add: crashed_def fresh_plugin_def)
  have p: "puts_ok (db_log demo_before)" "rc_VppEntries demo_before \<noteq> []" using demo_recovers by (simp_all add: recovers_def)
  obtain s' where s': "Plugin_Init False None (crashed demo_before) = Some s'"
    "set (gkeys (rc_VppEntries demo_before)) \<subseteq> set (gkeys (rc_VppEntries s'))"
    using demo_recovers by (auto simp: recovers_def list_all_iff split: option.splits)
  have ne: "rc_VppEntries s' \<noteq> []" using s'(2) p(2) by auto
  show ?thesis by (rule that [OF kv_env_lists c(1) _ s'(1) ne s'(2)]) (simp_all add: c p(1) kv_env_honest)
qed



text \<open>C11. A restart reloads exactly what the objects in etcd account for: with no cleaning and no start-up
  file, and an etcd that answers reads from what it holds, a key has a cached entry after the start if
  and only if a loaded node or service lists it and etcd stores it, the entry carries the stored value,
  bridge domains included, and starting has changed nothing that etcd holds.\<close>

theorem restart_reloads:
  assumes "Plugin_Init False None s = Some s'" "lists_ok s" "honest_gets (db_env s)"
  shows "store_of (db_log s') = store_of (db_log s)
    \<and> map_option (\<lambda>kv. DVpp (the (payload kv))) (map_of (rc_VppEntries s') k)
      = (if k \<in> node_records UNIV s' \<union> service_records UNIV s' then store_of (db_log s) k else None)"
proof -
  obtain s2 where i: "initMgrs (Plugin_InitRAMCache s) = Some s2" "PostProcessLoadedDatastore s2 = Some (None, s')"
    using Plugin_Init_cases [OF assms(1)] by auto
  note L = start_loads [OF i assms(2)]
  have store: "store_of (db_log s') = store_of (db_log s)" using L(1,2) by (simp add: loaded_def)
  have d: "dom (map_of (rc_VppEntries s')) = (node_records UNIV s' \<union> service_records UNIV s') \<inter> dom (store_of (db_log s))"
    and v: "map_of (rc_VppEntries s') k = Some kv \<Longrightarrow> store_of (db_log s) k = Some (DVpp (the (payload kv)))" for kv
    using L(1,2,4) assms(3) by (simp_all add: loaded_def)
  have "map_of (rc_VppEntries s') k = None \<longleftrightarrow> k \<notin> node_records UNIV s' \<union> service_records UNIV s' \<or> store_of (db_log s) k = None"
    using d unfolding set_eq_iff by (simp only: domIff Int_iff) blast
  then show ?thesis using store v by (cases "map_of (rc_VppEntries s') k") auto
qed

theorem restart_reloads_witness:
  "\<exists>s' k kv. Plugin_Init False None (crashed demo_before) = Some s' \<and> map_of (rc_VppEntries s') k = Some kv
    \<and> store_of (db_log demo_before) k = Some (DVpp (the (payload kv)))"
proof -
  obtain s' where s': "lists_ok (crashed demo_before)" "honest_gets (db_env (crashed demo_before))"
    "Plugin_Init False None (crashed demo_before) = Some s'" "rc_VppEntries s' \<noteq> []" by (rule demo_restart)
  from s'(4) obtain k kv where k: "map_of (rc_VppEntries s') k = Some kv" by (cases "rc_VppEntries s'") force+
  have "db_log (crashed demo_before) = db_log demo_before" by (simp add: crashed_def)
  then have "store_of (db_log demo_before) k = Some (DVpp (the (payload kv)))"
    using restart_reloads [OF s'(3,1,2), of k] k by (auto split: if_splits)
  then show ?thesis using s'(3) k by blast
qed

end
