(* ===== verification/Routes.thy ===== *)
theory Routes
  imports HttpApi
begin

text \<open>
  The HTTP server of the controller: what the managers register after their start (\<open>AfterInit\<close> and
  \<open>InitHTTPHandlers\<close> of every manager, \<open>afterInitMgrs\<close> and \<open>InitSystemHTTPHandler\<close> in
  \<open>plugin_impl_controller.go\<close>), the router that finds the handler of a request
  (\<open>vendor/github.com/gorilla/mux\<close>), and the dump of the system (\<open>sfc_config_yaml.go\<close>).
\<close>

section \<open>The router\<close>

text \<open>\<open>cleanPath\<close>: \<open>path.Clean\<close> of a rooted path drops empty and \<open>.\<close> elements and lets \<open>..\<close> remove the element
  before it; a trailing slash is kept.\<close>

fun cleanElements :: "string list \<Rightarrow> string list \<Rightarrow> string list" where
  "cleanElements [] acc = rev acc"
| "cleanElements (w # ws) acc =
    (if w = [] \<or> w = ''.'' then cleanElements ws acc
     else if w = ''..'' then cleanElements ws (tl acc)
     else cleanElements ws (w # acc))"

definition pathClean :: "string \<Rightarrow> string" where
  "pathClean p =
    (case cleanElements (strSplit (CHR ''/'') p) [] of
       [] \<Rightarrow> ''/''
     | ws \<Rightarrow> concat (map (\<lambda>w. CHR ''/'' # w) ws))"

definition cleanPath :: "string \<Rightarrow> string" where
  "cleanPath p =
    (if p = [] then ''/''
     else let q = (if hd p \<noteq> CHR ''/'' then CHR ''/'' # p else p);
              np = pathClean q
          in if last q = CHR ''/'' \<and> np \<noteq> ''/'' then np @ ''/'' else np)"

text \<open>A template against a path: \<open>{name}\<close> matches up to the next slash, at least one character; the rest of a
  template matches itself.  In the templates of the controller a variable is the last element.\<close>

fun templateMatch :: "string \<Rightarrow> string \<Rightarrow> (string \<times> string) list option" where
  "templateMatch [] path = (if path = [] then Some [] else None)"
| "templateMatch (c # tpl) path =
    (if c = CHR ''{'' then
       let name = takeWhile (\<lambda>x. x \<noteq> CHR ''}'') tpl;
           rest = drop (Suc (length name)) tpl;
           seg = takeWhile (\<lambda>x. x \<noteq> CHR ''/'') path
       in if seg = [] then None
          else map_option (\<lambda>vars. (name, seg) # vars) (templateMatch rest (drop (length seg) path))
     else case path of
            [] \<Rightarrow> None
          | x # xs \<Rightarrow> if x = c then templateMatch tpl xs else None)"

datatype http_handler =
    HSystem
  | HSysParms
  | HPool
  | HPools
  | HPodMap
  | HPodMaps
  | HOverlay
  | HOverlays
  | HNode
  | HNodes
  | HService
  | HServices

record mux_route =
  rt_Template :: string
  rt_Handler :: http_handler
  rt_Methods :: "string list"

datatype route_match =
    RouteFound http_handler "(string \<times> string) list"
  | MethodMismatch
  | RouteNotFound

text \<open>The first route that matches; a route that matches but for its method is remembered.\<close>

fun Router_Match :: "mux_route list \<Rightarrow> string \<Rightarrow> string \<Rightarrow> route_match" where
  "Router_Match [] httpMethod path = RouteNotFound"
| "Router_Match (r # rs) httpMethod path =
    (case templateMatch (rt_Template r) path of
       None \<Rightarrow> Router_Match rs httpMethod path
     | Some vars \<Rightarrow>
         if httpMethod \<in> set (rt_Methods r) then RouteFound (rt_Handler r) vars
         else (case Router_Match rs httpMethod path of RouteNotFound \<Rightarrow> MethodMismatch | m \<Rightarrow> m))"

datatype mux_result =
    MovedPermanently string
  | Dispatch route_match

definition Router_ServeHTTP :: "mux_route list \<Rightarrow> string \<Rightarrow> string \<Rightarrow> mux_result" where
  "Router_ServeHTTP routes httpMethod path =
    (if cleanPath path \<noteq> path then MovedPermanently (cleanPath path)
     else Dispatch (Router_Match routes httpMethod path))"

section \<open>What is registered\<close>

definition RegisterHTTPHandler :: "string \<Rightarrow> http_handler \<Rightarrow> string list \<Rightarrow> mux_route" where
  "RegisterHTTPHandler url handler methods = \<lparr>rt_Template = url, rt_Handler = handler, rt_Methods = methods\<rparr>"

definition entityName :: string where
  "entityName = ''entityName''"

definition networkPodName :: string where
  "networkPodName = ''networkPodName''"

definition networkNodeOverlayName :: string where
  "networkNodeOverlayName = ''networkNodeOverlayName''"

definition networkNodeName :: string where
  "networkNodeName = ''networkNodeName''"

definition networkServiceName :: string where
  "networkServiceName = ''networkServiceName''"

definition SysParms_InitHTTPHandlers :: "mux_route list" where
  "SysParms_InitHTTPHandlers = [RegisterHTTPHandler SysParms_KeyPrefix HSysParms [''GET'', ''POST'']]"

definition IPAMPool_InitHTTPHandlers :: "mux_route list" where
  "IPAMPool_InitHTTPHandlers =
    [RegisterHTTPHandler (concat [IPAMPool_KeyPrefix, ''{'', entityName, ''}'']) HPool [''GET'', ''POST'', ''DELETE''],
     RegisterHTTPHandler IPAMPool_GetAllURL HPools [''GET'']]"

definition PodNodeMap_InitHTTPHandlers :: "mux_route list" where
  "PodNodeMap_InitHTTPHandlers =
    [RegisterHTTPHandler (concat [PodNodeMap_KeyPrefix, ''{'', networkPodName, ''}'']) HPodMap
       [''GET'', ''POST'', ''DELETE''],
     RegisterHTTPHandler PodNodeMap_GetAllURL HPodMaps [''GET'']]"

definition Overlay_InitHTTPHandlers :: "mux_route list" where
  "Overlay_InitHTTPHandlers =
    [RegisterHTTPHandler (concat [Overlay_KeyPrefix, ''{'', networkNodeOverlayName, ''}'']) HOverlay
       [''GET'', ''POST'', ''DELETE''],
     RegisterHTTPHandler Overlay_GetAllURL HOverlays [''GET'']]"

definition NetworkNode_InitHTTPHandlers :: "mux_route list" where
  "NetworkNode_InitHTTPHandlers =
    [RegisterHTTPHandler (concat [NetworkNode_KeyPrefix, ''{'', networkNodeName, ''}'']) HNode
       [''GET'', ''POST'', ''DELETE''],
     RegisterHTTPHandler NetworkNode_GetAllURL HNodes [''GET'']]"

definition NetworkService_InitHTTPHandlers :: "mux_route list" where
  "NetworkService_InitHTTPHandlers =
    [RegisterHTTPHandler (concat [NetworkService_KeyPrefix, ''{'', networkServiceName, ''}'']) HService
       [''GET'', ''POST'', ''DELETE''],
     RegisterHTTPHandler NetworkService_GetAllURL HServices [''GET'']]"

fun mgr_InitHTTPHandlers :: "manager \<Rightarrow> mux_route list" where
  "mgr_InitHTTPHandlers SysParametersMgr = SysParms_InitHTTPHandlers"
| "mgr_InitHTTPHandlers IpamPoolMgr = IPAMPool_InitHTTPHandlers"
| "mgr_InitHTTPHandlers NetworkPodNodeMapMgr = PodNodeMap_InitHTTPHandlers"
| "mgr_InitHTTPHandlers NetworkNodeOverlayMgr = Overlay_InitHTTPHandlers"
| "mgr_InitHTTPHandlers NetworkNodeMgr = NetworkNode_InitHTTPHandlers"
| "mgr_InitHTTPHandlers NetworkServiceMgr = NetworkService_InitHTTPHandlers"

text \<open>\<open>AfterInit\<close> of a manager: its watcher is started, and its handlers are registered unless the flag says that
  objects are not served over HTTP.\<close>

definition mgr_AfterInit :: "bool \<Rightarrow> manager \<Rightarrow> manager \<times> mux_route list" where
  "mgr_AfterInit bypassModelTypeHttpHandlers mgr =
    (mgr, if \<not> bypassModelTypeHttpHandlers then mgr_InitHTTPHandlers mgr else [])"

definition InitSystemHTTPHandler :: "mux_route list" where
  "InitSystemHTTPHandler = [RegisterHTTPHandler SfcControllerPrefix HSystem [''GET'']]"

text \<open>The watchers that run and the routes of the server.\<close>

definition afterInitMgrs :: "bool \<Rightarrow> manager list \<times> mux_route list" where
  "afterInitMgrs bypassModelTypeHttpHandlers =
    (let rs = map (\<lambda>(_, mgr). mgr_AfterInit bypassModelTypeHttpHandlers mgr) RegisteredManagers
     in (map fst rs, InitSystemHTTPHandler @ concat (map snd rs)))"

section \<open>The dump of the system\<close>

definition IPAMPool_ToArray :: "Plugin \<Rightarrow> IPAMPool list" where
  "IPAMPool_ToArray s = map snd (ipamPoolCache s)"

definition Overlay_ToArray :: "Plugin \<Rightarrow> NetworkNodeOverlay list" where
  "Overlay_ToArray s = map snd (networkNodeOverlayCache s)"

definition NetworkNode_ToArray :: "Plugin \<Rightarrow> NetworkNode list" where
  "NetworkNode_ToArray s = map snd (networkNodeCache s)"

definition NetworkService_ToArray :: "Plugin \<Rightarrow> NetworkService list" where
  "NetworkService_ToArray s = map snd (networkServiceCache s)"

record CacheType =
  ct_InterfaceStates :: "InterfaceStatus gomap"
  ct_VppEntries :: "KVType gomap"
  ct_MacAddrAllocator :: MacAddrAllocatorType
  ct_MemifIDAllocator :: MemifAllocatorType
  ct_VrfIDAllocator :: VrfAllocatorType
  ct_IPAMPoolAllocators :: "PoolAllocatorType option gomap"
  ct_NetworkPodToNodeMap :: "NetworkPodToNodeMap gomap"

definition ramCache :: "Plugin \<Rightarrow> CacheType" where
  "ramCache s =
    \<lparr>ct_InterfaceStates = rc_InterfaceStates s, ct_VppEntries = rc_VppEntries s,
     ct_MacAddrAllocator = rc_MacAddrAllocator s, ct_MemifIDAllocator = rc_MemifIDAllocator s,
     ct_VrfIDAllocator = rc_VrfIDAllocator s, ct_IPAMPoolAllocators = rc_IPAMPoolAllocators s,
     ct_NetworkPodToNodeMap = rc_NetworkPodToNodeMap s\<rparr>"

record SfcDump = SfcConfigYaml +
  y_Description :: string
  y_RAMCache :: CacheType

text \<open>The time and \<open>yaml.Marshal\<close> are parameters.\<close>

definition systemDump :: "string \<Rightarrow> Plugin \<Rightarrow> SfcDump" where
  "systemDump now s =
    \<lparr>y_Version = sfcYamlVersion, y_SysParms = Some (sysParmCache s), y_IPAMPools = IPAMPool_ToArray s,
     y_NetworkPodToNodeMap = PodNodeMap_ToArray s, y_NetworkNodeOverlays = Overlay_ToArray s,
     y_NetworkNodes = NetworkNode_ToArray s, y_NetworkServices = NetworkService_ToArray s,
     y_Description = ''Config: '' @ now, y_RAMCache = ramCache s\<rparr>"

definition SfcSystemCacheToYaml :: "(SfcDump \<Rightarrow> err + string) \<Rightarrow> string \<Rightarrow> Plugin \<Rightarrow> err + string" where
  "SfcSystemCacheToYaml marshal now s = marshal (systemDump now s)"

text \<open>\<open>ioutil.ReadFile\<close> and \<open>yaml.Unmarshal\<close> of the start-up file.\<close>

definition SfcConfigYamlReadFromFile :: "(string \<Rightarrow> err + string) \<Rightarrow> (string \<Rightarrow> err + SfcConfigYaml) \<Rightarrow> string \<Rightarrow> err + SfcConfigYaml" where
  "SfcConfigYamlReadFromFile readFile unmarshal fpath =
    (case readFile fpath of
       Inl err \<Rightarrow> Inl err
     | Inr b \<Rightarrow> (case unmarshal b of Inl err \<Rightarrow> Inl err | Inr yamlConfig \<Rightarrow> Inr yamlConfig))"

text \<open>An error is answered as such; the data that is written after it is empty and its status comes too
  late to be sent.\<close>

definition StatusInternalServerError :: nat where
  "StatusInternalServerError = 500"

definition httpSystemGetAllYamlHandler :: "(Plugin \<Rightarrow> err + string) \<Rightarrow> string \<Rightarrow> Plugin \<Rightarrow> 'a http_result" where
  "httpSystemGetAllYamlHandler toYaml httpMethod s =
    (if httpMethod = ''GET'' then
       (case toYaml s of
          Inl err \<Rightarrow> reply StatusInternalServerError (BError err) []
        | Inr yaml \<Rightarrow> reply StatusOK (BText yaml) [])
     else Some (None, []))"

section \<open>The server\<close>

text \<open>What the handlers take from libraries: \<open>json.Unmarshal\<close> for every kind of object, and the dump.\<close>

record http_lib =
  js_SysParms :: "string \<Rightarrow> err + SystemParameters"
  js_IPAMPool :: "string \<Rightarrow> err + IPAMPool"
  js_PodMap :: "string \<Rightarrow> err + NetworkPodToNodeMap"
  js_Overlay :: "string \<Rightarrow> err + NetworkNodeOverlay"
  js_Node :: "string \<Rightarrow> err + NetworkNode"
  js_Service :: "string \<Rightarrow> err + NetworkService"
  lib_toYaml :: "Plugin \<Rightarrow> err + string"

definition asValue :: "('a \<Rightarrow> dbval) \<Rightarrow> 'a http_result \<Rightarrow> dbval http_result" where
  "asValue f r = map_option (\<lambda>(resp, msgs). (map_option (\<lambda>(code, body). (code, map_http_body f body)) resp, msgs)) r"

definition request :: "string \<Rightarrow> string \<Rightarrow> (string \<times> string) list \<Rightarrow> (err + 'a) \<Rightarrow> 'a http_request" where
  "request httpMethod name vars body =
    \<lparr>rq_Method = httpMethod, rq_Var = (case map_of vars name of Some v \<Rightarrow> v | None \<Rightarrow> []), rq_Body = body\<rparr>"

fun runHandler :: "http_lib \<Rightarrow> http_handler \<Rightarrow> string \<Rightarrow> (string \<times> string) list \<Rightarrow> string \<Rightarrow> Plugin \<Rightarrow> dbval http_result" where
  "runHandler lib HSystem m vars body s = httpSystemGetAllYamlHandler (lib_toYaml lib) m s"
| "runHandler lib HSysParms m vars body s =
    asValue DSysParms (systemParametersHandler (request m [] vars (js_SysParms lib body)) s)"
| "runHandler lib HPool m vars body s = asValue DIPAMPool (entityHandler (request m entityName vars (js_IPAMPool lib body)) s)"
| "runHandler lib HPools m vars body s = asValue DIPAMPool (getAllHandler m s)"
| "runHandler lib HPodMap m vars body s =
    asValue DPodMap (networkPodNodeMapHandler (request m networkPodName vars (js_PodMap lib body)) s)"
| "runHandler lib HPodMaps m vars body s = asValue DPodMap (networkPodNodeMapGetAllHandler m s)"
| "runHandler lib HOverlay m vars body s =
    asValue DOverlay (networkNodeOverlayHandler (request m networkNodeOverlayName vars (js_Overlay lib body)) s)"
| "runHandler lib HOverlays m vars body s = asValue DOverlay (networkNodeOverlayGetAllHandler m s)"
| "runHandler lib HNode m vars body s =
    asValue DNode (httpNetworkNodeHandler (request m networkNodeName vars (js_Node lib body)) s)"
| "runHandler lib HNodes m vars body s = asValue DNode (httpNetworkNodeGetAllHandler m s)"
| "runHandler lib HService m vars body s =
    asValue DService (networkServiceHandler (request m networkServiceName vars (js_Service lib body)) s)"
| "runHandler lib HServices m vars body s = asValue DService (networkServiceGetAllHandler m s)"

definition http_server :: "http_lib \<Rightarrow> bool \<Rightarrow> string \<Rightarrow> string \<Rightarrow> string \<Rightarrow> Plugin \<Rightarrow> dbval http_result" where
  "http_server lib bypass httpMethod path body s =
    (case Router_ServeHTTP (snd (afterInitMgrs bypass)) httpMethod path of
       MovedPermanently p \<Rightarrow> reply 301 (BText p) []
     | Dispatch (RouteFound h vars) \<Rightarrow> runHandler lib h httpMethod vars body s
     | Dispatch MethodMismatch \<Rightarrow> reply 405 (BText []) []
     | Dispatch RouteNotFound \<Rightarrow> reply 404 (BText ''404 page not found'') [])"

section \<open>Routing\<close>

text \<open>The names an object can have in a URL.\<close>

definition url_name :: "string \<Rightarrow> bool" where
  "url_name n \<longleftrightarrow> n \<noteq> [] \<and> CHR ''/'' \<notin> set n \<and> n \<noteq> ''.'' \<and> n \<noteq> ''..''"

lemma templateMatch_literal:
  "CHR ''{'' \<notin> set p \<Longrightarrow> templateMatch (p @ tpl) path
    = (if take (length p) path = p then templateMatch tpl (drop (length p) path) else None)"
  by (induction p arbitrary: path) (auto split: list.splits)

lemma templateMatch_fixed: "CHR ''{'' \<notin> set p \<Longrightarrow> templateMatch p path = (if path = p then Some [] else None)"
  using templateMatch_literal [of p "[]" path] by (auto simp: take_all_iff)

lemma templateMatch_name:
  assumes "CHR ''}'' \<notin> set name"
  shows "templateMatch (CHR ''{'' # name @ ''}'') q = (if q \<noteq> [] \<and> CHR ''/'' \<notin> set q then Some [(name, q)] else None)"
proof -
  let ?seg = "takeWhile (\<lambda>x. x \<noteq> CHR ''/'') q"
  have n: "takeWhile (\<lambda>x. x \<noteq> CHR ''}'') (name @ ''}'') = name" using assms by (subst takeWhile_append2) auto
  have "?seg = q" if "CHR ''/'' \<notin> set q" using that by (subst takeWhile_eq_all_conv) auto
  moreover have "drop (length ?seg) q \<noteq> []" if "CHR ''/'' \<in> set q"
  proof
    assume "drop (length ?seg) q = []"
    then have "?seg = q" by (metis append_Nil2 dropWhile_eq_drop takeWhile_dropWhile_id)
    then show False using that set_takeWhileD by metis
  qed
  ultimately show ?thesis by (cases q) (auto simp: n Let_def)
qed

lemma templateMatch_var:
  assumes "CHR ''{'' \<notin> set p" "CHR ''}'' \<notin> set name"
  shows "templateMatch (p @ CHR ''{'' # name @ ''}'') path = Some vars
    \<longleftrightarrow> (\<exists>seg. path = p @ seg \<and> seg \<noteq> [] \<and> CHR ''/'' \<notin> set seg \<and> vars = [(name, seg)])"
  unfolding templateMatch_literal [OF assms(1)] templateMatch_name [OF assms(2)]
  by (auto intro!: exI [of _ "drop (length p) path"] split: if_splits) (metis append_take_drop_id)

text \<open>The URLs of objects: prefix, handler and variable of every kind.\<close>

definition entity_urls :: "(string \<times> http_handler \<times> string) list" where
  "entity_urls =
    [(IPAMPool_KeyPrefix, HPool, entityName), (PodNodeMap_KeyPrefix, HPodMap, networkPodName),
     (Overlay_KeyPrefix, HOverlay, networkNodeOverlayName), (NetworkNode_KeyPrefix, HNode, networkNodeName),
     (NetworkService_KeyPrefix, HService, networkServiceName)]"

lemmas url_defs = IPAMPool_KeyPrefix_def PodNodeMap_KeyPrefix_def Overlay_KeyPrefix_def NetworkNode_KeyPrefix_def
  NetworkService_KeyPrefix_def SysParms_KeyPrefix_def IPAMPool_GetAllURL_def PodNodeMap_GetAllURL_def Overlay_GetAllURL_def
  NetworkNode_GetAllURL_def NetworkService_GetAllURL_def SfcControllerConfigPrefix_def SfcControllerPrefix_def

lemmas route_defs = RegisterHTTPHandler_def SysParms_InitHTTPHandlers_def IPAMPool_InitHTTPHandlers_def
  PodNodeMap_InitHTTPHandlers_def Overlay_InitHTTPHandlers_def NetworkNode_InitHTTPHandlers_def NetworkService_InitHTTPHandlers_def
  InitSystemHTTPHandler_def entityName_def networkPodName_def networkNodeOverlayName_def networkNodeName_def networkServiceName_def

lemma routes_unfold:
  "snd (afterInitMgrs False) = InitSystemHTTPHandler @ SysParms_InitHTTPHandlers @ IPAMPool_InitHTTPHandlers
    @ PodNodeMap_InitHTTPHandlers @ Overlay_InitHTTPHandlers @ NetworkNode_InitHTTPHandlers @ NetworkService_InitHTTPHandlers"
  by (simp add: afterInitMgrs_def RegisteredManagers_def mgr_AfterInit_def)

lemma cleanPath_entity:
  assumes "(prefix, h, var) \<in> set entity_urls" "url_name name"
  shows "cleanPath (prefix @ name) = prefix @ name"
proof -
  have "last name \<noteq> CHR ''/''" using assms(2) last_in_set [of name] unfolding url_name_def by metis
  then show ?thesis
    using assms strSplit_no_sep [of "CHR ''/''" name]
    by (auto simp: entity_urls_def url_defs url_name_def cleanPath_def pathClean_def)
qed

text \<open>Two prefixes that differ where both have characters.\<close>

definition clash :: "string \<Rightarrow> string \<Rightarrow> bool" where
  "clash p p' = (let n = min (length p) (length p') in take n p \<noteq> take n p')"

lemma clash_append: "clash p p' \<Longrightarrow> p @ a \<noteq> p' @ b"
proof
  assume c: "clash p p'" "p @ a = p' @ b"
  let ?n = "min (length p) (length p')"
  have "take ?n (p @ a) = take ?n (p' @ b)" using c(2) by simp
  then have "take ?n p = take ?n p'" by simp
  then show False using c(1) by (simp add: clash_def)
qed

lemma entity_urls_disjoint:
  assumes "(p, h, v) \<in> set entity_urls" "(p', h', v') \<in> set entity_urls" "p @ a = p' @ b"
  shows "p = p' \<and> h = h' \<and> v = v'"
proof -
  have "list_all (\<lambda>(p, h, v). list_all (\<lambda>(p', h', v'). (p, h, v) = (p', h', v') \<or> clash p p') entity_urls) entity_urls"
    by code_simp
  then have "(p, h, v) = (p', h', v') \<or> clash p p'" using assms(1,2) by (fastforce simp: list_all_iff)
  then show ?thesis using clash_append assms(3) by blast
qed

lemma entity_urls_templates:
  assumes "(p, h, v) \<in> set entity_urls"
  shows "CHR ''{'' \<notin> set p" "CHR ''}'' \<notin> set v" "set [''GET'', ''POST'', ''DELETE''] = {''GET'', ''POST'', ''DELETE''}"
  using assms by (auto simp: entity_urls_def url_defs route_defs)

definition fixed_urls :: "string list" where
  "fixed_urls = [SfcControllerPrefix, SysParms_KeyPrefix, IPAMPool_GetAllURL, PodNodeMap_GetAllURL, Overlay_GetAllURL,
    NetworkNode_GetAllURL, NetworkService_GetAllURL]"

lemma fixed_urls_disjoint: "u \<in> set fixed_urls \<Longrightarrow> (p, h, v) \<in> set entity_urls \<Longrightarrow> p @ a \<noteq> u"
proof
  assume u: "u \<in> set fixed_urls" "(p, h, v) \<in> set entity_urls" "p @ a = u"
  have "list_all (\<lambda>u. list_all (\<lambda>(p, h, v). take (length p) u \<noteq> p) entity_urls) fixed_urls" by code_simp
  then have "take (length p) u \<noteq> p" using u(1,2) by (fastforce simp: list_all_iff)
  then show False using u(3) by auto
qed

lemma fixed_urls_templates: "u \<in> set fixed_urls \<Longrightarrow> CHR ''{'' \<notin> set u"
  by (auto simp: fixed_urls_def url_defs)

text \<open>Every route is the URL of one object of a kind, or a fixed URL.\<close>

lemma routes_shape:
  assumes "r \<in> set (snd (afterInitMgrs False))"
  shows "(\<exists>p v. (p, rt_Handler r, v) \<in> set entity_urls \<and> rt_Template r = p @ CHR ''{'' # v @ ''}''
        \<and> rt_Methods r = [''GET'', ''POST'', ''DELETE''])
      \<or> rt_Template r \<in> set fixed_urls \<and> rt_Handler r \<notin> (fst \<circ> snd) ` set entity_urls"
proof -
  have "list_all (\<lambda>r. list_ex (\<lambda>(p, h, v). rt_Handler r = h \<and> rt_Template r = p @ CHR ''{'' # v @ ''}''
        \<and> rt_Methods r = [''GET'', ''POST'', ''DELETE'']) entity_urls
      \<or> rt_Template r \<in> set fixed_urls \<and> rt_Handler r \<notin> set (map (fst \<circ> snd) entity_urls))
    (snd (afterInitMgrs False))" by code_simp
  with assms have "list_ex (\<lambda>(p, h, v). rt_Handler r = h \<and> rt_Template r = p @ CHR ''{'' # v @ ''}''
        \<and> rt_Methods r = [''GET'', ''POST'', ''DELETE'']) entity_urls
      \<or> rt_Template r \<in> set fixed_urls \<and> rt_Handler r \<notin> (fst \<circ> snd) ` set entity_urls"
    unfolding list_all_iff set_map by blast
  then show ?thesis unfolding list_ex_iff by (elim disjE bexE) auto
qed

lemma templateMatch_routes:
  assumes "url_name name" "(prefix, h, var) \<in> set entity_urls" "r \<in> set (snd (afterInitMgrs False))"
  shows "templateMatch (rt_Template r) (prefix @ name) = (if rt_Handler r = h then Some [(var, name)] else None)"
proof -
  have n: "CHR ''/'' \<notin> set name" "name \<noteq> []" using assms(1) by (auto simp: url_name_def)
  from routes_shape [OF assms(3)] show ?thesis
  proof (elim disjE exE conjE)
    fix p v assume r: "(p, rt_Handler r, v) \<in> set entity_urls" "rt_Template r = p @ CHR ''{'' # v @ ''}''"
    note T = templateMatch_var [OF entity_urls_templates(1,2) [OF r(1)], of "prefix @ name"]
    show ?thesis
    proof (cases "rt_Handler r = h")
      case True
      then have "p = prefix" "v = var" using r(1) assms(2) by (auto simp: entity_urls_def)
      then show ?thesis using True r(2) T [of "[(var, name)]"] n by simp
    next
      case False
      then have "templateMatch (rt_Template r) (prefix @ name) \<noteq> Some vars" for vars
        using T [of vars] r(2) entity_urls_disjoint [OF assms(2) r(1)] by auto
      then show ?thesis using False by (cases "templateMatch (rt_Template r) (prefix @ name)") auto
    qed
  next
    assume r: "rt_Template r \<in> set fixed_urls" "rt_Handler r \<notin> (fst \<circ> snd) ` set entity_urls"
    then have "rt_Handler r \<noteq> h" using assms(2) by force
    then show ?thesis
      using fixed_urls_disjoint [OF r(1) assms(2)] templateMatch_fixed [OF fixed_urls_templates [OF r(1)]] by simp
  qed
qed

lemma Router_Match_only:
  assumes "\<And>r. r \<in> set rs \<Longrightarrow> templateMatch (rt_Template r) path = (if rt_Handler r = h then Some vars else None)"
    and "\<And>r. r \<in> set rs \<Longrightarrow> rt_Handler r = h \<Longrightarrow> rt_Methods r = ms"
  shows "Router_Match rs m path
    = (if h \<in> rt_Handler ` set rs then if m \<in> set ms then RouteFound h vars else MethodMismatch else RouteNotFound)"
  using assms
proof (induction rs)
  case (Cons r rs)
  have IH: "Router_Match rs m path
    = (if h \<in> rt_Handler ` set rs then if m \<in> set ms then RouteFound h vars else MethodMismatch else RouteNotFound)"
    using Cons.IH Cons.prems by simp
  show ?case using Cons.prems(1,2) [of r] by (auto simp: IH)
qed simp

lemma entity_served:
  assumes "(prefix, h, var) \<in> set entity_urls"
  shows "h \<in> rt_Handler ` set (snd (afterInitMgrs False))"
proof -
  have "list_all (\<lambda>(p, h, v). h \<in> set (map rt_Handler (snd (afterInitMgrs False)))) entity_urls" by code_simp
  then show ?thesis using assms by (fastforce simp: list_all_iff)
qed

lemma entity_methods:
  assumes "(prefix, h, var) \<in> set entity_urls" "r \<in> set (snd (afterInitMgrs False))" "rt_Handler r = h"
  shows "rt_Methods r = [''GET'', ''POST'', ''DELETE'']"
  using routes_shape [OF assms(2)] assms(1,3) by force

lemma server_dispatches:
  assumes "(prefix, h, var) \<in> set entity_urls" "url_name name"
  shows "Router_ServeHTTP (snd (afterInitMgrs False)) m (prefix @ name)
    = Dispatch (if m \<in> {''GET'', ''POST'', ''DELETE''} then RouteFound h [(var, name)] else MethodMismatch)"
proof -
  have "Router_Match (snd (afterInitMgrs False)) m (prefix @ name)
    = (if m \<in> {''GET'', ''POST'', ''DELETE''} then RouteFound h [(var, name)] else MethodMismatch)"
    using Router_Match_only [OF templateMatch_routes [OF assms(2,1)] entity_methods [OF assms(1)], where m = m] entity_served [OF assms(1)]
    by simp
  then show ?thesis by (simp add: Router_ServeHTTP_def cleanPath_entity [OF assms])
qed

lemma server_runs:
  assumes "(prefix, h, var) \<in> set entity_urls" "url_name name" "m \<in> {''GET'', ''POST'', ''DELETE''}"
  shows "http_server lib False m (prefix @ name) body s = runHandler lib h m [(var, name)] body s"
  using assms(3) by (auto simp: http_server_def server_dispatches [OF assms(1,2)])

section \<open>Properties\<close>

text \<open>C14. Every object has its URL: a request to the prefix of a kind of objects followed by a name (one path
  element, not a dot element) is served by the handler of that kind with that name when its method is
  GET, POST or DELETE and refused otherwise, and no other route of the server matches the path, so
  that the order of registration does not matter.\<close>

theorem object_urls_routed:
  assumes "(prefix, h, var) \<in> set entity_urls" "url_name name"
  shows "Router_ServeHTTP (snd (afterInitMgrs False)) m (prefix @ name)
      = Dispatch (if m \<in> {''GET'', ''POST'', ''DELETE''} then RouteFound h [(var, name)] else MethodMismatch)
    \<and> (\<forall>r \<in> set (snd (afterInitMgrs False)). templateMatch (rt_Template r) (prefix @ name) \<noteq> None \<longrightarrow> rt_Handler r = h)"
  using server_dispatches [OF assms] templateMatch_routes [OF assms(2,1)] by (auto split: if_splits)

theorem object_urls_routed_witness:
  "Router_ServeHTTP (snd (afterInitMgrs False)) ''POST'' (NetworkNode_KeyPrefix @ ''n1'')
    = Dispatch (RouteFound HNode [(networkNodeName, ''n1'')])"
proof -
  have "(NetworkNode_KeyPrefix, HNode, networkNodeName) \<in> set entity_urls" "url_name ''n1''"
    by (simp_all add: entity_urls_def url_name_def)
  from object_urls_routed [OF this, of "''POST''"] show ?thesis by simp
qed

text \<open>A library whose decoder knows one node.\<close>

definition demo_lib :: http_lib where
  "demo_lib = \<lparr>js_SysParms = (\<lambda>_. Inl ''unexpected end of JSON input''), js_IPAMPool = (\<lambda>_. Inl ''unexpected end of JSON input''),
    js_PodMap = (\<lambda>_. Inl ''unexpected end of JSON input''), js_Overlay = (\<lambda>_. Inl ''unexpected end of JSON input''),
    js_Node = (\<lambda>_. Inr demo_node), js_Service = (\<lambda>_. Inl ''unexpected end of JSON input''), lib_toYaml = (\<lambda>_. Inr [])\<rparr>"

lemma node_url: "(NetworkNode_KeyPrefix, HNode, networkNodeName) \<in> set entity_urls"
  by (simp add: entity_urls_def)

lemma asValue_reply [simp]: "asValue f (reply code body msgs) = reply code (map_http_body f body) msgs"
  by (simp add: asValue_def reply_def)

text \<open>C13. A client of the HTTP server reads what it has written, whatever the decoder of JSON: when the loop
  has processed the message that a POST to the URL of a node has sent, a GET of the same URL is answered
  with OK and a node whose configuration equals the one in the message, the change waits to be rendered,
  and the same POST is answered with OK and sends nothing.\<close>

theorem server_post_then_get:
  assumes "url_name name" "http_server lib False ''POST'' (NetworkNode_KeyPrefix @ name) body (ls_plugin ls) = Some (resp, msgs)"
    and "msg \<in> set msgs" "processMsg msg ls = Some ls'"
  shows "\<exists>nn e. msg = AddOperationMsgToQueue ModelTypeNetworkNode OpCodeCreateUpdate (MNode nn)
    \<and> http_server lib False ''GET'' (NetworkNode_KeyPrefix @ name) [] (ls_plugin ls') = reply StatusOK (BObject (DNode e)) []
    \<and> NetworkNode_ConfigEqual e nn \<and> isRenderingPending ls'
    \<and> http_server lib False ''POST'' (NetworkNode_KeyPrefix @ name) body (ls_plugin ls') = reply StatusOK (BText ''OK'') []"
proof -
  let ?rq = "request ''POST'' networkNodeName [(networkNodeName, name)] (js_Node lib body)"
  note run = server_runs [OF node_url assms(1)]
  have post: "http_server lib False ''POST'' (NetworkNode_KeyPrefix @ name) body s = asValue DNode (httpNetworkNodeProcessPost ?rq s)" for s
    by (simp add: run httpNetworkNodeHandler_def request_def)
  obtain resp0 where p: "httpNetworkNodeProcessPost ?rq (ls_plugin ls) = Some (resp0, msgs)"
    using assms(2) by (auto simp: post asValue_def)
  have v: "rq_Var ?rq = name" by (simp add: request_def)
  from node_rest.post_then_read [OF p assms(3,4)] obtain nn e where
    r: "msg = AddOperationMsgToQueue ModelTypeNetworkNode OpCodeCreateUpdate (MNode nn)"
    "NetworkNode_HandleCRUDOperationR name (ls_plugin ls') = Some e" "NetworkNode_ConfigEqual e nn" "isRenderingPending ls'"
    "httpNetworkNodeProcessPost ?rq (ls_plugin ls') = reply StatusOK (BText ''OK'') []" unfolding v by blast
  have "http_server lib False ''GET'' (NetworkNode_KeyPrefix @ name) [] (ls_plugin ls') = reply StatusOK (BObject (DNode e)) []"
    by (simp add: run httpNetworkNodeHandler_def request_def getReply_def r(2))
  then show ?thesis using r by (auto simp: post)
qed

theorem server_post_then_get_witness:
  "\<exists>ls' e. processMsg demo_message \<lparr>isRenderingEnabled = False, isRenderingPending = False, ls_plugin = fresh_plugin good_env\<rparr>
      = Some ls' \<and> http_server demo_lib False ''GET'' (NetworkNode_KeyPrefix @ ''n1'') [] (ls_plugin ls')
      = reply StatusOK (BObject (DNode e)) []"
proof -
  let ?ls = "\<lparr>isRenderingEnabled = False, isRenderingPending = False, ls_plugin = fresh_plugin good_env\<rparr>"
  have n: "url_name ''n1''" by (simp add: url_name_def)
  have "case processMsg demo_message ?ls of Some ls' \<Rightarrow> True | None \<Rightarrow> False" by code_simp
  then obtain ls' where p: "processMsg demo_message ?ls = Some ls'" by (auto split: option.splits)
  have "request ''POST'' networkNodeName [(networkNodeName, ''n1'')] (js_Node demo_lib []) = demo_post"
    by (simp add: request_def demo_lib_def demo_post_def)
  then have "http_server demo_lib False ''POST'' (NetworkNode_KeyPrefix @ ''n1'') [] (ls_plugin ?ls)
      = Some (Some (StatusOK, BText ''OK''), [demo_message])"
    using demo_post_sends by (simp add: server_runs [OF node_url n] httpNetworkNodeHandler_def demo_post_def) (simp add: reply_def)
  from server_post_then_get [OF n this _ p] p show ?thesis by auto
qed

end
