(* ===== verification/DeepCopy.thy ===== *)
theory DeepCopy
  imports Prelude
begin

text \<open>
  The generated copies (\<open>model/zz_generated.deepcopy.go\<close> and the one of the custom resources), on an
  explicit store: a Go value holds strings and numbers, pointers to cells of the store, and structs of
  such values; a cell holds the target of a pointer, the elements of a slice or the entries of a map.
  Each \<open>DeepCopyInto\<close> is the list of the fields it copies and how, in the order of the code.

  A shape says what a value of a Go type can reach.  A copy is deep when it succeeds on every value of
  its shape, only adds cells to the store, reads the same as the original, and reaches new cells only:
  whatever is written through it later cannot be seen through the original.
\<close>

section \<open>Values and the store\<close>

datatype gval =
    GPrim string
  | GNil
  | GRef nat
  | GStruct "(string \<times> gval) list"

datatype gcell =
    CVal gval
  | CSlice "gval list"
  | CMap "(string \<times> gval) list"

text \<open>The address of a cell is its index; a new cell is added at the end.\<close>

type_synonym gheap = "gcell list"

definition cell :: "gheap \<Rightarrow> nat \<Rightarrow> gcell option" where
  "cell h a = (if a < length h then Some (h ! a) else None)"

fun getField :: "string \<Rightarrow> gval \<Rightarrow> gval option" where
  "getField f (GStruct vs) = map_of vs f"
| "getField f _ = None"

fun setField :: "string \<Rightarrow> gval \<Rightarrow> gval \<Rightarrow> gval option" where
  "setField f x (GStruct vs) = Some (GStruct (gput f x vs))"
| "setField f x _ = None"

section \<open>The statements of a generated copy\<close>

text \<open>A copier takes the value of a field and returns the value for the field of \<open>out\<close>; \<open>None\<close> is a value
  the Go type cannot have.  A cell is written once its content is complete: the code allocates it
  first and then fills it, which only renumbers the new cells.\<close>

type_synonym copier = "gval \<Rightarrow> gheap \<Rightarrow> (gval \<times> gheap) option"

definition shallow :: copier where
  "shallow v h = Some (v, h)"

fun copyList :: "copier \<Rightarrow> gval list \<Rightarrow> gheap \<Rightarrow> (gval list \<times> gheap) option" where
  "copyList f [] h = Some ([], h)"
| "copyList f (v # vs) h =
    do {
      (v', h1) \<leftarrow> f v h;
      (vs', h2) \<leftarrow> copyList f vs h1;
      Some (v' # vs', h2)
    }"

text \<open>\<open>*out = new(T)\<close> and the copy of the target, nil staying nil.\<close>

definition copyPtr :: "copier \<Rightarrow> copier" where
  "copyPtr f v h =
    (case v of
       GNil \<Rightarrow> Some (GNil, h)
     | GRef a \<Rightarrow>
         (case cell h a of
            Some (CVal x) \<Rightarrow> do {
              (x', h1) \<leftarrow> f x h;
              Some (GRef (length h1), h1 @ [CVal x'])
            }
          | _ \<Rightarrow> None)
     | _ \<Rightarrow> None)"

text \<open>\<open>make([]T, len(*in))\<close> and the copy of every element.\<close>

definition copySlice :: "copier \<Rightarrow> copier" where
  "copySlice f v h =
    (case v of
       GNil \<Rightarrow> Some (GNil, h)
     | GRef a \<Rightarrow>
         (case cell h a of
            Some (CSlice xs) \<Rightarrow> do {
              (xs', h1) \<leftarrow> copyList f xs h;
              Some (GRef (length h1), h1 @ [CSlice xs'])
            }
          | _ \<Rightarrow> None)
     | _ \<Rightarrow> None)"

text \<open>\<open>make(map[string]T, len(*in))\<close> and the copy of every value, under its key.\<close>

definition copyMap :: "copier \<Rightarrow> copier" where
  "copyMap f v h =
    (case v of
       GNil \<Rightarrow> Some (GNil, h)
     | GRef a \<Rightarrow>
         (case cell h a of
            Some (CMap m) \<Rightarrow> do {
              (xs', h1) \<leftarrow> copyList f (map snd m) h;
              Some (GRef (length h1), h1 @ [CMap (zip (map fst m) xs')])
            }
          | _ \<Rightarrow> None)
     | _ \<Rightarrow> None)"

text \<open>\<open>*out = *in\<close>, then the fields that are not copied by the assignment.\<close>

fun copyFields :: "(string \<times> copier) list \<Rightarrow> gval \<Rightarrow> gval \<Rightarrow> gheap \<Rightarrow> (gval \<times> gheap) option" where
  "copyFields [] v out h = Some (out, h)"
| "copyFields ((f, c) # cs) v out h =
    do {
      x \<leftarrow> getField f v;
      (y, h1) \<leftarrow> c x h;
      out1 \<leftarrow> setField f y out;
      copyFields cs v out1 h1
    }"

definition copyStruct :: "(string \<times> copier) list \<Rightarrow> copier" where
  "copyStruct cs v h = copyFields cs v v h"

section \<open>Shapes\<close>

datatype gtype =
    YPrim
  | YNil
  | YPtr gtype
  | YSlice gtype
  | YMap gtype
  | YStruct "(string \<times> gtype) list"

text \<open>What a value reads as, without addresses, and the cells it is read from.\<close>

datatype gtree =
    TPrim string
  | TNil
  | TPtr gtree
  | TSlice "gtree list"
  | TMap "string list" "gtree list"
  | TStruct "gtree list"

fun collect :: "(gtree \<times> nat list) option list \<Rightarrow> (gtree list \<times> nat list) option" where
  "collect [] = Some ([], [])"
| "collect (x # xs) =
    do {
      (t, A) \<leftarrow> x;
      (ts, B) \<leftarrow> collect xs;
      Some (t # ts, A @ B)
    }"

fun readv :: "gtype \<Rightarrow> gheap \<Rightarrow> gval \<Rightarrow> (gtree \<times> nat list) option" where
  "readv YPrim h v = (case v of GPrim s \<Rightarrow> Some (TPrim s, []) | _ \<Rightarrow> None)"
| "readv YNil h v = (case v of GNil \<Rightarrow> Some (TNil, []) | _ \<Rightarrow> None)"
| "readv (YPtr ty) h v =
    (case v of
       GNil \<Rightarrow> Some (TNil, [])
     | GRef a \<Rightarrow> (case cell h a of
         Some (CVal x) \<Rightarrow> map_option (\<lambda>(t, A). (TPtr t, a # A)) (readv ty h x)
       | _ \<Rightarrow> None)
     | _ \<Rightarrow> None)"
| "readv (YSlice ty) h v =
    (case v of
       GNil \<Rightarrow> Some (TNil, [])
     | GRef a \<Rightarrow> (case cell h a of
         Some (CSlice xs) \<Rightarrow> map_option (\<lambda>(ts, A). (TSlice ts, a # A)) (collect (map (readv ty h) xs))
       | _ \<Rightarrow> None)
     | _ \<Rightarrow> None)"
| "readv (YMap ty) h v =
    (case v of
       GNil \<Rightarrow> Some (TNil, [])
     | GRef a \<Rightarrow> (case cell h a of
         Some (CMap m) \<Rightarrow> map_option (\<lambda>(ts, A). (TMap (map fst m) ts, a # A)) (collect (map (readv ty h) (map snd m)))
       | _ \<Rightarrow> None)
     | _ \<Rightarrow> None)"
| "readv (YStruct fs) h v =
    map_option (\<lambda>(ts, A). (TStruct ts, A))
      (collect (map (\<lambda>(f, ty). case getField f v of None \<Rightarrow> None | Some x \<Rightarrow> readv ty h x) fs))"

section \<open>Reading\<close>

lemma collect_Cons:
  "collect (x # xs) = Some (ts, A) \<longleftrightarrow>
    (\<exists>t B ts1 A1. x = Some (t, B) \<and> collect xs = Some (ts1, A1) \<and> ts = t # ts1 \<and> A = B @ A1)"
  by (auto split: Option.bind_splits)

lemma collect_transfer:
  assumes "collect (map f xs) = Some (ts, A)"
    and "\<And>x t B. x \<in> set xs \<Longrightarrow> f x = Some (t, B) \<Longrightarrow> \<exists>B'. f' x = Some (t, B') \<and> set B' \<subseteq> R"
  shows "\<exists>A'. collect (map f' xs) = Some (ts, A') \<and> set A' \<subseteq> R"
  using assms
proof (induction xs arbitrary: ts A)
  case (Cons x xs)
  obtain t B ts1 A1 where c: "f x = Some (t, B)" "collect (map f xs) = Some (ts1, A1)" "ts = t # ts1" "A = B @ A1"
    using Cons.prems(1) unfolding list.map collect_Cons by blast
  obtain B' where B': "f' x = Some (t, B')" "set B' \<subseteq> R" using Cons.prems(2) [of x, OF _ c(1)] by auto
  obtain A' where A': "collect (map f' xs) = Some (ts1, A')" "set A' \<subseteq> R"
    using Cons.IH [OF c(2)] Cons.prems(2) by (meson list.set_intros(2))
  show ?case by (rule exI [of _ "B' @ A'"]) (use B' A' c(3) in simp)
qed simp

lemma collect_cells:
  assumes "collect (map f xs) = Some (ts, A)" "\<And>x t B. x \<in> set xs \<Longrightarrow> f x = Some (t, B) \<Longrightarrow> set B \<subseteq> R"
  shows "set A \<subseteq> R"
  using assms
proof (induction xs arbitrary: ts A)
  case (Cons x xs)
  obtain t B ts1 A1 where c: "f x = Some (t, B)" "collect (map f xs) = Some (ts1, A1)" "A = B @ A1"
    using Cons.prems(1) unfolding list.map collect_Cons by blast
  have "set A1 \<subseteq> R" by (rule Cons.IH [OF c(2)]) (rule Cons.prems(2), simp_all)
  moreover have "set B \<subseteq> R" by (rule Cons.prems(2) [OF _ c(1)]) simp
  ultimately show ?case using c(3) by simp
qed simp

lemma collect_same:
  assumes "collect (map f xs) = Some (ts, A)" "\<And>a. a \<in> set A \<Longrightarrow> P a"
    and "\<And>x t B. x \<in> set xs \<Longrightarrow> f x = Some (t, B) \<Longrightarrow> (\<And>a. a \<in> set B \<Longrightarrow> P a) \<Longrightarrow> f' x = Some (t, B)"
  shows "collect (map f' xs) = Some (ts, A)"
  using assms
proof (induction xs arbitrary: ts A)
  case (Cons x xs)
  obtain t B ts1 A1 where c: "f x = Some (t, B)" "collect (map f xs) = Some (ts1, A1)" "ts = t # ts1" "A = B @ A1"
    using Cons.prems(1) unfolding list.map collect_Cons by blast
  have "f' x = Some (t, B)" by (rule Cons.prems(3) [OF _ c(1)]) (simp_all add: Cons.prems(2) c(4))
  moreover have "collect (map f' xs) = Some (ts1, A1)"
    by (rule Cons.IH [OF c(2)]) (simp_all add: Cons.prems(2,3) c(4))
  ultimately show ?case using c(3,4) by simp
qed simp

text \<open>The cases of a value that reads.\<close>

lemma readv_ptr:
  "readv (YPtr ty) h v = Some (t, A) \<longleftrightarrow> v = GNil \<and> t = TNil \<and> A = []
    \<or> (\<exists>a x t1 B. v = GRef a \<and> cell h a = Some (CVal x) \<and> readv ty h x = Some (t1, B) \<and> t = TPtr t1 \<and> A = a # B)"
  by (cases v) (auto split: option.splits gcell.splits)

lemma readv_slice:
  "readv (YSlice ty) h v = Some (t, A) \<longleftrightarrow> v = GNil \<and> t = TNil \<and> A = []
    \<or> (\<exists>a xs ts B. v = GRef a \<and> cell h a = Some (CSlice xs) \<and> collect (map (readv ty h) xs) = Some (ts, B)
        \<and> t = TSlice ts \<and> A = a # B)"
  by (cases v) (auto split: option.splits gcell.splits)

lemma readv_map:
  "readv (YMap ty) h v = Some (t, A) \<longleftrightarrow> v = GNil \<and> t = TNil \<and> A = []
    \<or> (\<exists>a m ts B. v = GRef a \<and> cell h a = Some (CMap m) \<and> collect (map (readv ty h) (map snd m)) = Some (ts, B)
        \<and> t = TMap (map fst m) ts \<and> A = a # B)"
  by (cases v) (auto split: option.splits gcell.splits)

definition readField :: "gheap \<Rightarrow> gval \<Rightarrow> string \<times> gtype \<Rightarrow> (gtree \<times> nat list) option" where
  "readField h v = (\<lambda>(f, ty). case getField f v of None \<Rightarrow> None | Some x \<Rightarrow> readv ty h x)"

lemma readv_struct:
  "readv (YStruct fs) h v = Some (t, A) \<longleftrightarrow> (\<exists>ts. collect (map (readField h v) fs) = Some (ts, A) \<and> t = TStruct ts)"
  by (auto simp: readField_def)

lemma readField_Some:
  "readField h v (f, ty) = Some r \<longleftrightarrow> (\<exists>x. getField f v = Some x \<and> readv ty h x = Some r)"
  by (auto simp: readField_def split: option.splits)

lemmas readv_cases = readv_ptr readv_slice readv_map readv_struct

text \<open>What a value reads as depends on the cells it is read from only.\<close>

lemma readv_frame:
  "readv ty h v = Some (t, A) \<Longrightarrow> (\<And>a. a \<in> set A \<Longrightarrow> cell h' a = cell h a) \<Longrightarrow> readv ty h' v = Some (t, A)"
proof (induction ty arbitrary: v t A)
  case (YPtr ty)
  then show ?case unfolding readv_cases by (metis list.set_intros)
next
  case (YSlice ty)
  from YSlice.prems(1)[unfolded readv_slice] show ?case
  proof (elim disjE exE conjE)
    fix a xs ts B assume x: "v = GRef a" "cell h a = Some (CSlice xs)" "collect (map (readv ty h) xs) = Some (ts, B)"
      "t = TSlice ts" "A = a # B"
    have "collect (map (readv ty h') xs) = Some (ts, B)"
      by (rule collect_same [OF x(3), of "\<lambda>a. cell h' a = cell h a"]) (simp_all add: YSlice.prems(2) x(5) YSlice.IH)
    then show ?thesis unfolding readv_cases using x YSlice.prems(2) [of a] by simp
  qed simp
next
  case (YMap ty)
  from YMap.prems(1)[unfolded readv_map] show ?case
  proof (elim disjE exE conjE)
    fix a m ts B assume x: "v = GRef a" "cell h a = Some (CMap m)" "collect (map (readv ty h) (map snd m)) = Some (ts, B)"
      "t = TMap (map fst m) ts" "A = a # B"
    have "collect (map (readv ty h') (map snd m)) = Some (ts, B)"
      by (rule collect_same [OF x(3), of "\<lambda>a. cell h' a = cell h a"]) (simp_all add: YMap.prems(2) x(5) YMap.IH)
    then show ?thesis unfolding readv_cases using x YMap.prems(2) [of a] by simp
  qed simp
next
  case (YStruct fs)
  obtain ts where c: "collect (map (readField h v) fs) = Some (ts, A)" "t = TStruct ts"
    using YStruct.prems(1) unfolding readv_cases by blast
  have "collect (map (readField h' v) fs) = Some (ts, A)"
  proof (rule collect_same [OF c(1), of "\<lambda>a. cell h' a = cell h a"])
    fix x t B assume x: "x \<in> set fs" "readField h v x = Some (t, B)" "\<And>a. a \<in> set B \<Longrightarrow> cell h' a = cell h a"
    obtain f ty where f: "x = (f, ty)" by (cases x)
    then obtain w where w: "getField f v = Some w" "readv ty h w = Some (t, B)" using x(2) by (auto simp: readField_Some)
    have "readv ty h' w = Some (t, B)" by (rule YStruct.IH [OF x(1) _ w(2) x(3)]) (simp add: f)
    then show "readField h' v x = Some (t, B)" using w(1) by (simp add: f readField_Some)
  qed (rule YStruct.prems(2))
  then show ?case using c(2) unfolding readv_cases by blast
qed (auto split: gval.splits)

lemma readv_cells: "readv ty h v = Some (t, A) \<Longrightarrow> set A \<subseteq> {..<length h}"
proof (induction ty arbitrary: v t A)
  case (YPtr ty)
  then show ?case unfolding readv_cases by (fastforce simp: cell_def split: if_splits)
next
  case (YSlice ty)
  have "set B \<subseteq> {..<length h}" if "collect (map (readv ty h) xs) = Some (ts, B)" for xs ts B
    by (rule collect_cells [OF that]) (rule YSlice.IH)
  then show ?case using YSlice.prems unfolding readv_cases by (fastforce simp: cell_def split: if_splits)
next
  case (YMap ty)
  have "set B \<subseteq> {..<length h}" if "collect (map (readv ty h) xs) = Some (ts, B)" for xs ts B
    by (rule collect_cells [OF that]) (rule YMap.IH)
  then show ?case using YMap.prems unfolding readv_cases by (fastforce simp: cell_def split: if_splits)
next
  case (YStruct fs)
  obtain ts where c: "collect (map (readField h v) fs) = Some (ts, A)" using YStruct.prems unfolding readv_cases by blast
  show ?case
  proof (rule collect_cells [OF c])
    fix x t B assume x: "x \<in> set fs" "readField h v x = Some (t, B)"
    obtain f ty where f: "x = (f, ty)" by (cases x)
    then obtain w where w: "readv ty h w = Some (t, B)" using x(2) by (auto simp: readField_Some)
    show "set B \<subseteq> {..<length h}" by (rule YStruct.IH [OF x(1) _ w]) (simp add: f)
  qed
qed (auto split: gval.splits)

lemma cell_append: "a < length h \<Longrightarrow> cell (h @ e) a = cell h a"
  by (simp add: cell_def nth_append)

lemma cell_new [simp]: "cell (h @ [c]) (length h) = Some c" "cell (h @ e @ [c]) (length h + length e) = Some c"
  by (simp_all add: cell_def nth_append)

lemma readv_append: "readv ty h v = Some (t, A) \<Longrightarrow> readv ty (h @ e) v = Some (t, A)"
  by (rule readv_frame, assumption, rule cell_append) (use readv_cells in blast)

section \<open>Deep copies\<close>

definition deep :: "gtype \<Rightarrow> copier \<Rightarrow> bool" where
  "deep ty f \<longleftrightarrow> (\<forall>h v t A. readv ty h v = Some (t, A) \<longrightarrow>
    (\<exists>v' e A'. f v h = Some (v', h @ e) \<and> readv ty (h @ e) v' = Some (t, A') \<and> set A' \<subseteq> {length h..<length (h @ e)}))"

lemma deepI:
  assumes "\<And>h v t A. readv ty h v = Some (t, A) \<Longrightarrow>
    \<exists>v' e A'. f v h = Some (v', h @ e) \<and> readv ty (h @ e) v' = Some (t, A') \<and> set A' \<subseteq> {length h..<length (h @ e)}"
  shows "deep ty f"
  using assms unfolding deep_def by blast

lemma deepD:
  assumes "deep ty f" "readv ty h v = Some (t, A)"
  obtains v' e A' where "f v h = Some (v', h @ e)" "readv ty (h @ e) v' = Some (t, A')" "set A' \<subseteq> {length h..<length (h @ e)}"
  using assms unfolding deep_def by blast

text \<open>An assignment is a deep copy of what has no pointers.\<close>

fun flat :: "gtype \<Rightarrow> bool" where
  "flat YPrim = True"
| "flat YNil = True"
| "flat (YStruct fs) = list_all (\<lambda>(f, ty). flat ty) fs"
| "flat _ = False"

lemma flat_cells: "flat ty \<Longrightarrow> readv ty h v = Some (t, A) \<Longrightarrow> A = []"
proof (induction ty arbitrary: v t A)
  case (YStruct fs)
  obtain ts where c: "collect (map (readField h v) fs) = Some (ts, A)" using YStruct.prems(2) unfolding readv_cases by blast
  have "set A \<subseteq> {}"
  proof (rule collect_cells [OF c])
    fix x t B assume x: "x \<in> set fs" "readField h v x = Some (t, B)"
    obtain f ty where f: "x = (f, ty)" by (cases x)
    then obtain w where w: "readv ty h w = Some (t, B)" using x(2) by (auto simp: readField_Some)
    have "flat ty" using YStruct.prems(1) x(1) f by (auto simp: list_all_iff)
    then show "set B \<subseteq> {}" using YStruct.IH [OF x(1) _ _ w] by (simp add: f)
  qed
  then show ?case by simp
qed (auto split: gval.splits)

lemma deep_shallow: "flat ty \<Longrightarrow> deep ty shallow"
  by (rule deepI) (use flat_cells in \<open>fastforce simp: shallow_def\<close>)

lemma deep_ptr:
  assumes "deep ty f"
  shows "deep (YPtr ty) (copyPtr f)"
proof (rule deepI)
  fix h v t A assume r: "readv (YPtr ty) h v = Some (t, A)"
  show "\<exists>v' e A'. copyPtr f v h = Some (v', h @ e) \<and> readv (YPtr ty) (h @ e) v' = Some (t, A')
    \<and> set A' \<subseteq> {length h..<length (h @ e)}"
  proof (cases "v = GNil")
    case True
    then show ?thesis using r by (simp add: copyPtr_def)
  next
    case False
    then obtain a x t1 B where x: "v = GRef a" "cell h a = Some (CVal x)" "readv ty h x = Some (t1, B)" "t = TPtr t1"
      using r unfolding readv_cases by blast
    obtain x' e B' where x': "f x h = Some (x', h @ e)" "readv ty (h @ e) x' = Some (t1, B')" "set B' \<subseteq> {length h..<length (h @ e)}"
      by (rule deepD [OF assms x(3)])
    show ?thesis
      by (rule exI [of _ "GRef (length (h @ e))"], rule exI [of _ "e @ [CVal x']"], rule exI [of _ "length (h @ e) # B'"])
        (use x x' readv_append [OF x'(2), of "[CVal x']"] in \<open>auto simp: copyPtr_def\<close>)
  qed
qed

lemma copyList_deep:
  assumes "deep ty f" "collect (map (readv ty h) vs) = Some (ts, A)"
  obtains vs' e A' where "copyList f vs h = Some (vs', h @ e)" "collect (map (readv ty (h @ e)) vs') = Some (ts, A')"
    "set A' \<subseteq> {length h..<length (h @ e)}" "length vs' = length vs"
proof -
  have "\<exists>vs' e A'. copyList f vs h = Some (vs', h @ e) \<and> collect (map (readv ty (h @ e)) vs') = Some (ts, A')
    \<and> set A' \<subseteq> {length h..<length (h @ e)} \<and> length vs' = length vs"
    using assms(2)
  proof (induction vs arbitrary: h ts A)
    case (Cons v vs)
    obtain t B ts1 A1 where c: "readv ty h v = Some (t, B)" "collect (map (readv ty h) vs) = Some (ts1, A1)" "ts = t # ts1"
      using Cons.prems unfolding list.map collect_Cons by blast
    obtain v' e1 B' where v': "f v h = Some (v', h @ e1)" "readv ty (h @ e1) v' = Some (t, B')"
      "set B' \<subseteq> {length h..<length (h @ e1)}" by (rule deepD [OF assms(1) c(1)])
    have "collect (map (readv ty (h @ e1)) vs) = Some (ts1, A1)"
      by (rule collect_same [OF c(2), of "\<lambda>_. True"]) (simp_all add: readv_append)
    from Cons.IH [OF this] obtain vs' e2 A' where vs': "copyList f vs (h @ e1) = Some (vs', (h @ e1) @ e2)"
      "collect (map (readv ty ((h @ e1) @ e2)) vs') = Some (ts1, A')"
      "set A' \<subseteq> {length (h @ e1)..<length ((h @ e1) @ e2)}" "length vs' = length vs" by blast
    show ?case
      by (rule exI [of _ "v' # vs'"], rule exI [of _ "e1 @ e2"], rule exI [of _ "B' @ A'"])
        (use v' vs' c(3) readv_append [OF v'(2), of e2] in auto)
  qed simp
  then show ?thesis using that by blast
qed

lemma deep_slice:
  assumes "deep ty f"
  shows "deep (YSlice ty) (copySlice f)"
proof (rule deepI)
  fix h v t A assume r: "readv (YSlice ty) h v = Some (t, A)"
  show "\<exists>v' e A'. copySlice f v h = Some (v', h @ e) \<and> readv (YSlice ty) (h @ e) v' = Some (t, A')
    \<and> set A' \<subseteq> {length h..<length (h @ e)}"
  proof (cases "v = GNil")
    case True
    then show ?thesis using r by (simp add: copySlice_def)
  next
    case False
    then obtain a xs ts B where x: "v = GRef a" "cell h a = Some (CSlice xs)" "collect (map (readv ty h) xs) = Some (ts, B)"
      "t = TSlice ts" using r unfolding readv_cases by blast
    obtain xs' e B' where x': "copyList f xs h = Some (xs', h @ e)" "collect (map (readv ty (h @ e)) xs') = Some (ts, B')"
      "set B' \<subseteq> {length h..<length (h @ e)}" by (rule copyList_deep [OF assms x(3)])
    have "collect (map (readv ty (h @ e @ [CSlice xs'])) xs') = Some (ts, B')"
      by (rule collect_same [OF x'(2), of "\<lambda>_. True"]) (use readv_append [of ty "h @ e"] in simp_all)
    then show ?thesis
      by (intro exI [of _ "GRef (length (h @ e))"] exI [of _ "e @ [CSlice xs']"] exI [of _ "length (h @ e) # B'"])
        (use x x' in \<open>auto simp: copySlice_def\<close>)
  qed
qed

lemma deep_map:
  assumes "deep ty f"
  shows "deep (YMap ty) (copyMap f)"
proof (rule deepI)
  fix h v t A assume r: "readv (YMap ty) h v = Some (t, A)"
  show "\<exists>v' e A'. copyMap f v h = Some (v', h @ e) \<and> readv (YMap ty) (h @ e) v' = Some (t, A')
    \<and> set A' \<subseteq> {length h..<length (h @ e)}"
  proof (cases "v = GNil")
    case True
    then show ?thesis using r by (simp add: copyMap_def)
  next
    case False
    then obtain a m ts B where x: "v = GRef a" "cell h a = Some (CMap m)"
      "collect (map (readv ty h) (map snd m)) = Some (ts, B)" "t = TMap (map fst m) ts" using r unfolding readv_cases by blast
    obtain xs' e B' where x': "copyList f (map snd m) h = Some (xs', h @ e)"
      "collect (map (readv ty (h @ e)) xs') = Some (ts, B')" "set B' \<subseteq> {length h..<length (h @ e)}"
      "length xs' = length (map snd m)" by (rule copyList_deep [OF assms x(3)])
    let ?m = "zip (map fst m) xs'"
    have k: "map fst ?m = map fst m" "map snd ?m = xs'" using x'(4) by simp_all
    have "collect (map (readv ty (h @ e @ [CMap ?m])) xs') = Some (ts, B')"
      by (rule collect_same [OF x'(2), of "\<lambda>_. True"]) (use readv_append [of ty "h @ e"] in simp_all)
    then have "readv (YMap ty) (h @ e @ [CMap ?m]) (GRef (length (h @ e))) = Some (t, length (h @ e) # B')"
      unfolding readv_cases by (auto simp: k x(4) simp del: map_map intro!: exI [of _ ?m])
    moreover have "copyMap f v h = Some (GRef (length (h @ e)), h @ e @ [CMap ?m])" using x(1,2) x'(1) by (simp add: copyMap_def)
    ultimately show ?thesis
      by (intro exI [of _ "GRef (length (h @ e))"] exI [of _ "e @ [CMap ?m]"] exI [of _ "length (h @ e) # B'"]) (use x'(3) in auto)
  qed
qed

lemma collect_each: "collect (map f xs) = Some r \<Longrightarrow> x \<in> set xs \<Longrightarrow> \<exists>t B. f x = Some (t, B)"
proof (induction xs arbitrary: r)
  case (Cons y xs)
  then show ?case by (auto split: Option.bind_splits)
qed simp

text \<open>A struct copied up to the fields \<open>D\<close>: those read as in the original, from new cells; the others are
  still the original's.\<close>

definition copied :: "(string \<times> gtype) list \<Rightarrow> gheap \<Rightarrow> gval \<Rightarrow> string set \<Rightarrow> gval \<Rightarrow> gheap \<Rightarrow> bool" where
  "copied fs h0 v D out h \<longleftrightarrow> (\<forall>(f, ty) \<in> set fs. \<forall>t B. readField h0 v (f, ty) = Some (t, B) \<longrightarrow>
    (if f \<in> D then \<exists>B'. readField h out (f, ty) = Some (t, B') \<and> set B' \<subseteq> {length h0..<length h}
     else getField f out = getField f v))"

definition copies :: "(string \<times> gtype) list \<Rightarrow> (string \<times> copier) list \<Rightarrow> bool" where
  "copies fs cs \<longleftrightarrow> (\<forall>(f, c) \<in> set cs. f \<in> fst ` set fs \<and> (\<forall>ty. (f, ty) \<in> set fs \<longrightarrow> deep ty c))"

lemma getField_setField:
  "setField f x v = Some v' \<Longrightarrow> getField g v' = (if g = f then Some x else getField g v)"
  by (cases v) auto

lemma copied_step:
  assumes "copied fs h0 v D (GStruct out) (h0 @ e0)" "f \<notin> D" "getField f v = Some x"
    and "c x (h0 @ e0) = Some (y, (h0 @ e0) @ e)"
    and "\<And>ty t A. (f, ty) \<in> set fs \<Longrightarrow> readv ty h0 x = Some (t, A)
      \<Longrightarrow> \<exists>A'. readv ty ((h0 @ e0) @ e) y = Some (t, A') \<and> set A' \<subseteq> {length h0..<length ((h0 @ e0) @ e)}"
  shows "copied fs h0 v (insert f D) (GStruct (gput f y out)) ((h0 @ e0) @ e)"
  unfolding copied_def
proof (intro ballI, clarify)
  fix g ty t B assume g: "(g, ty) \<in> set fs" "readField h0 v (g, ty) = Some (t, B)"
  show "if g \<in> insert f D then \<exists>B'. readField ((h0 @ e0) @ e) (GStruct (gput f y out)) (g, ty) = Some (t, B')
      \<and> set B' \<subseteq> {length h0..<length ((h0 @ e0) @ e)}
    else getField g (GStruct (gput f y out)) = getField g v"
  proof (cases "g = f")
    case True
    then have "readv ty h0 x = Some (t, B)" using g(2) assms(3) by (simp add: readField_Some)
    from assms(5) [OF _ this] g(1) True show ?thesis by (auto simp: readField_Some)
  next
    case False
    have i: "if g \<in> D then \<exists>B'. readField (h0 @ e0) (GStruct out) (g, ty) = Some (t, B') \<and> set B' \<subseteq> {length h0..<length (h0 @ e0)}
        else getField g (GStruct out) = getField g v" using assms(1) g unfolding copied_def by fastforce
    show ?thesis
    proof (cases "g \<in> D")
      case True
      then obtain B' w where w: "getField g (GStruct out) = Some w" "readv ty (h0 @ e0) w = Some (t, B')"
        "set B' \<subseteq> {length h0..<length (h0 @ e0)}" using i by (auto simp: readField_Some)
      have "{length h0..<length (h0 @ e0)} \<subseteq> {length h0..<length ((h0 @ e0) @ e)}" by auto
      then show ?thesis using w readv_append [OF w(2), of e] True False by (auto simp: readField_Some)
    qed (use False i in simp)
  qed
qed

lemma copyFields_copied:
  assumes "copied fs h0 v D (GStruct out) (h0 @ e0)" "distinct (map fst cs)" "fst ` set cs \<inter> D = {}" "copies fs cs"
    and "\<And>f ty. (f, ty) \<in> set fs \<Longrightarrow> \<exists>r. readField h0 v (f, ty) = Some r"
  shows "\<exists>out' e. copyFields cs v (GStruct out) (h0 @ e0) = Some (GStruct out', (h0 @ e0) @ e)
    \<and> copied fs h0 v (D \<union> fst ` set cs) (GStruct out') ((h0 @ e0) @ e)"
  using assms
proof (induction cs arbitrary: D out e0)
  case (Cons x cs)
  obtain f c where x: "x = (f, c)" by (cases x)
  obtain ty0 where f: "(f, ty0) \<in> set fs" "\<And>ty. (f, ty) \<in> set fs \<Longrightarrow> deep ty c"
    using Cons.prems(4) x by (auto simp: copies_def)
  obtain w r where w: "getField f v = Some w" "readv ty0 h0 w = Some r" using Cons.prems(5) [OF f(1)] by (auto simp: readField_Some)
  obtain t A where r: "r = (t, A)" by (cases r)
  have r0: "readv ty h0 w = Some (t, A) \<Longrightarrow> readv ty (h0 @ e0) w = Some (t, A)" for ty t A by (rule readv_append)
  obtain y e A' where y: "c w (h0 @ e0) = Some (y, (h0 @ e0) @ e)"
    by (rule deepD [OF f(2) [OF f(1)] r0 [OF w(2) [unfolded r]]])
  have fD: "f \<notin> D" using Cons.prems(3) x by auto
  have "copied fs h0 v (insert f D) (GStruct (gput f y out)) ((h0 @ e0) @ e)"
  proof (rule copied_step [where x = w and c = c, OF Cons.prems(1) fD w(1) y])
    fix ty t A assume a: "(f, ty) \<in> set fs" "readv ty h0 w = Some (t, A)"
    obtain y' e' A' where "c w (h0 @ e0) = Some (y', (h0 @ e0) @ e')" "readv ty ((h0 @ e0) @ e') y' = Some (t, A')"
      "set A' \<subseteq> {length (h0 @ e0)..<length ((h0 @ e0) @ e')}" by (rule deepD [OF f(2) [OF a(1)] r0 [OF a(2)]])
    then show "\<exists>A'. readv ty ((h0 @ e0) @ e) y = Some (t, A') \<and> set A' \<subseteq> {length h0..<length ((h0 @ e0) @ e)}"
      using y by fastforce
  qed
  then have "copied fs h0 v (insert f D) (GStruct (gput f y out)) (h0 @ (e0 @ e))" by simp
  from Cons.IH [OF this] Cons.prems x obtain out' e' where
    "copyFields cs v (GStruct (gput f y out)) (h0 @ (e0 @ e)) = Some (GStruct out', (h0 @ (e0 @ e)) @ e')"
    "copied fs h0 v (insert f D \<union> fst ` set cs) (GStruct out') ((h0 @ (e0 @ e)) @ e')"
    by (auto simp: copies_def)
  then show ?case using w(1) y by (intro exI [of _ out'] exI [of _ "e @ e'"]) (simp add: x)
qed simp

text \<open>The copy of a struct is deep if the fields it copies are copied deep and the others have no pointers.\<close>

lemma deep_struct:
  assumes "fs \<noteq> []" "distinct (map fst cs)" "copies fs cs" "\<And>f ty. (f, ty) \<in> set fs \<Longrightarrow> f \<in> fst ` set cs \<or> flat ty"
  shows "deep (YStruct fs) (copyStruct cs)"
proof (rule deepI)
  fix h v t A assume "readv (YStruct fs) h v = Some (t, A)"
  then obtain ts where c: "collect (map (readField h v) fs) = Some (ts, A)" "t = TStruct ts" unfolding readv_cases by blast
  obtain f0 ty0 where f0: "(f0, ty0) \<in> set fs" using assms(1) by (cases fs) auto
  note each = collect_each [OF c(1)]
  obtain vs where v: "v = GStruct vs" using each [OF f0] by (cases v) (auto simp: readField_Some)
  have "copied fs h v {} (GStruct vs) (h @ [])" by (simp add: copied_def v)
  from copyFields_copied [OF this assms(2) _ assms(3)] each obtain out e where
    o: "copyFields cs v v h = Some (GStruct out, h @ e)" "copied fs h v (fst ` set cs) (GStruct out) (h @ e)"
    by (auto simp: v)
  have "\<exists>A'. collect (map (readField (h @ e) (GStruct out)) fs) = Some (ts, A') \<and> set A' \<subseteq> {length h..<length (h @ e)}"
  proof (rule collect_transfer [OF c(1)])
    fix x t B assume x: "x \<in> set fs" "readField h v x = Some (t, B)"
    obtain f ty where f: "x = (f, ty)" by (cases x)
    have i: "if f \<in> fst ` set cs then \<exists>B'. readField (h @ e) (GStruct out) (f, ty) = Some (t, B') \<and> set B' \<subseteq> {length h..<length (h @ e)}
        else getField f (GStruct out) = getField f v" using o(2) x f unfolding copied_def by fastforce
    show "\<exists>B'. readField (h @ e) (GStruct out) x = Some (t, B') \<and> set B' \<subseteq> {length h..<length (h @ e)}"
    proof (cases "f \<in> fst ` set cs")
      case False
      obtain w where w: "getField f v = Some w" "readv ty h w = Some (t, B)" using x(2) f by (auto simp: readField_Some)
      have "B = []" by (rule flat_cells [OF _ w(2)]) (use assms(4) x(1) f False in auto)
      then show ?thesis using i False w readv_append [OF w(2), of e] by (simp add: f readField_Some)
    qed (use i f in simp)
  qed
  then show "\<exists>v' e A'. copyStruct cs v h = Some (v', h @ e) \<and> readv (YStruct fs) (h @ e) v' = Some (t, A')
    \<and> set A' \<subseteq> {length h..<length (h @ e)}"
    unfolding readv_cases copyStruct_def using o(1) c(2) by blast
qed

text \<open>The form the generated copies have, checked field by field.\<close>

lemma deep_structI:
  assumes "fs \<noteq> []" "distinct (map fst cs)" "list_all (\<lambda>f. f \<in> set (map fst fs)) (map fst cs)"
    and "list_all (\<lambda>(f, ty). case map_of cs f of Some c \<Rightarrow> deep ty c | None \<Rightarrow> flat ty) fs"
  shows "deep (YStruct fs) (copyStruct cs)"
proof (rule deep_struct [OF assms(1,2)])
  have *: "case map_of cs f of Some c \<Rightarrow> deep ty c | None \<Rightarrow> flat ty" if "(f, ty) \<in> set fs" for f ty
    using assms(4) that by (auto simp: list_all_iff)
  show "copies fs cs"
    unfolding copies_def
  proof (intro ballI, clarify)
    fix f c assume c: "(f, c) \<in> set cs"
    then have "map_of cs f = Some c" using assms(2) by simp
    then have "deep ty c" if "(f, ty) \<in> set fs" for ty using * [OF that] by simp
    moreover have "f \<in> fst ` set fs" using c assms(3) unfolding list_all_iff set_map by (metis fst_conv imageI)
    ultimately show "f \<in> fst ` set fs \<and> (\<forall>ty. (f, ty) \<in> set fs \<longrightarrow> deep ty c)" by blast
  qed
  fix f ty assume f: "(f, ty) \<in> set fs"
  show "f \<in> fst ` set cs \<or> flat ty"
  proof (cases "map_of cs f")
    case None
    then show ?thesis using * [OF f] by simp
  next
    case (Some c)
    then have "(f, c) \<in> set cs" by (rule map_of_SomeD)
    then show ?thesis by force
  qed
qed

lemmas deep_copiers [simp] = deep_shallow deep_ptr deep_slice deep_map

text \<open>\<open>DeepCopyObject\<close>: the copy as an interface value, a nil pointer as the nil interface.\<close>

definition copyObject :: "copier \<Rightarrow> copier" where
  "copyObject f v h =
    do {
      (c, h1) \<leftarrow> f v h;
      Some (if c \<noteq> GNil then (c, h1) else (GNil, h1))
    }"

lemma copyObject_same [simp]: "copyObject f = f"
  by (intro ext) (auto simp: copyObject_def split: Option.bind_splits)

text \<open>What a deep copy gives its user: it succeeds, reads the same, shares no cell with the original, and
  nothing that is written to its cells later changes what the original reads.\<close>

lemma deep_independent:
  assumes "deep ty f" "readv ty h v = Some (t, A)"
  obtains v' h' A' where "f v h = Some (v', h')" "readv ty h' v' = Some (t, A')" "set A' \<inter> set A = {}"
    "\<And>h''. (\<And>a. a \<notin> set A' \<Longrightarrow> cell h'' a = cell h' a) \<Longrightarrow> readv ty h'' v = Some (t, A)"
proof -
  obtain v' e A' where c: "f v h = Some (v', h @ e)" "readv ty (h @ e) v' = Some (t, A')" "set A' \<subseteq> {length h..<length (h @ e)}"
    by (rule deepD [OF assms])
  have "{length h..<length (h @ e)} \<inter> {..<length h} = {}" by auto
  then have d: "set A' \<inter> set A = {}" using c(3) readv_cells [OF assms(2)] by blast
  have "readv ty h'' v = Some (t, A)" if "\<And>a. a \<notin> set A' \<Longrightarrow> cell h'' a = cell (h @ e) a" for h''
    by (rule readv_frame [OF readv_append [OF assms(2)]]) (use that d in blast)
  then show ?thesis using that c(1,2) d by blast
qed

end
