(* ===== verification/ModelCopy.thy ===== *)
theory ModelCopy
  imports DeepCopy
begin

text \<open>
  The copies of the objects of the model (\<open>model/zz_generated.deepcopy.go\<close>), one shape, one
  \<open>DeepCopyInto\<close> and one \<open>DeepCopy\<close> per Go type, in an order in which each uses the ones before it.
  Every one of them is deep on its shape.
\<close>

text \<open>Forwarding entries and bridge domains.\<close>

definition L3VRFRoute_shape :: gtype where
  "L3VRFRoute_shape = YStruct
    [(''VrfId'', YPrim), (''Description'', YPrim), (''DstIpAddr'', YPrim), (''NextHopAddr'', YPrim),
     (''OutgoingInterface'', YPrim), (''Weight'', YPrim), (''Preference'', YPrim),
     (''XXX_NoUnkeyedLiteral'', YStruct []), (''XXX_unrecognized'', YNil), (''XXX_sizecache'', YPrim)]"

definition L3VRFRoute_DeepCopyInto :: copier where
  "L3VRFRoute_DeepCopyInto = copyStruct []"

definition L3VRFRoute_DeepCopy :: copier where
  "L3VRFRoute_DeepCopy = copyPtr L3VRFRoute_DeepCopyInto"

lemma L3VRFRoute_flat [simp]: "flat L3VRFRoute_shape"
  by (simp add: L3VRFRoute_shape_def)

lemma L3VRFRoute_deep [simp]: "deep L3VRFRoute_shape L3VRFRoute_DeepCopyInto"
  unfolding L3VRFRoute_shape_def L3VRFRoute_DeepCopyInto_def by (rule deep_structI) simp_all

definition L3ArpEntry_shape :: gtype where
  "L3ArpEntry_shape = YStruct
    [(''IpAddress'', YPrim), (''PhysAddress'', YPrim), (''OutgoingInterface'', YPrim),
     (''XXX_NoUnkeyedLiteral'', YStruct []), (''XXX_unrecognized'', YNil), (''XXX_sizecache'', YPrim)]"

definition L3ArpEntry_DeepCopyInto :: copier where
  "L3ArpEntry_DeepCopyInto = copyStruct []"

definition L3ArpEntry_DeepCopy :: copier where
  "L3ArpEntry_DeepCopy = copyPtr L3ArpEntry_DeepCopyInto"

lemma L3ArpEntry_flat [simp]: "flat L3ArpEntry_shape"
  by (simp add: L3ArpEntry_shape_def)

lemma L3ArpEntry_deep [simp]: "deep L3ArpEntry_shape L3ArpEntry_DeepCopyInto"
  unfolding L3ArpEntry_shape_def L3ArpEntry_DeepCopyInto_def by (rule deep_structI) simp_all

definition L2FIBEntry_shape :: gtype where
  "L2FIBEntry_shape = YStruct
    [(''DestMacAddress'', YPrim), (''BdName'', YPrim), (''OutgoingIf'', YPrim), (''Action'', YPrim),
     (''Bvi'', YPrim), (''XXX_NoUnkeyedLiteral'', YStruct []), (''XXX_unrecognized'', YNil),
     (''XXX_sizecache'', YPrim)]"

definition L2FIBEntry_DeepCopyInto :: copier where
  "L2FIBEntry_DeepCopyInto = copyStruct []"

definition L2FIBEntry_DeepCopy :: copier where
  "L2FIBEntry_DeepCopy = copyPtr L2FIBEntry_DeepCopyInto"

lemma L2FIBEntry_flat [simp]: "flat L2FIBEntry_shape"
  by (simp add: L2FIBEntry_shape_def)

lemma L2FIBEntry_deep [simp]: "deep L2FIBEntry_shape L2FIBEntry_DeepCopyInto"
  unfolding L2FIBEntry_shape_def L2FIBEntry_DeepCopyInto_def by (rule deep_structI) simp_all

definition BDParms_shape :: gtype where
  "BDParms_shape = YStruct
    [(''Name'', YPrim), (''Flood'', YPrim), (''UnknownUnicastFlood'', YPrim), (''Forward'', YPrim),
     (''Learn'', YPrim), (''ArpTermination'', YPrim), (''MacAgeMinutes'', YPrim),
     (''XXX_NoUnkeyedLiteral'', YStruct []), (''XXX_unrecognized'', YNil), (''XXX_sizecache'', YPrim)]"

definition BDParms_DeepCopyInto :: copier where
  "BDParms_DeepCopyInto = copyStruct []"

definition BDParms_DeepCopy :: copier where
  "BDParms_DeepCopy = copyPtr BDParms_DeepCopyInto"

lemma BDParms_flat [simp]: "flat BDParms_shape"
  by (simp add: BDParms_shape_def)

lemma BDParms_deep [simp]: "deep BDParms_shape BDParms_DeepCopyInto"
  unfolding BDParms_shape_def BDParms_DeepCopyInto_def by (rule deep_structI) simp_all

definition L2BD_shape :: gtype where
  "L2BD_shape = YStruct
    [(''Name'', YPrim), (''BdParms'', YPtr BDParms_shape), (''L2BdTemplate'', YPrim),
     (''XXX_NoUnkeyedLiteral'', YStruct []), (''XXX_unrecognized'', YNil), (''XXX_sizecache'', YPrim)]"

definition L2BD_DeepCopyInto :: copier where
  "L2BD_DeepCopyInto = copyStruct
    [(''BdParms'', copyPtr shallow)]"

definition L2BD_DeepCopy :: copier where
  "L2BD_DeepCopy = copyPtr L2BD_DeepCopyInto"

lemma L2BD_deep [simp]: "deep L2BD_shape L2BD_DeepCopyInto"
  unfolding L2BD_shape_def L2BD_DeepCopyInto_def by (rule deep_structI) simp_all

text \<open>Address pools.\<close>

definition MetaDataType_shape :: gtype where
  "MetaDataType_shape = YStruct
    [(''Name'', YPrim), (''Labels'', YMap YPrim), (''XXX_NoUnkeyedLiteral'', YStruct []),
     (''XXX_unrecognized'', YNil), (''XXX_sizecache'', YPrim)]"

definition MetaDataType_DeepCopyInto :: copier where
  "MetaDataType_DeepCopyInto = copyStruct
    [(''Labels'', copyMap shallow)]"

definition MetaDataType_DeepCopy :: copier where
  "MetaDataType_DeepCopy = copyPtr MetaDataType_DeepCopyInto"

lemma MetaDataType_deep [simp]: "deep MetaDataType_shape MetaDataType_DeepCopyInto"
  unfolding MetaDataType_shape_def MetaDataType_DeepCopyInto_def by (rule deep_structI) simp_all

definition IPAMPoolStatus_shape :: gtype where
  "IPAMPoolStatus_shape = YStruct
    [(''Addresses'', YMap YPrim), (''XXX_NoUnkeyedLiteral'', YStruct []), (''XXX_unrecognized'', YNil),
     (''XXX_sizecache'', YPrim)]"

definition IPAMPoolStatus_DeepCopyInto :: copier where
  "IPAMPoolStatus_DeepCopyInto = copyStruct
    [(''Addresses'', copyMap shallow)]"

definition IPAMPoolStatus_DeepCopy :: copier where
  "IPAMPoolStatus_DeepCopy = copyPtr IPAMPoolStatus_DeepCopyInto"

lemma IPAMPoolStatus_deep [simp]: "deep IPAMPoolStatus_shape IPAMPoolStatus_DeepCopyInto"
  unfolding IPAMPoolStatus_shape_def IPAMPoolStatus_DeepCopyInto_def by (rule deep_structI) simp_all

definition IPAMPoolSpec_shape :: gtype where
  "IPAMPoolSpec_shape = YStruct
    [(''Scope'', YPrim), (''Network'', YPrim), (''StartRange'', YPrim), (''EndRange'', YPrim),
     (''XXX_NoUnkeyedLiteral'', YStruct []), (''XXX_unrecognized'', YNil), (''XXX_sizecache'', YPrim)]"

definition IPAMPoolSpec_DeepCopyInto :: copier where
  "IPAMPoolSpec_DeepCopyInto = copyStruct []"

definition IPAMPoolSpec_DeepCopy :: copier where
  "IPAMPoolSpec_DeepCopy = copyPtr IPAMPoolSpec_DeepCopyInto"

lemma IPAMPoolSpec_flat [simp]: "flat IPAMPoolSpec_shape"
  by (simp add: IPAMPoolSpec_shape_def)

lemma IPAMPoolSpec_deep [simp]: "deep IPAMPoolSpec_shape IPAMPoolSpec_DeepCopyInto"
  unfolding IPAMPoolSpec_shape_def IPAMPoolSpec_DeepCopyInto_def by (rule deep_structI) simp_all

definition IPAMPool_shape :: gtype where
  "IPAMPool_shape = YStruct
    [(''Metadata'', YPtr MetaDataType_shape), (''Spec'', YPtr IPAMPoolSpec_shape),
     (''Status'', YPtr IPAMPoolStatus_shape), (''XXX_NoUnkeyedLiteral'', YStruct []),
     (''XXX_unrecognized'', YNil), (''XXX_sizecache'', YPrim)]"

definition IPAMPool_DeepCopyInto :: copier where
  "IPAMPool_DeepCopyInto = copyStruct
    [(''Metadata'', copyPtr MetaDataType_DeepCopyInto), (''Spec'', copyPtr shallow),
     (''Status'', copyPtr IPAMPoolStatus_DeepCopyInto)]"

definition IPAMPool_DeepCopy :: copier where
  "IPAMPool_DeepCopy = copyPtr IPAMPool_DeepCopyInto"

lemma IPAMPool_deep [simp]: "deep IPAMPool_shape IPAMPool_DeepCopyInto"
  unfolding IPAMPool_shape_def IPAMPool_DeepCopyInto_def by (rule deep_structI) simp_all

text \<open>System parameters, pods on nodes, rendered entries.\<close>

definition SystemParameters_shape :: gtype where
  "SystemParameters_shape = YStruct
    [(''Mtu'', YPrim), (''MemifDirectory'', YPrim), (''DefaultStaticRouteWeight'', YPrim),
     (''DefaultStaticRoutePreference'', YPrim), (''L2BdTemplates'', YSlice (YPtr BDParms_shape)),
     (''RxMode'', YPrim), (''MinVrfId'', YPrim), (''XXX_NoUnkeyedLiteral'', YStruct []),
     (''XXX_unrecognized'', YNil), (''XXX_sizecache'', YPrim)]"

definition SystemParameters_DeepCopyInto :: copier where
  "SystemParameters_DeepCopyInto = copyStruct
    [(''L2BdTemplates'', copySlice (copyPtr BDParms_DeepCopyInto))]"

definition SystemParameters_DeepCopy :: copier where
  "SystemParameters_DeepCopy = copyPtr SystemParameters_DeepCopyInto"

lemma SystemParameters_deep [simp]: "deep SystemParameters_shape SystemParameters_DeepCopyInto"
  unfolding SystemParameters_shape_def SystemParameters_DeepCopyInto_def by (rule deep_structI) simp_all

definition NetworkPodToNodeMap_shape :: gtype where
  "NetworkPodToNodeMap_shape = YStruct
    [(''Pod'', YPrim), (''Node'', YPrim), (''XXX_NoUnkeyedLiteral'', YStruct []),
     (''XXX_unrecognized'', YNil), (''XXX_sizecache'', YPrim)]"

definition NetworkPodToNodeMap_DeepCopyInto :: copier where
  "NetworkPodToNodeMap_DeepCopyInto = copyStruct []"

definition NetworkPodToNodeMap_DeepCopy :: copier where
  "NetworkPodToNodeMap_DeepCopy = copyPtr NetworkPodToNodeMap_DeepCopyInto"

lemma NetworkPodToNodeMap_flat [simp]: "flat NetworkPodToNodeMap_shape"
  by (simp add: NetworkPodToNodeMap_shape_def)

lemma NetworkPodToNodeMap_deep [simp]: "deep NetworkPodToNodeMap_shape NetworkPodToNodeMap_DeepCopyInto"
  unfolding NetworkPodToNodeMap_shape_def NetworkPodToNodeMap_DeepCopyInto_def by (rule deep_structI) simp_all

definition RenderedVppAgentEntry_shape :: gtype where
  "RenderedVppAgentEntry_shape = YStruct
    [(''VppAgentKey'', YPrim), (''VppAgentType'', YPrim), (''XXX_NoUnkeyedLiteral'', YStruct []),
     (''XXX_unrecognized'', YNil), (''XXX_sizecache'', YPrim)]"

definition RenderedVppAgentEntry_DeepCopyInto :: copier where
  "RenderedVppAgentEntry_DeepCopyInto = copyStruct []"

definition RenderedVppAgentEntry_DeepCopy :: copier where
  "RenderedVppAgentEntry_DeepCopy = copyPtr RenderedVppAgentEntry_DeepCopyInto"

lemma RenderedVppAgentEntry_flat [simp]: "flat RenderedVppAgentEntry_shape"
  by (simp add: RenderedVppAgentEntry_shape_def)

lemma RenderedVppAgentEntry_deep [simp]: "deep RenderedVppAgentEntry_shape RenderedVppAgentEntry_DeepCopyInto"
  unfolding RenderedVppAgentEntry_shape_def RenderedVppAgentEntry_DeepCopyInto_def by (rule deep_structI) simp_all

text \<open>Interfaces.  \<open>TapParms\<close>, \<open>Fwd\<close>, \<open>LinuxNamespace\<close> and \<open>RxPlacementSettings\<close> are pointers the copy of an interface
  does not know: the shape requires them to be nil.  So it does for the bytes of unknown fields,
  \<open>XXX_unrecognized\<close>, which no copy of the file handles.\<close>

definition InterfaceStatus_shape :: gtype where
  "InterfaceStatus_shape = YStruct
    [(''Name'', YPrim), (''Status'', YPrim), (''Msg'', YSlice YPrim), (''MacAddress'', YPrim),
     (''MacAddrID'', YPrim), (''IpamPoolNums'', YMap YPrim), (''IpAddresses'', YSlice YPrim),
     (''MemifID'', YPrim), (''Node'', YPrim), (''HostPortLabel'', YPrim), (''Vni'', YPrim),
     (''NnoName'', YPrim), (''XXX_NoUnkeyedLiteral'', YStruct []), (''XXX_unrecognized'', YNil),
     (''XXX_sizecache'', YPrim)]"

definition InterfaceStatus_DeepCopyInto :: copier where
  "InterfaceStatus_DeepCopyInto = copyStruct
    [(''Msg'', copySlice shallow), (''IpamPoolNums'', copyMap shallow), (''IpAddresses'', copySlice shallow)]"

definition InterfaceStatus_DeepCopy :: copier where
  "InterfaceStatus_DeepCopy = copyPtr InterfaceStatus_DeepCopyInto"

lemma InterfaceStatus_deep [simp]: "deep InterfaceStatus_shape InterfaceStatus_DeepCopyInto"
  unfolding InterfaceStatus_shape_def InterfaceStatus_DeepCopyInto_def by (rule deep_structI) simp_all

definition Interface_MemIFParms_shape :: gtype where
  "Interface_MemIFParms_shape = YStruct
    [(''Mode'', YPrim), (''MemifDirectory'', YPrim), (''Secret'', YPrim), (''RingSize'', YPrim),
     (''BufferSize'', YPrim), (''RxQueues'', YPrim), (''TxQueues'', YPrim),
     (''XXX_NoUnkeyedLiteral'', YStruct []), (''XXX_unrecognized'', YNil), (''XXX_sizecache'', YPrim)]"

definition Interface_MemIFParms_DeepCopyInto :: copier where
  "Interface_MemIFParms_DeepCopyInto = copyStruct []"

definition Interface_MemIFParms_DeepCopy :: copier where
  "Interface_MemIFParms_DeepCopy = copyPtr Interface_MemIFParms_DeepCopyInto"

lemma Interface_MemIFParms_flat [simp]: "flat Interface_MemIFParms_shape"
  by (simp add: Interface_MemIFParms_shape_def)

lemma Interface_MemIFParms_deep [simp]: "deep Interface_MemIFParms_shape Interface_MemIFParms_DeepCopyInto"
  unfolding Interface_MemIFParms_shape_def Interface_MemIFParms_DeepCopyInto_def by (rule deep_structI) simp_all

definition Interface_shape :: gtype where
  "Interface_shape = YStruct
    [(''Name'', YPrim), (''BypassRenderer'', YPrim), (''IfType'', YPrim), (''MacAddress'', YPrim),
     (''Mtu'', YPrim), (''RxMode'', YPrim), (''IpAddresses'', YSlice YPrim),
     (''IpamPoolNames'', YSlice YPrim), (''AdminStatus'', YPrim),
     (''MemifParms'', YPtr Interface_MemIFParms_shape), (''TapParms'', YNil), (''Labels'', YSlice YPrim),
     (''Parent'', YPrim), (''HostPortLabel'', YPrim), (''Fwd'', YNil), (''LinuxNamespace'', YNil),
     (''RxPlacementSettings'', YNil), (''XXX_NoUnkeyedLiteral'', YStruct []), (''XXX_unrecognized'', YNil),
     (''XXX_sizecache'', YPrim)]"

definition Interface_DeepCopyInto :: copier where
  "Interface_DeepCopyInto = copyStruct
    [(''IpAddresses'', copySlice shallow), (''IpamPoolNames'', copySlice shallow),
     (''MemifParms'', copyPtr shallow), (''Labels'', copySlice shallow)]"

definition Interface_DeepCopy :: copier where
  "Interface_DeepCopy = copyPtr Interface_DeepCopyInto"

lemma Interface_deep [simp]: "deep Interface_shape Interface_DeepCopyInto"
  unfolding Interface_shape_def Interface_DeepCopyInto_def by (rule deep_structI) simp_all

text \<open>Services.\<close>

definition NetworkPodSpec_shape :: gtype where
  "NetworkPodSpec_shape = YStruct
    [(''PodType'', YPrim), (''Interfaces'', YSlice (YPtr Interface_shape)),
     (''L2Bds'', YSlice (YPtr L2BD_shape)), (''XXX_NoUnkeyedLiteral'', YStruct []),
     (''XXX_unrecognized'', YNil), (''XXX_sizecache'', YPrim)]"

definition NetworkPodSpec_DeepCopyInto :: copier where
  "NetworkPodSpec_DeepCopyInto = copyStruct
    [(''Interfaces'', copySlice (copyPtr Interface_DeepCopyInto)),
     (''L2Bds'', copySlice (copyPtr L2BD_DeepCopyInto))]"

definition NetworkPodSpec_DeepCopy :: copier where
  "NetworkPodSpec_DeepCopy = copyPtr NetworkPodSpec_DeepCopyInto"

lemma NetworkPodSpec_deep [simp]: "deep NetworkPodSpec_shape NetworkPodSpec_DeepCopyInto"
  unfolding NetworkPodSpec_shape_def NetworkPodSpec_DeepCopyInto_def by (rule deep_structI) simp_all

definition NetworkPod_shape :: gtype where
  "NetworkPod_shape = YStruct
    [(''Metadata'', YPtr MetaDataType_shape), (''Spec'', YPtr NetworkPodSpec_shape),
     (''XXX_NoUnkeyedLiteral'', YStruct []), (''XXX_unrecognized'', YNil), (''XXX_sizecache'', YPrim)]"

definition NetworkPod_DeepCopyInto :: copier where
  "NetworkPod_DeepCopyInto = copyStruct
    [(''Metadata'', copyPtr MetaDataType_DeepCopyInto), (''Spec'', copyPtr NetworkPodSpec_DeepCopyInto)]"

definition NetworkPod_DeepCopy :: copier where
  "NetworkPod_DeepCopy = copyPtr NetworkPod_DeepCopyInto"

lemma NetworkPod_deep [simp]: "deep NetworkPod_shape NetworkPod_DeepCopyInto"
  unfolding NetworkPod_shape_def NetworkPod_DeepCopyInto_def by (rule deep_structI) simp_all

definition Connection_shape :: gtype where
  "Connection_shape = YStruct
    [(''Name'', YPrim), (''ConnType'', YPrim), (''NetworkNodeOverlayName'', YPrim),
     (''PodInterfaces'', YSlice YPrim), (''NodeInterfaces'', YSlice YPrim),
     (''NodeInterfaceLabels'', YSlice YPrim), (''UseNodeL2Bd'', YPrim), (''L2Bd'', YPtr L2BD_shape),
     (''VrfId'', YPrim), (''ConnMethod'', YPrim), (''XXX_NoUnkeyedLiteral'', YStruct []),
     (''XXX_unrecognized'', YNil), (''XXX_sizecache'', YPrim)]"

definition Connection_DeepCopyInto :: copier where
  "Connection_DeepCopyInto = copyStruct
    [(''PodInterfaces'', copySlice shallow), (''NodeInterfaces'', copySlice shallow),
     (''NodeInterfaceLabels'', copySlice shallow), (''L2Bd'', copyPtr L2BD_DeepCopyInto)]"

definition Connection_DeepCopy :: copier where
  "Connection_DeepCopy = copyPtr Connection_DeepCopyInto"

lemma Connection_deep [simp]: "deep Connection_shape Connection_DeepCopyInto"
  unfolding Connection_shape_def Connection_DeepCopyInto_def by (rule deep_structI) simp_all

definition NetworkServiceStatus_shape :: gtype where
  "NetworkServiceStatus_shape = YStruct
    [(''OperStatus'', YPrim), (''Msg'', YSlice YPrim),
     (''RenderedVppAgentEntries'', YMap (YPtr RenderedVppAgentEntry_shape)),
     (''Interfaces'', YMap (YPtr InterfaceStatus_shape)), (''XXX_NoUnkeyedLiteral'', YStruct []),
     (''XXX_unrecognized'', YNil), (''XXX_sizecache'', YPrim)]"

definition NetworkServiceStatus_DeepCopyInto :: copier where
  "NetworkServiceStatus_DeepCopyInto = copyStruct
    [(''Msg'', copySlice shallow),
     (''RenderedVppAgentEntries'', copyMap (copyPtr RenderedVppAgentEntry_DeepCopyInto)),
     (''Interfaces'', copyMap (copyPtr InterfaceStatus_DeepCopyInto))]"

definition NetworkServiceStatus_DeepCopy :: copier where
  "NetworkServiceStatus_DeepCopy = copyPtr NetworkServiceStatus_DeepCopyInto"

lemma NetworkServiceStatus_deep [simp]: "deep NetworkServiceStatus_shape NetworkServiceStatus_DeepCopyInto"
  unfolding NetworkServiceStatus_shape_def NetworkServiceStatus_DeepCopyInto_def by (rule deep_structI) simp_all

definition NetworkServiceSpec_shape :: gtype where
  "NetworkServiceSpec_shape = YStruct
    [(''NetworkPods'', YSlice (YPtr NetworkPod_shape)), (''Connections'', YSlice (YPtr Connection_shape)),
     (''XXX_NoUnkeyedLiteral'', YStruct []), (''XXX_unrecognized'', YNil), (''XXX_sizecache'', YPrim)]"

definition NetworkServiceSpec_DeepCopyInto :: copier where
  "NetworkServiceSpec_DeepCopyInto = copyStruct
    [(''NetworkPods'', copySlice (copyPtr NetworkPod_DeepCopyInto)),
     (''Connections'', copySlice (copyPtr Connection_DeepCopyInto))]"

definition NetworkServiceSpec_DeepCopy :: copier where
  "NetworkServiceSpec_DeepCopy = copyPtr NetworkServiceSpec_DeepCopyInto"

lemma NetworkServiceSpec_deep [simp]: "deep NetworkServiceSpec_shape NetworkServiceSpec_DeepCopyInto"
  unfolding NetworkServiceSpec_shape_def NetworkServiceSpec_DeepCopyInto_def by (rule deep_structI) simp_all

definition NetworkService_shape :: gtype where
  "NetworkService_shape = YStruct
    [(''Metadata'', YPtr MetaDataType_shape), (''Spec'', YPtr NetworkServiceSpec_shape),
     (''Status'', YPtr NetworkServiceStatus_shape), (''XXX_NoUnkeyedLiteral'', YStruct []),
     (''XXX_unrecognized'', YNil), (''XXX_sizecache'', YPrim)]"

definition NetworkService_DeepCopyInto :: copier where
  "NetworkService_DeepCopyInto = copyStruct
    [(''Metadata'', copyPtr MetaDataType_DeepCopyInto), (''Spec'', copyPtr NetworkServiceSpec_DeepCopyInto),
     (''Status'', copyPtr NetworkServiceStatus_DeepCopyInto)]"

definition NetworkService_DeepCopy :: copier where
  "NetworkService_DeepCopy = copyPtr NetworkService_DeepCopyInto"

lemma NetworkService_deep [simp]: "deep NetworkService_shape NetworkService_DeepCopyInto"
  unfolding NetworkService_shape_def NetworkService_DeepCopyInto_def by (rule deep_structI) simp_all

text \<open>Overlays.\<close>

definition NetworkNodeOverlayStatus_shape :: gtype where
  "NetworkNodeOverlayStatus_shape = YStruct
    [(''Status'', YPrim), (''Msg'', YSlice YPrim),
     (''RenderedVppAgentEntries'', YMap (YPtr RenderedVppAgentEntry_shape)),
     (''XXX_NoUnkeyedLiteral'', YStruct []), (''XXX_unrecognized'', YNil), (''XXX_sizecache'', YPrim)]"

definition NetworkNodeOverlayStatus_DeepCopyInto :: copier where
  "NetworkNodeOverlayStatus_DeepCopyInto = copyStruct
    [(''Msg'', copySlice shallow),
     (''RenderedVppAgentEntries'', copyMap (copyPtr RenderedVppAgentEntry_DeepCopyInto))]"

definition NetworkNodeOverlayStatus_DeepCopy :: copier where
  "NetworkNodeOverlayStatus_DeepCopy = copyPtr NetworkNodeOverlayStatus_DeepCopyInto"

lemma NetworkNodeOverlayStatus_deep [simp]: "deep NetworkNodeOverlayStatus_shape NetworkNodeOverlayStatus_DeepCopyInto"
  unfolding NetworkNodeOverlayStatus_shape_def NetworkNodeOverlayStatus_DeepCopyInto_def by (rule deep_structI) simp_all

definition NetworkNodeOverlaySpec_VxlanHubAndSpokeParms_shape :: gtype where
  "NetworkNodeOverlaySpec_VxlanHubAndSpokeParms_shape = YStruct
    [(''HubNodeName'', YPrim), (''Vni'', YPrim), (''LoopbackIpamPoolName'', YPrim),
     (''CreateLoopbackInterface'', YPrim), (''CreateLoopbackStaticRoutes'', YPrim),
     (''NetworkNodeInterfaceLabel'', YPrim), (''XXX_NoUnkeyedLiteral'', YStruct []),
     (''XXX_unrecognized'', YNil), (''XXX_sizecache'', YPrim)]"

definition NetworkNodeOverlaySpec_VxlanHubAndSpokeParms_DeepCopyInto :: copier where
  "NetworkNodeOverlaySpec_VxlanHubAndSpokeParms_DeepCopyInto = copyStruct []"

definition NetworkNodeOverlaySpec_VxlanHubAndSpokeParms_DeepCopy :: copier where
  "NetworkNodeOverlaySpec_VxlanHubAndSpokeParms_DeepCopy = copyPtr NetworkNodeOverlaySpec_VxlanHubAndSpokeParms_DeepCopyInto"

lemma NetworkNodeOverlaySpec_VxlanHubAndSpokeParms_flat [simp]: "flat NetworkNodeOverlaySpec_VxlanHubAndSpokeParms_shape"
  by (simp add: NetworkNodeOverlaySpec_VxlanHubAndSpokeParms_shape_def)

lemma NetworkNodeOverlaySpec_VxlanHubAndSpokeParms_deep [simp]: "deep NetworkNodeOverlaySpec_VxlanHubAndSpokeParms_shape NetworkNodeOverlaySpec_VxlanHubAndSpokeParms_DeepCopyInto"
  unfolding NetworkNodeOverlaySpec_VxlanHubAndSpokeParms_shape_def NetworkNodeOverlaySpec_VxlanHubAndSpokeParms_DeepCopyInto_def by (rule deep_structI) simp_all

definition NetworkNodeOverlaySpec_VxlanMeshParms_shape :: gtype where
  "NetworkNodeOverlaySpec_VxlanMeshParms_shape = YStruct
    [(''VniRangeStart'', YPrim), (''VniRangeEnd'', YPrim), (''LoopbackIpamPoolName'', YPrim),
     (''CreateLoopbackInterface'', YPrim), (''CreateLoopbackStaticRoutes'', YPrim),
     (''NetworkNodeInterfaceLabel'', YPrim), (''XXX_NoUnkeyedLiteral'', YStruct []),
     (''XXX_unrecognized'', YNil), (''XXX_sizecache'', YPrim)]"

definition NetworkNodeOverlaySpec_VxlanMeshParms_DeepCopyInto :: copier where
  "NetworkNodeOverlaySpec_VxlanMeshParms_DeepCopyInto = copyStruct []"

definition NetworkNodeOverlaySpec_VxlanMeshParms_DeepCopy :: copier where
  "NetworkNodeOverlaySpec_VxlanMeshParms_DeepCopy = copyPtr NetworkNodeOverlaySpec_VxlanMeshParms_DeepCopyInto"

lemma NetworkNodeOverlaySpec_VxlanMeshParms_flat [simp]: "flat NetworkNodeOverlaySpec_VxlanMeshParms_shape"
  by (simp add: NetworkNodeOverlaySpec_VxlanMeshParms_shape_def)

lemma NetworkNodeOverlaySpec_VxlanMeshParms_deep [simp]: "deep NetworkNodeOverlaySpec_VxlanMeshParms_shape NetworkNodeOverlaySpec_VxlanMeshParms_DeepCopyInto"
  unfolding NetworkNodeOverlaySpec_VxlanMeshParms_shape_def NetworkNodeOverlaySpec_VxlanMeshParms_DeepCopyInto_def by (rule deep_structI) simp_all

definition NetworkNodeOverlaySpec_shape :: gtype where
  "NetworkNodeOverlaySpec_shape = YStruct
    [(''ServiceMeshType'', YPrim), (''ConnectionType'', YPrim),
     (''VxlanHubAndSpokeParms'', YPtr NetworkNodeOverlaySpec_VxlanHubAndSpokeParms_shape),
     (''VxlanMeshParms'', YPtr NetworkNodeOverlaySpec_VxlanMeshParms_shape),
     (''XXX_NoUnkeyedLiteral'', YStruct []), (''XXX_unrecognized'', YNil), (''XXX_sizecache'', YPrim)]"

definition NetworkNodeOverlaySpec_DeepCopyInto :: copier where
  "NetworkNodeOverlaySpec_DeepCopyInto = copyStruct
    [(''VxlanHubAndSpokeParms'', copyPtr shallow), (''VxlanMeshParms'', copyPtr shallow)]"

definition NetworkNodeOverlaySpec_DeepCopy :: copier where
  "NetworkNodeOverlaySpec_DeepCopy = copyPtr NetworkNodeOverlaySpec_DeepCopyInto"

lemma NetworkNodeOverlaySpec_deep [simp]: "deep NetworkNodeOverlaySpec_shape NetworkNodeOverlaySpec_DeepCopyInto"
  unfolding NetworkNodeOverlaySpec_shape_def NetworkNodeOverlaySpec_DeepCopyInto_def by (rule deep_structI) simp_all

definition NetworkNodeOverlay_shape :: gtype where
  "NetworkNodeOverlay_shape = YStruct
    [(''Metadata'', YPtr MetaDataType_shape), (''Spec'', YPtr NetworkNodeOverlaySpec_shape),
     (''Status'', YPtr NetworkNodeOverlayStatus_shape), (''XXX_NoUnkeyedLiteral'', YStruct []),
     (''XXX_unrecognized'', YNil), (''XXX_sizecache'', YPrim)]"

definition NetworkNodeOverlay_DeepCopyInto :: copier where
  "NetworkNodeOverlay_DeepCopyInto = copyStruct
    [(''Metadata'', copyPtr MetaDataType_DeepCopyInto),
     (''Spec'', copyPtr NetworkNodeOverlaySpec_DeepCopyInto),
     (''Status'', copyPtr NetworkNodeOverlayStatus_DeepCopyInto)]"

definition NetworkNodeOverlay_DeepCopy :: copier where
  "NetworkNodeOverlay_DeepCopy = copyPtr NetworkNodeOverlay_DeepCopyInto"

lemma NetworkNodeOverlay_deep [simp]: "deep NetworkNodeOverlay_shape NetworkNodeOverlay_DeepCopyInto"
  unfolding NetworkNodeOverlay_shape_def NetworkNodeOverlay_DeepCopyInto_def by (rule deep_structI) simp_all

text \<open>Nodes.\<close>

definition NetworkNodeSpec_shape :: gtype where
  "NetworkNodeSpec_shape = YStruct
    [(''K8SNodeName'', YPrim), (''NodeType'', YPrim), (''Interfaces'', YSlice (YPtr Interface_shape)),
     (''L2Bds'', YSlice (YPtr L2BD_shape)), (''XXX_NoUnkeyedLiteral'', YStruct []),
     (''XXX_unrecognized'', YNil), (''XXX_sizecache'', YPrim)]"

definition NetworkNodeSpec_DeepCopyInto :: copier where
  "NetworkNodeSpec_DeepCopyInto = copyStruct
    [(''Interfaces'', copySlice (copyPtr Interface_DeepCopyInto)),
     (''L2Bds'', copySlice (copyPtr L2BD_DeepCopyInto))]"

definition NetworkNodeSpec_DeepCopy :: copier where
  "NetworkNodeSpec_DeepCopy = copyPtr NetworkNodeSpec_DeepCopyInto"

lemma NetworkNodeSpec_deep [simp]: "deep NetworkNodeSpec_shape NetworkNodeSpec_DeepCopyInto"
  unfolding NetworkNodeSpec_shape_def NetworkNodeSpec_DeepCopyInto_def by (rule deep_structI) simp_all

definition NetworkNodeStatus_shape :: gtype where
  "NetworkNodeStatus_shape = YStruct
    [(''Status'', YPrim), (''Msg'', YSlice YPrim),
     (''RenderedVppAgentEntries'', YMap (YPtr RenderedVppAgentEntry_shape)),
     (''Interfaces'', YMap (YPtr InterfaceStatus_shape)), (''XXX_NoUnkeyedLiteral'', YStruct []),
     (''XXX_unrecognized'', YNil), (''XXX_sizecache'', YPrim)]"

definition NetworkNodeStatus_DeepCopyInto :: copier where
  "NetworkNodeStatus_DeepCopyInto = copyStruct
    [(''Msg'', copySlice shallow),
     (''RenderedVppAgentEntries'', copyMap (copyPtr RenderedVppAgentEntry_DeepCopyInto)),
     (''Interfaces'', copyMap (copyPtr InterfaceStatus_DeepCopyInto))]"

definition NetworkNodeStatus_DeepCopy :: copier where
  "NetworkNodeStatus_DeepCopy = copyPtr NetworkNodeStatus_DeepCopyInto"

lemma NetworkNodeStatus_deep [simp]: "deep NetworkNodeStatus_shape NetworkNodeStatus_DeepCopyInto"
  unfolding NetworkNodeStatus_shape_def NetworkNodeStatus_DeepCopyInto_def by (rule deep_structI) simp_all

definition NetworkNode_shape :: gtype where
  "NetworkNode_shape = YStruct
    [(''Metadata'', YPtr MetaDataType_shape), (''Spec'', YPtr NetworkNodeSpec_shape),
     (''Status'', YPtr NetworkNodeStatus_shape), (''XXX_NoUnkeyedLiteral'', YStruct []),
     (''XXX_unrecognized'', YNil), (''XXX_sizecache'', YPrim)]"

definition NetworkNode_DeepCopyInto :: copier where
  "NetworkNode_DeepCopyInto = copyStruct
    [(''Metadata'', copyPtr MetaDataType_DeepCopyInto), (''Spec'', copyPtr NetworkNodeSpec_DeepCopyInto),
     (''Status'', copyPtr NetworkNodeStatus_DeepCopyInto)]"

definition NetworkNode_DeepCopy :: copier where
  "NetworkNode_DeepCopy = copyPtr NetworkNode_DeepCopyInto"

lemma NetworkNode_deep [simp]: "deep NetworkNode_shape NetworkNode_DeepCopyInto"
  unfolding NetworkNode_shape_def NetworkNode_DeepCopyInto_def by (rule deep_structI) simp_all

end
