(* ===== verification/CrdCopy.thy ===== *)
theory CrdCopy
  imports ModelCopy
begin

text \<open>
  The copies of the custom resources (\<open>zz_generated.deepcopy.go\<close> of \<open>sfccontroller/v1alpha1\<close>), which the
  handlers of \<open>plugins/k8scrd\<close> take before they change an object of the informer's cache, and the
  copies of the metadata of Kubernetes they call.
\<close>

text \<open>The metadata of Kubernetes objects, which the copies of custom resources call.  A \<open>Time\<close> is copied by
  assignment: it is immutable.\<close>

definition meta_TypeMeta_shape :: gtype where
  "meta_TypeMeta_shape = YStruct
    [(''Kind'', YPrim), (''APIVersion'', YPrim)]"

lemma meta_TypeMeta_flat [simp]: "flat meta_TypeMeta_shape"
  by (simp add: meta_TypeMeta_shape_def)

definition meta_ListMeta_shape :: gtype where
  "meta_ListMeta_shape = YStruct
    [(''SelfLink'', YPrim), (''ResourceVersion'', YPrim), (''Continue'', YPrim)]"

definition meta_ListMeta_DeepCopyInto :: copier where
  "meta_ListMeta_DeepCopyInto = copyStruct []"

lemma meta_ListMeta_flat [simp]: "flat meta_ListMeta_shape"
  by (simp add: meta_ListMeta_shape_def)

lemma meta_ListMeta_deep [simp]: "deep meta_ListMeta_shape meta_ListMeta_DeepCopyInto"
  unfolding meta_ListMeta_shape_def meta_ListMeta_DeepCopyInto_def by (rule deep_structI) simp_all

definition meta_StatusCause_shape :: gtype where
  "meta_StatusCause_shape = YStruct
    [(''Type'', YPrim), (''Message'', YPrim), (''Field'', YPrim)]"

definition meta_StatusCause_DeepCopyInto :: copier where
  "meta_StatusCause_DeepCopyInto = copyStruct []"

lemma meta_StatusCause_flat [simp]: "flat meta_StatusCause_shape"
  by (simp add: meta_StatusCause_shape_def)

lemma meta_StatusCause_deep [simp]: "deep meta_StatusCause_shape meta_StatusCause_DeepCopyInto"
  unfolding meta_StatusCause_shape_def meta_StatusCause_DeepCopyInto_def by (rule deep_structI) simp_all

definition meta_StatusDetails_shape :: gtype where
  "meta_StatusDetails_shape = YStruct
    [(''Name'', YPrim), (''Group'', YPrim), (''Kind'', YPrim), (''UID'', YPrim),
     (''Causes'', YSlice meta_StatusCause_shape), (''RetryAfterSeconds'', YPrim)]"

definition meta_StatusDetails_DeepCopyInto :: copier where
  "meta_StatusDetails_DeepCopyInto = copyStruct
    [(''Causes'', copySlice shallow)]"

lemma meta_StatusDetails_deep [simp]: "deep meta_StatusDetails_shape meta_StatusDetails_DeepCopyInto"
  unfolding meta_StatusDetails_shape_def meta_StatusDetails_DeepCopyInto_def by (rule deep_structI) simp_all

definition meta_Status_shape :: gtype where
  "meta_Status_shape = YStruct
    [(''TypeMeta'', meta_TypeMeta_shape), (''ListMeta'', meta_ListMeta_shape), (''Status'', YPrim),
     (''Message'', YPrim), (''Reason'', YPrim), (''Details'', YPtr meta_StatusDetails_shape),
     (''Code'', YPrim)]"

definition meta_Status_DeepCopyInto :: copier where
  "meta_Status_DeepCopyInto = copyStruct
    [(''TypeMeta'', shallow), (''ListMeta'', shallow), (''Details'', copyPtr meta_StatusDetails_DeepCopyInto)]"

lemma meta_Status_deep [simp]: "deep meta_Status_shape meta_Status_DeepCopyInto"
  unfolding meta_Status_shape_def meta_Status_DeepCopyInto_def by (rule deep_structI) simp_all

definition meta_Initializer_shape :: gtype where
  "meta_Initializer_shape = YStruct
    [(''Name'', YPrim)]"

definition meta_Initializer_DeepCopyInto :: copier where
  "meta_Initializer_DeepCopyInto = copyStruct []"

lemma meta_Initializer_flat [simp]: "flat meta_Initializer_shape"
  by (simp add: meta_Initializer_shape_def)

lemma meta_Initializer_deep [simp]: "deep meta_Initializer_shape meta_Initializer_DeepCopyInto"
  unfolding meta_Initializer_shape_def meta_Initializer_DeepCopyInto_def by (rule deep_structI) simp_all

definition meta_Initializers_shape :: gtype where
  "meta_Initializers_shape = YStruct
    [(''Pending'', YSlice meta_Initializer_shape), (''Result'', YPtr meta_Status_shape)]"

definition meta_Initializers_DeepCopyInto :: copier where
  "meta_Initializers_DeepCopyInto = copyStruct
    [(''Pending'', copySlice shallow), (''Result'', copyPtr meta_Status_DeepCopyInto)]"

lemma meta_Initializers_deep [simp]: "deep meta_Initializers_shape meta_Initializers_DeepCopyInto"
  unfolding meta_Initializers_shape_def meta_Initializers_DeepCopyInto_def by (rule deep_structI) simp_all

definition meta_OwnerReference_shape :: gtype where
  "meta_OwnerReference_shape = YStruct
    [(''APIVersion'', YPrim), (''Kind'', YPrim), (''Name'', YPrim), (''UID'', YPrim),
     (''Controller'', YPtr YPrim), (''BlockOwnerDeletion'', YPtr YPrim)]"

definition meta_OwnerReference_DeepCopyInto :: copier where
  "meta_OwnerReference_DeepCopyInto = copyStruct
    [(''Controller'', copyPtr shallow), (''BlockOwnerDeletion'', copyPtr shallow)]"

lemma meta_OwnerReference_deep [simp]: "deep meta_OwnerReference_shape meta_OwnerReference_DeepCopyInto"
  unfolding meta_OwnerReference_shape_def meta_OwnerReference_DeepCopyInto_def by (rule deep_structI) simp_all

definition meta_ObjectMeta_shape :: gtype where
  "meta_ObjectMeta_shape = YStruct
    [(''Name'', YPrim), (''GenerateName'', YPrim), (''Namespace'', YPrim), (''SelfLink'', YPrim),
     (''UID'', YPrim), (''ResourceVersion'', YPrim), (''Generation'', YPrim), (''CreationTimestamp'', YPrim),
     (''DeletionTimestamp'', YPtr YPrim), (''DeletionGracePeriodSeconds'', YPtr YPrim),
     (''Labels'', YMap YPrim), (''Annotations'', YMap YPrim),
     (''OwnerReferences'', YSlice meta_OwnerReference_shape),
     (''Initializers'', YPtr meta_Initializers_shape), (''Finalizers'', YSlice YPrim),
     (''ClusterName'', YPrim)]"

definition meta_ObjectMeta_DeepCopyInto :: copier where
  "meta_ObjectMeta_DeepCopyInto = copyStruct
    [(''CreationTimestamp'', shallow), (''DeletionTimestamp'', copyPtr shallow),
     (''DeletionGracePeriodSeconds'', copyPtr shallow), (''Labels'', copyMap shallow),
     (''Annotations'', copyMap shallow), (''OwnerReferences'', copySlice meta_OwnerReference_DeepCopyInto),
     (''Initializers'', copyPtr meta_Initializers_DeepCopyInto), (''Finalizers'', copySlice shallow)]"

lemma meta_ObjectMeta_deep [simp]: "deep meta_ObjectMeta_shape meta_ObjectMeta_DeepCopyInto"
  unfolding meta_ObjectMeta_shape_def meta_ObjectMeta_DeepCopyInto_def by (rule deep_structI) simp_all

text \<open>The custom resources and their lists.\<close>

definition crd_IpamPool_shape :: gtype where
  "crd_IpamPool_shape = YStruct
    [(''TypeMeta'', meta_TypeMeta_shape), (''ObjectMeta'', meta_ObjectMeta_shape),
     (''IPAMPoolSpec'', IPAMPoolSpec_shape), (''IPAMPoolStatus'', IPAMPoolStatus_shape)]"

definition crd_IpamPool_DeepCopyInto :: copier where
  "crd_IpamPool_DeepCopyInto = copyStruct
    [(''TypeMeta'', shallow), (''ObjectMeta'', meta_ObjectMeta_DeepCopyInto), (''IPAMPoolSpec'', shallow),
     (''IPAMPoolStatus'', IPAMPoolStatus_DeepCopyInto)]"

definition crd_IpamPool_DeepCopy :: copier where
  "crd_IpamPool_DeepCopy = copyPtr crd_IpamPool_DeepCopyInto"

definition crd_IpamPool_DeepCopyObject :: copier where
  "crd_IpamPool_DeepCopyObject = copyObject crd_IpamPool_DeepCopy"

lemma crd_IpamPool_deep [simp]: "deep crd_IpamPool_shape crd_IpamPool_DeepCopyInto"
  unfolding crd_IpamPool_shape_def crd_IpamPool_DeepCopyInto_def by (rule deep_structI) simp_all

definition crd_IpamPoolList_shape :: gtype where
  "crd_IpamPoolList_shape = YStruct
    [(''TypeMeta'', meta_TypeMeta_shape), (''ListMeta'', meta_ListMeta_shape),
     (''Items'', YSlice crd_IpamPool_shape)]"

definition crd_IpamPoolList_DeepCopyInto :: copier where
  "crd_IpamPoolList_DeepCopyInto = copyStruct
    [(''TypeMeta'', shallow), (''ListMeta'', shallow), (''Items'', copySlice crd_IpamPool_DeepCopyInto)]"

definition crd_IpamPoolList_DeepCopy :: copier where
  "crd_IpamPoolList_DeepCopy = copyPtr crd_IpamPoolList_DeepCopyInto"

definition crd_IpamPoolList_DeepCopyObject :: copier where
  "crd_IpamPoolList_DeepCopyObject = copyObject crd_IpamPoolList_DeepCopy"

lemma crd_IpamPoolList_deep [simp]: "deep crd_IpamPoolList_shape crd_IpamPoolList_DeepCopyInto"
  unfolding crd_IpamPoolList_shape_def crd_IpamPoolList_DeepCopyInto_def by (rule deep_structI) simp_all

definition crd_NetworkNode_shape :: gtype where
  "crd_NetworkNode_shape = YStruct
    [(''TypeMeta'', meta_TypeMeta_shape), (''ObjectMeta'', meta_ObjectMeta_shape),
     (''NetworkNodeSpec'', NetworkNodeSpec_shape), (''NetworkNodeStatus'', NetworkNodeStatus_shape)]"

definition crd_NetworkNode_DeepCopyInto :: copier where
  "crd_NetworkNode_DeepCopyInto = copyStruct
    [(''TypeMeta'', shallow), (''ObjectMeta'', meta_ObjectMeta_DeepCopyInto),
     (''NetworkNodeSpec'', NetworkNodeSpec_DeepCopyInto),
     (''NetworkNodeStatus'', NetworkNodeStatus_DeepCopyInto)]"

definition crd_NetworkNode_DeepCopy :: copier where
  "crd_NetworkNode_DeepCopy = copyPtr crd_NetworkNode_DeepCopyInto"

definition crd_NetworkNode_DeepCopyObject :: copier where
  "crd_NetworkNode_DeepCopyObject = copyObject crd_NetworkNode_DeepCopy"

lemma crd_NetworkNode_deep [simp]: "deep crd_NetworkNode_shape crd_NetworkNode_DeepCopyInto"
  unfolding crd_NetworkNode_shape_def crd_NetworkNode_DeepCopyInto_def by (rule deep_structI) simp_all

definition crd_NetworkNodeList_shape :: gtype where
  "crd_NetworkNodeList_shape = YStruct
    [(''TypeMeta'', meta_TypeMeta_shape), (''ListMeta'', meta_ListMeta_shape),
     (''Items'', YSlice crd_NetworkNode_shape)]"

definition crd_NetworkNodeList_DeepCopyInto :: copier where
  "crd_NetworkNodeList_DeepCopyInto = copyStruct
    [(''TypeMeta'', shallow), (''ListMeta'', shallow), (''Items'', copySlice crd_NetworkNode_DeepCopyInto)]"

definition crd_NetworkNodeList_DeepCopy :: copier where
  "crd_NetworkNodeList_DeepCopy = copyPtr crd_NetworkNodeList_DeepCopyInto"

definition crd_NetworkNodeList_DeepCopyObject :: copier where
  "crd_NetworkNodeList_DeepCopyObject = copyObject crd_NetworkNodeList_DeepCopy"

lemma crd_NetworkNodeList_deep [simp]: "deep crd_NetworkNodeList_shape crd_NetworkNodeList_DeepCopyInto"
  unfolding crd_NetworkNodeList_shape_def crd_NetworkNodeList_DeepCopyInto_def by (rule deep_structI) simp_all

definition crd_NetworkNodeOverlay_shape :: gtype where
  "crd_NetworkNodeOverlay_shape = YStruct
    [(''TypeMeta'', meta_TypeMeta_shape), (''ObjectMeta'', meta_ObjectMeta_shape),
     (''NetworkNodeOverlaySpec'', NetworkNodeOverlaySpec_shape),
     (''NetworkNodeOverlayStatus'', NetworkNodeOverlayStatus_shape)]"

definition crd_NetworkNodeOverlay_DeepCopyInto :: copier where
  "crd_NetworkNodeOverlay_DeepCopyInto = copyStruct
    [(''TypeMeta'', shallow), (''ObjectMeta'', meta_ObjectMeta_DeepCopyInto),
     (''NetworkNodeOverlaySpec'', NetworkNodeOverlaySpec_DeepCopyInto),
     (''NetworkNodeOverlayStatus'', NetworkNodeOverlayStatus_DeepCopyInto)]"

definition crd_NetworkNodeOverlay_DeepCopy :: copier where
  "crd_NetworkNodeOverlay_DeepCopy = copyPtr crd_NetworkNodeOverlay_DeepCopyInto"

definition crd_NetworkNodeOverlay_DeepCopyObject :: copier where
  "crd_NetworkNodeOverlay_DeepCopyObject = copyObject crd_NetworkNodeOverlay_DeepCopy"

lemma crd_NetworkNodeOverlay_deep [simp]: "deep crd_NetworkNodeOverlay_shape crd_NetworkNodeOverlay_DeepCopyInto"
  unfolding crd_NetworkNodeOverlay_shape_def crd_NetworkNodeOverlay_DeepCopyInto_def by (rule deep_structI) simp_all

definition crd_NetworkNodeOverlayList_shape :: gtype where
  "crd_NetworkNodeOverlayList_shape = YStruct
    [(''TypeMeta'', meta_TypeMeta_shape), (''ListMeta'', meta_ListMeta_shape),
     (''Items'', YSlice crd_NetworkNodeOverlay_shape)]"

definition crd_NetworkNodeOverlayList_DeepCopyInto :: copier where
  "crd_NetworkNodeOverlayList_DeepCopyInto = copyStruct
    [(''TypeMeta'', shallow), (''ListMeta'', shallow),
     (''Items'', copySlice crd_NetworkNodeOverlay_DeepCopyInto)]"

definition crd_NetworkNodeOverlayList_DeepCopy :: copier where
  "crd_NetworkNodeOverlayList_DeepCopy = copyPtr crd_NetworkNodeOverlayList_DeepCopyInto"

definition crd_NetworkNodeOverlayList_DeepCopyObject :: copier where
  "crd_NetworkNodeOverlayList_DeepCopyObject = copyObject crd_NetworkNodeOverlayList_DeepCopy"

lemma crd_NetworkNodeOverlayList_deep [simp]: "deep crd_NetworkNodeOverlayList_shape crd_NetworkNodeOverlayList_DeepCopyInto"
  unfolding crd_NetworkNodeOverlayList_shape_def crd_NetworkNodeOverlayList_DeepCopyInto_def by (rule deep_structI) simp_all

definition crd_NetworkService_shape :: gtype where
  "crd_NetworkService_shape = YStruct
    [(''TypeMeta'', meta_TypeMeta_shape), (''ObjectMeta'', meta_ObjectMeta_shape),
     (''NetworkServiceSpec'', NetworkServiceSpec_shape),
     (''NetworkServiceStatus'', NetworkServiceStatus_shape)]"

definition crd_NetworkService_DeepCopyInto :: copier where
  "crd_NetworkService_DeepCopyInto = copyStruct
    [(''TypeMeta'', shallow), (''ObjectMeta'', meta_ObjectMeta_DeepCopyInto),
     (''NetworkServiceSpec'', NetworkServiceSpec_DeepCopyInto),
     (''NetworkServiceStatus'', NetworkServiceStatus_DeepCopyInto)]"

definition crd_NetworkService_DeepCopy :: copier where
  "crd_NetworkService_DeepCopy = copyPtr crd_NetworkService_DeepCopyInto"

definition crd_NetworkService_DeepCopyObject :: copier where
  "crd_NetworkService_DeepCopyObject = copyObject crd_NetworkService_DeepCopy"

lemma crd_NetworkService_deep [simp]: "deep crd_NetworkService_shape crd_NetworkService_DeepCopyInto"
  unfolding crd_NetworkService_shape_def crd_NetworkService_DeepCopyInto_def by (rule deep_structI) simp_all

definition crd_NetworkServiceList_shape :: gtype where
  "crd_NetworkServiceList_shape = YStruct
    [(''TypeMeta'', meta_TypeMeta_shape), (''ListMeta'', meta_ListMeta_shape),
     (''Items'', YSlice crd_NetworkService_shape)]"

definition crd_NetworkServiceList_DeepCopyInto :: copier where
  "crd_NetworkServiceList_DeepCopyInto = copyStruct
    [(''TypeMeta'', shallow), (''ListMeta'', shallow), (''Items'', copySlice crd_NetworkService_DeepCopyInto)]"

definition crd_NetworkServiceList_DeepCopy :: copier where
  "crd_NetworkServiceList_DeepCopy = copyPtr crd_NetworkServiceList_DeepCopyInto"

definition crd_NetworkServiceList_DeepCopyObject :: copier where
  "crd_NetworkServiceList_DeepCopyObject = copyObject crd_NetworkServiceList_DeepCopy"

lemma crd_NetworkServiceList_deep [simp]: "deep crd_NetworkServiceList_shape crd_NetworkServiceList_DeepCopyInto"
  unfolding crd_NetworkServiceList_shape_def crd_NetworkServiceList_DeepCopyInto_def by (rule deep_structI) simp_all

section \<open>What the handlers rely on\<close>

definition crd_copies :: "(gtype \<times> copier) list" where
  "crd_copies =
    [(crd_IpamPool_shape, crd_IpamPool_DeepCopy), (crd_IpamPoolList_shape, crd_IpamPoolList_DeepCopyObject),
     (crd_NetworkNode_shape, crd_NetworkNode_DeepCopy), (crd_NetworkNodeList_shape, crd_NetworkNodeList_DeepCopyObject),
     (crd_NetworkNodeOverlay_shape, crd_NetworkNodeOverlay_DeepCopy),
     (crd_NetworkNodeOverlayList_shape, crd_NetworkNodeOverlayList_DeepCopyObject),
     (crd_NetworkService_shape, crd_NetworkService_DeepCopy),
     (crd_NetworkServiceList_shape, crd_NetworkServiceList_DeepCopyObject)]"

lemmas crd_copy_defs = crd_IpamPool_DeepCopy_def crd_IpamPoolList_DeepCopyObject_def crd_IpamPoolList_DeepCopy_def
  crd_NetworkNode_DeepCopy_def crd_NetworkNodeList_DeepCopyObject_def crd_NetworkNodeList_DeepCopy_def
  crd_NetworkNodeOverlay_DeepCopy_def crd_NetworkNodeOverlayList_DeepCopyObject_def crd_NetworkNodeOverlayList_DeepCopy_def
  crd_NetworkService_DeepCopy_def crd_NetworkServiceList_DeepCopyObject_def crd_NetworkServiceList_DeepCopy_def

lemma crd_copies_deep: "(ty, f) \<in> set crd_copies \<Longrightarrow> deep (YPtr ty) f"
  by (auto simp: crd_copies_def crd_copy_defs)

text \<open>A pool of the informer's cache: its fields, the maps it points to, and the pool.\<close>

definition demo_meta :: gval where
  "demo_meta = GStruct
    [(''Name'', GPrim ''p1''), (''GenerateName'', GPrim []), (''Namespace'', GPrim ''default''), (''SelfLink'', GPrim []),
     (''UID'', GPrim []), (''ResourceVersion'', GPrim ''7''), (''Generation'', GPrim ''1''), (''CreationTimestamp'', GPrim ''0''),
     (''DeletionTimestamp'', GNil), (''DeletionGracePeriodSeconds'', GNil), (''Labels'', GRef 0), (''Annotations'', GNil),
     (''OwnerReferences'', GNil), (''Initializers'', GNil), (''Finalizers'', GNil), (''ClusterName'', GPrim [])]"

definition demo_pool_value :: gval where
  "demo_pool_value = GStruct
    [(''TypeMeta'', GStruct [(''Kind'', GPrim ''IpamPool''), (''APIVersion'', GPrim ''v1alpha1'')]),
     (''ObjectMeta'', demo_meta),
     (''IPAMPoolSpec'', GStruct [(''Scope'', GPrim ''system''), (''Network'', GPrim ''10.0.0.0/24''), (''StartRange'', GPrim ''0''),
        (''EndRange'', GPrim ''0''), (''XXX_NoUnkeyedLiteral'', GStruct []), (''XXX_unrecognized'', GNil), (''XXX_sizecache'', GPrim ''0'')]),
     (''IPAMPoolStatus'', GStruct [(''Addresses'', GRef 1), (''XXX_NoUnkeyedLiteral'', GStruct []), (''XXX_unrecognized'', GNil),
        (''XXX_sizecache'', GPrim ''0'')])]"

definition demo_heap :: gheap where
  "demo_heap = [CMap [(''app'', GPrim ''sfc'')], CMap [(''10.0.0.1'', GPrim ''vnf1'')], CVal demo_pool_value]"

lemma demo_pool_reads:
  obtains t A where "readv (YPtr crd_IpamPool_shape) demo_heap (GRef 2) = Some (t, A)" "set A = {0, 1, 2}"
proof -
  have "case readv (YPtr crd_IpamPool_shape) demo_heap (GRef 2) of
      Some (t, A) \<Rightarrow> A = [2, 0, 1]
    | None \<Rightarrow> False" by code_simp
  then show ?thesis using that by (force split: option.splits)
qed



section \<open>What the copy of an interface shares\<close>

lemma copyFields_other:
  "copyFields cs v out h = Some (out', h') \<Longrightarrow> g \<notin> fst ` set cs \<Longrightarrow> getField g out' = getField g out"
proof (induction cs arbitrary: out h)
  case (Cons x cs)
  obtain f c where x: "x = (f, c)" by (cases x)
  obtain w y h1 out1 where c: "getField f v = Some w" "c w h = Some (y, h1)" "setField f y out = Some out1"
    "copyFields cs v out1 h1 = Some (out', h')" using Cons.prems(1) x by (auto split: Option.bind_splits)
  have "getField g out' = getField g out1" by (rule Cons.IH [OF c(4)]) (use Cons.prems(2) in simp)
  also have "\<dots> = getField g out" using getField_setField [OF c(3), of g] Cons.prems(2) x by auto
  finally show ?case .
qed simp

definition demo_interface_value :: gval where
  "demo_interface_value = GStruct
    [(''IpAddresses'', GNil), (''IpamPoolNames'', GNil), (''MemifParms'', GNil), (''TapParms'', GRef 0), (''Labels'', GNil),
     (''Fwd'', GNil), (''LinuxNamespace'', GNil), (''RxPlacementSettings'', GNil)]"

text \<open>C20. The copy of an interface is not deep in the fields added after the copies were generated: the tap
  parameters, the forwarding entries, the Linux namespace and the placement settings of the copy are the
  pointers of the original, so that writing through one is seen through the other.\<close>

theorem interface_copy_shares:
  assumes "Interface_DeepCopyInto v h = Some (v', h')"
    and "f \<in> {''TapParms'', ''Fwd'', ''LinuxNamespace'', ''RxPlacementSettings'', ''XXX_unrecognized''}"
  shows "getField f v' = getField f v"
  by (rule copyFields_other [OF assms(1) [unfolded Interface_DeepCopyInto_def copyStruct_def]]) (use assms(2) in auto)

theorem interface_copy_shares_witness:
  "\<exists>v' h'. Interface_DeepCopyInto demo_interface_value [CVal (GStruct [])] = Some (v', h')
    \<and> getField ''TapParms'' v' = Some (GRef 0)"
proof -
  have "Interface_DeepCopyInto demo_interface_value [CVal (GStruct [])] \<noteq> None" by code_simp
  then obtain v' h' where r: "Interface_DeepCopyInto demo_interface_value [CVal (GStruct [])] = Some (v', h')" by auto
  have "getField ''TapParms'' v' = getField ''TapParms'' demo_interface_value" by (rule interface_copy_shares [OF r]) simp
  also have "\<dots> = Some (GRef 0)" by (simp add: demo_interface_value_def)
  finally show ?thesis using r by blast
qed

end
