(* ===== verification/Spec2Isabelle.thy ===== *)
theory Spec2Isabelle
  imports K8sCrd Restart Routes CrdCopy
begin

text \<open>
  A verification library for the sfc-controller, a network service controller that renders
  declarative descriptions of nodes, overlays and network services into configuration entries of
  vpp agents, which it stores in etcd (\<open>src/plugins/controller\<close>), and a plugin that feeds it from
  kubernetes custom resources (\<open>src/plugins/k8scrd\<close>).

  \<^bold>\<open>The program.\<close>  Six managers keep the configuration: system parameters, address pools, the map of
  pods to nodes, overlays, nodes and services.  REST handlers, watchers of etcd, the start-up file and the
  custom resources send messages to one loop, which hands each message to its manager
  (\<open>HandleCRUDOperationCU\<close>, \<open>HandleCRUDOperationD\<close>) and then, when rendering is enabled and a change is
  pending, runs a transaction: \<open>RenderTxnConfigStart\<close> copies the cached entries, every node and then
  every service is rendered into its own level, which is merged or thrown away as a whole, and
  \<open>RenderTxnConfigEnd\<close> writes to etcd what has changed and deletes what is gone.  Rendering takes
  interface addresses from pool allocators, tunnel addresses and VNIs from overlays, and MAC
  addresses and memif and VRF ids from counters, and records what it has taken in interface states, so
  that a later rendering takes the same.

  \<^bold>\<open>How it is modelled.\<close>  The state of the plugin is one record, \<open>Plugin\<close> (theory \<open>State\<close>): the ram
  cache, the caches of the managers, the two maps of the transaction and the log of all operations
  issued to etcd.  What etcd answers is a parameter, a function of that log, so that every theorem
  holds for any behaviour of etcd the statement does not exclude.  A Go map is an association list
  with its iteration order; 32-bit counters and ids are words; a panic, a nil dereference and
  \<open>os.Exit\<close> are \<open>None\<close>; an error is a value of a sum or an option.  All loops are structurally recursive
  or have a termination proof, so no definition needs fuel: what returns \<open>None\<close> panics in the
  program.  Handlers of rendering run in a state monad over the rendered object and the plugin
  (theory \<open>Render\<close>).

  \<^bold>\<open>The theories.\<close>
  \<^item> \<open>Prelude\<close>, \<open>GoStd\<close>: maps, loops, strings, decimal numbers, addresses and networks of Go's library.
  \<^item> \<open>Bitmap\<close>, \<open>IdApi\<close>, \<open>Ipam\<close> (\<open>idapi/\<close>): the bitmap refines a set; the allocators of VNIs, memif and VRF
    ids, MAC addresses and pool addresses hand out least or next free ids, never one twice, and fail
    exactly when there is none.  The locale \<open>id_allocator\<close> is their contract.
  \<^item> \<open>Model\<close> (\<open>model/\<close>): the messages of the data model.
  \<^item> \<open>VppAgent\<close> (\<open>vppagent/\<close>): keys, entries, their comparison and the constructors of agent objects.
  \<^item> \<open>State\<close> (\<open>database/\<close>): the plugin and its access to etcd.
  \<^item> \<open>RenderTxn\<close> (\<open>rendertxn.go\<close>): the transaction; it reconciles etcd with what was rendered.
  \<^item> \<open>Utils\<close>, \<open>SysParms\<close>, \<open>IpamPool\<close>, \<open>Interfaces\<close>, \<open>PodNodeMap\<close>, \<open>Overlays\<close>, \<open>Nodes\<close>, \<open>Services\<close>:
    one per file of the same name (\<open>networknodeoverlay.go\<close>, \<open>networknode.go\<close>, \<open>networkservice.go\<close>).
  \<^item> \<open>ServiceSteps\<close>, \<open>ServiceIfs\<close>, \<open>Tunnels\<close>, \<open>Connections\<close>, \<open>ServiceRender\<close>: the steps of rendering a
    service, interface pairs (\<open>networkservice_if.go\<close>), tunnels (\<open>networknodeoverlay_vxlan*.go\<close>), the four
    kinds of connections (\<open>networkservice_l*.go\<close>) and \<open>renderConfig\<close>.
  \<^item> \<open>RenderInv\<close>, \<open>ServiceInv\<close>: what every step of rendering keeps, and from it the outcome of rendering a
    node and a service: up, listing exactly what it contributed, or down, having contributed nothing.
  \<^item> \<open>Controller\<close>, \<open>ControllerInv\<close> (\<open>model_mgrs.go\<close>, \<open>plugin_impl_controller.go\<close>, \<open>sfc_config_yaml.go\<close>): the
    dispatch of messages, the loop as a step relation, the start of the plugin; the invariant of the loop.
  \<^item> \<open>HttpApi\<close>: the REST handlers and watchers of all managers.  The locale \<open>rest_resource\<close> is the contract of
    a resource, interpreted for five managers; a client reads what it has written.
  \<^item> \<open>WorkQueue\<close>, \<open>K8sCrd\<close> (\<open>client-go/util/workqueue\<close>, \<open>plugins/k8scrd\<close>): the work queue, the conversion of
    custom resources, the status that is written back, and the workers as a step relation with any
    interleaving.  The locale \<open>work_queue\<close> is the contract between the queue and the workers.
  \<^item> \<open>Deletion\<close>: deleting a rendered service takes back exactly what it has contributed.
  \<^item> \<open>Restart\<close>: what a start loads from etcd; the state it leaves is one the loop can begin with.
  \<^item> \<open>Routes\<close> (\<open>InitHTTPHandlers\<close>, \<open>vendor/github.com/gorilla/mux\<close>): the routes of the HTTP server, its router, the
    dump of the system, and the whole server from a URL and the bytes of a body to an answer.
  \<^item> \<open>DeepCopy\<close>, \<open>ModelCopy\<close>, \<open>CrdCopy\<close> (the \<open>zz_generated.deepcopy.go\<close> files): a store of pointers, slices and
    maps, the statements generated copies are made of, every copy of the model and of the custom
    resources, and that they are deep: same content, no shared memory.
  \<^item> This theory: the properties of the whole loop.

  \<^bold>\<open>What is shown.\<close>  The transaction reconciles (C1 to C4); the loop keeps the caches well-formed, accounts
  for every entry, stays in step with etcd and is never blocked (C5, C6, C9); rendering is all or
  nothing (C7, C8); a start leaves a state in which this holds and reloads what etcd stores (C10, C11), and
  deletion takes back exactly what was contributed (C12); the HTTP server and the custom resources reach
  their handlers, send well-typed messages, lose no change and do not write to shared memory, with two
  exceptions that are stated (C13 to C20); below, the allocators, pools, interfaces, keys and
  constructors that rendering relies on.  Properties named as errors show what the code does where that
  is not what it means to do.

  \<^bold>\<open>What is assumed.\<close>  The messages of the loop arrive one at a time, as the unbuffered channel delivers
  them.  Readers in other goroutines (REST and custom resources) see the state between two messages;
  their races with the loop are not modelled.  Objects of the controller are values: where the code
  changes a shared object through a pointer and something depends on it, the change is written out (the
  bridge domains of nodes, the interfaces of pods and nodes); the sharing of memory itself is the subject
  of \<open>DeepCopy\<close>.  Where a theorem speaks of a start, what etcd lists has the form rendering gives it
  (\<open>lists_ok\<close>); where it says so, etcd answers reads from what was written (\<open>honest_gets\<close>).

  \<^bold>\<open>Not modelled.\<close>  Decoding of JSON, YAML and protobuf (parameters: functions from bytes to an object or an
  error); flags, logging and status reports; creation of resource definitions and the start of
  informers; the generated getters, codecs, typed clients and informers, which are field accesses and
  wrappers of library calls; token authentication of the HTTP server; the main program.
\<close>

section \<open>A running controller\<close>

text \<open>A controller with an empty, reliable etcd, which is told to render and is then given a node.\<close>

definition demo_messages :: "(bool \<times> OperationalMsg) list" where
  "demo_messages =
    [(False, \<lparr>om_model = '''', om_opCode = OpCodeEnableRenderer, om_data = MNil\<rparr>),
     (False, \<lparr>om_model = ''network-node'', om_opCode = OpCodeCreateUpdate, om_data = MNode demo_node\<rparr>)]"

lemma fresh_plugin_ok: "plugin_ok (fresh_plugin env)" "accounted (fresh_plugin env)" "in_sync (fresh_plugin env)"
  by (simp_all add: fresh_plugin_def plugin_ok_def entries_ok_def accounted_def in_sync_def)

lemma demo_run:
  obtains ls where "ProcessOperationalMessages demo_messages (fresh_plugin good_env) = Some ls" "isRenderingEnabled ls"
    "gkeys (rc_VppEntries (ls_plugin ls)) = [InterfaceKey ''n1'' ''i1'']"
proof -
  have "(case ProcessOperationalMessages demo_messages (fresh_plugin good_env) of
      Some ls \<Rightarrow> isRenderingEnabled ls \<and> gkeys (rc_VppEntries (ls_plugin ls)) = [InterfaceKey ''n1'' ''i1'']
    | None \<Rightarrow> False)" by code_simp
  then show ?thesis using that by (auto split: option.splits)
qed

lemma demo_reachable:
  obtains ls where "loop_reachable (fresh_plugin good_env) ls" "isRenderingEnabled ls"
    "gkeys (rc_VppEntries (ls_plugin ls)) = [InterfaceKey ''n1'' ''i1'']"
  using demo_run loop_reachable_messages by metis

text \<open>C5. The invariant of the message loop: from a well-formed start, after any messages whatever, and
  whatever etcd answers, the entry cache is well-formed (each entry once, under its own key, of a known
  type, under a key of an agent), the configuration lock is free, and when rendering is enabled no
  change is waiting.  Unless one is waiting, every cached entry is listed in the status of a node or a
  service, so that deleting the node or service will find it.\<close>

theorem loop_invariant:
  assumes "plugin_ok s0" "accounted s0" "loop_reachable s0 ls"
  shows "plugin_ok (ls_plugin ls) \<and> \<not> (isRenderingEnabled ls \<and> isRenderingPending ls)
    \<and> (\<not> isRenderingPending ls \<longrightarrow> accounted (ls_plugin ls))"
  using loop_reachable_inv(1) [OF assms(3,1,2)] unfolding loop_inv_def by blast

theorem loop_invariant_witness:
  "\<exists>ls. loop_reachable (fresh_plugin good_env) ls \<and> rc_VppEntries (ls_plugin ls) \<noteq> [] \<and> accounted (ls_plugin ls)"
proof -
  obtain ls where ls: "loop_reachable (fresh_plugin good_env) ls" "isRenderingEnabled ls"
    "gkeys (rc_VppEntries (ls_plugin ls)) = [InterfaceKey ''n1'' ''i1'']" by (rule demo_reachable)
  then show ?thesis using loop_invariant [OF fresh_plugin_ok(1,2) ls(1)] by auto
qed

text \<open>C6. Etcd and the cache stay in step: as long as no put fails, in every state of the message loop
  each cached entry other than a bridge domain is stored in etcd under its key exactly as it is
  cached, however nodes, services, pools and overlays have been created, changed and deleted.\<close>

theorem loop_in_sync:
  assumes "plugin_ok s0" "accounted s0" "in_sync s0" "\<forall>l. env_put (db_env s0) l = None" "loop_reachable s0 ls"
  shows "\<forall>k kv. map_of (rc_VppEntries (ls_plugin ls)) k = Some kv \<and> VppEntryType kv \<noteq> VppEntryTypeL2BD
    \<longrightarrow> store_of (db_log (ls_plugin ls)) k = Some (DVpp (the (payload kv)))"
  using loop_reachable_inv(2) [OF assms(5,1-4)] by (simp add: in_sync_def)

theorem loop_in_sync_witness:
  "\<exists>ls. loop_reachable (fresh_plugin good_env) ls \<and> rc_VppEntries (ls_plugin ls) \<noteq> []
    \<and> (\<forall>k kv. map_of (rc_VppEntries (ls_plugin ls)) k = Some kv \<and> VppEntryType kv \<noteq> VppEntryTypeL2BD
      \<longrightarrow> store_of (db_log (ls_plugin ls)) k = Some (DVpp (the (payload kv))))"
proof -
  obtain ls where ls: "loop_reachable (fresh_plugin good_env) ls" "isRenderingEnabled ls"
    "gkeys (rc_VppEntries (ls_plugin ls)) = [InterfaceKey ''n1'' ''i1'']" by (rule demo_reachable)
  have "\<forall>l. env_put (db_env (fresh_plugin good_env)) l = None" by (simp add: fresh_plugin_def good_env_def)
  note sync = loop_in_sync [OF fresh_plugin_ok this ls(1)]
  have "rc_VppEntries (ls_plugin ls) \<noteq> []" using ls(3) by auto
  with sync ls(1) show ?thesis by blast
qed

text \<open>C9. The loop never waits for itself: in every state it can reach, a message that is handled and
  leaves something to render starts a transaction at once, since the lock is free and the entry cache
  is keyed as the start of a transaction demands; and when the nodes and services are rendered without
  a panic the transaction ends, whatever etcd answers, with the lock free and nothing waiting.\<close>

theorem loop_never_blocks:
  assumes "plugin_ok s0" "accounted s0" "loop_reachable s0 ls"
    and "processMsg msg ls = Some ls1" "isRenderingEnabled ls1" "isRenderingPending ls1"
  shows "\<exists>s1. RenderTxnConfigStart (ls_plugin ls1) = Some s1
    \<and> (\<forall>s2. Plugin_RenderAll s1 = Some s2 \<longrightarrow> (\<exists>ls'. loop_step elapsed msg ls = Some ls'
        \<and> isRenderingEnabled ls' \<and> \<not> isRenderingPending ls' \<and> \<not> configLocked (ls_plugin ls')))"
proof -
  have "plugin_ok (ls_plugin ls)" using loop_reachable_inv(1) [OF assms(3,1,2)] by (simp add: loop_inv_def)
  then have ok: "plugin_ok (ls_plugin ls1)" by (rule crud_ok(1) [OF processMsg_crud [OF assms(4)]])
  then have p: "entries_ok (rc_VppEntries (ls_plugin ls1))" "\<not> configLocked (ls_plugin ls1)"
    by (simp_all add: plugin_ok_def)
  obtain s1 where s1: "RenderTxnConfigStart (ls_plugin ls1) = Some s1" "txn_idle s1" "done_keys s1 = {}"
    "networkNodeCache s1 = networkNodeCache (ls_plugin ls1)" "networkServiceCache s1 = networkServiceCache (ls_plugin ls1)"
    by (rule RenderTxnConfigStart_idle [OF p])
  have "\<exists>ls'. loop_step elapsed msg ls = Some ls' \<and> isRenderingEnabled ls' \<and> \<not> isRenderingPending ls'
      \<and> \<not> configLocked (ls_plugin ls')" if "Plugin_RenderAll s1 = Some s2" for s2
  proof -
    have "txn_idle s2" using Plugin_RenderAll_facts [OF that s1(2,3)] ok s1(4,5) by (simp add: plugin_ok_def)
    then have "txn_ready s2" by (simp add: txn_idle_def txn_base_def)
    from RenderTxnConfigEnd_cases [OF this] obtain err s' where e: "RenderTxnConfigEnd s2 = Some (err, s')" "\<not> configLocked s'"
      by blast
    then have "renderTxn (ls_plugin ls1) = Some s'" using s1(1) that by (simp add: renderTxn_def)
    then show ?thesis
      using assms(4-6) e(2) by (simp add: loop_step_def renderIfPending_def OperationalMsgChannel_len_def)
  qed
  then show ?thesis using s1(1) by blast
qed

text \<open>The witness renders again in the state the example has reached.\<close>

theorem loop_never_blocks_witness:
  "\<exists>ls s1. loop_reachable (fresh_plugin good_env) ls \<and> rc_VppEntries (ls_plugin ls) \<noteq> []
    \<and> RenderTxnConfigStart (ls_plugin ls) = Some s1"
proof -
  obtain ls where ls: "loop_reachable (fresh_plugin good_env) ls" "isRenderingEnabled ls"
    "gkeys (rc_VppEntries (ls_plugin ls)) = [InterfaceKey ''n1'' ''i1'']" by (rule demo_reachable)
  let ?msg = "\<lparr>om_model = '''', om_opCode = OpCodeRender, om_data = MNil\<rparr>"
  have "processMsg ?msg ls = Some (ls\<lparr>isRenderingPending := True\<rparr>)" by (simp add: processMsg_def)
  from loop_never_blocks [OF fresh_plugin_ok(1,2) ls(1) this, of False] ls(2)
  have s1: "\<exists>s1. RenderTxnConfigStart (ls_plugin ls) = Some s1" by auto
  have "rc_VppEntries (ls_plugin ls) \<noteq> []" using ls(3) by auto
  with s1 ls(1) show ?thesis by blast
qed

end
